(* ===== verification/Prelude.thy ===== *)
theory Prelude
  imports Main "HOL-Library.Word" "HOL-Library.Sublist"
begin

section \<open>Shared types, standard-library operations and lemmas\<close>

text \<open>
  Names for the machine types of the Rust code, the operations of the Rust standard library
  that the components use (checked and saturating integer conversions, \<open>Result\<close> and \<open>Option\<close>
  combinators, decimal formatting, \<open>trim\<close>, \<open>Path\<close>), and the lemmas about them that more than one
  component needs. A \<open>Result<T, E>\<close> is a sum \<open>'e + 'a\<close> with \<open>Inl\<close> the error. Rust strings are
  lists of characters; a character beyond Latin-1 is not represented.
\<close>

type_synonym u8 = "8 word"
type_synonym i32 = "32 word" \<comment> \<open>read with \<open>sint\<close>\<close>
type_synonym u64 = "64 word"
type_synonym i64 = "64 word" \<comment> \<open>read with \<open>sint\<close>\<close>
type_synonym bytes = "8 word list"

named_theorems display_defs \<open>definitions of the error texts\<close>
named_theorems result_simps \<open>how the \<open>Result\<close> combinators compute\<close>

subsection \<open>Integers\<close>

definition u64_saturating_sub :: "u64 \<Rightarrow> u64 \<Rightarrow> u64" where
  "u64_saturating_sub a b = (if a < b then 0 else a - b)"

definition i64_max :: i64 where
  "i64_max = 0x7FFFFFFFFFFFFFFF"

definition i64_min :: i64 where
  "i64_min = 0x8000000000000000"

definition i64_try_from_u64 :: "u64 \<Rightarrow> i64 option" where
  "i64_try_from_u64 x = (if unat x < 2 ^ 63 then Some x else None)"

definition u64_try_from_i64 :: "i64 \<Rightarrow> u64 option" where
  "u64_try_from_i64 x = (if 0 \<le> sint x then Some x else None)"

definition i64_saturating_sub :: "i64 \<Rightarrow> i64 \<Rightarrow> i64" where
  "i64_saturating_sub a b =
     (let d = sint a - sint b
      in if d < - (2 ^ 63) then i64_min
         else if 2 ^ 63 \<le> d then i64_max
         else word_of_int d)"

definition u8_saturating_add :: "u8 \<Rightarrow> u8 \<Rightarrow> u8" where
  "u8_saturating_add a b = (if 256 \<le> unat a + unat b then 255 else a + b)"

definition u8_saturating_sub :: "u8 \<Rightarrow> u8 \<Rightarrow> u8" where
  "u8_saturating_sub a b = (if a < b then 0 else a - b)"

lemma unat_u64_saturating_sub: "unat (u64_saturating_sub a b) = unat a - unat b"
  by (auto simp: u64_saturating_sub_def word_less_nat_alt unat_sub_if')

lemma sint_small_u64:
  fixes x :: u64
  assumes "unat x < 2 ^ 63"
  shows "sint x = int (unat x)"
proof -
  have "uint x < 2 ^ 63"
    using assms by (metis of_nat_less_iff of_nat_numeral of_nat_power uint_nat)
  then have "signed_take_bit 63 (uint x) = uint x"
    by (intro signed_take_bit_int_eq_self) (auto intro: order_trans [of _ 0])
  then have "sint x = uint x"
    by (simp add: sint_uint)
  then show ?thesis
    by (simp only: uint_nat)
qed

lemma i64_try_from_u64_code [code]:
  "i64_try_from_u64 x = (if x < 0x8000000000000000 then Some x else None)"
  by (simp add: i64_try_from_u64_def word_less_nat_alt)

lemma sint_i64_max [simp]: "sint i64_max = 2 ^ 63 - 1"
  by (simp add: i64_max_def)

lemma sint_word_of_int: "- (2 ^ 63) \<le> d \<Longrightarrow> d < 2 ^ 63 \<Longrightarrow> sint (word_of_int d :: i64) = d"
  by (simp add: signed_of_int signed_take_bit_int_eq_self)

lemma sint_i64_saturating_sub:
  "- (2 ^ 63) \<le> sint a - sint b \<Longrightarrow> sint a - sint b < 2 ^ 63 \<Longrightarrow>
    sint (i64_saturating_sub a b) = sint a - sint b"
  by (simp add: i64_saturating_sub_def Let_def sint_word_of_int del: of_int_diff)

lemma u64_try_from_i64_eq_Some_iff [simp]:
  "u64_try_from_i64 x = Some y \<longleftrightarrow> y = x \<and> 0 \<le> sint x"
  by (auto simp: u64_try_from_i64_def)

lemma u64_try_from_i64_eq_None_iff [simp]: "u64_try_from_i64 x = None \<longleftrightarrow> sint x < 0"
  by (auto simp: u64_try_from_i64_def)

subsection \<open>\<open>Result\<close> and \<open>Option\<close>\<close>

fun map_err :: "('e \<Rightarrow> 'f) \<Rightarrow> 'e + 'a \<Rightarrow> 'f + 'a" where
  "map_err f (Inl e) = Inl (f e)"
| "map_err f (Inr x) = Inr x"

fun map_ok :: "('a \<Rightarrow> 'b) \<Rightarrow> 'e + 'a \<Rightarrow> 'e + 'b" where
  "map_ok f (Inl e) = Inl e"
| "map_ok f (Inr x) = Inr (f x)"

fun and_then :: "'e + 'a \<Rightarrow> ('a \<Rightarrow> 'e + 'b) \<Rightarrow> 'e + 'b" where
  "and_then (Inl e) f = Inl e"
| "and_then (Inr x) f = f x"

fun ok_or :: "'a option \<Rightarrow> 'e \<Rightarrow> 'e + 'a" where
  "ok_or None e = Inl e"
| "ok_or (Some x) e = Inr x"

text \<open>\<open>Result::expect\<close>: an error is a panic, and \<open>Inl\<close> here is the text of the panic.\<close>

fun expect :: "string \<Rightarrow> string + 'a \<Rightarrow> string + 'a" where
  "expect msg (Inl e) = Inl (msg @ '': '' @ e)"
| "expect msg (Inr x) = Inr x"

fun is_ok :: "'e + 'a \<Rightarrow> bool" where
  "is_ok (Inl e) = False"
| "is_ok (Inr x) = True"

text \<open>\<open>Iterator::collect::<Result<Vec<_>, _>>()\<close>: all values, or the first error.\<close>

fun collect_result :: "('e + 'a) list \<Rightarrow> 'e + 'a list" where
  "collect_result [] = Inr []"
| "collect_result (r # rs) =
     (case r of Inl e \<Rightarrow> Inl e
      | Inr x \<Rightarrow> (case collect_result rs of Inl e \<Rightarrow> Inl e | Inr xs \<Rightarrow> Inr (x # xs)))"

lemma is_ok_and_then_iff: "is_ok (and_then r f) \<longleftrightarrow> (\<exists>x. r = Inr x \<and> is_ok (f x))"
  by (cases r) auto

lemma map_err_Inr_iff [simp]: "map_err f r = Inr x \<longleftrightarrow> r = Inr x"
  by (cases r) auto

lemma Inr_map_err_iff [simp]: "Inr x = map_err f r \<longleftrightarrow> r = Inr x"
  by (cases r) auto

lemma map_err_Inl_iff: "map_err f r = Inl e \<longleftrightarrow> (\<exists>e'. r = Inl e' \<and> e = f e')"
  by (cases r) auto

lemma Inl_map_err_iff: "Inl e = map_err f r \<longleftrightarrow> (\<exists>e'. r = Inl e' \<and> e = f e')"
  by (cases r) auto

lemma map_ok_Inr_iff: "map_ok f r = Inr y \<longleftrightarrow> (\<exists>x. r = Inr x \<and> y = f x)"
  by (cases r) auto

lemma map_ok_Inl_iff [simp]: "map_ok f r = Inl e \<longleftrightarrow> r = Inl e"
  by (cases r) auto

lemma and_then_Inr_iff: "and_then r f = Inr y \<longleftrightarrow> (\<exists>x. r = Inr x \<and> f x = Inr y)"
  by (cases r) auto

lemma and_then_Inl_iff: "and_then r f = Inl e \<longleftrightarrow> r = Inl e \<or> (\<exists>x. r = Inr x \<and> f x = Inl e)"
  by (cases r) auto

lemmas and_then_iffs = and_then_Inr_iff and_then_Inl_iff
  trans [OF eq_commute and_then_Inr_iff] trans [OF eq_commute and_then_Inl_iff]

lemma ok_or_Inr_iff [simp]: "ok_or v e = Inr x \<longleftrightarrow> v = Some x"
  by (cases v) auto

lemma ok_or_Inl_iff [simp]: "ok_or v e = Inl e' \<longleftrightarrow> v = None \<and> e' = e"
  by (cases v) auto

lemma collect_result_map_Inr [simp]: "collect_result (map Inr xs) = Inr xs"
  by (induction xs) auto

lemma collect_result_InrD: "collect_result rs = Inr xs \<Longrightarrow> rs = map Inr xs"
  by (induction rs arbitrary: xs) (auto split: sum.splits)

lemma collect_result_Inr_iff: "collect_result rs = Inr xs \<longleftrightarrow> rs = map Inr xs"
  using collect_result_InrD [of rs xs] by auto

lemma collect_result_Inl_iff:
  "collect_result rs = Inl e \<longleftrightarrow> (\<exists>xs rest. rs = map Inr xs @ Inl e # rest)"
proof (induction rs)
  case Nil
  show ?case by auto
next
  case (Cons r rs)
  show ?case
  proof (cases r)
    case (Inl e')
    then show ?thesis by (auto simp: Cons_eq_append_conv Cons_eq_map_conv)
  next
    case (Inr x)
    with Cons.IH have "collect_result (r # rs) = Inl e \<longleftrightarrow>
        (\<exists>xs rest. rs = map Inr xs @ Inl e # rest)"
      by (auto split: sum.splits)
    also have "\<dots> \<longleftrightarrow> (\<exists>xs rest. r # rs = map Inr xs @ Inl e # rest)"
      using Inr by (auto simp: Cons_eq_append_conv Cons_eq_map_conv)
    finally show ?thesis .
  qed
qed

lemma collect_result_Inl_in: "collect_result rs = Inl e \<Longrightarrow> Inl e \<in> set rs"
  by (auto simp: collect_result_Inl_iff)

lemma collect_result_length: "collect_result rs = Inr xs \<Longrightarrow> length xs = length rs"
  by (simp add: collect_result_Inr_iff)

lemma collect_result_nth:
  "collect_result rs = Inr xs \<Longrightarrow> i < length rs \<Longrightarrow> rs ! i = Inr (xs ! i)"
  by (simp add: collect_result_Inr_iff)

lemmas [result_simps] = map_err_Inl_iff Inl_map_err_iff map_ok_Inr_iff and_then_iffs

subsection \<open>Text\<close>

text \<open>\<open>Display\<close> of an unsigned integer: its decimal digits.\<close>

definition dec_digit :: "nat \<Rightarrow> char" where
  "dec_digit d = char_of (48 + d)"

fun dec :: "nat \<Rightarrow> string" where
  "dec n = (if n < 10 then [dec_digit n] else dec (n div 10) @ [dec_digit (n mod 10)])"

declare dec.simps [simp del]

definition dec_u64 :: "u64 \<Rightarrow> string" where
  "dec_u64 x = dec (unat x)"

text \<open>\<open>char::is_whitespace\<close> on the characters represented here, and \<open>str::trim\<close>.\<close>

definition is_white :: "char \<Rightarrow> bool" where
  "is_white c = (let n = (of_char c :: nat) in 9 \<le> n \<and> n \<le> 13 \<or> n = 32 \<or> n = 133 \<or> n = 160)"

definition trim :: "string \<Rightarrow> string" where
  "trim s = rev (dropWhile is_white (rev (dropWhile is_white s)))"

lemma trim_Nil [simp]: "trim [] = []"
  by (simp add: trim_def)

subsection \<open>Foreign hash and encoding functions\<close>

text \<open>
  The hash functions of the \<open>sha2\<close> and \<open>alloy_primitives\<close> crates and the encoder of the \<open>hex\<close>
  crate are parameters. All that is ever assumed of them is the length of a SHA-256 digest.
\<close>

record hash_lib =
  sha256 :: "bytes \<Rightarrow> bytes"
  keccak256 :: "bytes \<Rightarrow> bytes"
  hex_encode :: "bytes \<Rightarrow> string"

definition sha256_32_bytes :: "hash_lib \<Rightarrow> bool" where
  "sha256_32_bytes H \<longleftrightarrow> (\<forall>m. length (sha256 H m) = 32)"

text \<open>Functions with these types, on which concrete inputs are evaluated; no hashing is meant by them.\<close>

definition sample_hash :: hash_lib where
  "sample_hash =
     \<lparr>sha256 = (\<lambda>m. take 32 (m @ replicate 32 0)),
      keccak256 = (\<lambda>m. take 32 (m @ replicate 32 1)),
      hex_encode = map (\<lambda>b. char_of (unat b))\<rparr>"

lemma sha256_32_bytes_sample: "sha256_32_bytes sample_hash"
  by (auto simp: sha256_32_bytes_def sample_hash_def min_def)

end
