(* ===== verification/Effects.thy ===== *)
theory Effects
  imports Prelude
begin

section \<open>Asynchronous operations as trees of external actions\<close>

text \<open>
  An \<open>async fn\<close> of the code is a value of \<open>'r io\<close>: it has returned (\<open>Ret\<close>), or it performs one
  action on the world outside the process and continues with the answer. The actions are the
  calls the code awaits (chain RPC, the remote signer, a file, a TCP connection, a timer), reading
  the clock, and recording a metric. What the world answers is not part of the model: \<open>exec\<close>
  relates a program to every sequence of events, and result, that some behaviour of the world
  gives it; \<open>run\<close> computes the one of a concrete world. Concurrent futures are a list of programs
  of which any one may take the next step.
\<close>

subsection \<open>The messages of the external services\<close>

datatype block_id = Latest | Finalized | Number u64

text \<open>The chain RPC calls of the three adapters.\<close>

datatype rpc_call =
    CosmosPacketCommitment string u64 u64 bool \<comment> \<open>client id, sequence, height, prove\<close>
  | CosmosPacketAcknowledgement string u64 u64
  | CosmosPacketReceipt string u64 u64
  | CosmosLatestCommit
  | CosmosCommit u64
  | EvmGetBlock block_id
  | EvmGetCommitment string bytes block_id \<comment> \<open>router address, hashed path, block\<close>
  | SolanaGetSlot \<comment> \<open>with commitment level finalized\<close>
  | SolanaGetBlockTime u64
  | SolanaGetAccount bytes \<comment> \<open>address, with commitment level finalized\<close>

record block =
  block_number :: u64
  block_timestamp :: u64

text \<open>
  The fields the adapters read from the replies, in one record: each call reads only the fields
  of its own reply type.
\<close>

record reply =
  re_commitment :: bytes \<comment> \<open>packet commitment query\<close>
  re_acknowledgement :: bytes \<comment> \<open>packet acknowledgement query\<close>
  re_received :: bool \<comment> \<open>packet receipt query\<close>
  re_header_height :: u64 \<comment> \<open>header of a Tendermint commit\<close>
  re_unix_timestamp :: i64 \<comment> \<open>header of a Tendermint commit\<close>
  re_block :: "block option" \<comment> \<open>EVM block\<close>
  re_bytes32 :: bytes \<comment> \<open>\<open>bytes32\<close> returned by the EVM router\<close>
  re_slot :: u64 \<comment> \<open>Solana slot\<close>
  re_block_time :: i64 \<comment> \<open>Solana block time\<close>
  re_account :: "bytes option" \<comment> \<open>data of a Solana account\<close>

text \<open>The remote signer's messages.\<close>

type_synonym metadata = "(string \<times> string) list"

datatype pub_key_type = PkRaw | PkCosmos | PkEthereum | PkSolana

record get_wallet_request =
  gw_id :: string
  gw_pubkey_type :: pub_key_type

record wallet =
  w_id :: string
  w_name :: string
  w_tags :: "string list"
  w_pubkey :: bytes
  w_address_bytes :: bytes
  w_formatted_address :: string

datatype sign_payload =
    EvmTransaction string bytes
  | CosmosTransaction bytes
  | RawMessage bytes
  | SolanaTransaction string
  | RecoverableMessage bytes

record sign_request =
  sr_wallet_id :: string
  sr_payload :: "sign_payload option"

datatype sign_reply =
    EvmSignature bytes bytes bytes
  | CosmosSignature bytes
  | RawSignature bytes
  | SolanaSignature bytes
  | RecoverableSignature bytes bytes bytes \<comment> \<open>r, s, v\<close>

text \<open>One value per recording function of \<open>metrics.rs\<close>.\<close>

datatype metric_event =
    RpcRequest string string nat \<comment> \<open>method, code, duration\<close>
  | HeightLag i64
  | HeightRejection
  | CommitmentFailure string
  | RetryFailure string
  | FinalizedHeight u64
  | SignerSign string

subsection \<open>Programs\<close>

datatype 'r io =
    Ret 'r
  | Rpc rpc_call "string + reply \<Rightarrow> 'r io"
  | Sleep nat "'r io" \<comment> \<open>milliseconds\<close>
  | Emit metric_event "'r io"
  | Now "nat \<Rightarrow> 'r io" \<comment> \<open>\<open>Instant::now\<close>, in nanoseconds\<close>
  | Connect string nat "string + unit \<Rightarrow> 'r io" \<comment> \<open>endpoint, timeout in seconds\<close>
  | ReadFile string "string + string \<Rightarrow> 'r io"
  | GetWallet metadata get_wallet_request "string + wallet option \<Rightarrow> 'r io"
  | SignRpc metadata sign_request "string + sign_reply option \<Rightarrow> 'r io"
  | TcpConnect string "string + unit \<Rightarrow> 'r io"

primrec bind :: "'a io \<Rightarrow> ('a \<Rightarrow> 'b io) \<Rightarrow> 'b io" where
  "bind (Ret r) f = f r"
| "bind (Rpc q k) f = Rpc q (\<lambda>a. bind (k a) f)"
| "bind (Sleep d m) f = Sleep d (bind m f)"
| "bind (Emit x m) f = Emit x (bind m f)"
| "bind (Now k) f = Now (\<lambda>a. bind (k a) f)"
| "bind (Connect u d k) f = Connect u d (\<lambda>a. bind (k a) f)"
| "bind (ReadFile p k) f = ReadFile p (\<lambda>a. bind (k a) f)"
| "bind (GetWallet m q k) f = GetWallet m q (\<lambda>a. bind (k a) f)"
| "bind (SignRpc m q k) f = SignRpc m q (\<lambda>a. bind (k a) f)"
| "bind (TcpConnect u k) f = TcpConnect u (\<lambda>a. bind (k a) f)"

text \<open>Awaiting a fallible operation with \<open>?\<close>, and mapping the result of one.\<close>

definition bind_ok :: "('e + 'a) io \<Rightarrow> ('a \<Rightarrow> ('e + 'b) io) \<Rightarrow> ('e + 'b) io" where
  "bind_ok m f = bind m (\<lambda>r. case r of Inl e \<Rightarrow> Ret (Inl e) | Inr x \<Rightarrow> f x)"

definition fmap :: "('a \<Rightarrow> 'b) \<Rightarrow> 'a io \<Rightarrow> 'b io" where
  "fmap f m = bind m (\<lambda>x. Ret (f x))"

lemma bind_Ret [simp]: "bind m Ret = m"
  by (induction m) auto

lemma bind_assoc: "bind (bind m f) g = bind m (\<lambda>x. bind (f x) g)"
  by (induction m) auto

lemma bind_ok_Ret_Inr [simp]: "bind_ok (Ret (Inr x)) f = f x"
  by (simp add: bind_ok_def)

lemma bind_ok_Ret_Inl [simp]: "bind_ok (Ret (Inl e)) f = Ret (Inl e)"
  by (simp add: bind_ok_def)

lemma bind_ok_assoc: "bind_ok (bind_ok m f) g = bind_ok m (\<lambda>x. bind_ok (f x) g)"
proof -
  have "(\<lambda>r. bind (case r of Inl e \<Rightarrow> Ret (Inl e) | Inr x \<Rightarrow> f x)
          (\<lambda>r. case r of Inl e \<Rightarrow> Ret (Inl e) | Inr x \<Rightarrow> g x)) =
      (\<lambda>r. case r of Inl e \<Rightarrow> Ret (Inl e)
        | Inr x \<Rightarrow> bind (f x) (\<lambda>r. case r of Inl e \<Rightarrow> Ret (Inl e) | Inr x \<Rightarrow> g x))"
    by (rule ext) (simp split: sum.split)
  then show ?thesis by (simp add: bind_ok_def bind_assoc)
qed

lemma bind_ok_cong: "(\<And>x. f x = g x) \<Longrightarrow> bind_ok m f = bind_ok m g"
  by (rule arg_cong [of f g]) (rule ext)

subsection \<open>Events, steps and executions\<close>

datatype event =
    ERpc rpc_call "string + reply"
  | ESleep nat
  | EMetric metric_event
  | ENow nat
  | EConnect string nat "string + unit"
  | EReadFile string "string + string"
  | EGetWallet metadata get_wallet_request "string + wallet option"
  | ESign metadata sign_request "string + sign_reply option"
  | ETcp string "string + unit"

text \<open>The type \<open>bytes32\<close> of the router's return value: 32 bytes.\<close>

definition reply_ok :: "string + reply \<Rightarrow> bool" where
  "reply_ok a = (case a of Inl _ \<Rightarrow> True | Inr r \<Rightarrow> length (re_bytes32 r) = 32)"

lemma reply_ok_simps [simp]:
  "reply_ok (Inl e)"
  "reply_ok (Inr r) \<longleftrightarrow> length (re_bytes32 r) = 32"
  by (auto simp: reply_ok_def)

inductive io_step :: "'r io \<Rightarrow> event \<Rightarrow> 'r io \<Rightarrow> bool" where
  step_rpc: "reply_ok a \<Longrightarrow> io_step (Rpc q k) (ERpc q a) (k a)"
| step_sleep: "io_step (Sleep d m) (ESleep d) m"
| step_emit: "io_step (Emit x m) (EMetric x) m"
| step_now: "io_step (Now k) (ENow a) (k a)"
| step_connect: "io_step (Connect u d k) (EConnect u d a) (k a)"
| step_read_file: "io_step (ReadFile p k) (EReadFile p a) (k a)"
| step_get_wallet: "io_step (GetWallet h q k) (EGetWallet h q a) (k a)"
| step_sign: "io_step (SignRpc h q k) (ESign h q a) (k a)"
| step_tcp: "io_step (TcpConnect u k) (ETcp u a) (k a)"

inductive_simps io_step_Ret [simp]: "io_step (Ret r) e m"
inductive_simps io_step_Rpc: "io_step (Rpc q k) e m"
inductive_simps io_step_Sleep: "io_step (Sleep d m') e m"
inductive_simps io_step_Emit: "io_step (Emit x m') e m"
inductive_simps io_step_Now: "io_step (Now k) e m"
inductive_simps io_step_Connect: "io_step (Connect u d k) e m"
inductive_simps io_step_ReadFile: "io_step (ReadFile p k) e m"
inductive_simps io_step_GetWallet: "io_step (GetWallet h q k) e m"
inductive_simps io_step_SignRpc: "io_step (SignRpc h q k) e m"
inductive_simps io_step_TcpConnect: "io_step (TcpConnect u k) e m"

lemmas io_step_simps = io_step_Rpc io_step_Sleep io_step_Emit io_step_Now io_step_Connect
  io_step_ReadFile io_step_GetWallet io_step_SignRpc io_step_TcpConnect

inductive exec :: "'r io \<Rightarrow> event list \<Rightarrow> 'r \<Rightarrow> bool" where
  exec_done: "exec (Ret r) [] r"
| exec_step: "io_step m e m' \<Longrightarrow> exec m' t r \<Longrightarrow> exec m (e # t) r"

inductive_cases exec_RetE: "exec (Ret r) t r'"
inductive_cases exec_ConsE: "exec m (e # t) r"

lemma exec_Ret [simp]: "exec (Ret r) t r' \<longleftrightarrow> t = [] \<and> r' = r"
  by (auto elim: exec_RetE intro: exec_done)

lemma exec_iff:
  "exec m t r \<longleftrightarrow>
     (m = Ret r \<and> t = []) \<or> (\<exists>e m' t'. t = e # t' \<and> io_step m e m' \<and> exec m' t' r)"
  by (subst exec.simps) auto

lemma exec_simps [simp]:
  "exec (Rpc q k) t r \<longleftrightarrow> (\<exists>a t'. t = ERpc q a # t' \<and> reply_ok a \<and> exec (k a) t' r)"
  "exec (Sleep d m) t r \<longleftrightarrow> (\<exists>t'. t = ESleep d # t' \<and> exec m t' r)"
  "exec (Emit x m) t r \<longleftrightarrow> (\<exists>t'. t = EMetric x # t' \<and> exec m t' r)"
  "exec (Now k') t r \<longleftrightarrow> (\<exists>a t'. t = ENow a # t' \<and> exec (k' a) t' r)"
  "exec (Connect u d k1) t r \<longleftrightarrow> (\<exists>a t'. t = EConnect u d a # t' \<and> exec (k1 a) t' r)"
  "exec (ReadFile p k2) t r \<longleftrightarrow> (\<exists>a t'. t = EReadFile p a # t' \<and> exec (k2 a) t' r)"
  "exec (GetWallet h gw k3) t r \<longleftrightarrow> (\<exists>a t'. t = EGetWallet h gw a # t' \<and> exec (k3 a) t' r)"
  "exec (SignRpc h sr k4) t r \<longleftrightarrow> (\<exists>a t'. t = ESign h sr a # t' \<and> exec (k4 a) t' r)"
  "exec (TcpConnect u k1) t r \<longleftrightarrow> (\<exists>a t'. t = ETcp u a # t' \<and> exec (k1 a) t' r)"
  by (subst exec_iff; force simp: io_step_simps)+

lemma io_step_bind: "io_step m e m' \<Longrightarrow> io_step (bind m f) e (bind m' f)"
  by (erule io_step.cases) (auto simp: io_step_simps)

lemma exec_bindI: "exec m t1 x \<Longrightarrow> exec (f x) t2 r \<Longrightarrow> exec (bind m f) (t1 @ t2) r"
  by (induction rule: exec.induct) (auto intro: exec_step io_step_bind)

lemma io_step_bindD:
  "io_step (bind m f) e p \<Longrightarrow>
    (\<exists>x. m = Ret x \<and> io_step (f x) e p) \<or> (\<exists>m'. io_step m e m' \<and> p = bind m' f)"
  by (cases m) (auto simp: io_step_simps)

lemma exec_bindD:
  "exec p t r \<Longrightarrow> p = bind m f \<Longrightarrow> \<exists>t1 t2 x. t = t1 @ t2 \<and> exec m t1 x \<and> exec (f x) t2 r"
proof (induction arbitrary: m rule: exec.induct)
  case (exec_done r)
  then obtain x where "m = Ret x" "f x = Ret r"
    by (cases m) simp_all
  then show ?case by simp
next
  case (exec_step p e p' t r)
  then consider (ret) x where "m = Ret x" "exec (f x) (e # t) r"
    | (step) m' where "io_step m e m'" "p' = bind m' f"
    using io_step_bindD by (metis exec.exec_step)
  then show ?case
  proof cases
    case ret
    then show ?thesis by (auto intro!: exI [of _ "[]"])
  next
    case step
    from exec_step.IH [OF step(2)] obtain t1 t2 x
      where "t = t1 @ t2" "exec m' t1 x" "exec (f x) t2 r" by blast
    with step(1) have "e # t = (e # t1) @ t2 \<and> exec m (e # t1) x \<and> exec (f x) t2 r"
      by (auto intro: exec.exec_step)
    then show ?thesis by blast
  qed
qed

text \<open>The rule for sequencing: an execution of \<open>bind\<close> splits into the two parts.\<close>

lemma exec_bind:
  "exec (bind m f) t r \<longleftrightarrow> (\<exists>t1 t2 x. t = t1 @ t2 \<and> exec m t1 x \<and> exec (f x) t2 r)"
  using exec_bindD [OF _ refl] exec_bindI by metis

lemma exec_fmap: "exec (fmap f m) t r \<longleftrightarrow> (\<exists>x. exec m t x \<and> r = f x)"
  by (auto simp: fmap_def exec_bind)

lemma exec_bind_ok_Inr:
  "exec (bind_ok m f) t (Inr y) \<longleftrightarrow>
     (\<exists>t1 t2 x. t = t1 @ t2 \<and> exec m t1 (Inr x) \<and> exec (f x) t2 (Inr y))"
  by (simp add: bind_ok_def exec_bind split_sum_ex)

lemma exec_bind_ok_Inl:
  "exec (bind_ok m f) t (Inl e) \<longleftrightarrow>
     exec m t (Inl e) \<or>
     (\<exists>t1 t2 x. t = t1 @ t2 \<and> exec m t1 (Inr x) \<and> exec (f x) t2 (Inl e))"
  by (simp add: bind_ok_def exec_bind split_sum_ex ex_disj_distrib conj_disj_distribL)

lemma exec_bind_ok:
  "exec (bind_ok m f) t r \<longleftrightarrow>
     (\<exists>e. exec m t (Inl e) \<and> r = Inl e) \<or>
     (\<exists>t1 t2 x. t = t1 @ t2 \<and> exec m t1 (Inr x) \<and> exec (f x) t2 r)"
  by (cases r) (simp_all add: exec_bind_ok_Inr exec_bind_ok_Inl)

text \<open>The shape \<open>m.await.map_err(f)?\<close> followed by more code.\<close>

lemma exec_await:
  "exec (bind_ok (fmap (map_err f) m) k) t r \<longleftrightarrow>
     (\<exists>e. exec m t (Inl e) \<and> r = Inl (f e)) \<or>
     (\<exists>t1 t2 x. t = t1 @ t2 \<and> exec m t1 (Inr x) \<and> exec (k x) t2 r)"
proof -
  have "exec (bind_ok (fmap (map_err f) m) k) t r \<longleftrightarrow>
      (\<exists>t1 t2 x. t = t1 @ t2 \<and> exec m t1 x \<and>
         exec (case map_err f x of Inl e \<Rightarrow> Ret (Inl e) | Inr y \<Rightarrow> k y) t2 r)"
    unfolding bind_ok_def exec_bind exec_fmap by blast
  also have "\<dots> \<longleftrightarrow>
      (\<exists>t1 t2. t = t1 @ t2 \<and>
         ((\<exists>e. exec m t1 (Inl e) \<and> t2 = [] \<and> r = Inl (f e)) \<or>
          (\<exists>x. exec m t1 (Inr x) \<and> exec (k x) t2 r)))"
    by (simp add: split_sum_ex conj_disj_distribL)
  finally show ?thesis by auto
qed

lemma exec_await_Inr:
  "exec (bind_ok (fmap (map_err f) m) k) t (Inr y) \<longleftrightarrow>
     (\<exists>t1 t2 x. t = t1 @ t2 \<and> exec m t1 (Inr x) \<and> exec (k x) t2 (Inr y))"
  by (simp add: exec_await)

lemma exec_await_Inl:
  "exec (bind_ok (fmap (map_err f) m) k) t (Inl e) \<longleftrightarrow>
     (\<exists>e'. exec m t (Inl e') \<and> e = f e') \<or>
     (\<exists>t1 t2 x. t = t1 @ t2 \<and> exec m t1 (Inr x) \<and> exec (k x) t2 (Inl e))"
  by (simp add: exec_await)

text \<open>The same, as rules; \<open>exec_await_last\<close> is for the last await of a function.\<close>

lemma exec_awaitI:
  "exec m t1 (Inr x) \<Longrightarrow> exec (k x) t2 r \<Longrightarrow> exec (bind_ok (fmap (map_err f) m) k) (t1 @ t2) r"
  unfolding exec_await by blast

lemma exec_awaitE:
  assumes "exec (bind_ok (fmap (map_err f) m) k) t (Inr y)"
  obtains t1 t2 x where "t = t1 @ t2" and "exec m t1 (Inr x)" and "exec (k x) t2 (Inr y)"
  using assms unfolding exec_await_Inr by blast

lemma exec_await_last:
  "exec (bind_ok (fmap (map_err f) m) (\<lambda>x. Ret (Inr (g x)))) t (Inr y) \<longleftrightarrow>
     (\<exists>x. exec m t (Inr x) \<and> y = g x)"
  by (auto simp: exec_await_Inr)

text \<open>A metric recorded on one branch only.\<close>

lemma exec_if_Emit:
  "exec (if b then Emit x (Ret v) else Ret v) t r \<longleftrightarrow>
     t = (if b then [EMetric x] else []) \<and> r = v"
  by auto

lemma bind_ok_Ret_eq: "bind_ok m (\<lambda>x. Ret (g x)) = fmap (case_sum Inl g) m"
  unfolding bind_ok_def fmap_def
  by (rule arg_cong [of _ _ "bind m"]) (rule ext, simp split: sum.split)

lemma exec_bind_ok_Ret:
  "exec (bind_ok m (\<lambda>x. Ret (g x))) t r \<longleftrightarrow> (\<exists>x. exec m t x \<and> r = case_sum Inl g x)"
  by (simp add: bind_ok_Ret_eq exec_fmap)

subsection \<open>Programs that cause only certain events\<close>

definition only_events :: "(event \<Rightarrow> bool) \<Rightarrow> 'r io \<Rightarrow> bool" where
  "only_events P m \<longleftrightarrow> (\<forall>t r. exec m t r \<longrightarrow> (\<forall>e \<in> set t. P e))"

named_theorems event_rules \<open>programs that cause only certain events\<close>

lemma only_eventsD: "only_events P m \<Longrightarrow> exec m t r \<Longrightarrow> e \<in> set t \<Longrightarrow> P e"
  by (auto simp: only_events_def)

lemma only_events_mono: "only_events P m \<Longrightarrow> (\<And>e. P e \<Longrightarrow> Q e) \<Longrightarrow> only_events Q m"
  unfolding only_events_def by blast

lemma only_events_Ret [event_rules]: "only_events P (Ret r)"
  by (simp add: only_events_def)

lemma only_events_bind [event_rules]:
  "only_events P m \<Longrightarrow> (\<And>x. only_events P (f x)) \<Longrightarrow> only_events P (bind m f)"
  by (fastforce simp: only_events_def exec_bind)

lemma only_events_bind_ok [event_rules]:
  "only_events P m \<Longrightarrow> (\<And>x. only_events P (f x)) \<Longrightarrow> only_events P (bind_ok m f)"
  unfolding bind_ok_def by (rule only_events_bind) (auto intro: event_rules split: sum.split)

lemma only_events_fmap [event_rules]: "only_events P m \<Longrightarrow> only_events P (fmap f m)"
  by (auto simp: only_events_def exec_fmap)

lemma only_events_Emit [event_rules]:
  "P (EMetric x) \<Longrightarrow> only_events P m \<Longrightarrow> only_events P (Emit x m)"
  by (fastforce simp: only_events_def)

lemma only_events_actions [event_rules]:
  "(\<And>a. P (EConnect u d a)) \<Longrightarrow> (\<And>a. only_events P (k1 a)) \<Longrightarrow> only_events P (Connect u d k1)"
  "(\<And>a. P (EReadFile p a)) \<Longrightarrow> (\<And>a. only_events P (k2 a)) \<Longrightarrow> only_events P (ReadFile p k2)"
  "(\<And>a. P (EGetWallet h gw a)) \<Longrightarrow> (\<And>a. only_events P (k3 a)) \<Longrightarrow> only_events P (GetWallet h gw k3)"
  "(\<And>a. P (ESign h sr a)) \<Longrightarrow> (\<And>a. only_events P (k4 a)) \<Longrightarrow> only_events P (SignRpc h sr k4)"
  by (fastforce simp: only_events_def)+

subsection \<open>Totality\<close>

text \<open>Every program returns, whatever the world answers and however it is scheduled.\<close>

lemma reply_ok_witness: "reply_ok (Inl [])"
  by simp

lemma exec_total: "\<exists>t r. exec m t r"
  by (induction m) (force intro: reply_ok_witness)+

subsection \<open>Running against a concrete world\<close>

text \<open>The world as one answering function per action, over a state of its own.\<close>

record 'w world =
  on_rpc :: "rpc_call \<Rightarrow> 'w \<Rightarrow> (string + reply) \<times> 'w"
  on_sleep :: "nat \<Rightarrow> 'w \<Rightarrow> 'w"
  on_now :: "'w \<Rightarrow> nat \<times> 'w"
  on_connect :: "string \<Rightarrow> nat \<Rightarrow> 'w \<Rightarrow> (string + unit) \<times> 'w"
  on_read_file :: "string \<Rightarrow> 'w \<Rightarrow> (string + string) \<times> 'w"
  on_get_wallet :: "metadata \<Rightarrow> get_wallet_request \<Rightarrow> 'w \<Rightarrow> (string + wallet option) \<times> 'w"
  on_sign :: "metadata \<Rightarrow> sign_request \<Rightarrow> 'w \<Rightarrow> (string + sign_reply option) \<times> 'w"
  on_tcp :: "string \<Rightarrow> 'w \<Rightarrow> (string + unit) \<times> 'w"

definition logged :: "event \<Rightarrow> 'r \<times> event list \<times> 'w \<Rightarrow> 'r \<times> event list \<times> 'w" where
  "logged e out = (case out of (r, t, w) \<Rightarrow> (r, e # t, w))"

primrec run :: "'w world \<Rightarrow> 'r io \<Rightarrow> 'w \<Rightarrow> 'r \<times> event list \<times> 'w" where
  "run W (Ret r) w = (r, [], w)"
| "run W (Rpc q k) w =
     (case on_rpc W q w of (a, w') \<Rightarrow> logged (ERpc q a) (run W (k a) w'))"
| "run W (Sleep d m) w = logged (ESleep d) (run W m (on_sleep W d w))"
| "run W (Emit x m) w = logged (EMetric x) (run W m w)"
| "run W (Now k) w = (case on_now W w of (a, w') \<Rightarrow> logged (ENow a) (run W (k a) w'))"
| "run W (Connect u d k) w =
     (case on_connect W u d w of (a, w') \<Rightarrow> logged (EConnect u d a) (run W (k a) w'))"
| "run W (ReadFile p k) w =
     (case on_read_file W p w of (a, w') \<Rightarrow> logged (EReadFile p a) (run W (k a) w'))"
| "run W (GetWallet h q k) w =
     (case on_get_wallet W h q w of (a, w') \<Rightarrow> logged (EGetWallet h q a) (run W (k a) w'))"
| "run W (SignRpc h q k) w =
     (case on_sign W h q w of (a, w') \<Rightarrow> logged (ESign h q a) (run W (k a) w'))"
| "run W (TcpConnect u k) w =
     (case on_tcp W u w of (a, w') \<Rightarrow> logged (ETcp u a) (run W (k a) w'))"

definition world_ok :: "'w world \<Rightarrow> bool" where
  "world_ok W \<longleftrightarrow> (\<forall>q w. reply_ok (fst (on_rpc W q w)))"

lemma logged_eq_iff: "logged e out = (r, t, w) \<longleftrightarrow> (\<exists>t'. t = e # t' \<and> out = (r, t', w))"
  by (auto simp: logged_def split: prod.splits)

text \<open>A run is an execution.\<close>

lemma run_exec: "world_ok W \<Longrightarrow> run W m w = (r, t, w') \<Longrightarrow> exec m t r"
proof (induction m arbitrary: w t)
  case (Rpc q k)
  then show ?case
    by (auto simp: logged_eq_iff world_ok_def split: prod.splits) (metis fst_conv)
qed (auto simp: logged_eq_iff split: prod.splits)

subsection \<open>A concrete world\<close>

definition no_reply :: reply where
  "no_reply = \<lparr>re_commitment = [], re_acknowledgement = [], re_received = False,
     re_header_height = 0, re_unix_timestamp = 0, re_block = None, re_bytes32 = replicate 32 0,
     re_slot = 0, re_block_time = 0, re_account = None\<rparr>"

text \<open>
  An EVM chain with finalized block 100, on which every path has the commitment of 32 bytes 7; the
  state counts the RPC calls, and the first one fails. The clock counts as well.
\<close>

fun sample_rpc :: "rpc_call \<Rightarrow> nat \<Rightarrow> (string + reply) \<times> nat" where
  "sample_rpc q 0 = (Inl ''timeout'', 1)"
| "sample_rpc (EvmGetBlock b) n =
     (Inr (no_reply\<lparr>re_block := Some \<lparr>block_number = 100, block_timestamp = 50\<rparr>\<rparr>), Suc n)"
| "sample_rpc (EvmGetCommitment addr path b) n =
     (Inr (no_reply\<lparr>re_bytes32 := replicate 32 7\<rparr>), Suc n)"
| "sample_rpc q n = (Inr no_reply, Suc n)"

definition sample_wallet :: wallet where
  "sample_wallet = \<lparr>w_id = ''w1'', w_name = ''attestor'', w_tags = [], w_pubkey = [],
     w_address_bytes = [], w_formatted_address = []\<rparr>"

definition sample_world :: "nat world" where
  "sample_world =
     \<lparr>on_rpc = sample_rpc,
      on_sleep = (\<lambda>d n. n),
      on_now = (\<lambda>n. (n, n)),
      on_connect = (\<lambda>u d n. (Inr (), n)),
      on_read_file = (\<lambda>p n. (Inr ''secret '', n)),
      on_get_wallet = (\<lambda>md q n. (Inr (Some sample_wallet), n)),
      on_sign = (\<lambda>md q n. (Inr (Some (RecoverableSignature (replicate 32 1) (replicate 32 2) [27])), n)),
      on_tcp = (\<lambda>a n. (Inr (), n))\<rparr>"

lemma world_ok_sample: "world_ok sample_world"
proof -
  have "reply_ok (fst (sample_rpc q n))" for q n
    by (cases "(q, n)" rule: sample_rpc.cases) (auto simp: no_reply_def)
  then show ?thesis by (simp add: world_ok_def sample_world_def)
qed

definition sample_result :: "'r io \<Rightarrow> 'r" where
  "sample_result m = fst (run sample_world m 0)"

definition sample_events :: "'r io \<Rightarrow> event list" where
  "sample_events m = fst (snd (run sample_world m 0))"

lemma sample_exec: "exec m (sample_events m) (sample_result m)"
  unfolding sample_events_def sample_result_def
  by (rule run_exec [OF world_ok_sample]) (simp add: prod_eq_iff)

end
