(* ===== verification/Futures.thy ===== *)
theory Futures
  imports Effects
begin

section \<open>Concurrent futures\<close>

text \<open>
  \<open>FuturesOrdered\<close> polls a list of futures, each of which advances when its own pending action is
  answered, and yields the results in the order of the list. \<open>pool_step\<close> lets any one future take
  its next step; \<open>pool_exec\<close> is a complete interleaved execution. \<open>join\<close> is the same as a program:
  it takes the order in which the futures advance as a schedule, and runs what the schedule leaves
  unfinished in list order. The two agree (\<open>exec_join_pool\<close>, \<open>pool_exec_join\<close>), and what one future
  does in an interleaved execution is an execution of that future alone (\<open>pool_exec_each\<close>).
\<close>

subsection \<open>Interleaved executions\<close>

inductive pool_step :: "'r io list \<Rightarrow> nat \<Rightarrow> event \<Rightarrow> 'r io list \<Rightarrow> bool" where
  "i < length ps \<Longrightarrow> io_step (ps ! i) e p \<Longrightarrow> pool_step ps i e (ps[i := p])"

inductive pool_exec :: "'r io list \<Rightarrow> (nat \<times> event) list \<Rightarrow> 'r list \<Rightarrow> bool" where
  pool_done: "pool_exec (map Ret rs) [] rs"
| pool_more: "pool_step ps i e ps' \<Longrightarrow> pool_exec ps' t rs \<Longrightarrow> pool_exec ps ((i, e) # t) rs"

inductive_cases pool_exec_NilE: "pool_exec ps [] rs"
inductive_cases pool_exec_ConsE: "pool_exec ps (ie # t) rs"

text \<open>The events of future \<open>i\<close>.\<close>

definition proj :: "nat \<Rightarrow> (nat \<times> event) list \<Rightarrow> event list" where
  "proj i t = map snd (filter (\<lambda>je. fst je = i) t)"

lemma proj_simps [simp]:
  "proj i [] = []"
  "proj i ((j, e) # t) = (if j = i then e # proj i t else proj i t)"
  by (auto simp: proj_def)

lemma pool_exec_each:
  "pool_exec ps t rs \<Longrightarrow>
    length rs = length ps \<and> (\<forall>i < length ps. exec (ps ! i) (proj i t) (rs ! i))"
proof (induction rule: pool_exec.induct)
  case (pool_done rs)
  show ?case by simp
next
  case (pool_more ps i e ps' t rs)
  from pool_more.hyps(1) obtain p
    where p: "i < length ps" "io_step (ps ! i) e p" "ps' = ps[i := p]"
    by (auto elim: pool_step.cases)
  have "exec (ps ! j) (proj j ((i, e) # t)) (rs ! j)" if "j < length ps" for j
  proof (cases "j = i")
    case True
    then have "exec p (proj i t) (rs ! i)"
      using pool_more.IH p that by (metis length_list_update nth_list_update_eq)
    with p(2) True show ?thesis by (auto intro: exec_step)
  next
    case False
    have "exec (ps' ! j) (proj j t) (rs ! j)"
      using pool_more.IH p(3) that by simp
    with False p(3) show ?thesis by simp
  qed
  then show ?case using pool_more.IH p by simp
qed

lemma set_proj_subset: "set (proj i t) \<subseteq> set (map snd t)"
  by (auto simp: proj_def)

lemma pool_exec_indices: "pool_exec ps t rs \<Longrightarrow> ie \<in> set t \<Longrightarrow> fst ie < length ps"
proof (induction rule: pool_exec.induct)
  case (pool_more ps i e ps' t rs)
  then show ?case by (auto elim!: pool_step.cases)
qed simp

lemma pool_exec_event:
  assumes "pool_exec ps t rs" and "e \<in> set (map snd t)"
  shows "\<exists>i < length ps. e \<in> set (proj i t)"
proof -
  from assms(2) obtain ie where "ie \<in> set t" "e = snd ie" by auto
  then have "e \<in> set (proj (fst ie) t)"
    by (auto simp: proj_def)
  with pool_exec_indices [OF assms(1) \<open>ie \<in> set t\<close>] show ?thesis
    by blast
qed

subsection \<open>The interleaving as a program\<close>

text \<open>Apply \<open>g\<close> to what is left of a program after its next action.\<close>

fun io_next :: "('r io \<Rightarrow> 's io) \<Rightarrow> 'r io \<Rightarrow> 's io" where
  "io_next g (Ret r) = g (Ret r)"
| "io_next g (Rpc q k) = Rpc q (\<lambda>a. g (k a))"
| "io_next g (Sleep d m) = Sleep d (g m)"
| "io_next g (Emit x m) = Emit x (g m)"
| "io_next g (Now k) = Now (\<lambda>a. g (k a))"
| "io_next g (Connect u d k) = Connect u d (\<lambda>a. g (k a))"
| "io_next g (ReadFile p k) = ReadFile p (\<lambda>a. g (k a))"
| "io_next g (GetWallet h q k) = GetWallet h q (\<lambda>a. g (k a))"
| "io_next g (SignRpc h q k) = SignRpc h q (\<lambda>a. g (k a))"
| "io_next g (TcpConnect u k) = TcpConnect u (\<lambda>a. g (k a))"

fun join_all :: "'r io list \<Rightarrow> 'r list io" where
  "join_all [] = Ret []"
| "join_all (p # ps) = bind p (\<lambda>r. bind (join_all ps) (\<lambda>rs. Ret (r # rs)))"

primrec join :: "nat list \<Rightarrow> 'r io list \<Rightarrow> 'r list io" where
  "join [] ps = join_all ps"
| "join (i # s) ps =
     (if i < length ps then io_next (\<lambda>p. join s (ps[i := p])) (ps ! i) else join s ps)"

lemma exec_io_next:
  "exec (io_next g p) t r \<longleftrightarrow>
     (\<exists>x. p = Ret x \<and> exec (g p) t r) \<or>
     (\<exists>e p' t'. t = e # t' \<and> io_step p e p' \<and> exec (g p') t' r)"
  by (cases p) (auto simp: io_step_simps)

lemma pool_exec_shift:
  "pool_exec ps t rs \<Longrightarrow>
    pool_exec (Ret r # ps) (map (\<lambda>ie. (Suc (fst ie), snd ie)) t) (r # rs)"
proof (induction rule: pool_exec.induct)
  case (pool_done rs)
  show ?case using pool_exec.pool_done [of "r # rs"] by simp
next
  case (pool_more ps i e ps' t rs)
  from pool_more.hyps(1) obtain p where "i < length ps" "io_step (ps ! i) e p" "ps' = ps[i := p]"
    by (auto elim: pool_step.cases)
  then have "pool_step (Ret r # ps) (Suc i) e (Ret r # ps')"
    using pool_step.intros [of "Suc i" "Ret r # ps" e p] by simp
  with pool_more.IH show ?case
    by (auto intro: pool_exec.pool_more)
qed

lemma pool_exec_first:
  "exec p t1 r \<Longrightarrow> pool_exec (Ret r # ps) t2 rs \<Longrightarrow> pool_exec (p # ps) (map (Pair 0) t1 @ t2) rs"
proof (induction rule: exec.induct)
  case (exec_done r)
  then show ?case by simp
next
  case (exec_step p e p' t1 r)
  then have "pool_step (p # ps) 0 e (p' # ps)"
    using pool_step.intros [of 0 "p # ps" e p'] by simp
  with exec_step.IH [OF exec_step.prems] show ?case
    by (auto intro: pool_exec.pool_more)
qed

lemma exec_join_all_pool:
  "exec (join_all ps) t rs \<Longrightarrow> \<exists>it. pool_exec ps it rs \<and> map snd it = t"
proof (induction ps arbitrary: t rs)
  case Nil
  then show ?case using pool_exec.pool_done [of "[]"] by auto
next
  case (Cons p ps)
  then obtain t1 t2 r rs' where *: "t = t1 @ t2" "rs = r # rs'" "exec p t1 r"
      "exec (join_all ps) t2 rs'"
    by (auto simp: exec_bind)
  from Cons.IH [OF *(4)] obtain it where it: "pool_exec ps it rs'" "map snd it = t2" by blast
  have "map snd (map (Pair (0::nat)) t1 @ map (\<lambda>ie. (Suc (fst ie), snd ie)) it) = t"
    using * it by (simp add: comp_def)
  with pool_exec_first [OF *(3) pool_exec_shift [OF it(1)]] * show ?case by blast
qed

text \<open>Whatever the schedule, \<open>join\<close> is an interleaved execution of the futures.\<close>

lemma exec_join_pool:
  "exec (join s ps) t rs \<Longrightarrow> \<exists>it. pool_exec ps it rs \<and> map snd it = t"
proof (induction s arbitrary: ps t)
  case Nil
  then show ?case by (simp add: exec_join_all_pool)
next
  case (Cons i s)
  show ?case
  proof (cases "i < length ps")
    case False
    with Cons show ?thesis by simp
  next
    case True
    with Cons.prems consider (ret) "exec (join s ps) t rs"
      | (step) e p t' where "t = e # t'" "io_step (ps ! i) e p" "exec (join s (ps[i := p])) t' rs"
      by (auto simp: exec_io_next)
    then show ?thesis
    proof cases
      case ret
      then show ?thesis by (rule Cons.IH)
    next
      case step
      from Cons.IH [OF step(3)] obtain it
        where "pool_exec (ps[i := p]) it rs" "map snd it = t'" by blast
      with step True have "pool_exec ps ((i, e) # it) rs \<and> map snd ((i, e) # it) = t"
        by (auto intro: pool_exec.pool_more pool_step.intros)
      then show ?thesis by blast
    qed
  qed
qed

lemma join_all_Ret [simp]: "join_all (map Ret rs) = Ret rs"
  by (induction rs) auto

text \<open>Every interleaved execution is the execution of \<open>join\<close> under some schedule.\<close>

lemma pool_exec_join:
  "pool_exec ps it rs \<Longrightarrow> exec (join (map fst it) ps) (map snd it) rs"
proof (induction rule: pool_exec.induct)
  case (pool_done rs)
  show ?case by simp
next
  case (pool_more ps i e ps' it rs)
  then show ?case
    by (auto simp: exec_io_next elim!: pool_step.cases)
qed

text \<open>Results come in the order of the futures, each from an execution of its own.\<close>

lemma exec_join_each:
  assumes "exec (join s ps) t rs"
  shows "length rs = length ps \<and>
    (\<forall>i < length ps. \<exists>ti. exec (ps ! i) ti (rs ! i) \<and> set ti \<subseteq> set t)"
proof -
  from exec_join_pool [OF assms] obtain it where it: "pool_exec ps it rs" "map snd it = t" by blast
  from pool_exec_each [OF it(1)] it(2) set_proj_subset [of _ it] show ?thesis by metis
qed

lemma exec_join_event:
  assumes "exec (join s ps) t rs" and "e \<in> set t"
  shows "\<exists>i ti. i < length ps \<and> exec (ps ! i) ti (rs ! i) \<and> e \<in> set ti"
proof -
  from exec_join_pool [OF assms(1)] obtain it
    where it: "pool_exec ps it rs" "map snd it = t" by blast
  from pool_exec_event [OF it(1)] assms(2) it(2)
  obtain i where "i < length ps" "e \<in> set (proj i it)" by metis
  with pool_exec_each [OF it(1)] show ?thesis by blast
qed

lemma only_events_join [event_rules]:
  assumes "\<And>m. m \<in> set ms \<Longrightarrow> only_events P m"
  shows "only_events P (join s ms)"
  unfolding only_events_def
proof (intro allI impI ballI)
  fix t rs e
  assume "exec (join s ms) t rs" and "e \<in> set t"
  then obtain i ti where "i < length ms" "exec (ms ! i) ti (rs ! i)" "e \<in> set ti"
    using exec_join_event by metis
  with assms show "P e" by (metis nth_mem only_eventsD)
qed

end
