(* ===== verification/Errors.thy ===== *)
theory Errors
  imports Prelude
begin

section \<open>Error types, their texts and the gRPC status they become\<close>

text \<open>
  The error enums of \<open>adapter/mod.rs\<close>, \<open>signer/mod.rs\<close> and \<open>error.rs\<close>. Their \<open>Display\<close> is the
  format string of each variant's \<open>#[error(...)]\<close> attribute. Errors of foreign crates that are
  only ever shown are carried as their text.
\<close>

datatype adapter_error =
    AdapterConfigError string
  | InvalidHeight
  | AdapterBlockNotFinalized
  | RetrievalError string
  | CommitmentError string

datatype signer_error =
    LocalError string
  | RemoteError string
  | ConnectionError string
  | InvalidSignature string
  | SignerConfigError string

datatype attestor_error =
    BlockNotFinalized
  | InvalidCommitment string
  | CommitmentNotFound string u64 u64 \<comment> \<open>client id, sequence, height\<close>
  | SignerError string
  | SignerInitError signer_error
  | AbiError string
  | AdapterError adapter_error
  | MalformedCommitmentError string

subsection \<open>Texts\<close>

fun adapter_error_text :: "adapter_error \<Rightarrow> string" where
  "adapter_error_text (AdapterConfigError s) = ''Failed to build attestor adapter due to: '' @ s"
| "adapter_error_text InvalidHeight = ''Invalid height used''"
| "adapter_error_text AdapterBlockNotFinalized = ''Block not finalized''"
| "adapter_error_text (RetrievalError s) = ''Error while retrieving data: '' @ s"
| "adapter_error_text (CommitmentError s) = ''Commitment error: '' @ s"

fun signer_error_text :: "signer_error \<Rightarrow> string" where
  "signer_error_text (LocalError s) = ''Local signing error: '' @ s"
| "signer_error_text (RemoteError s) = ''Remote signing error: '' @ s"
| "signer_error_text (ConnectionError s) = ''Connection failed: '' @ s"
| "signer_error_text (InvalidSignature s) = ''Invalid signature format: '' @ s"
| "signer_error_text (SignerConfigError s) = ''Failed to build signer due to: '' @ s"

fun attestor_error_text :: "attestor_error \<Rightarrow> string" where
  "attestor_error_text BlockNotFinalized = ''Block is not finalized''"
| "attestor_error_text (InvalidCommitment reason) =
     ''Packet commitment found but invalid due to: '' @ reason"
| "attestor_error_text (CommitmentNotFound client_id sequence height) =
     ''Commitment not found client_id='' @ client_id @ '', sequence='' @ dec_u64 sequence @
     '' at height='' @ dec_u64 height"
| "attestor_error_text (SignerError s) = ''Failed to sign attestation due to: '' @ s"
| "attestor_error_text (SignerInitError e) =
     ''Signer initialization failed: '' @ signer_error_text e"
| "attestor_error_text (AbiError s) = ''AbiError: '' @ s"
| "attestor_error_text (AdapterError e) = ''AdapterError: '' @ adapter_error_text e"
| "attestor_error_text (MalformedCommitmentError s) = ''MalformedCommitmentError: '' @ s"

subsection \<open>gRPC status\<close>

text \<open>The status codes of gRPC.\<close>

datatype code =
    Ok | Cancelled | Unknown | InvalidArgument | DeadlineExceeded | NotFound | AlreadyExists
  | PermissionDenied | ResourceExhausted | FailedPrecondition | Aborted | OutOfRange
  | Unimplemented | Internal | Unavailable | DataLoss | Unauthenticated

text \<open>There are finitely many codes, so that statements about all of them compute.\<close>

instantiation code :: enum
begin

definition enum_code :: "code list" where
  "enum_code = [Ok, Cancelled, Unknown, InvalidArgument, DeadlineExceeded, NotFound, AlreadyExists,
     PermissionDenied, ResourceExhausted, FailedPrecondition, Aborted, OutOfRange, Unimplemented,
     Internal, Unavailable, DataLoss, Unauthenticated]"

definition enum_all_code :: "(code \<Rightarrow> bool) \<Rightarrow> bool" where
  "enum_all_code P = list_all P enum_class.enum"

definition enum_ex_code :: "(code \<Rightarrow> bool) \<Rightarrow> bool" where
  "enum_ex_code P = list_ex P enum_class.enum"

instance
proof
  show univ: "(UNIV :: code set) = set enum_class.enum"
    by (auto simp: enum_code_def intro: code.exhaust)
  show "distinct (enum_class.enum :: code list)"
    by (simp add: enum_code_def)
  show "enum_class.enum_all P \<longleftrightarrow> Ball (UNIV :: code set) P" for P
    by (simp only: enum_all_code_def univ list_all_iff)
  show "enum_class.enum_ex P \<longleftrightarrow> Bex (UNIV :: code set) P" for P
    by (simp only: enum_ex_code_def univ list_ex_iff)
qed

end

record status =
  status_code :: code
  status_message :: string

fun status_of_attestor_error :: "attestor_error \<Rightarrow> status" where
  "status_of_attestor_error BlockNotFinalized =
     \<lparr>status_code = FailedPrecondition, status_message = attestor_error_text BlockNotFinalized\<rparr>"
| "status_of_attestor_error (CommitmentNotFound c s h) =
     \<lparr>status_code = NotFound, status_message = attestor_error_text (CommitmentNotFound c s h)\<rparr>"
| "status_of_attestor_error (InvalidCommitment r) =
     \<lparr>status_code = InvalidArgument, status_message = attestor_error_text (InvalidCommitment r)\<rparr>"
| "status_of_attestor_error (MalformedCommitmentError s) =
     \<lparr>status_code = InvalidArgument,
      status_message = attestor_error_text (MalformedCommitmentError s)\<rparr>"
| "status_of_attestor_error (SignerError s) =
     \<lparr>status_code = Internal, status_message = attestor_error_text (SignerError s)\<rparr>"
| "status_of_attestor_error (SignerInitError e) =
     \<lparr>status_code = Internal, status_message = attestor_error_text (SignerInitError e)\<rparr>"
| "status_of_attestor_error (AbiError s) =
     \<lparr>status_code = Internal, status_message = attestor_error_text (AbiError s)\<rparr>"
| "status_of_attestor_error (AdapterError e) =
     \<lparr>status_code = Internal, status_message = attestor_error_text (AdapterError e)\<rparr>"

lemma status_message_of_attestor_error [simp]:
  "status_message (status_of_attestor_error e) = attestor_error_text e"
  by (cases e) auto

lemma status_code_cases:
  "status_code (status_of_attestor_error e)
     \<in> {FailedPrecondition, NotFound, InvalidArgument, Internal}"
  by (cases e) auto

lemma status_code_not_Ok [simp]: "status_code (status_of_attestor_error e) \<noteq> Ok"
  by (cases e) auto

text \<open>The code tells the client's mistakes from the attestor's own failures.\<close>

lemma status_code_Internal_iff:
  "status_code (status_of_attestor_error e) = Internal \<longleftrightarrow>
     (\<exists>s. e = SignerError s) \<or> (\<exists>x. e = SignerInitError x) \<or> (\<exists>s. e = AbiError s) \<or>
     (\<exists>x. e = AdapterError x)"
  by (cases e) auto

lemma status_code_FailedPrecondition_iff:
  "status_code (status_of_attestor_error e) = FailedPrecondition \<longleftrightarrow> e = BlockNotFinalized"
  by (cases e) auto

lemma status_code_NotFound_iff:
  "status_code (status_of_attestor_error e) = NotFound \<longleftrightarrow>
     (\<exists>c s h. e = CommitmentNotFound c s h)"
  by (cases e) auto

lemma status_code_InvalidArgument_iff:
  "status_code (status_of_attestor_error e) = InvalidArgument \<longleftrightarrow>
     (\<exists>r. e = InvalidCommitment r) \<or> (\<exists>s. e = MalformedCommitmentError s)"
  by (cases e) auto

lemmas status_code_iffs = status_code_Internal_iff status_code_FailedPrecondition_iff
  status_code_NotFound_iff status_code_InvalidArgument_iff

text \<open>The texts are only unfolded where a proof asks for them.\<close>

declare adapter_error_text.simps [simp del] signer_error_text.simps [simp del]
  attestor_error_text.simps [simp del] status_of_attestor_error.simps [simp del]

text \<open>
  C25. The status a client sees. A height that is not final is a failed precondition, a missing
  commitment not found, a wrong commitment or an unknown commitment type an invalid argument, and
  everything else, undecodable packets included, an internal error; the message is always the
  error's own text.
\<close>

theorem attestor_status_codes:
  "(status_code (status_of_attestor_error e) = FailedPrecondition \<longleftrightarrow> e = BlockNotFinalized) \<and>
   (status_code (status_of_attestor_error e) = NotFound \<longleftrightarrow>
      (\<exists>c s h. e = CommitmentNotFound c s h)) \<and>
   (status_code (status_of_attestor_error e) = InvalidArgument \<longleftrightarrow>
      (\<exists>r. e = InvalidCommitment r) \<or> (\<exists>s. e = MalformedCommitmentError s)) \<and>
   (status_code (status_of_attestor_error e) = Internal \<longleftrightarrow>
      (\<exists>s. e = SignerError s) \<or> (\<exists>x. e = SignerInitError x) \<or> (\<exists>s. e = AbiError s) \<or>
      (\<exists>x. e = AdapterError x)) \<and>
   status_message (status_of_attestor_error e) = attestor_error_text e"
  using status_code_FailedPrecondition_iff status_code_NotFound_iff status_code_InvalidArgument_iff
    status_code_Internal_iff status_message_of_attestor_error
  by blast

end
