(* ===== verification/Metrics.thy ===== *)
theory Metrics
  imports Effects Errors
begin

section \<open>The metrics registry (\<open>metrics.rs\<close>)\<close>

text \<open>
  The process-wide registry is the state \<open>registry option\<close>: \<open>None\<close> until \<open>init\<close>. It keeps the
  descriptions of the metrics registered and their values: a metric vector is a map from label
  values to the count, a histogram the list of values observed so far (latest first, before their
  conversion to \<open>f64\<close>), a gauge its last value. Programs record metrics as \<open>Emit\<close> actions;
  \<open>record_event\<close> says which recording function each one is, and \<open>metrics_after\<close> gives the registry
  after a trace. Creating a metric, registering it and the text encoding are the \<open>prometheus\<close>
  crate's and parameters.
\<close>

subsection \<open>Descriptions of metrics\<close>

datatype metric_kind =
    CounterVec "string list"
  | Counter
  | HistogramVec "string list"
  | Histogram "int list" \<comment> \<open>the upper bounds of the buckets\<close>
  | Gauge

record metric_desc =
  md_name :: string
  md_help :: string
  md_kind :: metric_kind

text \<open>
  \<open>Registry::new_custom\<close>, the constructors \<open>IntCounterVec::new\<close>, \<open>HistogramVec::new\<close>,
  \<open>Histogram::with_opts\<close>, \<open>IntCounter::new\<close> and \<open>IntGauge::new\<close>, and \<open>Registry::register\<close> on
  the metrics already registered.
\<close>

record prom_lib =
  registry_new_custom :: "string option \<Rightarrow> (string \<times> string) list \<Rightarrow> string + unit"
  metric_new :: "metric_desc \<Rightarrow> string + unit"
  registry_register :: "metric_desc list \<Rightarrow> metric_desc \<Rightarrow> string + unit"

text \<open>
  What the crate documents: names match \<open>[a-zA-Z_:][a-zA-Z0-9_:]*\<close>, label names the same without
  the colon, a help text is not empty, the labels of a metric are distinct and a histogram's bucket
  bounds strictly increase. Nothing else is refused, and a registration only for a name already
  taken.
\<close>

definition name_start :: "char \<Rightarrow> bool" where
  "name_start c \<longleftrightarrow>
     (let n = of_char c :: nat in (65 \<le> n \<and> n \<le> 90) \<or> (97 \<le> n \<and> n \<le> 122) \<or> n = 95)"

definition name_char :: "char \<Rightarrow> bool" where
  "name_char c \<longleftrightarrow> name_start c \<or> (let n = of_char c :: nat in 48 \<le> n \<and> n \<le> 57)"

fun valid_label :: "string \<Rightarrow> bool" where
  "valid_label [] = False"
| "valid_label (c # cs) = (name_start c \<and> list_all name_char cs)"

fun valid_name :: "string \<Rightarrow> bool" where
  "valid_name [] = False"
| "valid_name (c # cs) =
     ((name_start c \<or> c = CHR '':'') \<and> list_all (\<lambda>d. name_char d \<or> d = CHR '':'') cs)"

fun valid_kind :: "metric_kind \<Rightarrow> bool" where
  "valid_kind (CounterVec ls) = (list_all valid_label ls \<and> distinct ls)"
| "valid_kind (HistogramVec ls) = (list_all valid_label ls \<and> distinct ls \<and> ''le'' \<notin> set ls)"
| "valid_kind (Histogram bs) = sorted_wrt (<) bs"
| "valid_kind _ = True"

definition valid_desc :: "metric_desc \<Rightarrow> bool" where
  "valid_desc d \<longleftrightarrow> valid_name (md_name d) \<and> md_help d \<noteq> [] \<and> valid_kind (md_kind d)"

definition documented_prom :: "prom_lib \<Rightarrow> bool" where
  "documented_prom P \<longleftrightarrow>
     (\<forall>ls. list_all (valid_label \<circ> fst) ls \<longrightarrow> registry_new_custom P None ls = Inr ()) \<and>
     (\<forall>d. valid_desc d \<longrightarrow> metric_new P d = Inr ()) \<and>
     (\<forall>ds d. md_name d \<notin> md_name ` set ds \<longrightarrow> registry_register P ds d = Inr ())"

definition sample_prom :: prom_lib where
  "sample_prom =
     \<lparr>registry_new_custom = (\<lambda>_ ls. if list_all (valid_label \<circ> fst) ls then Inr () else Inl ''label''),
      metric_new = (\<lambda>d. if valid_desc d then Inr () else Inl ''invalid''),
      registry_register = (\<lambda>ds d. if md_name d \<in> md_name ` set ds then Inl ''duplicate'' else Inr ())\<rparr>"

lemma documented_prom_sample: "documented_prom sample_prom"
  by (simp add: documented_prom_def sample_prom_def)

subsection \<open>The registry\<close>

record registry =
  const_labels :: "(string \<times> string) list"
  descriptors :: "metric_desc list"
  rpc_requests_total :: "string \<times> string \<Rightarrow> nat option"
  rpc_request_duration_seconds :: "string \<Rightarrow> nat list option"
  attestation_height_lag_blocks :: "i64 list"
  height_validation_rejections_total :: nat
  commitment_validation_failures_total :: "string \<Rightarrow> nat option"
  adapter_retry_failures_total :: "string \<Rightarrow> nat option"
  adapter_finalized_height :: i64
  signer_signs_total :: "string \<Rightarrow> nat option"

text \<open>One metric of \<open>Metrics::new\<close>: it is created and then registered, and both must not fail.\<close>

definition add_metric :: "prom_lib \<Rightarrow> metric_desc \<Rightarrow> metric_desc list \<Rightarrow> string + metric_desc list" where
  "add_metric P d reg =
     and_then (expect ''static metric definition is valid'' (metric_new P d)) (\<lambda>_.
     and_then (expect ''metric registration is unique at startup'' (registry_register P reg d)) (\<lambda>_.
     Inr (reg @ [d])))"

text \<open>The eight metrics, and \<open>Metrics::new\<close>.\<close>

definition rpc_requests_total_desc :: metric_desc where
  "rpc_requests_total_desc =
     \<lparr>md_name = ''attestor_rpc_requests_total'',
      md_help = ''Total RPC requests by method and gRPC status code'',
      md_kind = CounterVec [''method'', ''code'']\<rparr>"

definition rpc_request_duration_seconds_desc :: metric_desc where
  "rpc_request_duration_seconds_desc =
     \<lparr>md_name = ''attestor_rpc_request_duration_seconds'',
      md_help = ''RPC request duration in seconds'',
      md_kind = HistogramVec [''method'']\<rparr>"

definition attestation_height_lag_blocks_desc :: metric_desc where
  "attestation_height_lag_blocks_desc =
     \<lparr>md_name = ''attestor_attestation_height_lag_blocks'',
      md_help = ''finalized_height minus requested_height; positive = caller behind, negative = caller ahead'',
      md_kind = Histogram [-100, -10, -3, -1, 0, 1, 3, 10, 50, 100, 500]\<rparr>"

definition height_validation_rejections_total_desc :: metric_desc where
  "height_validation_rejections_total_desc =
     \<lparr>md_name = ''attestor_height_validation_rejections_total'',
      md_help = ''Number of attestation requests rejected because the requested height was beyond the latest finalized height'',
      md_kind = Counter\<rparr>"

definition commitment_validation_failures_total_desc :: metric_desc where
  "commitment_validation_failures_total_desc =
     \<lparr>md_name = ''attestor_commitment_validation_failures_total'',
      md_help = ''Number of packet/ack/receipt commitment validation failures by kind'',
      md_kind = CounterVec [''kind'']\<rparr>"

definition adapter_retry_failures_total_desc :: metric_desc where
  "adapter_retry_failures_total_desc =
     \<lparr>md_name = ''attestor_adapter_retry_failures_total'',
      md_help = ''Number of adapter operations that exhausted retries without succeeding'',
      md_kind = CounterVec [''op'']\<rparr>"

definition adapter_finalized_height_desc :: metric_desc where
  "adapter_finalized_height_desc =
     \<lparr>md_name = ''attestor_adapter_finalized_height'',
      md_help = ''Latest finalized height returned by the chain adapter'',
      md_kind = Gauge\<rparr>"

definition signer_signs_total_desc :: metric_desc where
  "signer_signs_total_desc =
     \<lparr>md_name = ''attestor_signer_signs_total'',
      md_help = ''Total signing operations attempted, by outcome'',
      md_kind = CounterVec [''result'']\<rparr>"

definition new_metrics :: "prom_lib \<Rightarrow> string \<Rightarrow> string \<Rightarrow> string + registry" where
  "new_metrics P adapter signer =
     (let labels = [(''adapter'', adapter), (''signer'', signer)]
      in and_then (expect ''registry construction with valid labels never fails''
                (registry_new_custom P None labels)) (\<lambda>_.
      and_then (add_metric P rpc_requests_total_desc []) (\<lambda>reg.
      and_then (add_metric P rpc_request_duration_seconds_desc reg) (\<lambda>reg.
      and_then (add_metric P attestation_height_lag_blocks_desc reg) (\<lambda>reg.
      and_then (add_metric P height_validation_rejections_total_desc reg) (\<lambda>reg.
      and_then (add_metric P commitment_validation_failures_total_desc reg) (\<lambda>reg.
      and_then (add_metric P adapter_retry_failures_total_desc reg) (\<lambda>reg.
      and_then (add_metric P adapter_finalized_height_desc reg) (\<lambda>reg.
      and_then (add_metric P signer_signs_total_desc reg) (\<lambda>reg.
      Inr \<lparr>const_labels = labels,
           descriptors = reg,
           rpc_requests_total = Map.empty,
           rpc_request_duration_seconds = Map.empty,
           attestation_height_lag_blocks = [],
           height_validation_rejections_total = 0,
           commitment_validation_failures_total = Map.empty,
           adapter_retry_failures_total = Map.empty,
           adapter_finalized_height = 0,
           signer_signs_total = Map.empty\<rparr>))))))))))"

text \<open>\<open>OnceLock::set\<close>: only the first call has an effect, but the registry is built on every call.\<close>

definition init ::
  "prom_lib \<Rightarrow> string \<Rightarrow> string \<Rightarrow> registry option \<Rightarrow> string + registry option" where
  "init P adapter signer m =
     and_then (new_metrics P adapter signer)
       (\<lambda>new. Inr (case m of None \<Rightarrow> Some new | Some r \<Rightarrow> Some r))"

text \<open>The metrics in the order of their registration, and a registry in which nothing is recorded.\<close>

definition attestor_metrics :: "metric_desc list" where
  "attestor_metrics =
     [rpc_requests_total_desc,
      rpc_request_duration_seconds_desc,
      attestation_height_lag_blocks_desc,
      height_validation_rejections_total_desc,
      commitment_validation_failures_total_desc,
      adapter_retry_failures_total_desc,
      adapter_finalized_height_desc,
      signer_signs_total_desc]"

definition fresh_registry :: "string \<Rightarrow> string \<Rightarrow> metric_desc list \<Rightarrow> registry" where
  "fresh_registry adapter signer ds =
     \<lparr>const_labels = [(''adapter'', adapter), (''signer'', signer)],
      descriptors = ds,
      rpc_requests_total = Map.empty,
      rpc_request_duration_seconds = Map.empty,
      attestation_height_lag_blocks = [],
      height_validation_rejections_total = 0,
      commitment_validation_failures_total = Map.empty,
      adapter_retry_failures_total = Map.empty,
      adapter_finalized_height = 0,
      signer_signs_total = Map.empty\<rparr>"

lemma descriptors_fresh [simp]: "descriptors (fresh_registry a s ds) = ds"
  by (simp add: fresh_registry_def)

lemma add_metric_documented:
  "documented_prom P \<Longrightarrow> valid_desc d \<Longrightarrow> distinct (map md_name (reg @ [d])) \<Longrightarrow>
     add_metric P d reg = Inr (reg @ [d])"
  by (simp add: add_metric_def documented_prom_def)

lemmas desc_defs = rpc_requests_total_desc_def rpc_request_duration_seconds_desc_def attestation_height_lag_blocks_desc_def height_validation_rejections_total_desc_def commitment_validation_failures_total_desc_def adapter_retry_failures_total_desc_def adapter_finalized_height_desc_def signer_signs_total_desc_def

lemma valid_descs [simp]:
  "valid_desc rpc_requests_total_desc"
  "valid_desc rpc_request_duration_seconds_desc"
  "valid_desc attestation_height_lag_blocks_desc"
  "valid_desc height_validation_rejections_total_desc"
  "valid_desc commitment_validation_failures_total_desc"
  "valid_desc adapter_retry_failures_total_desc"
  "valid_desc adapter_finalized_height_desc"
  "valid_desc signer_signs_total_desc"
  by (simp_all add: desc_defs valid_desc_def name_char_def name_start_def)

lemma distinct_metrics: "distinct (map md_name attestor_metrics)"
  by (simp add: attestor_metrics_def desc_defs)

lemma new_metrics_documented:
  assumes "documented_prom P"
  shows "new_metrics P a s = Inr (fresh_registry a s attestor_metrics)"
proof -
  have "registry_new_custom P None [(''adapter'', a), (''signer'', s)] = Inr ()"
    using assms by (simp add: documented_prom_def name_char_def name_start_def)
  then show ?thesis
    using distinct_metrics
    by (simp add: new_metrics_def attestor_metrics_def fresh_registry_def Let_def
        add_metric_documented [OF assms])
qed

text \<open>\<open>with_label_values(..).inc()\<close> and \<open>with_label_values(..).observe(..)\<close>.\<close>

definition inc_label :: "'k \<Rightarrow> ('k \<Rightarrow> nat option) \<Rightarrow> 'k \<Rightarrow> nat option" where
  "inc_label k m = m(k \<mapsto> (case m k of None \<Rightarrow> 1 | Some n \<Rightarrow> Suc n))"

definition observe_label :: "'k \<Rightarrow> 'v \<Rightarrow> ('k \<Rightarrow> 'v list option) \<Rightarrow> 'k \<Rightarrow> 'v list option" where
  "observe_label k v m = m(k \<mapsto> (case m k of None \<Rightarrow> [v] | Some vs \<Rightarrow> v # vs))"

subsection \<open>Recording functions\<close>

definition record_rpc_request :: "string \<Rightarrow> string \<Rightarrow> nat \<Rightarrow> registry option \<Rightarrow> registry option" where
  "record_rpc_request method code duration m = map_option (\<lambda>r.
     r\<lparr>rpc_requests_total := inc_label (method, code) (rpc_requests_total r),
       rpc_request_duration_seconds :=
         observe_label method duration (rpc_request_duration_seconds r)\<rparr>) m"

definition observe_height_lag :: "i64 \<Rightarrow> registry option \<Rightarrow> registry option" where
  "observe_height_lag lag m = map_option (\<lambda>r.
     r\<lparr>attestation_height_lag_blocks := lag # attestation_height_lag_blocks r\<rparr>) m"

definition inc_height_rejections :: "registry option \<Rightarrow> registry option" where
  "inc_height_rejections m = map_option (\<lambda>r.
     r\<lparr>height_validation_rejections_total := Suc (height_validation_rejections_total r)\<rparr>) m"

definition inc_commitment_failure :: "string \<Rightarrow> registry option \<Rightarrow> registry option" where
  "inc_commitment_failure kind m = map_option (\<lambda>r.
     r\<lparr>commitment_validation_failures_total :=
         inc_label kind (commitment_validation_failures_total r)\<rparr>) m"

definition inc_retry_failure :: "string \<Rightarrow> registry option \<Rightarrow> registry option" where
  "inc_retry_failure operation m = map_option (\<lambda>r.
     r\<lparr>adapter_retry_failures_total := inc_label operation (adapter_retry_failures_total r)\<rparr>) m"

definition gauge_value :: "u64 \<Rightarrow> i64" where
  "gauge_value height = (case i64_try_from_u64 height of Some v \<Rightarrow> v | None \<Rightarrow> i64_max)"

definition set_adapter_finalized_height :: "u64 \<Rightarrow> registry option \<Rightarrow> registry option" where
  "set_adapter_finalized_height height m = map_option (\<lambda>r.
     let value = gauge_value height
     in r\<lparr>adapter_finalized_height := value\<rparr>) m"

definition inc_signer_sign :: "string \<Rightarrow> registry option \<Rightarrow> registry option" where
  "inc_signer_sign result m = map_option (\<lambda>r.
     r\<lparr>signer_signs_total := inc_label result (signer_signs_total r)\<rparr>) m"

definition encode_text :: "(registry \<Rightarrow> string + bytes) \<Rightarrow> registry option \<Rightarrow> bytes" where
  "encode_text encoder m =
     (case m of None \<Rightarrow> []
      | Some r \<Rightarrow> (case encoder r of Inl e \<Rightarrow> [] | Inr buf \<Rightarrow> buf))"

lemmas recorder_defs = record_rpc_request_def observe_height_lag_def inc_height_rejections_def
  inc_commitment_failure_def inc_retry_failure_def set_adapter_finalized_height_def
  inc_signer_sign_def

fun record_event :: "metric_event \<Rightarrow> registry option \<Rightarrow> registry option" where
  "record_event (RpcRequest method code d) = record_rpc_request method code d"
| "record_event (HeightLag lag) = observe_height_lag lag"
| "record_event HeightRejection = inc_height_rejections"
| "record_event (CommitmentFailure kind) = inc_commitment_failure kind"
| "record_event (RetryFailure operation) = inc_retry_failure operation"
| "record_event (FinalizedHeight height) = set_adapter_finalized_height height"
| "record_event (SignerSign result) = inc_signer_sign result"

fun metrics_after :: "event list \<Rightarrow> registry option \<Rightarrow> registry option" where
  "metrics_after [] m = m"
| "metrics_after (EMetric x # t) m = metrics_after t (record_event x m)"
| "metrics_after (_ # t) m = metrics_after t m"

subsection \<open>Status labels\<close>

definition is_upper :: "char \<Rightarrow> bool" where
  "is_upper c = (65 \<le> (of_char c :: nat) \<and> (of_char c :: nat) \<le> 90)"

definition to_lower :: "char \<Rightarrow> char" where
  "to_lower c = (if is_upper c then char_of ((of_char c :: nat) + 32) else c)"

fun pascal_to_snake_from :: "nat \<Rightarrow> string \<Rightarrow> string" where
  "pascal_to_snake_from i [] = []"
| "pascal_to_snake_from i (b # bs) =
     (if is_upper b \<and> i \<noteq> 0 then [CHR ''_''] else []) @ to_lower b #
     pascal_to_snake_from (Suc i) bs"

definition pascal_to_snake :: "string \<Rightarrow> string" where
  "pascal_to_snake s = pascal_to_snake_from 0 s"

text \<open>The text \<open>code_debug\<close> that \<open>{:?}\<close> prints for a code comes from the \<open>tonic\<close> crate.\<close>

definition code_label :: "(code \<Rightarrow> string) \<Rightarrow> code \<Rightarrow> string" where
  "code_label code_debug c = pascal_to_snake (code_debug c)"

text \<open>What \<open>tonic\<close> documents for \<open>{:?}\<close>: the name of the variant.\<close>

fun variant_name :: "code \<Rightarrow> string" where
  "variant_name Ok = ''Ok''"
| "variant_name Cancelled = ''Cancelled''"
| "variant_name Unknown = ''Unknown''"
| "variant_name InvalidArgument = ''InvalidArgument''"
| "variant_name DeadlineExceeded = ''DeadlineExceeded''"
| "variant_name NotFound = ''NotFound''"
| "variant_name AlreadyExists = ''AlreadyExists''"
| "variant_name PermissionDenied = ''PermissionDenied''"
| "variant_name ResourceExhausted = ''ResourceExhausted''"
| "variant_name FailedPrecondition = ''FailedPrecondition''"
| "variant_name Aborted = ''Aborted''"
| "variant_name OutOfRange = ''OutOfRange''"
| "variant_name Unimplemented = ''Unimplemented''"
| "variant_name Internal = ''Internal''"
| "variant_name Unavailable = ''Unavailable''"
| "variant_name DataLoss = ''DataLoss''"
| "variant_name Unauthenticated = ''Unauthenticated''"

definition track_rpc ::
  "(code \<Rightarrow> string) \<Rightarrow> string \<Rightarrow> (status + 'a) io \<Rightarrow> ((status + 'a) \<times> nat) io" where
  "track_rpc code_debug method fut =
     Now (\<lambda>start. bind fut (\<lambda>result. Now (\<lambda>finish.
       let elapsed = finish - start;
           code = (case result of Inr _ \<Rightarrow> Ok | Inl s \<Rightarrow> status_code s)
       in Emit (RpcRequest method (code_label code_debug code) elapsed)
            (Ret (result, elapsed)))))"

subsection \<open>Counting\<close>

definition label_count :: "('k \<Rightarrow> nat option) \<Rightarrow> 'k \<Rightarrow> nat" where
  "label_count m k = (case m k of None \<Rightarrow> 0 | Some n \<Rightarrow> n)"

lemma label_count_inc [simp]:
  "label_count (inc_label k m) k' = label_count m k' + (if k' = k then 1 else 0)"
  by (auto simp: label_count_def inc_label_def split: option.splits)

lemma record_event_None [simp]: "record_event x None = None"
  by (cases x) (auto simp: recorder_defs)

lemma metrics_after_None [simp]: "metrics_after t None = None"
  by (induction t "None :: registry option" rule: metrics_after.induct) auto

lemma metrics_after_append: "metrics_after (t1 @ t2) m = metrics_after t2 (metrics_after t1 m)"
  by (induction t1 m rule: metrics_after.induct) auto

definition rpc_count :: "string \<Rightarrow> string \<Rightarrow> event list \<Rightarrow> nat" where
  "rpc_count method code t = length (filter (\<lambda>e. \<exists>d. e = EMetric (RpcRequest method code d)) t)"

definition observations :: "('k \<Rightarrow> 'v list option) \<Rightarrow> 'k \<Rightarrow> 'v list" where
  "observations m k = (case m k of None \<Rightarrow> [] | Some vs \<Rightarrow> vs)"

lemma observations_observe [simp]:
  "observations (observe_label k v m) k' = (if k' = k then [v] else []) @ observations m k'"
  by (auto simp: observations_def observe_label_def split: option.splits)

text \<open>The values the events of a trace record.\<close>

fun lags_of :: "event \<Rightarrow> i64 list" where
  "lags_of (EMetric (HeightLag lag)) = [lag]"
| "lags_of _ = []"

fun heights_of :: "event \<Rightarrow> u64 list" where
  "heights_of (EMetric (FinalizedHeight height)) = [height]"
| "heights_of _ = []"

fun durations_of :: "string \<Rightarrow> event \<Rightarrow> nat list" where
  "durations_of m (EMetric (RpcRequest method code d)) = (if method = m then [d] else [])"
| "durations_of m _ = []"

definition recorded :: "(event \<Rightarrow> 'v list) \<Rightarrow> event list \<Rightarrow> 'v list" where
  "recorded f t = concat (map f t)"

lemma recorded_simps [simp]:
  "recorded f [] = []"
  "recorded f (e # t) = f e @ recorded f t"
  "recorded f (t1 @ t2) = recorded f t1 @ recorded f t2"
  by (simp_all add: recorded_def)

lemma last_Cons_append: "last (last (x # xs) # ys) = last (x # xs @ ys)"
  by (cases ys rule: rev_cases) auto

text \<open>What a registry says after a trace that the registry \<open>r\<close> was in before it.\<close>

definition counts_trace :: "registry \<Rightarrow> event list \<Rightarrow> registry \<Rightarrow> bool" where
  "counts_trace r t r' \<longleftrightarrow>
     const_labels r' = const_labels r \<and>
     (\<forall>k. label_count (signer_signs_total r') k =
        label_count (signer_signs_total r) k + count_list t (EMetric (SignerSign k))) \<and>
     (\<forall>k. label_count (commitment_validation_failures_total r') k =
        label_count (commitment_validation_failures_total r) k +
        count_list t (EMetric (CommitmentFailure k))) \<and>
     (\<forall>k. label_count (adapter_retry_failures_total r') k =
        label_count (adapter_retry_failures_total r) k +
        count_list t (EMetric (RetryFailure k))) \<and>
     height_validation_rejections_total r' =
       height_validation_rejections_total r + count_list t (EMetric HeightRejection) \<and>
     (\<forall>m c. label_count (rpc_requests_total r') (m, c) =
        label_count (rpc_requests_total r) (m, c) + rpc_count m c t) \<and>
     attestation_height_lag_blocks r' =
       rev (recorded lags_of t) @ attestation_height_lag_blocks r \<and>
     (\<forall>m. observations (rpc_request_duration_seconds r') m =
        rev (recorded (durations_of m) t) @ observations (rpc_request_duration_seconds r) m) \<and>
     adapter_finalized_height r' =
       last (adapter_finalized_height r # map gauge_value (recorded heights_of t)) \<and>
     descriptors r' = descriptors r"

lemma counts_trace_Nil: "counts_trace r [] r"
  by (simp add: counts_trace_def rpc_count_def)

lemma counts_trace_event:
  "record_event x (Some r) = Some r' \<Longrightarrow> counts_trace r [EMetric x] r'"
  by (cases x) (auto simp: counts_trace_def recorder_defs rpc_count_def Let_def)

lemma counts_trace_trans:
  "counts_trace r t1 r1 \<Longrightarrow> counts_trace r1 t2 r2 \<Longrightarrow> counts_trace r (t1 @ t2) r2"
  by (simp add: counts_trace_def rpc_count_def last_Cons_append [symmetric] del: last.simps)

lemma counts_trace_other:
  "(\<And>x. e \<noteq> EMetric x) \<Longrightarrow> counts_trace r [e] r"
  by (cases e rule: lags_of.cases) (auto simp: counts_trace_def rpc_count_def)

lemma record_event_Some: "\<exists>r'. record_event x (Some r) = Some r'"
  by (cases x) (auto simp: recorder_defs Let_def)

lemma metrics_after_other: "(\<And>x. e \<noteq> EMetric x) \<Longrightarrow> metrics_after (e # t) m = metrics_after t m"
  by (cases e) auto

lemma counts_metrics_after: "\<exists>r'. metrics_after t (Some r) = Some r' \<and> counts_trace r t r'"
proof (induction t arbitrary: r)
  case Nil
  show ?case by (simp add: counts_trace_Nil)
next
  case (Cons e t)
  have "\<exists>r1. metrics_after (e # t) (Some r) = metrics_after t (Some r1) \<and> counts_trace r [e] r1"
  proof (cases "\<exists>x. e = EMetric x")
    case True
    then show ?thesis
      using record_event_Some counts_trace_event by (metis metrics_after.simps(2))
  next
    case False
    then show ?thesis
      using metrics_after_other counts_trace_other by blast
  qed
  with Cons.IH counts_trace_trans show ?case
    by (metis append_Cons append_Nil)
qed

lemma metrics_after_init:
  assumes "init P adapter signer None = Inr m"
  shows "\<exists>r. metrics_after t m = Some r \<and>
    (\<forall>k. label_count (signer_signs_total r) k = count_list t (EMetric (SignerSign k))) \<and>
    (\<forall>method code. label_count (rpc_requests_total r) (method, code) = rpc_count method code t)"
proof -
  from assms obtain r0 where r0: "m = Some r0" "new_metrics P adapter signer = Inr r0"
    by (auto simp: init_def and_then_Inr_iff)
  from r0(2) have "signer_signs_total r0 = Map.empty" "rpc_requests_total r0 = Map.empty"
    by (auto simp: new_metrics_def and_then_Inr_iff Let_def)
  moreover obtain r where "metrics_after t (Some r0) = Some r" "counts_trace r0 t r"
    using counts_metrics_after by blast
  ultimately show ?thesis
    using r0(1) by (auto simp: counts_trace_def label_count_def)
qed

subsection \<open>\<open>track_rpc\<close>\<close>

text \<open>The code a result is counted under.\<close>

definition result_code :: "status + 'a \<Rightarrow> code" where
  "result_code r = (case r of Inr _ \<Rightarrow> Ok | Inl s \<Rightarrow> status_code s)"

lemma exec_track_rpcI:
  "exec fut t0 r \<Longrightarrow> exec (track_rpc cd method fut)
     (ENow a # t0 @ [ENow b, EMetric (RpcRequest method (code_label cd (result_code r)) (b - a))])
     (r, b - a)"
  by (simp add: track_rpc_def) (rule exec_bindI, assumption, simp add: Let_def result_code_def)

lemma exec_track_rpcD:
  "exec (track_rpc cd method fut) t out \<Longrightarrow>
     \<exists>a b t0 r. exec fut t0 r \<and> out = (r, b - a) \<and>
        t = ENow a # t0 @
          [ENow b, EMetric (RpcRequest method (code_label cd (result_code r)) (b - a))]"
  by (auto simp: track_rpc_def exec_bind Let_def result_code_def)

subsection \<open>\<open>pascal_to_snake\<close>\<close>

definition is_lower :: "char \<Rightarrow> bool" where
  "is_lower c = (97 \<le> (of_char c :: nat) \<and> (of_char c :: nat) \<le> 122)"

definition to_upper :: "char \<Rightarrow> char" where
  "to_upper c = (if is_lower c then char_of ((of_char c :: nat) - 32) else c)"

fun snake_to_pascal_from :: "bool \<Rightarrow> string \<Rightarrow> string" where
  "snake_to_pascal_from up [] = []"
| "snake_to_pascal_from up (c # cs) =
     (if c = CHR ''_'' then snake_to_pascal_from True cs
      else (if up then to_upper c else c) # snake_to_pascal_from False cs)"

text \<open>Names in PascalCase: ASCII letters, the first a capital.\<close>

fun pascal_case :: "string \<Rightarrow> bool" where
  "pascal_case [] = False"
| "pascal_case (c # cs) = (is_upper c \<and> (\<forall>d \<in> set cs. is_upper d \<or> is_lower d))"

lemma of_char_to_lower: "is_upper c \<Longrightarrow> (of_char (to_lower c) :: nat) = of_char c + 32"
  by (auto simp: to_lower_def is_upper_def)

lemma is_lower_to_lower: "is_upper c \<Longrightarrow> is_lower (to_lower c)"
  by (simp add: is_lower_def of_char_to_lower) (simp add: is_upper_def)

lemma to_upper_to_lower: "is_upper c \<Longrightarrow> to_upper (to_lower c) = c"
  by (simp add: to_upper_def is_lower_to_lower of_char_to_lower)

lemma upper_not_lower: "is_upper c \<Longrightarrow> \<not> is_lower c"
  by (simp add: is_upper_def is_lower_def)

lemma underscore_no_letter [simp]: "\<not> is_lower CHR ''_''" "\<not> is_upper CHR ''_''"
  by (simp_all add: is_lower_def is_upper_def)

lemma letter_not_underscore: "is_lower c \<Longrightarrow> c \<noteq> CHR ''_''"
  by (auto simp: is_lower_def)

lemma to_lower_id: "\<not> is_upper c \<Longrightarrow> to_lower c = c"
  by (simp add: to_lower_def)

lemma snake_to_pascal_from_Suc:
  "\<forall>d \<in> set s. is_upper d \<or> is_lower d \<Longrightarrow>
    snake_to_pascal_from False (pascal_to_snake_from (Suc i) s) = s"
  by (induction s arbitrary: i)
    (auto simp: to_upper_to_lower to_lower_id letter_not_underscore is_lower_to_lower
      dest: upper_not_lower)

lemma snake_to_pascal:
  "pascal_case s \<Longrightarrow> snake_to_pascal_from True (pascal_to_snake s) = s"
  by (cases s)
    (auto simp: pascal_to_snake_def to_upper_to_lower letter_not_underscore is_lower_to_lower
      snake_to_pascal_from_Suc)

subsection \<open>Properties\<close>

text \<open>
  C26. The metrics record the trace. After any trace of events from the initialisation on, every
  counter is the number of times its event occurred in the trace, the histograms hold the lags and
  the durations of the trace in order, the gauge is the last finalized height reported, cut to
  the largest \<open>i64\<close>, and the registry carries the labels it was initialised with.
\<close>

theorem metrics_count_trace:
  assumes "documented_prom P"
  shows "\<exists>m r. init P adapter signer None = Inr m \<and> metrics_after t m = Some r \<and>
     const_labels r = [(''adapter'', adapter), (''signer'', signer)] \<and>
     (\<forall>k. label_count (signer_signs_total r) k = count_list t (EMetric (SignerSign k))) \<and>
     (\<forall>k. label_count (commitment_validation_failures_total r) k =
        count_list t (EMetric (CommitmentFailure k))) \<and>
     (\<forall>k. label_count (adapter_retry_failures_total r) k =
        count_list t (EMetric (RetryFailure k))) \<and>
     height_validation_rejections_total r = count_list t (EMetric HeightRejection) \<and>
     (\<forall>m c. label_count (rpc_requests_total r) (m, c) = rpc_count m c t) \<and>
     attestation_height_lag_blocks r = rev (recorded lags_of t) \<and>
     (\<forall>m. observations (rpc_request_duration_seconds r) m = rev (recorded (durations_of m) t)) \<and>
     adapter_finalized_height r = last (0 # map gauge_value (recorded heights_of t))"
proof -
  let ?r0 = "fresh_registry adapter signer attestor_metrics"
  have m: "init P adapter signer None = Inr (Some ?r0)"
    by (simp add: init_def new_metrics_documented [OF assms])
  obtain r where "metrics_after t (Some ?r0) = Some r" "counts_trace ?r0 t r"
    using counts_metrics_after by blast
  then show ?thesis
    using m by (auto simp: counts_trace_def fresh_registry_def label_count_def observations_def)
qed

theorem metrics_count_trace_witness:
  "\<exists>m r. init sample_prom ''evm'' ''local'' None = Inr m \<and>
     metrics_after [EMetric (FinalizedHeight 7), EMetric (HeightLag 2), EMetric (FinalizedHeight 9)] m
       = Some r \<and>
     adapter_finalized_height r = 9 \<and> attestation_height_lag_blocks r = [2]"
proof -
  have "gauge_value 9 = 9" by (simp add: gauge_value_def i64_try_from_u64_def i64_max_def)
  then show ?thesis
    using metrics_count_trace [OF documented_prom_sample, of "''evm''" "''local''"
      "[EMetric (FinalizedHeight 7), EMetric (HeightLag 2), EMetric (FinalizedHeight 9)]"]
    by auto
qed

text \<open>
  C27. The start of the metrics does not fail. With what the \<open>prometheus\<close> crate documents, none of
  the \<open>expect\<close> calls of \<open>Metrics::new\<close> panics: all eight metrics are valid and have different names.
  Before \<open>init\<close> every event leaves the registry absent and its text empty, and after it another
  \<open>init\<close>, whatever its labels, changes nothing, at any later point of the trace.
\<close>

theorem metrics_start:
  assumes "documented_prom P"
  shows "(\<exists>r. new_metrics P a s = Inr r \<and> init P a s None = Inr (Some r) \<and>
      length (descriptors r) = 8 \<and> distinct (map md_name (descriptors r)) \<and>
      list_all valid_desc (descriptors r)) \<and>
    metrics_after t None = None \<and> encode_text encoder (metrics_after t None) = [] \<and>
    (\<forall>m'. init P a' s' m = Inr m' \<longrightarrow>
       init P a s (metrics_after t m') = Inr (metrics_after t m'))"
proof (intro conjI allI impI)
  obtain r where r: "new_metrics P a s = Inr r" "descriptors r = attestor_metrics"
    using new_metrics_documented [OF assms] by (metis descriptors_fresh)
  then show "\<exists>r. new_metrics P a s = Inr r \<and> init P a s None = Inr (Some r) \<and>
      length (descriptors r) = 8 \<and> distinct (map md_name (descriptors r)) \<and>
      list_all valid_desc (descriptors r)"
    using distinct_metrics by (auto simp: init_def attestor_metrics_def)
  fix m' assume "init P a' s' m = Inr m'"
  then obtain r' where "m' = Some r'"
    by (auto simp: init_def and_then_Inr_iff split: option.splits)
  moreover obtain r'' where "metrics_after t (Some r') = Some r''"
    using counts_metrics_after by blast
  ultimately show "init P a s (metrics_after t m') = Inr (metrics_after t m')"
    using r by (simp add: init_def)
qed (simp_all add: encode_text_def)

theorem metrics_start_witness:
  "\<exists>r. new_metrics sample_prom ''evm'' ''local'' = Inr r \<and> length (descriptors r) = 8"
  using metrics_start [OF documented_prom_sample, of "''evm''" "''local''"] by blast

lemma variant_name_pascal: "\<forall>c. pascal_case (variant_name c)"
  by code_simp

lemma variant_name_inj: "\<forall>a b. variant_name a = variant_name b \<longrightarrow> a = b"
  by code_simp

lemma code_label_eq_iff:
  "pascal_case (code_debug a) \<Longrightarrow> pascal_case (code_debug b) \<Longrightarrow>
    code_label code_debug a = code_label code_debug b \<longleftrightarrow> code_debug a = code_debug b"
  unfolding code_label_def using snake_to_pascal by metis

text \<open>With the names that \<open>tonic\<close> documents no two of the gRPC codes share a label.\<close>

lemma code_labels_differ: "code_label variant_name c = code_label variant_name d \<longleftrightarrow> c = d"
  using code_label_eq_iff [of variant_name, OF variant_name_pascal [rule_format] variant_name_pascal [rule_format]]
    variant_name_inj by blast

end
