(* ===== verification/Retry.thy ===== *)
theory Retry
  imports Metrics
begin

section \<open>Retries with backoff (\<open>adapter/retry.rs\<close>)\<close>

text \<open>
  \<open>with_retry_backoff\<close> hands a request to the retry driver of the \<open>tokio-retry\<close> crate, with a list
  of delays, a condition on the error and a closure that counts the attempts. The driver and the
  crate's delay sequence are parameters (\<open>retry_lib\<close>); the closure's captured counter is the state
  the driver passes from one call of the closure to the next. \<open>drives_retries\<close> and
  \<open>documented_backoff\<close> state what the crate documents of them. The specification \<open>retried\<close> says
  which attempts and pauses a retried request consists of, and every execution of
  \<open>with_retry_backoff\<close> is one of those.
\<close>

subsection \<open>The library and its contract\<close>

record retry_lib =
  retry_if :: "nat list \<Rightarrow> (u8 \<Rightarrow> ((adapter_error + reply) \<times> u8) io) \<Rightarrow> (adapter_error \<Rightarrow> bool) \<Rightarrow>
    u8 \<Rightarrow> ((adapter_error + reply) \<times> u8) io"
  exponential_backoff :: "u64 \<Rightarrow> u64 \<Rightarrow> nat \<Rightarrow> nat \<Rightarrow> nat"
    \<comment> \<open>base (ms), factor, greatest delay (ms), index of the delay\<close>

text \<open>
  \<open>RetryIf::spawn\<close>: run the action; after an error that meets the condition take the next delay,
  sleep and run it again; an error that does not, or no delay left, ends the attempts.
\<close>

definition drives_retries :: "retry_lib \<Rightarrow> bool" where
  "drives_retries R \<longleftrightarrow>
     (\<forall>action c s. retry_if R [] action c s = action s) \<and>
     (\<forall>d ds action c s. retry_if R (d # ds) action c s =
        bind (action s) (\<lambda>(r, s').
          case r of
            Inr x \<Rightarrow> Ret (Inr x, s')
          | Inl e \<Rightarrow> if c e then Sleep d (retry_if R ds action c s') else Ret (Inl e, s')))"

text \<open>\<open>ExponentialBackoff\<close>: delay \<open>n\<close> (from 0) is the factor times the base to the power \<open>n + 1\<close>.\<close>

definition documented_backoff :: "retry_lib \<Rightarrow> bool" where
  "documented_backoff R \<longleftrightarrow>
     (\<forall>base factor greatest n. greatest < 2 ^ 64 \<longrightarrow>
        exponential_backoff R base factor greatest n =
          min greatest (unat factor * unat base ^ Suc n))"

subsection \<open>The code\<close>

definition MAX_ATTEMPTS :: u8 where
  "MAX_ATTEMPTS = 3"

definition INITIAL_BACKOFF :: u64 where
  "INITIAL_BACKOFF = 200"

definition MAX_BACKOFF :: nat where \<comment> \<open>milliseconds\<close>
  "MAX_BACKOFF = 2000"

definition retry_strategy :: "retry_lib \<Rightarrow> nat list" where
  "retry_strategy R =
     map (exponential_backoff R INITIAL_BACKOFF 2 MAX_BACKOFF)
       [0 ..< unat (u8_saturating_sub MAX_ATTEMPTS 1)]"

fun is_retrieval_error :: "adapter_error \<Rightarrow> bool" where
  "is_retrieval_error (RetrievalError _) = True"
| "is_retrieval_error _ = False"

definition with_retry_backoff ::
  "retry_lib \<Rightarrow> string \<Rightarrow> (adapter_error + reply) io \<Rightarrow> (adapter_error + reply) io" where
  "with_retry_backoff R operation request =
     bind (retry_if R (retry_strategy R)
            (\<lambda>attempts. fmap (\<lambda>r. (r, attempts + 1)) request) is_retrieval_error 0)
       (\<lambda>(result, final_attempts).
          case result of
            Inr x \<Rightarrow> Ret (Inr x)
          | Inl e \<Rightarrow>
              if MAX_ATTEMPTS \<le> final_attempts
              then Emit (RetryFailure operation) (Ret (Inl e))
              else Ret (Inl e))"

lemma length_retry_strategy [simp]: "length (retry_strategy R) = 2"
  by (simp add: retry_strategy_def u8_saturating_sub_def MAX_ATTEMPTS_def)

lemma retry_strategy_documented:
  "documented_backoff R \<Longrightarrow> retry_strategy R = [400, 2000]"
  by (simp add: retry_strategy_def u8_saturating_sub_def MAX_ATTEMPTS_def INITIAL_BACKOFF_def
      MAX_BACKOFF_def documented_backoff_def upt_rec)

subsection \<open>Specification\<close>

text \<open>
  \<open>retried ds m t r k\<close>: request \<open>m\<close> was attempted \<open>k\<close> times with the pauses \<open>ds\<close> available; every
  attempt but the last ended in a retrieval error and was followed by the next pause; \<open>r\<close> is the
  result of the last, which was not to be retried or had no pause left.
\<close>

inductive retried ::
  "nat list \<Rightarrow> (adapter_error + 'a) io \<Rightarrow> event list \<Rightarrow> adapter_error + 'a \<Rightarrow> nat \<Rightarrow> bool" where
  last_attempt:
    "exec m t r \<Longrightarrow> (\<And>e. r = Inl e \<Longrightarrow> is_retrieval_error e \<Longrightarrow> ds = []) \<Longrightarrow> retried ds m t r (Suc 0)"
| next_attempt:
    "exec m t (Inl e) \<Longrightarrow> is_retrieval_error e \<Longrightarrow> retried ds m t' r k \<Longrightarrow>
       retried (d # ds) m (t @ ESleep d # t') r (Suc k)"

lemma retried_bounds: "retried ds m t r k \<Longrightarrow> 1 \<le> k \<and> k \<le> Suc (length ds)"
  by (induction rule: retried.induct) auto

lemma retried_last: "retried ds m t r k \<Longrightarrow> \<exists>t'. exec m t' r \<and> set t' \<subseteq> set t"
  by (induction rule: retried.induct) auto

lemma retried_exhausted:
  "retried ds m t r k \<Longrightarrow> r = Inl e \<Longrightarrow> is_retrieval_error e \<Longrightarrow> k = Suc (length ds)"
  by (induction rule: retried.induct) auto

lemma retried_event:
  "retried ds m t r k \<Longrightarrow> e \<in> set t \<Longrightarrow>
    (\<exists>d. e = ESleep d) \<or> (\<exists>t' r'. exec m t' r' \<and> e \<in> set t')"
  by (induction rule: retried.induct) auto

lemma retried_first: "exec m t (Inr x) \<Longrightarrow> retried ds m t (Inr x) (Suc 0)"
  by (rule last_attempt) auto

subsection \<open>The code meets the specification\<close>

abbreviation counted :: "'a io \<Rightarrow> u8 \<Rightarrow> ('a \<times> u8) io" where
  "counted m \<equiv> \<lambda>attempts. fmap (\<lambda>r. (r, attempts + 1)) m"

lemma exec_retry_if:
  assumes "drives_retries R"
  shows "exec (retry_if R ds (counted m) is_retrieval_error n) t (r, n') \<Longrightarrow>
    \<exists>k. retried ds m t r k \<and> n' = n + of_nat k"
proof (induction ds arbitrary: n t)
  case Nil
  with assms have "exec m t r" "n' = n + 1"
    by (auto simp: drives_retries_def exec_fmap)
  then show ?case by (auto intro!: exI [of _ "Suc 0"] last_attempt)
next
  case (Cons d ds)
  with assms obtain t1 t2 x where *: "t = t1 @ t2" "exec m t1 x"
    "exec (case x of Inr y \<Rightarrow> Ret (Inr y, n + 1)
           | Inl e \<Rightarrow> if is_retrieval_error e
               then Sleep d (retry_if R ds (counted m) is_retrieval_error (n + 1))
               else Ret (Inl e, n + 1)) t2 (r, n')"
    by (auto simp: drives_retries_def exec_bind exec_fmap)
  show ?case
  proof (cases "\<exists>e. x = Inl e \<and> is_retrieval_error e")
    case True
    then obtain e where e: "x = Inl e" "is_retrieval_error e" by blast
    with * obtain t3 where t3: "t2 = ESleep d # t3"
        "exec (retry_if R ds (counted m) is_retrieval_error (n + 1)) t3 (r, n')"
      by auto
    from Cons.IH [OF t3(2)] obtain k where "retried ds m t3 r k" "n' = n + 1 + of_nat k" by blast
    with * e t3(1) show ?thesis
      by (intro exI [of _ "Suc k"]) (auto intro: next_attempt)
  next
    case False
    with * have "t2 = []" "r = x" "n' = n + 1"
      by (auto split: sum.splits if_splits)
    with * False show ?thesis
      by (intro exI [of _ "Suc 0"]) (auto intro: last_attempt)
  qed
qed

lemma exec_with_retry_backoff:
  assumes "drives_retries R" and "exec (with_retry_backoff R operation m) t r"
  shows "\<exists>k t'. retried (retry_strategy R) m t' r k \<and>
    t = t' @ (if k = 3 \<and> \<not> is_ok r then [EMetric (RetryFailure operation)] else [])"
proof -
  from assms(2) obtain t1 t2 x n where *: "t = t1 @ t2"
    "exec (retry_if R (retry_strategy R) (counted m) is_retrieval_error 0) t1 (x, n)"
    "exec (case x of Inr y \<Rightarrow> Ret (Inr y)
           | Inl e \<Rightarrow> if MAX_ATTEMPTS \<le> n then Emit (RetryFailure operation) (Ret (Inl e))
                      else Ret (Inl e)) t2 r"
    by (auto simp: with_retry_backoff_def exec_bind)
  from exec_retry_if [OF assms(1) *(2)] obtain k
    where k: "retried (retry_strategy R) m t1 x k" "n = of_nat k" by auto
  from retried_bounds [OF k(1)] have "k = 1 \<or> k = 2 \<or> k = 3" by auto
  with k(2) have "MAX_ATTEMPTS \<le> n \<longleftrightarrow> k = 3"
    by (auto simp: MAX_ATTEMPTS_def word_le_nat_alt)
  with *(1,3) k(1) show ?thesis
    by (intro exI [of _ k] exI [of _ t1]) (auto split: sum.splits)
qed

subsection \<open>Retried RPC calls\<close>

text \<open>
  One attempt of an RPC call, a failure of which is a retrieval error; \<open>f\<close> makes the error's text
  from the client's.
\<close>

definition rpc_attempt_with :: "(string \<Rightarrow> string) \<Rightarrow> rpc_call \<Rightarrow> (adapter_error + reply) io" where
  "rpc_attempt_with f q = Rpc q (\<lambda>a. Ret (map_err (\<lambda>err. RetrievalError (f err)) a))"

abbreviation rpc_attempt :: "rpc_call \<Rightarrow> (adapter_error + reply) io" where
  "rpc_attempt \<equiv> rpc_attempt_with (\<lambda>err. err)"

lemma exec_rpc_attempt:
  "exec (rpc_attempt_with f q) t r \<longleftrightarrow>
     (\<exists>a. t = [ERpc q a] \<and> reply_ok a \<and> r = map_err (\<lambda>err. RetrievalError (f err)) a)"
  by (auto simp: rpc_attempt_with_def)

text \<open>
  The result of a retried call is that of its last attempt; all there is before that attempt are
  attempts of the same call that failed, and pauses.
\<close>

fun failed_attempt :: "rpc_call \<Rightarrow> event \<Rightarrow> bool" where
  "failed_attempt q (ERpc q' (Inl s)) = (q' = q)"
| "failed_attempt q (ESleep _) = True"
| "failed_attempt q _ = False"

lemma retried_rpc_last:
  "retried ds m t r k \<Longrightarrow> m = rpc_attempt_with f q \<Longrightarrow>
     \<exists>t0 a. t = t0 @ [ERpc q a] \<and> reply_ok a \<and> r = map_err (\<lambda>s. RetrievalError (f s)) a \<and>
       list_all (failed_attempt q) t0"
proof (induction rule: retried.induct)
  case (last_attempt m t r ds)
  then show ?case by (auto simp: exec_rpc_attempt)
next
  case (next_attempt m t e ds t' r k d)
  from next_attempt.hyps(1) next_attempt.prems obtain s where "t = [ERpc q (Inl s)]"
    by (auto simp: exec_rpc_attempt result_simps)
  moreover obtain t0 a where "t' = t0 @ [ERpc q a]" "reply_ok a"
    "r = map_err (\<lambda>s. RetrievalError (f s)) a" "list_all (failed_attempt q) t0"
    using next_attempt.IH next_attempt.prems by blast
  ultimately show ?case
    by (intro exI [of _ "t @ ESleep d # t0"] exI [of _ a]) simp
qed

lemma exec_retried_last:
  assumes "drives_retries R"
    and "exec (with_retry_backoff R operation (rpc_attempt_with f q)) t r"
  shows "\<exists>t0 a t1. t = t0 @ ERpc q a # t1 \<and> reply_ok a \<and>
    r = map_err (\<lambda>s. RetrievalError (f s)) a \<and> list_all (failed_attempt q) t0 \<and>
    set t1 \<subseteq> {EMetric (RetryFailure operation)}"
proof -
  from exec_with_retry_backoff [OF assms] obtain k t' where
    *: "retried (retry_strategy R) (rpc_attempt_with f q) t' r k"
       "t = t' @ (if k = 3 \<and> \<not> is_ok r then [EMetric (RetryFailure operation)] else [])"
    by blast
  from retried_rpc_last [OF *(1) refl] obtain t0 a where last:
    "t' = t0 @ [ERpc q a]" "reply_ok a" "r = map_err (\<lambda>s. RetrievalError (f s)) a"
    "list_all (failed_attempt q) t0" by blast
  define t1 where "t1 = (if k = 3 \<and> \<not> is_ok r then [EMetric (RetryFailure operation)] else [])"
  have "t = t0 @ ERpc q a # t1" "set t1 \<subseteq> {EMetric (RetryFailure operation)}"
    using *(2) last(1) by (auto simp: t1_def)
  with last show ?thesis by blast
qed

lemma retried_rpc_Inr:
  assumes "drives_retries R"
    and "exec (with_retry_backoff R operation (rpc_attempt_with f q)) t (Inr x)"
  shows "ERpc q (Inr x) \<in> set t \<and> length (re_bytes32 x) = 32"
proof -
  from exec_with_retry_backoff [OF assms] obtain k
    where "retried (retry_strategy R) (rpc_attempt_with f q) t (Inr x) k" by auto
  from retried_last [OF this] show ?thesis by (auto simp: exec_rpc_attempt)
qed

lemma retried_rpc_Inl:
  assumes "drives_retries R"
    and "exec (with_retry_backoff R operation (rpc_attempt_with f q)) t (Inl e)"
  shows "\<exists>s. e = RetrievalError (f s) \<and> ERpc q (Inl s) \<in> set t"
proof -
  from exec_with_retry_backoff [OF assms] obtain k t'
    where "retried (retry_strategy R) (rpc_attempt_with f q) t' (Inl e) k" "set t' \<subseteq> set t"
    by force
  from retried_last [OF this(1)] this(2) show ?thesis
    by (auto simp: exec_rpc_attempt result_simps)
qed

text \<open>An event of a retried call is an attempt of that call, a pause, or the failure metric.\<close>

fun retry_event :: "string \<Rightarrow> rpc_call \<Rightarrow> event \<Rightarrow> bool" where
  "retry_event operation q (ERpc q' _) = (q' = q)"
| "retry_event operation q (ESleep _) = True"
| "retry_event operation q (EMetric x) = (x = RetryFailure operation)"
| "retry_event operation q _ = False"

lemma retried_rpc_events:
  assumes "drives_retries R"
    and "exec (with_retry_backoff R operation (rpc_attempt_with f q)) t r"
  shows "\<forall>e \<in> set t. retry_event operation q e"
proof -
  from exec_with_retry_backoff [OF assms] obtain k t'
    where *: "retried (retry_strategy R) (rpc_attempt_with f q) t' r k"
      "set t \<subseteq> set t' \<union> {EMetric (RetryFailure operation)}" by force
  have "retry_event operation q e" if "e \<in> set t'" for e
    using retried_event [OF *(1) that] by (auto simp: exec_rpc_attempt)
  with *(2) show ?thesis by auto
qed

text \<open>A call answered at the first attempt is that attempt and nothing else.\<close>

lemma retry_if_first:
  assumes "drives_retries R" and "exec (action s) t (Inr x, s')"
  shows "exec (retry_if R ds action c s) t (Inr x, s')"
proof (cases ds)
  case Nil
  with assms show ?thesis by (simp add: drives_retries_def)
next
  case (Cons d ds')
  let ?f = "\<lambda>(r, s'). case r of Inr x \<Rightarrow> Ret (Inr x, s')
    | Inl e \<Rightarrow> if c e then Sleep d (retry_if R ds' action c s') else Ret (Inl e, s')"
  have "exec (bind (action s) ?f) (t @ []) (Inr x, s')"
    by (rule exec_bindI [OF assms(2)]) simp
  moreover have "retry_if R ds action c s = bind (action s) ?f"
    using assms(1) unfolding drives_retries_def Cons by blast
  ultimately show ?thesis by simp
qed

lemma exec_first_attempt:
  assumes "drives_retries R" and "exec m t (Inr x)"
  shows "exec (with_retry_backoff R operation m) t (Inr x)"
proof -
  have "exec (fmap (\<lambda>r. (r, 0 + 1)) m) t (Inr x, 1 :: u8)"
    using assms(2) by (auto simp: exec_fmap)
  then have "exec (retry_if R (retry_strategy R) (counted m) is_retrieval_error 0) t (Inr x, 1)"
    by (rule retry_if_first [OF assms(1)])
  then have "exec (with_retry_backoff R operation m) (t @ []) (Inr x)"
    unfolding with_retry_backoff_def by (rule exec_bindI) simp
  then show ?thesis by simp
qed

subsection \<open>A driver that meets the contract\<close>

fun retry_loop ::
  "nat list \<Rightarrow> (u8 \<Rightarrow> ((adapter_error + reply) \<times> u8) io) \<Rightarrow> (adapter_error \<Rightarrow> bool) \<Rightarrow>
    u8 \<Rightarrow> ((adapter_error + reply) \<times> u8) io" where
  "retry_loop [] action c s = action s"
| "retry_loop (d # ds) action c s =
     bind (action s) (\<lambda>(r, s').
       case r of
         Inr x \<Rightarrow> Ret (Inr x, s')
       | Inl e \<Rightarrow> if c e then Sleep d (retry_loop ds action c s') else Ret (Inl e, s'))"

definition sample_retry :: retry_lib where
  "sample_retry =
     \<lparr>retry_if = retry_loop,
      exponential_backoff = (\<lambda>base factor greatest n.
        min greatest (unat factor * unat base ^ Suc n))\<rparr>"

lemma retry_if_sample [simp]: "retry_if sample_retry = retry_loop"
  by (simp add: sample_retry_def)

lemma drives_retries_sample [simp]: "drives_retries sample_retry"
  unfolding drives_retries_def retry_if_sample by simp

lemma documented_backoff_sample [simp]: "documented_backoff sample_retry"
  by (simp add: documented_backoff_def sample_retry_def)

text \<open>The same driver with pauses of a millisecond, for evaluation.\<close>

definition quick_retry :: retry_lib where
  "quick_retry = \<lparr>retry_if = retry_loop, exponential_backoff = (\<lambda>base factor greatest n. 1)\<rparr>"

lemma retry_if_quick [simp]: "retry_if quick_retry = retry_loop"
  by (simp add: quick_retry_def)

lemma drives_retries_quick [simp]: "drives_retries quick_retry"
  unfolding drives_retries_def retry_if_quick by simp

subsection \<open>Properties\<close>

text \<open>
  C16. Retrying refines its specification. Every execution of \<open>with_retry_backoff\<close> is one to three
  attempts of the request, each but the last a retrieval error followed by the next pause; another
  error ends it at once, and a retrieval error is only returned after the third attempt. The failure
  metric is recorded once, at the end, exactly when the third attempt failed.
\<close>

theorem retry_refines:
  assumes "drives_retries R" and "exec (with_retry_backoff R operation m) t r"
  shows "\<exists>k t'. retried (retry_strategy R) m t' r k \<and> 1 \<le> k \<and> k \<le> 3 \<and>
    (\<forall>e. r = Inl e \<and> is_retrieval_error e \<longrightarrow> k = 3) \<and>
    t = t' @ (if k = 3 \<and> \<not> is_ok r then [EMetric (RetryFailure operation)] else [])"
proof -
  from exec_with_retry_backoff [OF assms] obtain k t' where
    "retried (retry_strategy R) m t' r k"
    "t = t' @ (if k = 3 \<and> \<not> is_ok r then [EMetric (RetryFailure operation)] else [])" by blast
  moreover have "k = 3" if "r = Inl e \<and> is_retrieval_error e" for e
    using retried_exhausted [OF calculation(1)] that by auto
  ultimately show ?thesis
    using retried_bounds [of "retry_strategy R" m t' r k]
    by (intro exI [of _ k] exI [of _ t']) auto
qed

theorem retry_refines_witness:
  "\<exists>k t'. retried (retry_strategy quick_retry) (rpc_attempt SolanaGetSlot) t' (Inr no_reply) k \<and> k \<le> 3"
proof -
  let ?m = "with_retry_backoff quick_retry ''slot'' (rpc_attempt SolanaGetSlot)"
  have "sample_result ?m = Inr no_reply" by code_simp
  with sample_exec [of ?m] have "exec ?m (sample_events ?m) (Inr no_reply)" by simp
  from retry_refines [OF drives_retries_quick this] show ?thesis by blast
qed

text \<open>
  C17. The pauses between attempts, with the delay sequence \<open>tokio-retry\<close> documents: 400
  milliseconds, then 2 seconds. The base of the exponential is the 200 milliseconds of
  \<open>INITIAL_BACKOFF\<close>, so the second delay is cut to \<open>MAX_BACKOFF\<close>.
\<close>

theorem retry_delays:
  assumes "documented_backoff R"
  shows "retry_strategy R = [400, 2000]"
  by (rule retry_strategy_documented [OF assms])

theorem retry_delays_witness: "retry_strategy sample_retry = [400, 2000]"
  by (rule retry_delays [OF documented_backoff_sample])

end
