(* ===== verification/Adapter.thy ===== *)
theory Adapter
  imports Retry
begin

section \<open>The adapter interface (\<open>adapter/mod.rs\<close>)\<close>

text \<open>
  The trait \<open>AttestationAdapter\<close> is a record of its three operations. The locale
  \<open>attestation_adapter\<close> is what the attestation service relies on: a commitment is 32 bytes, and
  an adapter only talks to its chain (it never contacts a signer). The adapters' own theories
  interpret it.
\<close>

subsection \<open>Types\<close>

text \<open>The enum of the \<open>ibc_attestor.proto\<close> API, and the conversion of its wire value.\<close>

datatype commitment_type = Packet | Ack | Receipt

definition commitment_type_try_from :: "i32 \<Rightarrow> i32 + commitment_type" where
  "commitment_type_try_from n =
     (if n = 0 then Inr Packet
      else if n = 1 then Inr Ack
      else if n = 2 then Inr Receipt
      else Inl n)"

record adapter =
  get_last_height_at_configured_finality :: "(adapter_error + u64) io"
  get_block_timestamp :: "u64 \<Rightarrow> (adapter_error + u64) io"
  get_commitment :: "string \<Rightarrow> u64 \<Rightarrow> u64 \<Rightarrow> bytes \<Rightarrow> commitment_type \<Rightarrow>
    (adapter_error + bytes option) io"
    \<comment> \<open>client id, height, sequence, commitment path, commitment type\<close>

text \<open>\<open><[u8; 32]>::try_from\<close> on a slice or vector.\<close>

definition array32 :: "bytes \<Rightarrow> bytes option" where
  "array32 bs = (if length bs = 32 then Some bs else None)"

lemma array32_Some_iff [simp]: "array32 bs = Some cs \<longleftrightarrow> cs = bs \<and> length bs = 32"
  by (auto simp: array32_def)

lemma array32_None_iff [simp]: "array32 bs = None \<longleftrightarrow> length bs \<noteq> 32"
  by (simp add: array32_def)

subsection \<open>Foreign code of the adapters\<close>

record chain_lib =
  cl_retry :: retry_lib
  cl_hash :: hash_lib
  tm_height :: "u64 \<Rightarrow> u64 option" \<comment> \<open>\<open>tendermint::block::Height::try_from\<close>\<close>
  packet_commitment_pda :: "string \<Rightarrow> u64 \<Rightarrow> bytes \<Rightarrow> bytes" \<comment> \<open>\<open>solana_ibc_types\<close>\<close>
  packet_ack_pda :: "string \<Rightarrow> u64 \<Rightarrow> bytes \<Rightarrow> bytes"
  packet_receipt_pda :: "string \<Rightarrow> u64 \<Rightarrow> bytes \<Rightarrow> bytes"

abbreviation retries_ok :: "chain_lib \<Rightarrow> bool" where
  "retries_ok C \<equiv> drives_retries (cl_retry C)"

text \<open>A chain RPC call of an adapter.\<close>

abbreviation call_with ::
  "(string \<Rightarrow> string) \<Rightarrow> chain_lib \<Rightarrow> string \<Rightarrow> rpc_call \<Rightarrow> (adapter_error + reply) io" where
  "call_with f C operation q \<equiv> with_retry_backoff (cl_retry C) operation (rpc_attempt_with f q)"

abbreviation call :: "chain_lib \<Rightarrow> string \<Rightarrow> rpc_call \<Rightarrow> (adapter_error + reply) io" where
  "call \<equiv> call_with (\<lambda>err. err)"

text \<open>
  Every operation of the adapters is one such call and a function of the reply. Its executions:
  the reply of the last attempt decides the result, or the last attempt failed.
\<close>

lemma exec_call_ret:
  assumes "retries_ok C"
    and "exec (bind_ok (call_with f C operation q) (\<lambda>x. Ret (g x))) t r"
  shows "(\<exists>x. ERpc q (Inr x) \<in> set t \<and> length (re_bytes32 x) = 32 \<and> r = g x) \<or>
         (\<exists>s. ERpc q (Inl s) \<in> set t \<and> r = Inl (RetrievalError (f s)))"
proof -
  from assms(2) obtain x where *: "exec (call_with f C operation q) t x"
      "r = case_sum Inl g x"
    by (auto simp: exec_bind_ok_Ret)
  show ?thesis
  proof (cases x)
    case (Inl e)
    from retried_rpc_Inl [OF assms(1) *(1) [unfolded Inl]] *(2) Inl show ?thesis by auto
  next
    case (Inr y)
    from retried_rpc_Inr [OF assms(1) *(1) [unfolded Inr]] *(2) Inr show ?thesis by auto
  qed
qed

lemma exec_call_ret_last:
  assumes "retries_ok C"
    and "exec (bind_ok (call_with f C operation q) (\<lambda>x. Ret (g x))) t r"
  shows "\<exists>t0 a t1. t = t0 @ ERpc q a # t1 \<and> reply_ok a \<and>
    r = (case a of Inl s \<Rightarrow> Inl (RetrievalError (f s)) | Inr x \<Rightarrow> g x) \<and>
    list_all (failed_attempt q) t0 \<and> set t1 \<subseteq> {EMetric (RetryFailure operation)}"
proof -
  from assms(2) obtain x where *: "exec (call_with f C operation q) t x" "r = case_sum Inl g x"
    by (auto simp: exec_bind_ok_Ret)
  from exec_retried_last [OF assms(1) *(1)] obtain t0 a t1 where
    "t = t0 @ ERpc q a # t1" "reply_ok a" "x = map_err (\<lambda>s. RetrievalError (f s)) a"
    "list_all (failed_attempt q) t0" "set t1 \<subseteq> {EMetric (RetryFailure operation)}" by blast
  moreover have "r = (case a of Inl s \<Rightarrow> Inl (RetrievalError (f s)) | Inr x \<Rightarrow> g x)"
    using *(2) calculation(3) by (cases a) simp_all
  ultimately show ?thesis by blast
qed

lemma exec_call_retI:
  assumes "retries_ok C" and "length (re_bytes32 x) = 32"
  shows "exec (bind_ok (call_with f C operation q) (\<lambda>x. Ret (g x))) [ERpc q (Inr x)] (g x)"
proof -
  have "exec (rpc_attempt_with f q) [ERpc q (Inr x)] (Inr x)"
    using assms(2) by (auto simp: exec_rpc_attempt intro: exI [of _ "Inr x"])
  from exec_first_attempt [OF assms(1) this] show ?thesis
    by (auto simp: exec_bind_ok_Ret intro: exI [of _ "Inr x"])
qed

text \<open>The text of the standard library's \<open>TryFromIntError\<close>.\<close>

definition out_of_range_text :: string where
  "out_of_range_text = ''out of range integral type conversion attempted''"

subsection \<open>The contract\<close>

text \<open>The events an adapter may cause.\<close>

fun adapter_event :: "event \<Rightarrow> bool" where
  "adapter_event (ERpc _ _) = True"
| "adapter_event (ESleep _) = True"
| "adapter_event (EMetric (RetryFailure _)) = True"
| "adapter_event (EMetric (FinalizedHeight _)) = True"
| "adapter_event _ = False"

abbreviation only_adapter_events :: "'r io \<Rightarrow> bool" where
  "only_adapter_events \<equiv> only_events adapter_event"

lemma retry_event_adapter_event: "retry_event operation q e \<Longrightarrow> adapter_event e"
  by (cases e) auto

lemma only_adapter_events_call [event_rules]:
  "retries_ok C \<Longrightarrow> only_adapter_events (call_with f C operation q)"
  unfolding only_events_def
  using retried_rpc_events retry_event_adapter_event by blast

locale attestation_adapter =
  fixes adapter_of :: "'c \<Rightarrow> adapter" and valid :: "'c \<Rightarrow> bool"
  assumes commitment_length:
      "valid c \<Longrightarrow> exec (get_commitment (adapter_of c) client height sequence path ct) t (Inr (Some cm))
        \<Longrightarrow> length cm = 32"
    and height_events:
      "valid c \<Longrightarrow> only_adapter_events (get_last_height_at_configured_finality (adapter_of c))"
    and timestamp_events:
      "valid c \<Longrightarrow> only_adapter_events (get_block_timestamp (adapter_of c) height)"
    and commitment_events:
      "valid c \<Longrightarrow> only_adapter_events
         (get_commitment (adapter_of c) client height sequence path ct)"

subsection \<open>Concrete foreign functions\<close>

definition sample_chain :: chain_lib where
  "sample_chain =
     \<lparr>cl_retry = quick_retry,
      cl_hash = sample_hash,
      tm_height = (\<lambda>h. if h < 2 ^ 63 then Some h else None),
      packet_commitment_pda = (\<lambda>client n key. 1 # ucast n # key),
      packet_ack_pda = (\<lambda>client n key. 2 # ucast n # key),
      packet_receipt_pda = (\<lambda>client n key. 3 # ucast n # key)\<rparr>"

lemma cl_retry_sample [simp]: "cl_retry sample_chain = quick_retry"
  by (simp add: sample_chain_def)

lemma retries_ok_sample [simp]: "retries_ok sample_chain"
  by simp

end
