(* ===== verification/Payload.thy ===== *)
theory Payload
  imports Prelude
begin

section \<open>Attestation payloads (\<open>attestation_payload.rs\<close>)\<close>

text \<open>
  Attestation data bound to its type. What a signer is given is the type's byte followed by the
  SHA-256 digest of the data.
\<close>

datatype attestation_type = StateAttestation | PacketAttestation

fun as_byte :: "attestation_type \<Rightarrow> u8" where
  "as_byte StateAttestation = 0x01"
| "as_byte PacketAttestation = 0x02"

record attestation_payload =
  attestation_type :: attestation_type
  data :: bytes

definition new_payload :: "bytes \<Rightarrow> attestation_type \<Rightarrow> attestation_payload" where
  "new_payload d ty = \<lparr>attestation_type = ty, data = d\<rparr>"

definition tagged_signing_input :: "hash_lib \<Rightarrow> attestation_payload \<Rightarrow> bytes" where
  "tagged_signing_input H payload =
     (let inner_hash = sha256 H (data payload)
      in [as_byte (attestation_type payload)] @ inner_hash)"

definition into_data :: "attestation_payload \<Rightarrow> bytes" where
  "into_data payload = data payload"

lemma as_byte_inject [simp]: "as_byte a = as_byte b \<longleftrightarrow> a = b"
  by (cases a; cases b) auto

lemma into_data_new [simp]: "into_data (new_payload d ty) = d"
  by (simp add: into_data_def new_payload_def)

lemma tagged_signing_input_new:
  "tagged_signing_input H (new_payload d ty) = as_byte ty # sha256 H d"
  by (simp add: tagged_signing_input_def new_payload_def)

lemma tagged_signing_input_eq_iff:
  "tagged_signing_input H p = tagged_signing_input H q \<longleftrightarrow>
     attestation_type p = attestation_type q \<and> sha256 H (data p) = sha256 H (data q)"
  by (simp add: tagged_signing_input_def)

lemma length_tagged_signing_input:
  "sha256_32_bytes H \<Longrightarrow> length (tagged_signing_input H p) = 33"
  by (simp add: tagged_signing_input_def sha256_32_bytes_def)

end
