(* ===== verification/Keys.thy ===== *)
theory Keys
  imports Prelude
begin

section \<open>Key handling (\<open>libs/ethereum/keys\<close>)\<close>

text \<open>
  Signing and recovering over the SHA-256 digest of a message. ECDSA signatures, their 65-byte
  form and the recovery of an address are the \<open>alloy\<close> crates' and parameters, polymorphic in the
  types of keys and signatures. \<open>honest_signatures\<close> is what the crates document: the byte form is 65
  bytes long and parses back, and the address recovered from a signature over a digest is the
  signer's.
\<close>

record ('key, 'sig) key_lib =
  sign_hash_sync :: "'key \<Rightarrow> bytes \<Rightarrow> string + 'sig"
  sig_as_bytes :: "'sig \<Rightarrow> bytes"
  sig_try_from :: "bytes \<Rightarrow> string + 'sig"
  recover_from_prehash :: "'sig \<Rightarrow> bytes \<Rightarrow> string + bytes"
  key_address :: "'key \<Rightarrow> bytes"

definition honest_signatures :: "('key, 'sig) key_lib \<Rightarrow> bool" where
  "honest_signatures K \<longleftrightarrow>
     (\<forall>sig. length (sig_as_bytes K sig) = 65) \<and>
     (\<forall>sig. sig_try_from K (sig_as_bytes K sig) = Inr sig) \<and>
     (\<forall>key digest sig. sign_hash_sync K key digest = Inr sig \<longrightarrow>
        recover_from_prehash K sig digest = Inr (key_address K key))"

text \<open>\<open>signature.rs\<close>\<close>

definition keys_sign :: "hash_lib \<Rightarrow> ('key, 'sig) key_lib \<Rightarrow> 'key \<Rightarrow> bytes \<Rightarrow> string + 'sig" where
  "keys_sign H K signer message =
     (let digest = sha256 H message
      in sign_hash_sync K signer digest)"

text \<open>\<open>recover.rs\<close>\<close>

definition recover_address_from_prehash ::
  "('key, 'sig) key_lib \<Rightarrow> bytes \<Rightarrow> bytes \<Rightarrow> string + bytes" where
  "recover_address_from_prehash K prehash signature_65 =
     and_then (map_err (\<lambda>_. ''invalid signature length/format'') (sig_try_from K signature_65))
       (\<lambda>sig. map_err (\<lambda>_. ''signature recovery failed'') (recover_from_prehash K sig prehash))"

definition recover_address ::
  "hash_lib \<Rightarrow> ('key, 'sig) key_lib \<Rightarrow> bytes \<Rightarrow> bytes \<Rightarrow> string + bytes" where
  "recover_address H K message signature_65 =
     (let prehash = sha256 H message
      in recover_address_from_prehash K prehash signature_65)"

text \<open>The check of the signature tests.\<close>

definition verify_signature ::
  "hash_lib \<Rightarrow> ('key, 'sig) key_lib \<Rightarrow> bytes \<Rightarrow> bytes \<Rightarrow> bytes \<Rightarrow> bool" where
  "verify_signature H K expected message signature_65 =
     (case recover_address H K message signature_65 of
        Inl _ \<Rightarrow> False
      | Inr addr \<Rightarrow> addr = expected)"

lemma recover_keys_sign:
  "honest_signatures K \<Longrightarrow> keys_sign H K key message = Inr sig \<Longrightarrow>
     recover_address H K message (sig_as_bytes K sig) = Inr (key_address K key)"
  by (simp add: honest_signatures_def keys_sign_def recover_address_def
      recover_address_from_prehash_def)

lemma verify_keys_sign:
  "honest_signatures K \<Longrightarrow> keys_sign H K key message = Inr sig \<Longrightarrow>
     verify_signature H K (key_address K key) message (sig_as_bytes K sig)"
  by (simp add: verify_signature_def recover_keys_sign)

lemma recover_address_malformed:
  "sig_try_from K bs = Inl e \<Longrightarrow>
     recover_address H K message bs = Inl ''invalid signature length/format''"
  by (simp add: recover_address_def recover_address_from_prehash_def)

text \<open>Recovery sees a message only through its digest.\<close>

lemma recover_address_digest:
  "sha256 H m = sha256 H m' \<Longrightarrow> recover_address H K m bs = recover_address H K m' bs"
  by (simp add: recover_address_def)

subsection \<open>A library that meets the contract\<close>

text \<open>A key is a byte; a signature is the key and the second byte of the digest.\<close>

definition sample_keys :: "(u8, u8 \<times> u8) key_lib" where
  "sample_keys =
     \<lparr>sign_hash_sync = (\<lambda>key digest. Inr (key, digest ! 1)),
      sig_as_bytes = (\<lambda>(key, b). key # b # replicate 63 0),
      sig_try_from = (\<lambda>bs. if length bs = 65 then Inr (bs ! 0, bs ! 1) else Inl ''length''),
      recover_from_prehash = (\<lambda>(key, b) digest.
        if digest ! 1 = b then Inr (replicate 20 key) else Inl ''recovery''),
      key_address = replicate 20\<rparr>"

lemma honest_signatures_sample: "honest_signatures sample_keys"
  by (auto simp: honest_signatures_def sample_keys_def)

end
