(* ===== verification/Signer.thy ===== *)
theory Signer
  imports Effects Errors Keys
begin

section \<open>Signers (\<open>signer/\<close>)\<close>

text \<open>
  A signer is the operation \<open>sign\<close> of the trait \<open>Signer\<close>: a program from a message to a signature.
  The local signer signs the digest with its key. The remote signer opens a connection for every
  request, reads its token file when one is configured, fetches the wallet, asks it to sign the
  message and checks the 65-byte answer. The locale \<open>signer\<close> is the interface the attestation
  service is written against.
\<close>

subsection \<open>The contract\<close>

text \<open>The events a signer may cause.\<close>

fun signer_event :: "event \<Rightarrow> bool" where
  "signer_event (EConnect _ _ _) = True"
| "signer_event (EReadFile _ _) = True"
| "signer_event (EGetWallet _ _ _) = True"
| "signer_event (ESign _ _ _) = True"
| "signer_event (EMetric (SignerSign _)) = True"
| "signer_event _ = False"

abbreviation only_signer_events :: "'r io \<Rightarrow> bool" where
  "only_signer_events \<equiv> only_events signer_event"

locale signer =
  fixes sign_of :: "'c \<Rightarrow> bytes \<Rightarrow> (signer_error + 'sig) io"
  assumes signer_events: "only_signer_events (sign_of c message)"

subsection \<open>The local signer\<close>

record 'key local_signer =
  inner :: 'key

definition new_local_signer :: "'key \<Rightarrow> 'key local_signer" where
  "new_local_signer key = \<lparr>inner = key\<rparr>"

definition local_sign ::
  "hash_lib \<Rightarrow> ('key, 'sig) key_lib \<Rightarrow> 'key local_signer \<Rightarrow> bytes \<Rightarrow> (signer_error + 'sig) io" where
  "local_sign H K self message = Ret (map_err LocalError (keys_sign H K (inner self) message))"

subsection \<open>The remote signer\<close>

record remote_config =
  rc_endpoint :: string
  rc_wallet_id :: string
  rc_service_account_token_path :: "string option"

record remote_signer =
  endpoint :: string
  wallet_id :: string
  service_account_token_path :: "string option"

definition new_remote_signer :: "string \<Rightarrow> string \<Rightarrow> string option \<Rightarrow> remote_signer" where
  "new_remote_signer e w p =
     \<lparr>endpoint = e, wallet_id = w, service_account_token_path = p\<rparr>"

definition remote_build :: "remote_config \<Rightarrow> signer_error + remote_signer" where
  "remote_build config =
     Inr (new_remote_signer (rc_endpoint config) (rc_wallet_id config)
       (rc_service_account_token_path config))"

text \<open>
  \<open>endpoint_from_shared\<close> is \<open>tonic::transport::Endpoint::from_shared\<close> and \<open>parse_metadata\<close> the
  parser of \<open>tonic\<close>'s ASCII metadata values: an error text, or success.
\<close>

record tonic_lib =
  endpoint_from_shared :: "string \<Rightarrow> string + unit"
  parse_metadata :: "string \<Rightarrow> string + string"

definition load_bearer_header :: "tonic_lib \<Rightarrow> string \<Rightarrow> (signer_error + string) io" where
  "load_bearer_header T path =
     bind_ok
       (ReadFile path (\<lambda>a. Ret (map_err (\<lambda>e. SignerConfigError
          (''read service account token at '' @ path @ '': '' @ e)) a)))
       (\<lambda>token.
          let trimmed = trim token
          in if trimmed = []
             then Ret (Inl (SignerConfigError
                    (''service account token file at '' @ path @ '' is empty'')))
             else Ret (map_err (\<lambda>e. SignerConfigError (''invalid token bytes: '' @ e))
                    (parse_metadata T (''Bearer '' @ trimmed))))"

text \<open>The interceptor sets the header on the metadata of each request.\<close>

definition interceptor_call :: "string option \<Rightarrow> metadata \<Rightarrow> metadata" where
  "interceptor_call bearer_header md =
     (case bearer_header of
        None \<Rightarrow> md
      | Some header \<Rightarrow>
          (''authorization'', header) # filter (\<lambda>kv. fst kv \<noteq> ''authorization'') md)"

text \<open>
  A client is known by the interceptor it applies. \<open>timeout\<close> gives the channel a limit for each
  request made on it; it is recorded with the connection, and a request that exceeds it is one that
  \<open>tonic\<close> answers with an error.
\<close>

definition create_client :: "tonic_lib \<Rightarrow> remote_signer \<Rightarrow> (signer_error + string option) io" where
  "create_client T self =
     (case endpoint_from_shared T (endpoint self) of
        Inl e \<Rightarrow> Ret (Inl (ConnectionError e))
      | Inr _ \<Rightarrow>
          bind_ok (Connect (endpoint self) 30 (\<lambda>a. Ret (map_err ConnectionError a)))
            (\<lambda>_. case service_account_token_path self of
                   Some path \<Rightarrow>
                     bind_ok (load_bearer_header T path) (\<lambda>header. Ret (Inr (Some header)))
                 | None \<Rightarrow> Ret (Inr None)))"

text \<open>The raw signature bytes of the reply, converted to a 65-byte signature.\<close>

definition signature_of_reply :: "('key, 'sig) key_lib \<Rightarrow> sign_reply \<Rightarrow> signer_error + 'sig" where
  "signature_of_reply K signature =
     (case signature of
        RecoverableSignature r s v \<Rightarrow>
          (let signature_bytes = concat [r, s, v]
           in if length signature_bytes \<noteq> 65
              then Inl (InvalidSignature (''expected 65 bytes, got '' @
                     dec (length signature_bytes)))
              else map_err InvalidSignature (sig_try_from K signature_bytes))
      | _ \<Rightarrow> Inl (InvalidSignature ''expected resoverable signature''))"

lemma signature_of_reply_Inr_iff:
  "signature_of_reply K reply = Inr sig \<longleftrightarrow>
     (\<exists>r s v. reply = RecoverableSignature r s v \<and> length (r @ s @ v) = 65 \<and>
        sig_try_from K (r @ s @ v) = Inr sig)"
  by (cases reply) (auto simp: signature_of_reply_def Let_def)

definition remote_sign ::
  "('key, 'sig) key_lib \<Rightarrow> tonic_lib \<Rightarrow> remote_signer \<Rightarrow> bytes \<Rightarrow> (signer_error + 'sig) io" where
  "remote_sign K T self message =
     bind_ok (create_client T self) (\<lambda>client.
     bind_ok
       (GetWallet (interceptor_call client [])
          \<lparr>gw_id = wallet_id self, gw_pubkey_type = PkEthereum\<rparr>
          (\<lambda>a. Ret (and_then (map_err RemoteError a)
                      (\<lambda>w. ok_or w (RemoteError ''wallet not found''))))) (\<lambda>wallet.
     bind_ok
       (SignRpc (interceptor_call client [])
          \<lparr>sr_wallet_id = w_id wallet, sr_payload = Some (RecoverableMessage message)\<rparr>
          (\<lambda>a. Ret (and_then (map_err RemoteError a)
                      (\<lambda>s. ok_or s (RemoteError ''no signature in response''))))) (\<lambda>signature.
     Ret (signature_of_reply K signature))))"

subsection \<open>The signer of the running process\<close>

datatype 'key signer_enum =
    LocalSigner "'key local_signer"
  | RemoteSigner remote_signer

fun signer_name :: "'key signer_enum \<Rightarrow> string" where
  "signer_name (LocalSigner _) = ''local''"
| "signer_name (RemoteSigner _) = ''remote''"

definition enum_sign ::
  "hash_lib \<Rightarrow> ('key, 'sig) key_lib \<Rightarrow> tonic_lib \<Rightarrow> 'key signer_enum \<Rightarrow> bytes \<Rightarrow>
    (signer_error + 'sig) io" where
  "enum_sign H K T self message =
     bind
       (case self of
          LocalSigner s \<Rightarrow> local_sign H K s message
        | RemoteSigner s \<Rightarrow> remote_sign K T s message)
       (\<lambda>result. Emit (SignerSign (if is_ok result then ''ok'' else ''err'')) (Ret result))"

subsection \<open>Signers only contact the signing service\<close>

lemma load_bearer_header_events [event_rules]: "only_signer_events (load_bearer_header T path)"
  by (auto simp: load_bearer_header_def Let_def intro!: event_rules)

lemma create_client_events [event_rules]: "only_signer_events (create_client T self)"
  by (auto simp: create_client_def intro!: event_rules split: sum.split option.split)

lemma local_sign_events [event_rules]: "only_signer_events (local_sign H K self message)"
  by (simp add: local_sign_def event_rules)

lemma remote_sign_events [event_rules]: "only_signer_events (remote_sign K T self message)"
  unfolding remote_sign_def by (intro event_rules) simp_all

interpretation local: signer "\<lambda>(H, K, self). local_sign H K self"
  by unfold_locales (auto intro: event_rules split: prod.split)

interpretation remote: signer "\<lambda>(K, T, self). remote_sign K T self"
  by unfold_locales (auto intro: event_rules split: prod.split)

interpretation either: signer "\<lambda>(H, K, T, self). enum_sign H K T self"
  by unfold_locales
    (auto simp: enum_sign_def intro!: event_rules split: prod.split signer_enum.split)

subsection \<open>What a signature comes from\<close>

lemma exec_load_bearer_header:
  "exec (load_bearer_header T path) t (Inr h) \<longleftrightarrow>
     (\<exists>token. t = [EReadFile path (Inr token)] \<and> trim token \<noteq> [] \<and>
        parse_metadata T (''Bearer '' @ trim token) = Inr h)"
  by (auto simp: load_bearer_header_def exec_bind_ok_Inr Let_def split: if_splits)

text \<open>The token a client was made with: none when no path is configured.\<close>

definition client_token :: "tonic_lib \<Rightarrow> remote_signer \<Rightarrow> event list \<Rightarrow> string option \<Rightarrow> bool" where
  "client_token T self t c \<longleftrightarrow>
     (case service_account_token_path self of
        None \<Rightarrow> c = None
      | Some path \<Rightarrow>
          (\<exists>token h. EReadFile path (Inr token) \<in> set t \<and> trim token \<noteq> [] \<and>
             parse_metadata T (''Bearer '' @ trim token) = Inr h \<and> c = Some h))"

lemma exec_create_client:
  "exec (create_client T self) t (Inr c) \<Longrightarrow>
     EConnect (endpoint self) 30 (Inr ()) \<in> set t \<and> client_token T self t c"
  by (fastforce simp: create_client_def client_token_def exec_bind_ok_Inr exec_load_bearer_header
      split: sum.splits option.splits)

lemma interceptor_call_Nil:
  "interceptor_call c [] = (case c of None \<Rightarrow> [] | Some h \<Rightarrow> [(''authorization'', h)])"
  by (simp add: interceptor_call_def split: option.split)

lemma interceptor_call_authorization:
  "map_of (interceptor_call (Some h) md) ''authorization'' = Some h"
  "k \<noteq> ''authorization'' \<Longrightarrow> map_of (interceptor_call c md) k = map_of md k"
proof -
  show "map_of (interceptor_call (Some h) md) ''authorization'' = Some h"
    by (simp add: interceptor_call_def)
  assume "k \<noteq> ''authorization''"
  then show "map_of (interceptor_call c md) k = map_of md k"
    by (induction md) (auto simp: interceptor_call_def split: option.splits)
qed

lemma exec_remote_sign:
  assumes "exec (remote_sign K T self message) t (Inr sig)"
  shows "\<exists>c wallet r s v.
    client_token T self t c \<and>
    EGetWallet (interceptor_call c []) \<lparr>gw_id = wallet_id self, gw_pubkey_type = PkEthereum\<rparr>
      (Inr (Some wallet)) \<in> set t \<and>
    ESign (interceptor_call c [])
      \<lparr>sr_wallet_id = w_id wallet, sr_payload = Some (RecoverableMessage message)\<rparr>
      (Inr (Some (RecoverableSignature r s v))) \<in> set t \<and>
    length (r @ s @ v) = 65 \<and> sig_try_from K (r @ s @ v) = Inr sig"
proof -
  from assms obtain t1 t2 t3 c wallet reply where *:
    "exec (create_client T self) t1 (Inr c)"
    "t = t1 @ EGetWallet (interceptor_call c [])
        \<lparr>gw_id = wallet_id self, gw_pubkey_type = PkEthereum\<rparr> (Inr (Some wallet)) #
      ESign (interceptor_call c [])
        \<lparr>sr_wallet_id = w_id wallet, sr_payload = Some (RecoverableMessage message)\<rparr>
        (Inr (Some reply)) # t3"
    "signature_of_reply K reply = Inr sig"
    by (force simp: remote_sign_def exec_bind_ok_Inr result_simps)
  from exec_create_client [OF *(1)] have "client_token T self t c"
    unfolding *(2) by (fastforce simp: client_token_def split: option.splits)
  with *(2,3) show ?thesis
    by (fastforce simp: signature_of_reply_Inr_iff)
qed

lemma exec_local_sign:
  "exec (local_sign H K self message) t r \<longleftrightarrow>
     t = [] \<and> r = map_err LocalError (keys_sign H K (inner self) message)"
  by (auto simp: local_sign_def)

lemma exec_enum_sign:
  "exec (enum_sign H K T self message) t r \<longleftrightarrow>
     (\<exists>t'. exec (case self of LocalSigner s \<Rightarrow> local_sign H K s message
                 | RemoteSigner s \<Rightarrow> remote_sign K T s message) t' r \<and>
        t = t' @ [EMetric (SignerSign (if is_ok r then ''ok'' else ''err''))])"
  by (auto simp: enum_sign_def exec_bind)

subsection \<open>Concrete foreign functions\<close>

definition sample_tonic :: tonic_lib where
  "sample_tonic = \<lparr>endpoint_from_shared = (\<lambda>u. Inr ()), parse_metadata = Inr\<rparr>"

subsection \<open>What a remote signature consists of\<close>

definition wallet_event :: "remote_signer \<Rightarrow> string option \<Rightarrow> string + wallet option \<Rightarrow> event" where
  "wallet_event self c a =
     EGetWallet (interceptor_call c []) \<lparr>gw_id = wallet_id self, gw_pubkey_type = PkEthereum\<rparr> a"

definition sign_event ::
  "string option \<Rightarrow> wallet \<Rightarrow> bytes \<Rightarrow> string + sign_reply option \<Rightarrow> event" where
  "sign_event c w message a =
     ESign (interceptor_call c [])
       \<lparr>sr_wallet_id = w_id w, sr_payload = Some (RecoverableMessage message)\<rparr> a"

text \<open>An answer of the service that carries no message, and the error it becomes.\<close>

fun missing :: "string \<Rightarrow> string + 'a option \<Rightarrow> string option" where
  "missing text (Inl err) = Some err"
| "missing text (Inr None) = Some text"
| "missing text (Inr (Some x)) = None"

inductive remote_signing ::
  "('key, 'sig) key_lib \<Rightarrow> tonic_lib \<Rightarrow> remote_signer \<Rightarrow> bytes \<Rightarrow> event list \<Rightarrow>
    signer_error + 'sig \<Rightarrow> bool"
  for K T self message where
  no_client:
    "exec (create_client T self) t (Inl e) \<Longrightarrow> remote_signing K T self message t (Inl e)"
| no_wallet:
    "exec (create_client T self) t (Inr c) \<Longrightarrow> missing ''wallet not found'' a = Some e \<Longrightarrow>
       remote_signing K T self message (t @ [wallet_event self c a]) (Inl (RemoteError e))"
| no_signature:
    "exec (create_client T self) t (Inr c) \<Longrightarrow>
       missing ''no signature in response'' a = Some e \<Longrightarrow>
       remote_signing K T self message
         (t @ [wallet_event self c (Inr (Some w)), sign_event c w message a]) (Inl (RemoteError e))"
| answered:
    "exec (create_client T self) t (Inr c) \<Longrightarrow>
       remote_signing K T self message
         (t @ [wallet_event self c (Inr (Some w)), sign_event c w message (Inr (Some reply))])
         (signature_of_reply K reply)"

lemma bind_ok_requests:
  "bind_ok (GetWallet h q f) k = GetWallet h q (\<lambda>a. bind_ok (f a) k)"
  "bind_ok (SignRpc h q' f') k' = SignRpc h q' (\<lambda>a. bind_ok (f' a) k')"
  by (simp_all add: bind_ok_def)

text \<open>The answer of a request that must carry a message.\<close>

lemma exec_required:
  "exec (bind_ok (Ret (and_then (map_err RemoteError a) (\<lambda>x. ok_or x (RemoteError text)))) k) t r \<longleftrightarrow>
     (\<exists>e. missing text a = Some e \<and> t = [] \<and> r = Inl (RemoteError e)) \<or>
     (\<exists>x. a = Inr (Some x) \<and> exec (k x) t r)"
  by (cases "(text, a)" rule: missing.cases) auto

lemma exec_remote_sign_split:
  "exec (remote_sign K T self message) t r \<longleftrightarrow>
     (\<exists>e. exec (create_client T self) t (Inl e) \<and> r = Inl e) \<or>
     (\<exists>t1 t2 c. t = t1 @ t2 \<and> exec (create_client T self) t1 (Inr c) \<and>
        (\<exists>a t3. t2 = wallet_event self c a # t3 \<and>
          ((\<exists>e. missing ''wallet not found'' a = Some e \<and> t3 = [] \<and> r = Inl (RemoteError e)) \<or>
           (\<exists>w. a = Inr (Some w) \<and>
             (\<exists>a' t4. t3 = sign_event c w message a' # t4 \<and>
               ((\<exists>e. missing ''no signature in response'' a' = Some e \<and> t4 = [] \<and>
                   r = Inl (RemoteError e)) \<or>
                (\<exists>reply. a' = Inr (Some reply) \<and> t4 = [] \<and> r = signature_of_reply K reply)))))))"
  unfolding remote_sign_def bind_ok_requests
  by (subst exec_bind_ok)
    (simp only: exec_simps exec_required wallet_event_def sign_event_def exec_Ret)

lemma exec_remote_sign_iff:
  "exec (remote_sign K T self message) t r \<longleftrightarrow> remote_signing K T self message t r"
proof
  assume "exec (remote_sign K T self message) t r"
  then show "remote_signing K T self message t r"
    unfolding exec_remote_sign_split by (auto intro: remote_signing.intros)
next
  assume "remote_signing K T self message t r"
  then show "exec (remote_sign K T self message) t r"
  proof cases
    case (no_client e)
    then show ?thesis unfolding exec_remote_sign_split by blast
  next
    case (no_wallet t1 c a e)
    then show ?thesis unfolding exec_remote_sign_split
      by - (rule disjI2, rule exI [of _ t1], rule exI [of _ "[wallet_event self c a]"],
        rule exI [of _ c], auto)
  next
    case (no_signature t1 c a e w)
    then show ?thesis unfolding exec_remote_sign_split
      by - (rule disjI2, rule exI [of _ t1],
        rule exI [of _ "[wallet_event self c (Inr (Some w)), sign_event c w message a]"],
        rule exI [of _ c], simp, blast)
  next
    case (answered t1 c w reply)
    then show ?thesis unfolding exec_remote_sign_split
      by - (rule disjI2, rule exI [of _ t1],
        rule exI [of _ "[wallet_event self c (Inr (Some w)), sign_event c w message (Inr (Some reply))]"],
        rule exI [of _ c], simp, blast)
  qed
qed

lemma bind_ok_reads:
  "bind_ok (ReadFile p f) k = ReadFile p (\<lambda>a. bind_ok (f a) k)"
  "bind_ok (Connect u d f') k' = Connect u d (\<lambda>a. bind_ok (f' a) k')"
  by (simp_all add: bind_ok_def)

lemma load_bearer_header_event:
  assumes "exec (load_bearer_header T path) t r" and "e \<in> set t"
  shows "\<exists>a. e = EReadFile path a"
proof -
  from assms(1) [unfolded load_bearer_header_def bind_ok_reads exec_simps] obtain a t' where
    "t = EReadFile path a # t'" "t' = []"
    by (cases r) (auto simp: exec_bind_ok_Inr exec_bind_ok_Inl Let_def split: if_splits)
  with assms(2) show ?thesis by simp
qed

lemma create_client_event:
  assumes "exec (create_client T self) t r" and "e \<in> set t"
  shows "(\<exists>a. e = EConnect (endpoint self) 30 a) \<or>
     (\<exists>p a. e = EReadFile p a \<and> service_account_token_path self = Some p)"
proof (cases "endpoint_from_shared T (endpoint self)")
  case (Inl err)
  with assms show ?thesis by (simp add: create_client_def)
next
  case (Inr u)
  from assms(1) [unfolded create_client_def Inr sum.case bind_ok_reads exec_simps] obtain a t' where
    t': "t = EConnect (endpoint self) 30 a # t'"
    "exec (bind_ok (Ret (map_err ConnectionError a)) (\<lambda>_.
       case service_account_token_path self of
         Some path \<Rightarrow> bind_ok (load_bearer_header T path) (\<lambda>header. Ret (Inr (Some header)))
       | None \<Rightarrow> Ret (Inr None))) t' r"
    by auto
  have "\<exists>p a. e = EReadFile p a \<and> service_account_token_path self = Some p" if "e \<in> set t'"
  proof (cases "service_account_token_path self")
    case None
    with t'(2) that show ?thesis by (cases a) simp_all
  next
    case (Some path)
    with t'(2) that obtain r' where "exec (load_bearer_header T path) t' r'"
      by (cases a) (auto simp: exec_bind_ok_Ret)
    from load_bearer_header_event [OF this that] Some show ?thesis by blast
  qed
  with assms(2) t'(1) show ?thesis by auto
qed

lemma client_token_append: "client_token T self t c \<Longrightarrow> client_token T self (t @ t') c"
  by (auto simp: client_token_def split: option.splits)

subsection \<open>Properties\<close>

text \<open>
  C14. A remote signature comes from the wallet service. A signature the remote signer returns is the
  parse of the 65 bytes r, s, v that the service returned, in this call, for exactly the message to be
  signed and for the wallet that the service gave for the configured wallet id; both requests carried
  the metadata of the client's interceptor.
\<close>

theorem remote_signature_provenance:
  assumes "exec (remote_sign K T self message) t (Inr sig)"
  shows "\<exists>c w r s v.
    client_token T self t c \<and>
    wallet_event self c (Inr (Some w)) \<in> set t \<and>
    sign_event c w message (Inr (Some (RecoverableSignature r s v))) \<in> set t \<and>
    length (r @ s @ v) = 65 \<and> sig_try_from K (r @ s @ v) = Inr sig"
  using exec_remote_sign [OF assms] unfolding wallet_event_def sign_event_def by blast

theorem remote_signature_provenance_witness:
  "\<exists>c w r s v. sign_event c w [1, 2, 3] (Inr (Some (RecoverableSignature r s v))) \<in>
     set (sample_events (remote_sign sample_keys sample_tonic
       (new_remote_signer ''http://signer'' ''w1'' (Some ''/token'')) [1, 2, 3])) \<and>
     length (r @ s @ v) = 65"
proof -
  let ?m = "remote_sign sample_keys sample_tonic
    (new_remote_signer ''http://signer'' ''w1'' (Some ''/token'')) [1, 2, 3]"
  have "sample_result ?m = Inr (1, 1)" by code_simp
  with sample_exec [of ?m] have "exec ?m (sample_events ?m) (Inr (1, 1))" by simp
  from remote_signature_provenance [OF this] show ?thesis by blast
qed

text \<open>The only metric of a call of the signer is its outcome, once.\<close>

lemma remote_sign_no_metric: "exec (remote_sign K T self message) t r \<Longrightarrow> EMetric x \<notin> set t"
  unfolding exec_remote_sign_iff
  by (erule remote_signing.cases) (auto simp: wallet_event_def sign_event_def dest: create_client_event)

lemma exec_enum_sign_metrics:
  assumes "exec (enum_sign H K T self message) t r"
  shows "EMetric x \<in> set t \<longleftrightarrow> x = SignerSign (if is_ok r then ''ok'' else ''err'')"
    and "count_list t (EMetric x) = (if x = SignerSign (if is_ok r then ''ok'' else ''err'') then 1 else 0)"
proof -
  from assms obtain t' where t': "exec (case self of LocalSigner s \<Rightarrow> local_sign H K s message
      | RemoteSigner s \<Rightarrow> remote_sign K T s message) t' r"
    "t = t' @ [EMetric (SignerSign (if is_ok r then ''ok'' else ''err''))]"
    unfolding exec_enum_sign by blast
  have "EMetric y \<notin> set t'" for y
    using t'(1) by (cases self) (auto simp: exec_local_sign dest: remote_sign_no_metric)
  with t'(2) show "EMetric x \<in> set t \<longleftrightarrow> x = SignerSign (if is_ok r then ''ok'' else ''err'')"
    and "count_list t (EMetric x) = (if x = SignerSign (if is_ok r then ''ok'' else ''err'') then 1 else 0)"
    by (auto simp: count_notin)
qed

text \<open>
  C15. Requests to the wallet service are authorised as configured. In every execution, failing ones
  included, a wallet or signing request carries as its only metadata the bearer header made of the
  trimmed, non-empty contents of the token file as read in this call, or, when no token file is
  configured, none.
\<close>

theorem remote_requests_authorized:
  assumes "exec (remote_sign K T self message) t r"
    and "e \<in> set t" and "e = EGetWallet md q a \<or> e = ESign md q' a'"
  shows "case service_account_token_path self of
      None \<Rightarrow> md = []
    | Some path \<Rightarrow> \<exists>token h. EReadFile path (Inr token) \<in> set t \<and> trim token \<noteq> [] \<and>
        parse_metadata T (''Bearer '' @ trim token) = Inr h \<and> md = [(''authorization'', h)]"
proof -
  from assms(1) have "remote_signing K T self message t r" by (simp only: exec_remote_sign_iff)
  then have "\<exists>c. client_token T self t c \<and> md = interceptor_call c []"
  proof cases
    case (no_client e')
    with create_client_event [OF no_client(2) assms(2)] assms(3) show ?thesis by auto
  next
    case (no_wallet t' c a e')
    with create_client_event [OF no_wallet(3)] exec_create_client [OF no_wallet(3)] assms(2,3)
    show ?thesis by (auto simp: wallet_event_def intro: client_token_append)
  next
    case (no_signature t' c a e' w)
    with create_client_event [OF no_signature(3)] exec_create_client [OF no_signature(3)] assms(2,3)
    show ?thesis by (auto simp: wallet_event_def sign_event_def intro: client_token_append)
  next
    case (answered t' c w reply)
    with create_client_event [OF answered(3)] exec_create_client [OF answered(3)] assms(2,3)
    show ?thesis by (auto simp: wallet_event_def sign_event_def intro: client_token_append)
  qed
  then show ?thesis
    by (auto simp: client_token_def interceptor_call_Nil split: option.splits)
qed

definition sample_remote_signer :: remote_signer where
  "sample_remote_signer = new_remote_signer ''http://signer'' ''w1'' (Some ''/token'')"

theorem remote_requests_authorized_witness:
  "\<exists>token. EReadFile ''/token'' (Inr token) \<in>
     set (sample_events (remote_sign sample_keys sample_tonic sample_remote_signer [1])) \<and>
     trim token \<noteq> []"
proof -
  let ?m = "remote_sign sample_keys sample_tonic sample_remote_signer [1]"
  have "\<exists>e \<in> set (sample_events ?m). case e of EGetWallet _ _ _ \<Rightarrow> True | _ \<Rightarrow> False"
    by code_simp
  then obtain e where "e \<in> set (sample_events ?m)" "case e of EGetWallet _ _ _ \<Rightarrow> True | _ \<Rightarrow> False"
    by blast
  then obtain md q a where "e \<in> set (sample_events ?m)" "e = EGetWallet md q a"
    by (cases rule: event.exhaust [of e]) auto
  from remote_requests_authorized [OF sample_exec this(1) disjI1, OF this(2)] show ?thesis
    by (auto simp: sample_remote_signer_def new_remote_signer_def)
qed

text \<open>
  C40. The remote signer is exactly its specification: an execution ends when the client cannot be
  made, when the service gives no wallet, when it gives no signature, or with the reading of the
  signature it gave; at each of these points nothing more is asked of the service.
\<close>

theorem remote_sign_refines:
  "exec (remote_sign K T self message) t r \<longleftrightarrow> remote_signing K T self message t r"
  by (rule exec_remote_sign_iff)

end
