(* ===== verification/Attestation.thy ===== *)
theory Attestation
  imports Payload Signer
begin

section \<open>Signing an attestation (\<open>attestation.rs\<close>)\<close>

text \<open>
  \<open>sign_attestation\<close> signs the tagged input of a payload and returns the payload's data, untouched,
  with the signature's bytes.
\<close>

record signed_attestation =
  sa_height :: u64
  sa_timestamp :: "u64 option"
  sa_attested_data :: bytes
  sa_signature :: bytes

definition sign_attestation ::
  "hash_lib \<Rightarrow> ('key, 'sig) key_lib \<Rightarrow> u64 \<Rightarrow> u64 option \<Rightarrow> attestation_payload \<Rightarrow>
    (bytes \<Rightarrow> (signer_error + 'sig) io) \<Rightarrow> (attestor_error + signed_attestation) io" where
  "sign_attestation H K height timestamp payload sign =
     (let tagged_signing_input = tagged_signing_input H payload
      in bind_ok (fmap (map_err (\<lambda>e. SignerError (signer_error_text e)))
                    (sign tagged_signing_input))
           (\<lambda>signature.
              let signature_bytes = sig_as_bytes K signature
              in Ret (Inr
                   \<lparr>sa_height = height,
                    sa_timestamp = timestamp,
                    sa_attested_data = into_data payload,
                    sa_signature = signature_bytes\<rparr>)))"

lemma exec_sign_attestation_Inr:
  "exec (sign_attestation H K height timestamp payload sign) t (Inr sa) \<longleftrightarrow>
     (\<exists>sig. exec (sign (tagged_signing_input H payload)) t (Inr sig) \<and>
        sa = \<lparr>sa_height = height, sa_timestamp = timestamp, sa_attested_data = data payload,
              sa_signature = sig_as_bytes K sig\<rparr>)"
  by (auto simp: sign_attestation_def Let_def exec_bind_ok_Ret exec_fmap into_data_def
      split_sum_ex result_simps)

lemma exec_sign_attestation_Inl:
  "exec (sign_attestation H K height timestamp payload sign) t (Inl e) \<longleftrightarrow>
     (\<exists>e'. exec (sign (tagged_signing_input H payload)) t (Inl e') \<and>
        e = SignerError (signer_error_text e'))"
  by (auto simp: sign_attestation_def Let_def exec_bind_ok_Ret exec_fmap split_sum_ex
      result_simps)

lemma sign_attestation_events:
  "only_signer_events (sign (tagged_signing_input H payload)) \<Longrightarrow>
     only_signer_events (sign_attestation H K height timestamp payload sign)"
  unfolding only_events_def
  by (metis exec_sign_attestation_Inr exec_sign_attestation_Inl sumE)

end
