(* ===== verification/Packets.thy ===== *)
theory Packets
  imports Errors
begin

section \<open>Packets (\<open>Packets\<close> in \<open>lib.rs\<close>)\<close>

text \<open>
  The collection of the packets of a request, decoded from their ABI encodings. The struct wraps a
  vector, so it is a list. Its owned iterator yields the packets; the borrowing one is two functions
  that call each other.
\<close>

subsection \<open>Packets and attested entries\<close>

text \<open>The Solidity structs \<open>Packet\<close> and \<open>Payload\<close>, and the attestation messages.\<close>

record packet_payload =
  sourcePort :: string
  destPort :: string
  version :: string
  encoding :: string
  payload_value :: bytes

record packet =
  sequence :: u64
  sourceClient :: string
  destClient :: string
  timeoutTimestamp :: u64
  payloads :: "packet_payload list"

record packet_compact =
  pc_path :: bytes
  pc_commitment :: bytes

record packets_attestation =
  pa_height :: u64
  pa_packets :: "packet_compact list"

text \<open>
  The ABI encoder, the packet decoder and the packet's paths and commitment belong to
  \<open>ibc_eureka_solidity_types\<close> and \<open>alloy_sol_types\<close>; the text of an unknown enum value to \<open>prost\<close>.
\<close>

record ibc_lib =
  abi_decode_packet :: "bytes \<Rightarrow> string + packet"
  abi_encode_state :: "u64 \<Rightarrow> u64 \<Rightarrow> bytes" \<comment> \<open>height, timestamp\<close>
  abi_encode_packets :: "packets_attestation \<Rightarrow> bytes"
  commitment_path :: "packet \<Rightarrow> bytes"
  ack_commitment_path :: "packet \<Rightarrow> bytes"
  receipt_commitment_path :: "packet \<Rightarrow> bytes"
  packet_commitment :: "packet \<Rightarrow> bytes"
  unknown_enum_text :: "i32 \<Rightarrow> string"

subsection \<open>The collection\<close>

type_synonym packets = "packet list"

definition packets_try_from_abi_encoded :: "ibc_lib \<Rightarrow> bytes list \<Rightarrow> attestor_error + packets" where
  "packets_try_from_abi_encoded X encoded =
     collect_result (map (\<lambda>p. map_err AbiError (abi_decode_packet X p)) encoded)"

definition packets_len :: "packets \<Rightarrow> nat" where
  "packets_len self = length self"

definition packets_is_empty :: "packets \<Rightarrow> bool" where
  "packets_is_empty self \<longleftrightarrow> self = []"

text \<open>\<open>into_iter\<close> of \<open>Packets\<close>: the packets in order.\<close>

definition packets_into_iter :: "packets \<Rightarrow> packet list" where
  "packets_into_iter self = self"

text \<open>
  \<open>Packets::iter\<close> calls \<open>into_iter\<close> of \<open>&Packets\<close>, and this calls \<open>Packets::iter\<close>: its body is
  given with the function it calls. The first argument of \<open>packets_iter\<close> bounds the depth of its own
  calls; \<open>None\<close> means that the bound was not enough to return.
\<close>

definition packets_ref_into_iter :: "(packets \<Rightarrow> packet list option) \<Rightarrow> packets \<Rightarrow> packet list option" where
  "packets_ref_into_iter iter self = iter self"

primrec packets_iter :: "nat \<Rightarrow> packets \<Rightarrow> packet list option" where
  "packets_iter 0 = (\<lambda>self. None)"
| "packets_iter (Suc calls) = (\<lambda>self. packets_ref_into_iter (packets_iter calls) self)"

lemmas packets_defs = packets_len_def packets_is_empty_def packets_into_iter_def

lemma packets_iter_never:
  "packets_iter calls self = None"
  "packets_ref_into_iter (packets_iter calls) self = None"
  by (induction calls arbitrary: self) (simp_all add: packets_ref_into_iter_def)

subsection \<open>Decoding\<close>

lemma packets_try_from_Inr_iff:
  "packets_try_from_abi_encoded X encoded = Inr ps \<longleftrightarrow> map (abi_decode_packet X) encoded = map Inr ps"
proof -
  have "map (\<lambda>p. map_err AbiError (abi_decode_packet X p)) encoded = map Inr ps \<longleftrightarrow>
      map (abi_decode_packet X) encoded = map Inr ps"
    by (induction encoded arbitrary: ps) (auto simp: map_eq_Cons_conv Cons_eq_map_conv)
  then show ?thesis
    by (simp add: packets_try_from_abi_encoded_def collect_result_Inr_iff)
qed

lemma packets_try_from_Inl:
  "packets_try_from_abi_encoded X encoded = Inl e \<Longrightarrow>
     \<exists>p s. p \<in> set encoded \<and> abi_decode_packet X p = Inl s \<and> e = AbiError s"
proof -
  assume "packets_try_from_abi_encoded X encoded = Inl e"
  from collect_result_Inl_in [OF this [unfolded packets_try_from_abi_encoded_def]]
  show ?thesis by (auto simp: result_simps)
qed

lemma packets_try_from_first:
  assumes "packets_try_from_abi_encoded X encoded = Inl e"
  shows "\<exists>i < length encoded. \<exists>s. abi_decode_packet X (encoded ! i) = Inl s \<and> e = AbiError s \<and>
    (\<forall>j < i. is_ok (abi_decode_packet X (encoded ! j)))"
proof -
  from assms obtain xs rest where split:
    "map (\<lambda>p. map_err AbiError (abi_decode_packet X p)) encoded = map Inr xs @ Inl e # rest"
    by (auto simp: packets_try_from_abi_encoded_def collect_result_Inl_iff)
  then have len: "length xs < length encoded"
    by (metis length_map length_append less_add_same_cancel1 list.size(4) zero_less_Suc add_Suc_right)
  have at: "map_err AbiError (abi_decode_packet X (encoded ! i)) = (map Inr xs @ Inl e # rest) ! i"
    if "i < length encoded" for i
    using arg_cong [OF split, of "\<lambda>l. l ! i"] that by simp
  have "\<exists>s. abi_decode_packet X (encoded ! length xs) = Inl s \<and> e = AbiError s"
    using at [OF len] by (auto simp: nth_append map_err_Inl_iff)
  moreover have "is_ok (abi_decode_packet X (encoded ! j))" if "j < length xs" for j
    using at [of j] that len by (simp add: nth_append)
  ultimately show ?thesis using len by blast
qed

lemma packets_try_from_all:
  assumes "packets_try_from_abi_encoded X encoded = Inr ps"
  shows "packets_len ps = length encoded \<and> (packets_is_empty ps \<longleftrightarrow> encoded = []) \<and>
    map Inr (packets_into_iter ps) = map (abi_decode_packet X) encoded"
proof -
  from assms have decoded: "map (abi_decode_packet X) encoded = map Inr ps"
    by (simp add: packets_try_from_Inr_iff)
  then have "length ps = length encoded" by (rule map_eq_imp_length_eq [symmetric])
  with decoded show ?thesis by (auto simp: packets_defs)
qed

end
