(* ===== verification/Attestor.thy ===== *)
theory Attestor
  imports Futures Adapter Attestation Packets
begin

section \<open>The attestation service (\<open>rpc/attestor.rs\<close>)\<close>

text \<open>
  The three RPC handlers of \<open>AttestorService\<close>, over any adapter and any signer. A packet request
  is decoded, its height checked against the finalized height, every packet checked against the
  chain by a future of its own, and only if all are valid is the attestation signed. The futures
  run concurrently: \<open>schedule\<close> is the order in which they advance.
\<close>

subsection \<open>Messages\<close>

text \<open>The messages of \<open>ibc_attestor.proto\<close>.\<close>

record attestation =
  att_height :: u64
  att_timestamp :: "u64 option"
  att_attested_data :: bytes
  att_signature :: bytes

record latest_height_response =
  lh_height :: u64

record state_attestation_request =
  sq_height :: u64

record state_attestation_response =
  sp_attestation :: "attestation option"

record packet_attestation_request =
  pq_packets :: "bytes list"
  pq_height :: u64
  pq_commitment_type :: i32

record packet_attestation_response =
  pp_attestation :: "attestation option"

subsection \<open>The height check\<close>

definition height_lag :: "u64 \<Rightarrow> u64 \<Rightarrow> i64" where
  "height_lag finalized height =
     i64_saturating_sub
       (case i64_try_from_u64 finalized of Some x \<Rightarrow> x | None \<Rightarrow> i64_max)
       (case i64_try_from_u64 height of Some x \<Rightarrow> x | None \<Rightarrow> i64_max)"

definition validate_height :: "adapter \<Rightarrow> u64 \<Rightarrow> (attestor_error + unit) io" where
  "validate_height A height =
     bind_ok (fmap (map_err AdapterError) (get_last_height_at_configured_finality A))
       (\<lambda>finalized.
          Emit (HeightLag (height_lag finalized height))
            (if finalized < height
             then Emit HeightRejection (Ret (Inl BlockNotFinalized))
             else Ret (Inr ())))"

subsection \<open>Checking one packet\<close>

definition handle_packet_commitment ::
  "hash_lib \<Rightarrow> ibc_lib \<Rightarrow> adapter \<Rightarrow> u64 \<Rightarrow> packet \<Rightarrow> commitment_type \<Rightarrow>
    (attestor_error + packet_compact) io" where
  "handle_packet_commitment H X A height packet commitment_type =
     (let commitment_path = commitment_path X packet;
          expected_commitment = packet_commitment X packet;
          client_id = sourceClient packet;
          sequence = sequence packet
      in bind_ok (fmap (map_err AdapterError)
                    (get_commitment A client_id height sequence commitment_path commitment_type))
           (\<lambda>commitment.
              case commitment of
                None \<Rightarrow>
                  Emit (CommitmentFailure ''not_found'')
                    (Ret (Inl (CommitmentNotFound client_id sequence height)))
              | Some commitment \<Rightarrow>
                  if expected_commitment = commitment
                  then Ret (Inr \<lparr>pc_path = keccak256 H commitment_path, pc_commitment = commitment\<rparr>)
                  else Emit (CommitmentFailure ''mismatch'')
                    (Ret (Inl (InvalidCommitment
                      (''Packet commitment mismatch for client_id='' @ client_id @ '' seq='' @
                       dec_u64 sequence @ '': expected 0x'' @ hex_encode H expected_commitment @
                       '', got 0x'' @ hex_encode H commitment))))))"

definition handle_ack_commitment ::
  "hash_lib \<Rightarrow> ibc_lib \<Rightarrow> adapter \<Rightarrow> u64 \<Rightarrow> packet \<Rightarrow> commitment_type \<Rightarrow>
    (attestor_error + packet_compact) io" where
  "handle_ack_commitment H X A height packet commitment_type =
     (let commitment_path = ack_commitment_path X packet;
          client_id = destClient packet;
          sequence = sequence packet
      in bind_ok (fmap (map_err AdapterError)
                    (get_commitment A client_id height sequence commitment_path commitment_type))
           (\<lambda>commitment.
              case commitment of
                None \<Rightarrow>
                  Emit (CommitmentFailure ''not_found'')
                    (Ret (Inl (CommitmentNotFound client_id sequence height)))
              | Some commitment \<Rightarrow>
                  Ret (Inr \<lparr>pc_path = keccak256 H commitment_path, pc_commitment = commitment\<rparr>)))"

definition handle_receipt_commitment ::
  "hash_lib \<Rightarrow> ibc_lib \<Rightarrow> adapter \<Rightarrow> u64 \<Rightarrow> packet \<Rightarrow> commitment_type \<Rightarrow>
    (attestor_error + packet_compact) io" where
  "handle_receipt_commitment H X A height packet commitment_type =
     (let commitment_path = receipt_commitment_path X packet;
          client_id = destClient packet;
          sequence = sequence packet
      in bind_ok (fmap (map_err AdapterError)
                    (get_commitment A client_id height sequence commitment_path commitment_type))
           (\<lambda>commitment.
              case commitment of
                None \<Rightarrow>
                  Ret (Inr \<lparr>pc_path = keccak256 H commitment_path, pc_commitment = replicate 32 0\<rparr>)
              | Some commit \<Rightarrow>
                  Emit (CommitmentFailure ''unexpected_receipt'')
                    (Ret (Inl (InvalidCommitment
                      (''Receipt commitment should be zero for client_id='' @ client_id @ '' seq='' @
                       dec_u64 sequence @ '': got 0x'' @ hex_encode H commit))))))"

definition create_single_packet_attestation ::
  "hash_lib \<Rightarrow> ibc_lib \<Rightarrow> adapter \<Rightarrow> u64 \<Rightarrow> packet \<Rightarrow> commitment_type \<Rightarrow>
    (attestor_error + packet_compact) io" where
  "create_single_packet_attestation H X A height packet commitment_type =
     (case commitment_type of
        Packet \<Rightarrow> handle_packet_commitment H X A height packet commitment_type
      | Ack \<Rightarrow> handle_ack_commitment H X A height packet commitment_type
      | Receipt \<Rightarrow> handle_receipt_commitment H X A height packet commitment_type)"

definition create_packets_attestation ::
  "nat list \<Rightarrow> hash_lib \<Rightarrow> ibc_lib \<Rightarrow> adapter \<Rightarrow> packets \<Rightarrow> u64 \<Rightarrow> commitment_type \<Rightarrow>
    (attestor_error + packets_attestation) io" where
  "create_packets_attestation schedule H X A packets height commitment_type =
     (let futures = map (\<lambda>packet. create_single_packet_attestation H X A height packet
                           commitment_type) (packets_into_iter packets)
      in bind (join schedule futures) (\<lambda>validations.
           Ret (map_ok (\<lambda>packets. \<lparr>pa_height = height, pa_packets = packets\<rparr>)
                  (collect_result validations))))"

subsection \<open>The handlers\<close>

record 'sig attestor_service =
  svc_adapter :: adapter
  svc_adapter_name :: string
  svc_sign :: "bytes \<Rightarrow> (signer_error + 'sig) io"
  svc_signer_name :: string

definition new_attestor_service ::
  "adapter \<Rightarrow> string \<Rightarrow> (bytes \<Rightarrow> (signer_error + 'sig) io) \<Rightarrow> string \<Rightarrow> 'sig attestor_service" where
  "new_attestor_service adapter a_name sign s_name =
     \<lparr>svc_adapter = adapter, svc_adapter_name = a_name, svc_sign = sign,
      svc_signer_name = s_name\<rparr>"

text \<open>\<open>?\<close> in a handler turns an attestor error into its status.\<close>

abbreviation or_status :: "(attestor_error + 'a) io \<Rightarrow> (status + 'a) io" where
  "or_status m \<equiv> fmap (map_err status_of_attestor_error) m"

definition attestation_of_signed :: "signed_attestation \<Rightarrow> attestation" where
  "attestation_of_signed sa =
     \<lparr>att_height = sa_height sa,
      att_timestamp = sa_timestamp sa,
      att_attested_data = sa_attested_data sa,
      att_signature = sa_signature sa\<rparr>"

definition state_response :: "signed_attestation \<Rightarrow> state_attestation_response" where
  "state_response sa = \<lparr>sp_attestation = Some (attestation_of_signed sa)\<rparr>"

definition packet_response :: "signed_attestation \<Rightarrow> packet_attestation_response" where
  "packet_response sa = \<lparr>pp_attestation = Some (attestation_of_signed sa)\<rparr>"

definition latest_height :: "'sig attestor_service \<Rightarrow> (status + latest_height_response) io" where
  "latest_height self =
     bind_ok (or_status (fmap (map_err AdapterError)
                (get_last_height_at_configured_finality (svc_adapter self))))
       (\<lambda>height. Ret (Inr \<lparr>lh_height = height\<rparr>))"

definition state_attestation ::
  "hash_lib \<Rightarrow> ('key, 'sig) key_lib \<Rightarrow> ibc_lib \<Rightarrow> 'sig attestor_service \<Rightarrow>
    state_attestation_request \<Rightarrow> (status + state_attestation_response) io" where
  "state_attestation H K X self request =
     (let height = sq_height request
      in bind_ok (or_status (validate_height (svc_adapter self) height)) (\<lambda>_.
         bind_ok (or_status (fmap (map_err AdapterError)
                    (get_block_timestamp (svc_adapter self) height))) (\<lambda>timestamp.
         let attested_data = abi_encode_state X height timestamp
         in bind_ok (or_status (sign_attestation H K height (Some timestamp)
                       (new_payload attested_data StateAttestation) (svc_sign self)))
              (\<lambda>attestation. Ret (Inr (state_response attestation))))))"

definition packet_attestation ::
  "nat list \<Rightarrow> hash_lib \<Rightarrow> ('key, 'sig) key_lib \<Rightarrow> ibc_lib \<Rightarrow> 'sig attestor_service \<Rightarrow>
    packet_attestation_request \<Rightarrow> (status + packet_attestation_response) io" where
  "packet_attestation schedule H K X self request =
     (let height = pq_height request
      in bind_ok (or_status (Ret (packets_try_from_abi_encoded X (pq_packets request))))
           (\<lambda>packets.
         bind_ok (or_status (Ret (map_err (\<lambda>n. MalformedCommitmentError (unknown_enum_text X n))
                    (commitment_type_try_from (pq_commitment_type request))))) (\<lambda>commitment_type.
         bind_ok (or_status (validate_height (svc_adapter self) height)) (\<lambda>_.
         bind_ok (or_status (create_packets_attestation schedule H X (svc_adapter self) packets
                    height commitment_type)) (\<lambda>unsigned_attestation.
         let attested_data = abi_encode_packets X unsigned_attestation
         in bind_ok (or_status (sign_attestation H K height None
                       (new_payload attested_data PacketAttestation) (svc_sign self)))
              (\<lambda>attestation. Ret (Inr (packet_response attestation))))))))"

subsection \<open>The height check\<close>

lemma exec_validate_height_Inr:
  "exec (validate_height A height) t (Inr u) \<longleftrightarrow>
     (\<exists>t' finalized. exec (get_last_height_at_configured_finality A) t' (Inr finalized) \<and>
        height \<le> finalized \<and> t = t' @ [EMetric (HeightLag (height_lag finalized height))])"
  by (fastforce simp: validate_height_def exec_await_Inr not_less split: if_splits)

lemma exec_validate_height_Inl:
  "exec (validate_height A height) t (Inl e) \<longleftrightarrow>
     (\<exists>e'. exec (get_last_height_at_configured_finality A) t (Inl e') \<and> e = AdapterError e') \<or>
     (\<exists>t' finalized. exec (get_last_height_at_configured_finality A) t' (Inr finalized) \<and>
        finalized < height \<and> e = BlockNotFinalized \<and>
        t = t' @ [EMetric (HeightLag (height_lag finalized height)), EMetric HeightRejection])"
  by (fastforce simp: validate_height_def exec_await_Inl not_less split: if_splits)

lemma validate_height_finalized:
  assumes "exec (validate_height A height) t (Inr u)"
  shows "\<exists>th finalized. exec (get_last_height_at_configured_finality A) th (Inr finalized) \<and>
    height \<le> finalized \<and> set th \<subseteq> set t"
proof -
  from assms [unfolded exec_validate_height_Inr] obtain th finalized where
    "exec (get_last_height_at_configured_finality A) th (Inr finalized)" "height \<le> finalized"
    "t = th @ [EMetric (HeightLag (height_lag finalized height))]" by blast
  then show ?thesis by (intro exI [of _ th] exI [of _ finalized]) auto
qed

text \<open>The lag metric is the difference of the heights, each capped at the greatest \<open>i64\<close>.\<close>

lemma sint_capped:
  "sint (case i64_try_from_u64 x of Some v \<Rightarrow> v | None \<Rightarrow> i64_max) = int (min (unat x) (2 ^ 63 - 1))"
  by (auto simp: i64_try_from_u64_def sint_small_u64)

lemma sint_height_lag:
  "sint (height_lag finalized height) =
     int (min (unat finalized) (2 ^ 63 - 1)) - int (min (unat height) (2 ^ 63 - 1))"
proof -
  let ?d = "int (min (unat finalized) (2 ^ 63 - 1)) - int (min (unat height) (2 ^ 63 - 1))"
  have "- (2 ^ 63) \<le> ?d" "?d < 2 ^ 63" by auto
  then show ?thesis
    unfolding height_lag_def by (subst sint_i64_saturating_sub) (simp_all only: sint_capped)
qed

subsection \<open>What a packet is checked against\<close>

fun checked_client :: "commitment_type \<Rightarrow> packet \<Rightarrow> string" where
  "checked_client Packet p = sourceClient p"
| "checked_client Ack p = destClient p"
| "checked_client Receipt p = destClient p"

fun checked_path :: "ibc_lib \<Rightarrow> commitment_type \<Rightarrow> packet \<Rightarrow> bytes" where
  "checked_path X Packet p = commitment_path X p"
| "checked_path X Ack p = ack_commitment_path X p"
| "checked_path X Receipt p = receipt_commitment_path X p"

text \<open>The query for a packet, and the commitment to attest for what the chain answers.\<close>

definition chain_query ::
  "ibc_lib \<Rightarrow> adapter \<Rightarrow> u64 \<Rightarrow> commitment_type \<Rightarrow> packet \<Rightarrow> (adapter_error + bytes option) io" where
  "chain_query X A height ct p =
     get_commitment A (checked_client ct p) height (sequence p) (checked_path X ct p) ct"

fun accepted :: "ibc_lib \<Rightarrow> commitment_type \<Rightarrow> packet \<Rightarrow> bytes option \<Rightarrow> bytes option" where
  "accepted X Packet p (Some c) = (if packet_commitment X p = c then Some c else None)"
| "accepted X Packet p None = None"
| "accepted X Ack p c = c"
| "accepted X Receipt p None = Some (replicate 32 0)"
| "accepted X Receipt p (Some c) = None"

fun failure_kind :: "commitment_type \<Rightarrow> bytes option \<Rightarrow> string" where
  "failure_kind ct None = ''not_found''"
| "failure_kind Receipt (Some c) = ''unexpected_receipt''"
| "failure_kind ct (Some c) = ''mismatch''"

fun rejection ::
  "hash_lib \<Rightarrow> ibc_lib \<Rightarrow> u64 \<Rightarrow> commitment_type \<Rightarrow> packet \<Rightarrow> bytes option \<Rightarrow> attestor_error" where
  "rejection H X height ct p None =
     CommitmentNotFound (checked_client ct p) (sequence p) height"
| "rejection H X height Receipt p (Some c) =
     InvalidCommitment
       (''Receipt commitment should be zero for client_id='' @ destClient p @ '' seq='' @
        dec_u64 (sequence p) @ '': got 0x'' @ hex_encode H c)"
| "rejection H X height ct p (Some c) =
     InvalidCommitment
       (''Packet commitment mismatch for client_id='' @ checked_client ct p @ '' seq='' @
        dec_u64 (sequence p) @ '': expected 0x'' @ hex_encode H (packet_commitment X p) @
        '', got 0x'' @ hex_encode H c)"

definition compact_entry :: "hash_lib \<Rightarrow> ibc_lib \<Rightarrow> commitment_type \<Rightarrow> packet \<Rightarrow> bytes \<Rightarrow> packet_compact" where
  "compact_entry H X ct p c = \<lparr>pc_path = keccak256 H (checked_path X ct p), pc_commitment = c\<rparr>"

text \<open>The verdict on a packet for what the chain answers.\<close>

definition verdict ::
  "hash_lib \<Rightarrow> ibc_lib \<Rightarrow> u64 \<Rightarrow> commitment_type \<Rightarrow> packet \<Rightarrow> bytes option \<Rightarrow>
    attestor_error + packet_compact" where
  "verdict H X height ct p c =
     (case accepted X ct p c of
        None \<Rightarrow> Inl (rejection H X height ct p c)
      | Some cm \<Rightarrow> Inr (compact_entry H X ct p cm))"

text \<open>The three handlers are one query followed by the verdict.\<close>

lemmas handler_defs = handle_packet_commitment_def handle_ack_commitment_def
  handle_receipt_commitment_def

lemma create_single_packet_attestation_eq:
  "create_single_packet_attestation H X A height p ct =
     bind_ok (fmap (map_err AdapterError) (chain_query X A height ct p))
       (\<lambda>c. if accepted X ct p c = None
             then Emit (CommitmentFailure (failure_kind ct c)) (Ret (verdict H X height ct p c))
             else Ret (verdict H X height ct p c))"
  by (cases ct)
    (auto simp: create_single_packet_attestation_def handler_defs chain_query_def verdict_def
      compact_entry_def Let_def intro!: bind_ok_cong split: option.splits)

lemma exec_create_single:
  "exec (create_single_packet_attestation H X A height p ct) t r \<longleftrightarrow>
     (\<exists>e. exec (chain_query X A height ct p) t (Inl e) \<and> r = Inl (AdapterError e)) \<or>
     (\<exists>t' c. exec (chain_query X A height ct p) t' (Inr c) \<and> r = verdict H X height ct p c \<and>
        t = t' @ (if accepted X ct p c = None
                  then [EMetric (CommitmentFailure (failure_kind ct c))] else []))"
  unfolding create_single_packet_attestation_eq exec_await exec_if_Emit by blast

lemma verdict_Inr_iff:
  "verdict H X height ct p c = Inr pc \<longleftrightarrow>
     (\<exists>cm. accepted X ct p c = Some cm \<and> pc = compact_entry H X ct p cm)"
  by (auto simp: verdict_def split: option.splits)

lemma exec_create_single_Inr:
  "exec (create_single_packet_attestation H X A height p ct) t (Inr pc) \<longleftrightarrow>
     (\<exists>c cm. exec (chain_query X A height ct p) t (Inr c) \<and> accepted X ct p c = Some cm \<and>
        pc = compact_entry H X ct p cm)"
  by (auto simp: exec_create_single verdict_Inr_iff trans [OF eq_commute verdict_Inr_iff])

text \<open>The status of a refusal: a missing commitment is not found, a wrong one invalid.\<close>

lemma rejection_code:
  "accepted X ct p c = None \<Longrightarrow>
     status_code (status_of_attestor_error (rejection H X height ct p c)) =
       (if c = None then NotFound else InvalidArgument)"
  by (cases ct; cases c) (auto simp: status_code_iffs)

lemma exec_create_single_Inl:
  assumes "exec (create_single_packet_attestation H X A height p ct) t (Inl e)"
  shows "(\<exists>x. exec (chain_query X A height ct p) t (Inl x) \<and> e = AdapterError x) \<or>
    (\<exists>t' c. exec (chain_query X A height ct p) t' (Inr c) \<and> accepted X ct p c = None \<and>
       e = rejection H X height ct p c \<and>
       t = t' @ [EMetric (CommitmentFailure (failure_kind ct c))])"
  using assms unfolding exec_create_single
  by (auto simp: verdict_def split: option.splits if_splits)

lemma create_single_code:
  assumes "exec (create_single_packet_attestation H X A height p ct) t (Inl e)"
  shows "status_code (status_of_attestor_error e) \<in> {Internal, NotFound, InvalidArgument}"
proof -
  from exec_create_single_Inl [OF assms] consider x where "e = AdapterError x"
    | c where "accepted X ct p c = None" "e = rejection H X height ct p c" by blast
  then show ?thesis
    by cases (auto simp: status_code_Internal_iff rejection_code)
qed

subsection \<open>All packets or none\<close>

lemma exec_create_packets:
  "exec (create_packets_attestation schedule H X A ps height ct) t r \<longleftrightarrow>
     (\<exists>rs. exec (join schedule
               (map (\<lambda>p. create_single_packet_attestation H X A height p ct) ps)) t rs \<and>
        r = map_ok (\<lambda>pcs. \<lparr>pa_height = height, pa_packets = pcs\<rparr>) (collect_result rs))"
  by (auto simp: create_packets_attestation_def packets_into_iter_def Let_def exec_bind)

text \<open>An attestation lists one entry per packet, each accepted by the chain's own answer.\<close>

lemma exec_create_packets_Inr:
  assumes "exec (create_packets_attestation schedule H X A ps height ct) t (Inr pa)"
  shows "pa_height pa = height" and "length (pa_packets pa) = length ps"
    and "i < length ps \<Longrightarrow> \<exists>ti c cm. exec (chain_query X A height ct (ps ! i)) ti (Inr c) \<and>
      set ti \<subseteq> set t \<and> accepted X ct (ps ! i) c = Some cm \<and>
      pa_packets pa ! i = compact_entry H X ct (ps ! i) cm"
proof -
  from assms obtain rs where rs: "exec (join schedule
        (map (\<lambda>p. create_single_packet_attestation H X A height p ct) ps)) t rs"
      "collect_result rs = Inr (pa_packets pa)" "pa_height pa = height"
    by (auto simp: exec_create_packets trans [OF eq_commute map_ok_Inr_iff])
  note each = exec_join_each [OF rs(1)]
  show "pa_height pa = height" by (rule rs(3))
  show len: "length (pa_packets pa) = length ps"
    using collect_result_length [OF rs(2)] each by simp
  assume i: "i < length ps"
  with each obtain ti where ti: "set ti \<subseteq> set t"
      "exec (create_single_packet_attestation H X A height (ps ! i) ct) ti (rs ! i)"
    by auto
  have "rs ! i = Inr (pa_packets pa ! i)"
    using collect_result_nth [OF rs(2)] each i by simp
  with ti show "\<exists>ti c cm. exec (chain_query X A height ct (ps ! i)) ti (Inr c) \<and>
      set ti \<subseteq> set t \<and> accepted X ct (ps ! i) c = Some cm \<and>
      pa_packets pa ! i = compact_entry H X ct (ps ! i) cm"
    by (auto simp: exec_create_single_Inr)
qed

text \<open>An error is the error of the first packet, in the order of the request, that was refused.\<close>

lemma exec_create_packets_Inl:
  assumes "exec (create_packets_attestation schedule H X A ps height ct) t (Inl e)"
  shows "\<exists>i < length ps.
    (\<exists>ti. exec (create_single_packet_attestation H X A height (ps ! i) ct) ti (Inl e) \<and>
       set ti \<subseteq> set t) \<and>
    (\<forall>j < i. \<exists>tj pc. exec (create_single_packet_attestation H X A height (ps ! j) ct) tj (Inr pc) \<and>
       set tj \<subseteq> set t)"
proof -
  from assms obtain rs where rs: "exec (join schedule
        (map (\<lambda>p. create_single_packet_attestation H X A height p ct) ps)) t rs"
      "collect_result rs = Inl e"
    by (auto simp: exec_create_packets trans [OF eq_commute map_ok_Inl_iff])
  from rs(2) obtain xs rest where split: "rs = map Inr xs @ Inl e # rest"
    by (auto simp: collect_result_Inl_iff)
  from exec_join_each [OF rs(1)]
  have each: "length rs = length ps"
    "\<And>i. i < length ps \<Longrightarrow> \<exists>ti. exec (create_single_packet_attestation H X A height (ps ! i) ct) ti
       (rs ! i) \<and> set ti \<subseteq> set t"
    by auto
  have i: "length xs < length ps" "rs ! length xs = Inl e"
    using each(1) split by (auto simp: nth_append)
  have j: "rs ! j = Inr (xs ! j)" if "j < length xs" for j
    using split that by (simp add: nth_append)
  show ?thesis
  proof (intro exI [of _ "length xs"] conjI allI impI)
    show "\<exists>ti. exec (create_single_packet_attestation H X A height (ps ! length xs) ct) ti (Inl e) \<and>
        set ti \<subseteq> set t"
      using each(2) [OF i(1)] i(2) by simp
    fix k assume "k < length xs"
    with each(2) [of k] j [of k] i(1)
    show "\<exists>tk pc. exec (create_single_packet_attestation H X A height (ps ! k) ct) tk (Inr pc) \<and>
        set tk \<subseteq> set t"
      by auto
  qed (rule i(1))
qed

text \<open>
  When the chain's answers do not change between queries, the result is a function of them: the
  schedule has no influence.
\<close>

definition answers :: "ibc_lib \<Rightarrow> adapter \<Rightarrow> u64 \<Rightarrow> commitment_type \<Rightarrow>
    (packet \<Rightarrow> adapter_error + bytes option) \<Rightarrow> packet list \<Rightarrow> bool" where
  "answers X A height ct ans ps \<longleftrightarrow>
     (\<forall>p \<in> set ps. \<forall>t a. exec (chain_query X A height ct p) t a \<longrightarrow> a = ans p)"

definition judged ::
  "hash_lib \<Rightarrow> ibc_lib \<Rightarrow> u64 \<Rightarrow> commitment_type \<Rightarrow> (packet \<Rightarrow> adapter_error + bytes option) \<Rightarrow>
    packet \<Rightarrow> attestor_error + packet_compact" where
  "judged H X height ct ans p = and_then (map_err AdapterError (ans p)) (verdict H X height ct p)"

lemma exec_create_packets_answers:
  assumes "answers X A height ct ans ps"
    and "exec (create_packets_attestation schedule H X A ps height ct) t r"
  shows "r = map_ok (\<lambda>pcs. \<lparr>pa_height = height, pa_packets = pcs\<rparr>)
    (collect_result (map (judged H X height ct ans) ps))"
proof -
  from assms(2) obtain rs where rs: "exec (join schedule
        (map (\<lambda>p. create_single_packet_attestation H X A height p ct) ps)) t rs"
      "r = map_ok (\<lambda>pcs. \<lparr>pa_height = height, pa_packets = pcs\<rparr>) (collect_result rs)"
    by (auto simp: exec_create_packets)
  have "x = judged H X height ct ans p"
    if "p \<in> set ps" "exec (create_single_packet_attestation H X A height p ct) ti x" for p ti x
  proof -
    have ans: "exec (chain_query X A height ct p) t' a \<Longrightarrow> a = ans p" for t' a
      using assms(1) that(1) by (simp add: answers_def)
    from that(2) consider
        (err) e where "exec (chain_query X A height ct p) ti (Inl e)" "x = Inl (AdapterError e)"
      | (ok) t' c where "exec (chain_query X A height ct p) t' (Inr c)"
          "x = verdict H X height ct p c"
      unfolding exec_create_single by blast
    then show ?thesis
    proof cases
      case err
      with ans [OF err(1), symmetric] show ?thesis by (simp add: judged_def)
    next
      case ok
      with ans [OF ok(1), symmetric] show ?thesis by (simp add: judged_def)
    qed
  qed
  with exec_join_each [OF rs(1)] have "rs = map (judged H X height ct ans) ps"
    by (auto intro!: nth_equalityI)
  with rs(2) show ?thesis by simp
qed

subsection \<open>The handlers\<close>

text \<open>The signed answers: which executions end in an attestation, and in which.\<close>

definition attestation_for ::
  "('key, 'sig) key_lib \<Rightarrow> u64 \<Rightarrow> u64 option \<Rightarrow> bytes \<Rightarrow> 'sig \<Rightarrow> attestation" where
  "attestation_for K height timestamp d sig =
     \<lparr>att_height = height, att_timestamp = timestamp, att_attested_data = d,
      att_signature = sig_as_bytes K sig\<rparr>"

lemma attestation_of_signed_simp [simp]:
  "attestation_of_signed \<lparr>sa_height = h, sa_timestamp = ts, sa_attested_data = d,
     sa_signature = sig_as_bytes K sig\<rparr> = attestation_for K h ts d sig"
  by (simp add: attestation_of_signed_def attestation_for_def)

text \<open>A handler's \<open>?\<close> on an adapter call.\<close>

lemma or_status_adapter:
  "or_status (fmap (map_err AdapterError) m) =
     fmap (map_err (\<lambda>e. status_of_attestor_error (AdapterError e))) m"
proof -
  have "map_err status_of_attestor_error \<circ> map_err AdapterError =
      (map_err (\<lambda>e. status_of_attestor_error (AdapterError e)) :: _ + 'a \<Rightarrow> _)"
    by (rule ext, rename_tac x, case_tac x) auto
  then show ?thesis
    by (simp add: fmap_def bind_assoc fun_eq_iff)
qed

lemma exec_latest_height:
  "exec (latest_height self) t r \<longleftrightarrow>
     (\<exists>e. exec (get_last_height_at_configured_finality (svc_adapter self)) t (Inl e) \<and>
        r = Inl (status_of_attestor_error (AdapterError e))) \<or>
     (\<exists>h. exec (get_last_height_at_configured_finality (svc_adapter self)) t (Inr h) \<and>
        r = Inr \<lparr>lh_height = h\<rparr>)"
  unfolding latest_height_def or_status_adapter exec_await by auto

lemmas handler_awaits = or_status_adapter exec_await_last exec_sign_attestation_Inr

text \<open>A state attestation is the finality check, the timestamp and the signature, in this order.\<close>

lemma exec_state_attestation_Inr:
  "exec (state_attestation H K X self request) t (Inr resp) \<longleftrightarrow>
     (\<exists>t1 t2 t3 ts sig.
        t = t1 @ t2 @ t3 \<and>
        exec (validate_height (svc_adapter self) (sq_height request)) t1 (Inr ()) \<and>
        exec (get_block_timestamp (svc_adapter self) (sq_height request)) t2 (Inr ts) \<and>
        exec (svc_sign self (tagged_signing_input H
          (new_payload (abi_encode_state X (sq_height request) ts) StateAttestation))) t3 (Inr sig) \<and>
        resp = \<lparr>sp_attestation = Some (attestation_for K (sq_height request) (Some ts)
          (abi_encode_state X (sq_height request) ts) sig)\<rparr>)"
  (is "?handler t \<longleftrightarrow> ?attested")
proof
  assume "?handler t"
  then show ?attested
    unfolding state_attestation_def Let_def or_status_adapter
    by (elim exec_awaitE, unfold handler_awaits)
      (force simp: state_response_def new_payload_def)
next
  assume ?attested
  then obtain t1 t2 t3 ts sig where *: "t = t1 @ t2 @ t3"
      "exec (validate_height (svc_adapter self) (sq_height request)) t1 (Inr ())"
      "exec (get_block_timestamp (svc_adapter self) (sq_height request)) t2 (Inr ts)"
      "exec (svc_sign self (tagged_signing_input H
         (new_payload (abi_encode_state X (sq_height request) ts) StateAttestation))) t3 (Inr sig)"
      "resp = \<lparr>sp_attestation = Some (attestation_for K (sq_height request) (Some ts)
         (abi_encode_state X (sq_height request) ts) sig)\<rparr>"
    by auto
  show "?handler t"
    unfolding state_attestation_def Let_def or_status_adapter *(1)
    by (intro exec_awaitI, (rule *)+, unfold handler_awaits)
      (use * in \<open>force simp: state_response_def new_payload_def\<close>)
qed

text \<open>The parts of a request that are decoded before anything is asked of the chain.\<close>

definition decoded ::
  "ibc_lib \<Rightarrow> packet_attestation_request \<Rightarrow> (packet list \<times> commitment_type) option" where
  "decoded X request =
     (case (packets_try_from_abi_encoded X (pq_packets request),
            commitment_type_try_from (pq_commitment_type request)) of
        (Inr ps, Inr ct) \<Rightarrow> Some (ps, ct)
      | _ \<Rightarrow> None)"

lemma decoded_Some_iff:
  "decoded X request = Some (ps, ct) \<longleftrightarrow>
     packets_try_from_abi_encoded X (pq_packets request) = Inr ps \<and>
     commitment_type_try_from (pq_commitment_type request) = Inr ct"
  by (auto simp: decoded_def split: sum.splits)

lemma exec_packet_attestation_Inr:
  "exec (packet_attestation schedule H K X self request) t (Inr resp) \<longleftrightarrow>
     (\<exists>ps ct t1 t2 t3 pa sig.
        t = t1 @ t2 @ t3 \<and>
        decoded X request = Some (ps, ct) \<and>
        exec (validate_height (svc_adapter self) (pq_height request)) t1 (Inr ()) \<and>
        exec (create_packets_attestation schedule H X (svc_adapter self) ps (pq_height request) ct)
          t2 (Inr pa) \<and>
        exec (svc_sign self (tagged_signing_input H
          (new_payload (abi_encode_packets X pa) PacketAttestation))) t3 (Inr sig) \<and>
        resp = \<lparr>pp_attestation = Some (attestation_for K (pq_height request) None
          (abi_encode_packets X pa) sig)\<rparr>)"
  (is "?handler t \<longleftrightarrow> ?attested")
proof
  assume "?handler t"
  then show ?attested
    unfolding packet_attestation_def Let_def
    by (elim exec_awaitE, unfold handler_awaits)
      (force simp: packet_response_def new_payload_def decoded_Some_iff)
next
  assume ?attested
  then obtain ps ct t1 t2 t3 pa sig where *: "t = [] @ [] @ t1 @ t2 @ t3"
      "exec (Ret (packets_try_from_abi_encoded X (pq_packets request))) [] (Inr ps)"
      "exec (Ret (map_err (\<lambda>n. MalformedCommitmentError (unknown_enum_text X n))
         (commitment_type_try_from (pq_commitment_type request)))) [] (Inr ct)"
      "exec (validate_height (svc_adapter self) (pq_height request)) t1 (Inr ())"
      "exec (create_packets_attestation schedule H X (svc_adapter self) ps (pq_height request) ct)
         t2 (Inr pa)"
      "exec (svc_sign self (tagged_signing_input H
         (new_payload (abi_encode_packets X pa) PacketAttestation))) t3 (Inr sig)"
      "resp = \<lparr>pp_attestation = Some (attestation_for K (pq_height request) None
         (abi_encode_packets X pa) sig)\<rparr>"
    by (auto simp: decoded_Some_iff)
  show "?handler t"
    unfolding packet_attestation_def Let_def *(1)
    by (intro exec_awaitI, (rule *)+, unfold handler_awaits)
      (use * in \<open>force simp: packet_response_def new_payload_def\<close>)
qed

text \<open>
  How a packet request fails: \<open>packet_failure\<close> lists the causes in the order in which the handler
  meets them, with the events that precede each.
\<close>

inductive packet_failure ::
  "nat list \<Rightarrow> hash_lib \<Rightarrow> ibc_lib \<Rightarrow> 'sig attestor_service \<Rightarrow> packet_attestation_request \<Rightarrow>
    event list \<Rightarrow> attestor_error \<Rightarrow> bool"
  for schedule H X self request where
  undecodable:
    "packets_try_from_abi_encoded X (pq_packets request) = Inl e \<Longrightarrow>
       packet_failure schedule H X self request [] e"
| unknown_type:
    "packets_try_from_abi_encoded X (pq_packets request) = Inr ps \<Longrightarrow>
       commitment_type_try_from (pq_commitment_type request) = Inl n \<Longrightarrow>
       packet_failure schedule H X self request []
         (MalformedCommitmentError (unknown_enum_text X n))"
| not_final:
    "decoded X request = Some (ps, ct) \<Longrightarrow>
       exec (validate_height (svc_adapter self) (pq_height request)) t (Inl e) \<Longrightarrow>
       packet_failure schedule H X self request t e"
| refused:
    "decoded X request = Some (ps, ct) \<Longrightarrow>
       exec (validate_height (svc_adapter self) (pq_height request)) t1 (Inr ()) \<Longrightarrow>
       exec (create_packets_attestation schedule H X (svc_adapter self) ps (pq_height request) ct)
         t2 (Inl e) \<Longrightarrow>
       packet_failure schedule H X self request (t1 @ t2) e"
| unsigned:
    "decoded X request = Some (ps, ct) \<Longrightarrow>
       exec (validate_height (svc_adapter self) (pq_height request)) t1 (Inr ()) \<Longrightarrow>
       exec (create_packets_attestation schedule H X (svc_adapter self) ps (pq_height request) ct)
         t2 (Inr pa) \<Longrightarrow>
       exec (svc_sign self (tagged_signing_input H
         (new_payload (abi_encode_packets X pa) PacketAttestation))) t3 (Inl e) \<Longrightarrow>
       packet_failure schedule H X self request (t1 @ t2 @ t3)
         (SignerError (signer_error_text e))"

lemma exec_or_status_InlE:
  assumes "exec (bind_ok (or_status m) k) t (Inl s)"
  obtains e where "exec m t (Inl e)" and "s = status_of_attestor_error e"
  | t1 t2 x where "t = t1 @ t2" and "exec m t1 (Inr x)" and "exec (k x) t2 (Inl s)"
  using assms unfolding exec_await_Inl by blast

lemma exec_packet_attestation_Inl:
  assumes "exec (packet_attestation schedule H K X self request) t (Inl s)"
  shows "\<exists>e. packet_failure schedule H X self request t e \<and> s = status_of_attestor_error e"
  using assms unfolding packet_attestation_def Let_def
proof (elim exec_or_status_InlE, goal_cases)
  case (1 e)
  then show ?case by (auto intro: undecodable [OF sym])
next
  case (2 t1 t2 ps e)
  then show ?case by (auto simp: result_simps intro: unknown_type [OF sym])
next
  case (3 t1 t2 ps t3 t4 ct e)
  then show ?case
    by (intro exI [of _ e]) (simp add: not_final [of X request ps ct] decoded_Some_iff)
next
  case (4 t1 t2 ps t3 t4 ct t5 t6 u e)
  then show ?case
    by (intro exI [of _ e]) (simp add: refused [of X request ps ct] decoded_Some_iff)
next
  case (5 t1 t2 ps t3 t4 ct t5 t6 u t7 t8 pa e)
  from 5(9) [unfolded exec_sign_attestation_Inl] obtain e' where "e = SignerError (signer_error_text e')"
    "exec (svc_sign self (tagged_signing_input H
       (new_payload (abi_encode_packets X pa) PacketAttestation))) t8 (Inl e')" by auto
  with 5 unsigned [of X request ps ct self t5 schedule H t7 pa t8 e'] show ?case
    by (intro exI [of _ e]) (simp add: decoded_Some_iff)
qed simp

lemma packet_attestation_not_finalI:
  assumes "decoded X request = Some (ps, ct)"
    and "exec (validate_height (svc_adapter self) (pq_height request)) t (Inl e)"
  shows "exec (packet_attestation schedule H K X self request) t (Inl (status_of_attestor_error e))"
proof -
  have decode: "exec (Ret (packets_try_from_abi_encoded X (pq_packets request))) [] (Inr ps)"
    "exec (Ret (map_err (\<lambda>n. MalformedCommitmentError (unknown_enum_text X n))
       (commitment_type_try_from (pq_commitment_type request)))) [] (Inr ct)"
    using assms(1) by (auto simp: decoded_Some_iff)
  have "exec (packet_attestation schedule H K X self request) ([] @ [] @ t)
      (Inl (status_of_attestor_error e))"
    unfolding packet_attestation_def Let_def
    by (rule exec_awaitI [OF decode(1)], rule exec_awaitI [OF decode(2)])
      (use assms(2) in \<open>auto simp only: exec_await_Inl\<close>)
  then show ?thesis by simp
qed

lemma undecodable_code:
  "packets_try_from_abi_encoded X encoded = Inl e \<Longrightarrow>
     status_code (status_of_attestor_error e) = Internal"
  by (drule packets_try_from_Inl) (auto simp: status_code_iffs)

text \<open>The finality check is the only cause of a failed precondition.\<close>

lemma packet_failure_FailedPrecondition:
  assumes "packet_failure schedule H X self request t e"
    and "status_code (status_of_attestor_error e) = FailedPrecondition"
  shows "decoded X request \<noteq> None \<and> e = BlockNotFinalized \<and>
    exec (validate_height (svc_adapter self) (pq_height request)) t (Inl e)"
  using assms
proof cases
  case undecodable
  with assms(2) undecodable_code show ?thesis by fastforce
next
  case (refused ps ct t1 t2)
  from exec_create_packets_Inl [OF refused(4)] create_single_code assms(2) show ?thesis by fastforce
qed (use assms(2) in \<open>auto simp: status_code_iffs\<close>)

inductive state_failure ::
  "hash_lib \<Rightarrow> ibc_lib \<Rightarrow> 'sig attestor_service \<Rightarrow> state_attestation_request \<Rightarrow>
    event list \<Rightarrow> attestor_error \<Rightarrow> bool"
  for H X self request where
  state_not_final:
    "exec (validate_height (svc_adapter self) (sq_height request)) t (Inl e) \<Longrightarrow>
       state_failure H X self request t e"
| state_no_timestamp:
    "exec (validate_height (svc_adapter self) (sq_height request)) t1 (Inr ()) \<Longrightarrow>
       exec (get_block_timestamp (svc_adapter self) (sq_height request)) t2 (Inl e) \<Longrightarrow>
       state_failure H X self request (t1 @ t2) (AdapterError e)"
| state_unsigned:
    "exec (validate_height (svc_adapter self) (sq_height request)) t1 (Inr ()) \<Longrightarrow>
       exec (get_block_timestamp (svc_adapter self) (sq_height request)) t2 (Inr ts) \<Longrightarrow>
       exec (svc_sign self (tagged_signing_input H
         (new_payload (abi_encode_state X (sq_height request) ts) StateAttestation))) t3 (Inl e) \<Longrightarrow>
       state_failure H X self request (t1 @ t2 @ t3) (SignerError (signer_error_text e))"

lemma exec_state_attestation_Inl:
  assumes "exec (state_attestation H K X self request) t (Inl s)"
  shows "\<exists>e. state_failure H X self request t e \<and> s = status_of_attestor_error e"
  using assms unfolding state_attestation_def Let_def
proof (elim exec_or_status_InlE, goal_cases)
  case (1 e)
  then show ?case by (auto intro: state_not_final)
next
  case (2 t1 t2 u e)
  then show ?case by (auto simp: exec_fmap result_simps intro: state_no_timestamp)
next
  case (3 t1 t2 u t3 t4 ts e)
  then show ?case
    by (auto simp: exec_fmap exec_sign_attestation_Inl result_simps intro: state_unsigned)
qed simp

subsection \<open>Completeness\<close>

text \<open>Some execution of the futures exists under every schedule, with one result per future.\<close>

lemma create_packets_answers_ex:
  assumes "answers X A height ct ans ps"
  shows "\<exists>t. exec (create_packets_attestation schedule H X A ps height ct) t
    (map_ok (\<lambda>pcs. \<lparr>pa_height = height, pa_packets = pcs\<rparr>)
       (collect_result (map (judged H X height ct ans) ps)))"
  using exec_total exec_create_packets_answers [OF assms] by metis

end
