(* ===== verification/Cosmos.thy ===== *)
theory Cosmos
  imports Adapter
begin

section \<open>The Cosmos adapter (\<open>adapter/cosmos.rs\<close>)\<close>

text \<open>
  Commitments come from the Tendermint RPC queries by client and sequence; the commitment path is
  not used. An empty packet commitment or acknowledgement is absence. For a receipt the query says
  whether the packet was received, and a received packet is an error.
\<close>

record cosmos_config =
  cosmos_url :: string

record cosmos_adapter =
  cosmos_client :: string \<comment> \<open>the URL the client was built for\<close>

definition cosmos_adapter_name :: string where
  "cosmos_adapter_name = ''cosmos''"

text \<open>\<open>http_client_new\<close> is \<open>tendermint_rpc::HttpClient::new\<close>: its error text, or success.\<close>

definition cosmos_build ::
  "(string \<Rightarrow> string + unit) \<Rightarrow> cosmos_config \<Rightarrow> adapter_error + cosmos_adapter" where
  "cosmos_build http_client_new config =
     (case http_client_new (cosmos_url config) of
        Inl err \<Rightarrow> Inl (AdapterConfigError (''Cosmos client couldn't be initialized: '' @ err))
      | Inr _ \<Rightarrow> Inr \<lparr>cosmos_client = cosmos_url config\<rparr>)"

definition cosmos_get_packet_commitment ::
  "chain_lib \<Rightarrow> string \<Rightarrow> u64 \<Rightarrow> u64 \<Rightarrow> (adapter_error + bytes option) io" where
  "cosmos_get_packet_commitment C client_id height sequence =
     bind_ok (call C ''cosmos.get_packet_commitment.v2_packet_commitment''
                (CosmosPacketCommitment client_id sequence height False))
       (\<lambda>result.
          if re_commitment result = [] then Ret (Inr None)
          else Ret (Inr (Some (re_commitment result))))"

definition cosmos_get_ack_commitment ::
  "chain_lib \<Rightarrow> string \<Rightarrow> u64 \<Rightarrow> u64 \<Rightarrow> (adapter_error + bytes option) io" where
  "cosmos_get_ack_commitment C client_id height sequence =
     bind_ok (call C ''cosmos.get_ack_commitment.v2_packet_acknowledgement''
                (CosmosPacketAcknowledgement client_id sequence height))
       (\<lambda>result.
          if re_acknowledgement result = [] then Ret (Inr None)
          else Ret (Inr (Some (re_acknowledgement result))))"

definition cosmos_get_receipt_commitment ::
  "chain_lib \<Rightarrow> string \<Rightarrow> u64 \<Rightarrow> u64 \<Rightarrow> (adapter_error + bytes option) io" where
  "cosmos_get_receipt_commitment C client_id height sequence =
     bind_ok (call C ''cosmos.get_receipt_commitment.v2_packet_receipt''
                (CosmosPacketReceipt client_id sequence height))
       (\<lambda>response.
          if re_received response
          then Ret (Inl (CommitmentError
                 (''Packet seq='' @ dec_u64 sequence @ '' was already received, cannot timeout'')))
          else Ret (Inr None))"

definition cosmos_get_last_height :: "chain_lib \<Rightarrow> (adapter_error + u64) io" where
  "cosmos_get_last_height C =
     bind_ok (call C ''cosmos.get_last_height.latest_commit'' CosmosLatestCommit)
       (\<lambda>block. Ret (Inr (re_header_height block)))"

definition cosmos_get_block_timestamp :: "chain_lib \<Rightarrow> u64 \<Rightarrow> (adapter_error + u64) io" where
  "cosmos_get_block_timestamp C height =
     (case tm_height C height of
        None \<Rightarrow> Ret (Inl InvalidHeight)
      | Some height \<Rightarrow>
          bind_ok (call C ''cosmos.get_block_timestamp.commit'' (CosmosCommit height))
            (\<lambda>block.
               case u64_try_from_i64 (re_unix_timestamp block) of
                 None \<Rightarrow> Ret (Inl (RetrievalError out_of_range_text))
               | Some timestamp \<Rightarrow> Ret (Inr timestamp)))"

definition cosmos_get_commitment ::
  "chain_lib \<Rightarrow> string \<Rightarrow> u64 \<Rightarrow> u64 \<Rightarrow> bytes \<Rightarrow> commitment_type \<Rightarrow>
    (adapter_error + bytes option) io" where
  "cosmos_get_commitment C client_id height sequence commitment_path commitment_type =
     bind_ok
       (case commitment_type of
          Packet \<Rightarrow> cosmos_get_packet_commitment C client_id height sequence
        | Ack \<Rightarrow> cosmos_get_ack_commitment C client_id height sequence
        | Receipt \<Rightarrow> cosmos_get_receipt_commitment C client_id height sequence)
       (\<lambda>commitment.
          case commitment of
            None \<Rightarrow> Ret (Inr None)
          | Some commitment \<Rightarrow>
              (case array32 commitment of
                 None \<Rightarrow> Ret (Inl (CommitmentError ''Commitment length mismatch''))
               | Some commitment \<Rightarrow> Ret (Inr (Some commitment))))"

definition cosmos_attestation_adapter :: "chain_lib \<Rightarrow> cosmos_adapter \<Rightarrow> adapter" where
  "cosmos_attestation_adapter C self =
     \<lparr>get_last_height_at_configured_finality = cosmos_get_last_height C,
      get_block_timestamp = cosmos_get_block_timestamp C,
      get_commitment = cosmos_get_commitment C\<rparr>"

lemmas cosmos_defs = cosmos_get_packet_commitment_def cosmos_get_ack_commitment_def
  cosmos_get_receipt_commitment_def cosmos_get_last_height_def cosmos_get_block_timestamp_def
  cosmos_get_commitment_def cosmos_attestation_adapter_def

interpretation cosmos: attestation_adapter "\<lambda>(C, self). cosmos_attestation_adapter C self"
  "\<lambda>(C, self). retries_ok C"
proof (unfold_locales, goal_cases)
  case (1 c client height sequence path ct t cm)
  then show ?case
    by (auto simp: cosmos_defs exec_bind_ok_Inr split: prod.splits option.splits)
qed (auto simp: cosmos_defs intro!: event_rules split: prod.splits option.splits
  commitment_type.splits)

subsection \<open>Behaviour\<close>

text \<open>The bytes a commitment query of type \<open>ct\<close> returned.\<close>

fun cosmos_query :: "string \<Rightarrow> u64 \<Rightarrow> u64 \<Rightarrow> commitment_type \<Rightarrow> rpc_call" where
  "cosmos_query client height sequence Packet = CosmosPacketCommitment client sequence height False"
| "cosmos_query client height sequence Ack = CosmosPacketAcknowledgement client sequence height"
| "cosmos_query client height sequence Receipt = CosmosPacketReceipt client sequence height"

text \<open>What the reply of the chain means, as the result of \<open>get_commitment\<close>.\<close>

fun cosmos_answer :: "u64 \<Rightarrow> commitment_type \<Rightarrow> reply \<Rightarrow> adapter_error + bytes option" where
  "cosmos_answer sequence Receipt x =
     (if re_received x
      then Inl (CommitmentError
             (''Packet seq='' @ dec_u64 sequence @ '' was already received, cannot timeout''))
      else Inr None)"
| "cosmos_answer sequence ct x =
     (let bs = (if ct = Packet then re_commitment x else re_acknowledgement x)
      in if bs = [] then Inr None
         else if length bs = 32 then Inr (Some bs)
         else Inl (CommitmentError ''Commitment length mismatch''))"

fun cosmos_operation :: "commitment_type \<Rightarrow> string" where
  "cosmos_operation Packet = ''cosmos.get_packet_commitment.v2_packet_commitment''"
| "cosmos_operation Ack = ''cosmos.get_ack_commitment.v2_packet_acknowledgement''"
| "cosmos_operation Receipt = ''cosmos.get_receipt_commitment.v2_packet_receipt''"

text \<open>The adapter's \<open>get_commitment\<close> is one query, answered by \<open>cosmos_answer\<close>.\<close>

lemma cosmos_get_commitment_eq:
  "cosmos_get_commitment C client height sequence path ct =
     bind_ok (call C (cosmos_operation ct) (cosmos_query client height sequence ct))
       (\<lambda>x. Ret (cosmos_answer sequence ct x))"
  by (cases ct)
    (auto simp: cosmos_defs bind_ok_assoc Let_def intro!: bind_ok_cong split: option.splits)

lemma cosmos_timestamp_eq:
  "cosmos_get_block_timestamp C height =
     (case tm_height C height of
        None \<Rightarrow> Ret (Inl InvalidHeight)
      | Some h \<Rightarrow> bind_ok (call C ''cosmos.get_block_timestamp.commit'' (CosmosCommit h))
          (\<lambda>x. Ret (if 0 \<le> sint (re_unix_timestamp x) then Inr (re_unix_timestamp x)
                    else Inl (RetrievalError out_of_range_text))))"
  by (auto simp: cosmos_defs u64_try_from_i64_def intro!: bind_ok_cong split: option.splits)

text \<open>
  C20. Cosmos commitments. The result is decided by the answer to one query by client and sequence
  at the requested height: nothing stored is absence, 32 bytes are the commitment, any other length
  an error; of a receipt only absence is ever returned, a received packet is an error.
\<close>

theorem cosmos_commitment:
  assumes "retries_ok C" and "exec (cosmos_get_commitment C client height seq path ct) t r"
  shows "\<exists>a. ERpc (cosmos_query client height seq ct) a \<in> set t \<and>
    r = (case a of Inl err \<Rightarrow> Inl (RetrievalError err) | Inr x \<Rightarrow> cosmos_answer seq ct x) \<and>
    (ct = Receipt \<longrightarrow> (\<forall>cm. r \<noteq> Inr (Some cm)))"
proof -
  from exec_call_ret [OF assms(1) assms(2) [unfolded cosmos_get_commitment_eq]] obtain a where
    "ERpc (cosmos_query client height seq ct) a \<in> set t"
    "r = (case a of Inl err \<Rightarrow> Inl (RetrievalError err) | Inr x \<Rightarrow> cosmos_answer seq ct x)"
    by fastforce
  moreover from this have "ct = Receipt \<longrightarrow> (\<forall>cm. r \<noteq> Inr (Some cm))"
    by (auto split: sum.splits)
  ultimately show ?thesis by blast
qed

theorem cosmos_commitment_witness:
  "\<exists>a. ERpc (CosmosPacketReceipt ''c'' 1 60) a \<in>
     set (sample_events (cosmos_get_commitment sample_chain ''c'' 60 1 [] Receipt))"
  using cosmos_commitment [OF retries_ok_sample sample_exec
    [of "cosmos_get_commitment sample_chain ''c'' 60 1 [] Receipt"]]
  by auto

end
