(* ===== verification/Evm.thy ===== *)
theory Evm
  imports Adapter
begin

section \<open>The EVM adapter (\<open>adapter/evm.rs\<close>)\<close>

text \<open>
  The finalized height is the number of the block with tag \<open>finalized\<close>, or, when an offset is
  configured, that of the latest block less the offset (saturating at 0). A commitment is read from
  the router contract at the requested block under the hash of its path; 32 zero bytes mean
  absence.
\<close>

record evm_config =
  evm_url :: string
  evm_router_address :: string
  evm_finality_offset :: "u64 option"

text \<open>The client and the router instance are made from the configuration alone.\<close>

record evm_adapter =
  evm_config :: evm_config
  evm_client :: string \<comment> \<open>the provider's URL\<close>
  evm_router :: string \<comment> \<open>the address of the router instance\<close>

definition evm_adapter_name :: string where
  "evm_adapter_name = ''evm''"

definition evm_build :: "evm_config \<Rightarrow> adapter_error + evm_adapter" where
  "evm_build config =
     Inr \<lparr>evm_config = config, evm_client = evm_url config,
          evm_router = evm_router_address config\<rparr>"

definition evm_get_last_height :: "chain_lib \<Rightarrow> evm_adapter \<Rightarrow> (adapter_error + u64) io" where
  "evm_get_last_height C self =
     (let block_id = (case evm_finality_offset (evm_config self) of
                        Some _ \<Rightarrow> Latest
                      | None \<Rightarrow> Finalized)
      in bind_ok (call C ''evm.get_last_height.get_block'' (EvmGetBlock block_id))
           (\<lambda>reply.
              case re_block reply of
                None \<Rightarrow> Ret (Inl AdapterBlockNotFinalized)
              | Some block \<Rightarrow>
                  (case evm_finality_offset (evm_config self) of
                     None \<Rightarrow> Ret (Inr (block_number block))
                   | Some offset \<Rightarrow>
                       Ret (Inr (u64_saturating_sub (block_number block) offset)))))"

definition evm_get_block_timestamp ::
  "chain_lib \<Rightarrow> u64 \<Rightarrow> (adapter_error + u64) io" where
  "evm_get_block_timestamp C height =
     bind_ok (call C ''evm.get_block_timestamp.get_block'' (EvmGetBlock (Number height)))
       (\<lambda>reply.
          case re_block reply of
            None \<Rightarrow> Ret (Inl AdapterBlockNotFinalized)
          | Some block \<Rightarrow> Ret (Inr (block_timestamp block)))"

definition is_zero :: "bytes \<Rightarrow> bool" where
  "is_zero bs = (\<forall>b \<in> set bs. b = 0)"

definition evm_get_commitment ::
  "chain_lib \<Rightarrow> evm_adapter \<Rightarrow> string \<Rightarrow> u64 \<Rightarrow> u64 \<Rightarrow> bytes \<Rightarrow> commitment_type \<Rightarrow>
    (adapter_error + bytes option) io" where
  "evm_get_commitment C self client_id height sequence commitment_path commitment_type =
     (let hashed_path = keccak256 (cl_hash C) commitment_path
      in bind_ok (call C ''evm.get_commitment.get_commitment''
                    (EvmGetCommitment (evm_router self) hashed_path (Number height)))
           (\<lambda>reply.
              if is_zero (re_bytes32 reply) then Ret (Inr None)
              else Ret (Inr (Some (re_bytes32 reply)))))"

definition evm_attestation_adapter :: "chain_lib \<Rightarrow> evm_adapter \<Rightarrow> adapter" where
  "evm_attestation_adapter C self =
     \<lparr>get_last_height_at_configured_finality = evm_get_last_height C self,
      get_block_timestamp = evm_get_block_timestamp C,
      get_commitment = evm_get_commitment C self\<rparr>"

lemmas evm_defs = evm_get_last_height_def evm_get_block_timestamp_def evm_get_commitment_def
  evm_attestation_adapter_def

subsection \<open>Behaviour\<close>

text \<open>The block the finalized height is taken from, and the height for its number.\<close>

definition evm_height_tag :: "evm_adapter \<Rightarrow> block_id" where
  "evm_height_tag self =
     (if evm_finality_offset (evm_config self) = None then Finalized else Latest)"

fun evm_height_answer :: "u64 option \<Rightarrow> block option \<Rightarrow> adapter_error + u64" where
  "evm_height_answer offset None = Inl AdapterBlockNotFinalized"
| "evm_height_answer None (Some b) = Inr (block_number b)"
| "evm_height_answer (Some offset) (Some b) = Inr (u64_saturating_sub (block_number b) offset)"

lemma evm_get_last_height_eq:
  "evm_get_last_height C self =
     bind_ok (call C ''evm.get_last_height.get_block'' (EvmGetBlock (evm_height_tag self)))
       (\<lambda>x. Ret (evm_height_answer (evm_finality_offset (evm_config self)) (re_block x)))"
  by (auto simp: evm_defs evm_height_tag_def Let_def intro!: bind_ok_cong split: option.splits)

lemma evm_timestamp_eq:
  "evm_get_block_timestamp C height =
     bind_ok (call C ''evm.get_block_timestamp.get_block'' (EvmGetBlock (Number height)))
       (\<lambda>x. Ret (case re_block x of None \<Rightarrow> Inl AdapterBlockNotFinalized
                 | Some b \<Rightarrow> Inr (block_timestamp b)))"
  by (auto simp: evm_defs intro!: bind_ok_cong split: option.splits)

lemma evm_get_commitment_eq:
  "evm_get_commitment C self client height sequence path ct =
     bind_ok (call C ''evm.get_commitment.get_commitment''
                (EvmGetCommitment (evm_router self) (keccak256 (cl_hash C) path) (Number height)))
       (\<lambda>x. Ret (Inr (if is_zero (re_bytes32 x) then None else Some (re_bytes32 x))))"
  by (auto simp: evm_defs Let_def intro!: bind_ok_cong)

interpretation evm: attestation_adapter "\<lambda>(C, self). evm_attestation_adapter C self"
  "\<lambda>(C, self). retries_ok C"
proof (unfold_locales, goal_cases)
  case (1 c client height sequence path ct t cm)
  then obtain C self where c: "c = (C, self)" "retries_ok C"
    "exec (evm_get_commitment C self client height sequence path ct) t (Inr (Some cm))"
    by (cases c) (auto simp: evm_attestation_adapter_def)
  from exec_call_ret [OF c(2) c(3) [unfolded evm_get_commitment_eq]] show ?case
    by (auto split: if_splits)
qed (auto simp: evm_defs Let_def intro!: event_rules split: prod.splits option.splits)

text \<open>
  C19. EVM commitments. The result is decided by the last query of the router for the hashed path at
  the requested block: 32 zero bytes are absence, anything else is the commitment, and if it failed
  the result is its error. Everything before it are earlier attempts of the same query that failed,
  and the pauses; after it at most the failure is counted.
\<close>

theorem evm_commitment:
  assumes "retries_ok C" and "exec (evm_get_commitment C self client height seq path ct) t r"
    and "q = EvmGetCommitment (evm_router self) (keccak256 (cl_hash C) path) (Number height)"
  shows "\<exists>t0 a t1. t = t0 @ ERpc q a # t1 \<and> list_all (failed_attempt q) t0 \<and>
    set t1 \<subseteq> {EMetric (RetryFailure ''evm.get_commitment.get_commitment'')} \<and>
    r = (case a of
           Inl err \<Rightarrow> Inl (RetrievalError err)
         | Inr x \<Rightarrow> Inr (if re_bytes32 x = replicate 32 0 then None else Some (re_bytes32 x)))"
proof -
  have zero: "is_zero bs \<longleftrightarrow> bs = replicate 32 0" if "length bs = 32" for bs
    using that by (auto simp: is_zero_def intro: replicate_eqI)
  from exec_call_ret_last [OF assms(1) assms(2) [unfolded evm_get_commitment_eq]] assms(3)
  obtain t0 a t1 where *: "t = t0 @ ERpc q a # t1" "reply_ok a"
    "r = (case a of Inl s \<Rightarrow> Inl (RetrievalError s)
        | Inr x \<Rightarrow> Inr (if is_zero (re_bytes32 x) then None else Some (re_bytes32 x)))"
    "list_all (failed_attempt q) t0"
    "set t1 \<subseteq> {EMetric (RetryFailure ''evm.get_commitment.get_commitment'')}"
    by blast
  have "r = (case a of Inl err \<Rightarrow> Inl (RetrievalError err)
      | Inr x \<Rightarrow> Inr (if re_bytes32 x = replicate 32 0 then None else Some (re_bytes32 x)))"
    using *(2,3) by (cases a) (simp_all add: zero)
  with * show ?thesis by blast
qed

definition sample_evm_adapter :: "u64 option \<Rightarrow> evm_adapter" where
  "sample_evm_adapter offset =
     \<lparr>evm_config = \<lparr>evm_url = ''http://evm'', evm_router_address = ''0xr'',
        evm_finality_offset = offset\<rparr>,
      evm_client = ''http://evm'', evm_router = ''0xr''\<rparr>"

theorem evm_commitment_witness:
  "\<exists>t0 a t1. sample_events (evm_get_commitment sample_chain (sample_evm_adapter None) ''c'' 60 1 [1] Packet) =
     t0 @ ERpc (EvmGetCommitment ''0xr'' (keccak256 sample_hash [1]) (Number 60)) a # t1"
  using evm_commitment [OF retries_ok_sample sample_exec
    [of "evm_get_commitment sample_chain (sample_evm_adapter None) ''c'' 60 1 [1] Packet"] refl]
  by (auto simp: sample_chain_def sample_evm_adapter_def)

end
