(* ===== verification/Solana.thy ===== *)
theory Solana
  imports Adapter
begin

section \<open>The Solana adapter (\<open>adapter/solana.rs\<close>)\<close>

text \<open>
  A commitment is the data of an account whose address is derived from the client, the sequence
  and the router program, after an 8-byte discriminator; a missing account is absence. Accounts are
  read at the latest finalized slot: the requested slot only appears in error texts.
\<close>

definition ANCHOR_DISCRIMINATOR_LEN :: nat where
  "ANCHOR_DISCRIMINATOR_LEN = 8"

definition COMMITMENT_LEN :: nat where
  "COMMITMENT_LEN = 32"

record solana_config =
  solana_url :: string
  solana_router_program_id :: string

record solana_adapter =
  solana_client :: string \<comment> \<open>the URL the client was built for\<close>
  router_program_id :: bytes

definition solana_adapter_name :: string where
  "solana_adapter_name = ''solana''"

text \<open>\<open>pubkey_from_str\<close> is \<open>Pubkey::from_str\<close>: its error text, or the key.\<close>

definition solana_build ::
  "(string \<Rightarrow> string + bytes) \<Rightarrow> solana_config \<Rightarrow> adapter_error + solana_adapter" where
  "solana_build pubkey_from_str config =
     (case pubkey_from_str (solana_router_program_id config) of
        Inl err \<Rightarrow> Inl (AdapterConfigError (''Invalid router program ID '' @
          solana_router_program_id config @ '': '' @ err))
      | Inr key \<Rightarrow> Inr \<lparr>solana_client = solana_url config, router_program_id = key\<rparr>)"

definition solana_get_last_height :: "chain_lib \<Rightarrow> (adapter_error + u64) io" where
  "solana_get_last_height C =
     bind_ok (call C ''solana.get_last_height.get_slot_with_commitment'' SolanaGetSlot)
       (\<lambda>reply. Ret (Inr (re_slot reply)))"

definition solana_get_block_timestamp :: "chain_lib \<Rightarrow> u64 \<Rightarrow> (adapter_error + u64) io" where
  "solana_get_block_timestamp C slot =
     bind_ok (call C ''solana.get_block_timestamp.get_block_time'' (SolanaGetBlockTime slot))
       (\<lambda>reply.
          case u64_try_from_i64 (re_block_time reply) of
            None \<Rightarrow> Ret (Inl (RetrievalError out_of_range_text))
          | Some timestamp \<Rightarrow> Ret (Inr timestamp))"

definition solana_account_error :: "string \<Rightarrow> u64 \<Rightarrow> u64 \<Rightarrow> string \<Rightarrow> string" where
  "solana_account_error client_id sequence slot e =
     ''Failed to get commitment account for client_id='' @ client_id @ '', sequence='' @
     dec_u64 sequence @ '', slot='' @ dec_u64 slot @ '': '' @ e"

definition solana_commitment_pda ::
  "chain_lib \<Rightarrow> solana_adapter \<Rightarrow> string \<Rightarrow> u64 \<Rightarrow> commitment_type \<Rightarrow> bytes" where
  "solana_commitment_pda C self client_id sequence commitment_type =
     (case commitment_type of
        Packet \<Rightarrow> packet_commitment_pda C client_id sequence (router_program_id self)
      | Ack \<Rightarrow> packet_ack_pda C client_id sequence (router_program_id self)
      | Receipt \<Rightarrow> packet_receipt_pda C client_id sequence (router_program_id self))"

definition solana_get_commitment ::
  "chain_lib \<Rightarrow> solana_adapter \<Rightarrow> string \<Rightarrow> u64 \<Rightarrow> u64 \<Rightarrow> bytes \<Rightarrow> commitment_type \<Rightarrow>
    (adapter_error + bytes option) io" where
  "solana_get_commitment C self client_id slot sequence commitment_path commitment_type =
     (let commitment_pda = solana_commitment_pda C self client_id sequence commitment_type
      in bind_ok (call_with (solana_account_error client_id sequence slot) C
                    ''solana.get_commitment.get_account_with_commitment''
                    (SolanaGetAccount commitment_pda))
           (\<lambda>reply.
              case re_account reply of
                None \<Rightarrow> Ret (Inr None)
              | Some data \<Rightarrow>
                  if length data < ANCHOR_DISCRIMINATOR_LEN + COMMITMENT_LEN
                  then Ret (Inl (RetrievalError (''Invalid commitment account data length: got '' @
                         dec (length data) @ '' bytes, expected at least 40'')))
                  else (case array32 (drop ANCHOR_DISCRIMINATOR_LEN data) of
                          None \<Rightarrow> Ret (Inl (CommitmentError ''Commitment length mismatch''))
                        | Some commitment \<Rightarrow> Ret (Inr (Some commitment)))))"

definition solana_attestation_adapter :: "chain_lib \<Rightarrow> solana_adapter \<Rightarrow> adapter" where
  "solana_attestation_adapter C self =
     \<lparr>get_last_height_at_configured_finality = solana_get_last_height C,
      get_block_timestamp = solana_get_block_timestamp C,
      get_commitment = solana_get_commitment C self\<rparr>"

lemmas solana_defs = solana_get_last_height_def solana_get_block_timestamp_def
  solana_get_commitment_def solana_attestation_adapter_def

subsection \<open>Behaviour\<close>

text \<open>What an account's data means.\<close>

fun solana_answer :: "bytes option \<Rightarrow> adapter_error + bytes option" where
  "solana_answer None = Inr None"
| "solana_answer (Some data) =
     (if length data < 40
      then Inl (RetrievalError (''Invalid commitment account data length: got '' @
             dec (length data) @ '' bytes, expected at least 40''))
      else if length data = 40 then Inr (Some (drop 8 data))
      else Inl (CommitmentError ''Commitment length mismatch''))"

lemma solana_get_commitment_eq:
  "solana_get_commitment C self client slot sequence path ct =
     bind_ok (call_with (solana_account_error client sequence slot) C
                ''solana.get_commitment.get_account_with_commitment''
                (SolanaGetAccount (solana_commitment_pda C self client sequence ct)))
       (\<lambda>x. Ret (solana_answer (re_account x)))"
  by (auto simp: solana_defs Let_def ANCHOR_DISCRIMINATOR_LEN_def COMMITMENT_LEN_def
      intro!: bind_ok_cong split: option.splits)

lemma solana_timestamp_eq:
  "solana_get_block_timestamp C slot =
     bind_ok (call C ''solana.get_block_timestamp.get_block_time'' (SolanaGetBlockTime slot))
       (\<lambda>x. Ret (if 0 \<le> sint (re_block_time x) then Inr (re_block_time x)
                 else Inl (RetrievalError out_of_range_text)))"
  by (auto simp: solana_defs u64_try_from_i64_def intro!: bind_ok_cong split: option.splits)

lemma solana_answer_length: "solana_answer a = Inr (Some cm) \<Longrightarrow> length cm = 32"
  by (cases a) (auto split: if_splits)

interpretation solana: attestation_adapter "\<lambda>(C, self). solana_attestation_adapter C self"
  "\<lambda>(C, self). retries_ok C"
proof (unfold_locales, goal_cases)
  case (1 c client height sequence path ct t cm)
  then obtain C self where c: "c = (C, self)" "retries_ok C"
    "exec (solana_get_commitment C self client height sequence path ct) t (Inr (Some cm))"
    by (cases c) (auto simp: solana_attestation_adapter_def)
  from exec_call_ret [OF c(2) c(3) [unfolded solana_get_commitment_eq]] show ?case
    by (auto dest: solana_answer_length [OF sym])
qed (auto simp: solana_defs Let_def intro!: event_rules split: prod.splits option.splits)

text \<open>
  C21. Solana commitments. One account is read, whose address depends on the client, the sequence,
  the type and the router program and not on the requested slot. No account is absence, an account
  of exactly 40 bytes holds the commitment after its discriminator; any other length is an error,
  and only a shorter one is reported as a retrieval error.
\<close>

theorem solana_commitment:
  assumes "retries_ok C" and "exec (solana_get_commitment C self client slot seq path ct) t r"
  shows "\<exists>a. ERpc (SolanaGetAccount (solana_commitment_pda C self client seq ct)) a \<in> set t \<and>
    (case a of
       Inl err \<Rightarrow> r = Inl (RetrievalError (solana_account_error client seq slot err))
     | Inr x \<Rightarrow>
         (case re_account x of
            None \<Rightarrow> r = Inr None
          | Some d \<Rightarrow>
              if length d = 40 then r = Inr (Some (drop 8 d))
              else \<exists>e. r = Inl e \<and> (is_retrieval_error e \<longleftrightarrow> length d < 40)))"
proof -
  from exec_call_ret [OF assms(1) assms(2) [unfolded solana_get_commitment_eq]] show ?thesis
  proof (elim disjE exE conjE)
    fix x
    assume "ERpc (SolanaGetAccount (solana_commitment_pda C self client seq ct)) (Inr x) \<in> set t"
      "r = solana_answer (re_account x)"
    then show ?thesis
      by (intro exI [of _ "Inr x"]) (auto split: option.split)
  qed auto
qed

definition sample_solana_adapter :: solana_adapter where
  "sample_solana_adapter = \<lparr>solana_client = ''http://solana'', router_program_id = [9]\<rparr>"

theorem solana_commitment_witness:
  "\<exists>a. ERpc (SolanaGetAccount [2, 1, 9]) a \<in>
     set (sample_events (solana_get_commitment sample_chain sample_solana_adapter ''c'' 60 1 [] Ack))"
  using solana_commitment [OF retries_ok_sample sample_exec
    [of "solana_get_commitment sample_chain sample_solana_adapter ''c'' 60 1 [] Ack"]]
  by (auto simp: solana_commitment_pda_def sample_chain_def sample_solana_adapter_def)

end
