(* ===== verification/Adapter_Enum.thy ===== *)
theory Adapter_Enum
  imports Cosmos Evm Solana
begin

section \<open>The adapter of the running process (\<open>AdapterEnum\<close> in \<open>adapter/mod.rs\<close>)\<close>

text \<open>
  Dispatch to the configured chain's adapter. The finalized height is also reported to the metrics
  gauge.
\<close>

datatype adapter_enum =
    EvmAdapter evm_adapter
  | SolanaAdapter solana_adapter
  | CosmosAdapter cosmos_adapter

fun adapter_name :: "adapter_enum \<Rightarrow> string" where
  "adapter_name (EvmAdapter _) = ''evm''"
| "adapter_name (SolanaAdapter _) = ''solana''"
| "adapter_name (CosmosAdapter _) = ''cosmos''"

fun inner_adapter :: "chain_lib \<Rightarrow> adapter_enum \<Rightarrow> adapter" where
  "inner_adapter C (EvmAdapter a) = evm_attestation_adapter C a"
| "inner_adapter C (SolanaAdapter a) = solana_attestation_adapter C a"
| "inner_adapter C (CosmosAdapter a) = cosmos_attestation_adapter C a"

definition enum_get_last_height :: "chain_lib \<Rightarrow> adapter_enum \<Rightarrow> (adapter_error + u64) io" where
  "enum_get_last_height C self =
     bind (get_last_height_at_configured_finality (inner_adapter C self))
       (\<lambda>result.
          case result of
            Inr height \<Rightarrow> Emit (FinalizedHeight height) (Ret result)
          | Inl _ \<Rightarrow> Ret result)"

definition enum_attestation_adapter :: "chain_lib \<Rightarrow> adapter_enum \<Rightarrow> adapter" where
  "enum_attestation_adapter C self =
     \<lparr>get_last_height_at_configured_finality = enum_get_last_height C self,
      get_block_timestamp = get_block_timestamp (inner_adapter C self),
      get_commitment = get_commitment (inner_adapter C self)\<rparr>"

lemma enum_attestation_adapter_simps [simp]:
  "get_last_height_at_configured_finality (enum_attestation_adapter C self) =
     enum_get_last_height C self"
  "get_block_timestamp (enum_attestation_adapter C self) =
     get_block_timestamp (inner_adapter C self)"
  "get_commitment (enum_attestation_adapter C self) = get_commitment (inner_adapter C self)"
  by (simp_all add: enum_attestation_adapter_def)

text \<open>The inner adapter meets the contract, by the interpretation of its chain.\<close>

lemma inner_adapter_laws:
  assumes "retries_ok C"
  shows "exec (get_commitment (inner_adapter C self) client height sequence path ct) t
      (Inr (Some cm)) \<Longrightarrow> length cm = 32"
    and "only_adapter_events (get_last_height_at_configured_finality (inner_adapter C self))"
    and "only_adapter_events (get_block_timestamp (inner_adapter C self) height)"
    and "only_adapter_events (get_commitment (inner_adapter C self) client height sequence path ct)"
  using assms
    evm.commitment_length [of "(C, _)"] solana.commitment_length [of "(C, _)"]
    cosmos.commitment_length [of "(C, _)"]
    evm.height_events [of "(C, _)"] solana.height_events [of "(C, _)"]
    cosmos.height_events [of "(C, _)"]
    evm.timestamp_events [of "(C, _)"] solana.timestamp_events [of "(C, _)"]
    cosmos.timestamp_events [of "(C, _)"]
    evm.commitment_events [of "(C, _)"] solana.commitment_events [of "(C, _)"]
    cosmos.commitment_events [of "(C, _)"]
  by (cases self; fastforce)+

interpretation enum: attestation_adapter "\<lambda>(C, self). enum_attestation_adapter C self"
  "\<lambda>(C, self). retries_ok C"
proof (unfold_locales, goal_cases)
  case (1 c client height sequence path ct t cm)
  then show ?case by (auto simp: enum_attestation_adapter_def dest: inner_adapter_laws(1))
qed (auto simp: enum_attestation_adapter_def enum_get_last_height_def
  intro!: event_rules inner_adapter_laws split: prod.splits sum.split)

lemma exec_enum_get_last_height:
  "exec (enum_get_last_height C self) t r \<longleftrightarrow>
     (\<exists>t'. exec (get_last_height_at_configured_finality (inner_adapter C self)) t' r \<and>
        t = t' @ (case r of Inr h \<Rightarrow> [EMetric (FinalizedHeight h)] | Inl _ \<Rightarrow> []))"
  by (cases r) (auto simp: enum_get_last_height_def exec_bind split_sum_ex)

text \<open>
  The query a commitment is read with: on EVM and Cosmos it names the height; on Solana it is a read of
  the account as it is, which has no slot.
\<close>

fun commitment_query :: "adapter_enum \<Rightarrow> u64 \<Rightarrow> rpc_call \<Rightarrow> bool" where
  "commitment_query (EvmAdapter a) height q \<longleftrightarrow>
     (\<exists>path. q = EvmGetCommitment (evm_router a) path (Number height))"
| "commitment_query (CosmosAdapter a) height q \<longleftrightarrow>
     (\<exists>client sequence ct. q = cosmos_query client height sequence ct)"
| "commitment_query (SolanaAdapter a) height q \<longleftrightarrow> (\<exists>address. q = SolanaGetAccount address)"

lemma commitment_queried:
  assumes "retries_ok C"
    and "exec (get_commitment (inner_adapter C self) client height sequence path ct) t (Inr c)"
  shows "\<exists>q x. ERpc q (Inr x) \<in> set t \<and> commitment_query self height q"
proof (cases self)
  case (EvmAdapter a)
  with assms(2) have "exec (evm_get_commitment C a client height sequence path ct) t (Inr c)"
    by (simp add: evm_attestation_adapter_def)
  from exec_call_ret [OF assms(1) this [unfolded evm_get_commitment_eq]] EvmAdapter show ?thesis by auto
next
  case (SolanaAdapter a)
  with assms(2) have "exec (solana_get_commitment C a client height sequence path ct) t (Inr c)"
    by (simp add: solana_attestation_adapter_def)
  from exec_call_ret [OF assms(1) this [unfolded solana_get_commitment_eq]] SolanaAdapter
  show ?thesis by auto
next
  case (CosmosAdapter a)
  with assms(2) have "exec (cosmos_get_commitment C client height sequence path ct) t (Inr c)"
    by (simp add: cosmos_attestation_adapter_def)
  from exec_call_ret [OF assms(1) this [unfolded cosmos_get_commitment_eq]] CosmosAdapter
  show ?thesis by auto
qed

text \<open>
  What a finalized height is: on EVM the number of the block tagged as finalized, or the latest
  block's number less the configured offset; on Solana the finalized slot; on Cosmos the height of
  the latest commit.
\<close>

lemma finalized_height_from_chain:
  assumes "retries_ok C" and "exec (enum_get_last_height C self) t (Inr h)"
  shows "last t = EMetric (FinalizedHeight h) \<and>
    (case self of
      EvmAdapter a \<Rightarrow> \<exists>x b.
        ERpc (EvmGetBlock (if evm_finality_offset (evm_config a) = None then Finalized else Latest))
          (Inr x) \<in> set t \<and>
        re_block x = Some b \<and>
        unat h = (case evm_finality_offset (evm_config a) of
          None \<Rightarrow> unat (block_number b) | Some offset \<Rightarrow> unat (block_number b) - unat offset)
    | SolanaAdapter _ \<Rightarrow> \<exists>x. ERpc SolanaGetSlot (Inr x) \<in> set t \<and> h = re_slot x
    | CosmosAdapter _ \<Rightarrow> \<exists>x. ERpc CosmosLatestCommit (Inr x) \<in> set t \<and> h = re_header_height x)"
proof -
  from assms(2) [unfolded exec_enum_get_last_height] obtain t' where t':
    "exec (get_last_height_at_configured_finality (inner_adapter C self)) t' (Inr h)"
    "t = t' @ [EMetric (FinalizedHeight h)]"
    by auto
  show ?thesis
  proof (cases self)
    case (EvmAdapter a)
    with t'(1) have "exec (evm_get_last_height C a) t' (Inr h)"
      by (simp add: evm_attestation_adapter_def)
    from exec_call_ret [OF assms(1) this [unfolded evm_get_last_height_eq]] obtain x where
      "ERpc (EvmGetBlock (evm_height_tag a)) (Inr x) \<in> set t'"
      "Inr h = evm_height_answer (evm_finality_offset (evm_config a)) (re_block x)" by auto
    with t'(2) EvmAdapter show ?thesis
      by (cases "re_block x"; cases "evm_finality_offset (evm_config a)")
        (auto simp: evm_height_tag_def unat_u64_saturating_sub)
  next
    case (SolanaAdapter a)
    with t'(1) have "exec (solana_get_last_height C) t' (Inr h)"
      by (simp add: solana_attestation_adapter_def)
    from exec_call_ret [OF assms(1) this [unfolded solana_get_last_height_def]] t'(2) SolanaAdapter
    show ?thesis by auto
  next
    case (CosmosAdapter a)
    with t'(1) have "exec (cosmos_get_last_height C) t' (Inr h)"
      by (simp add: cosmos_attestation_adapter_def)
    from exec_call_ret [OF assms(1) this [unfolded cosmos_get_last_height_def]] t'(2) CosmosAdapter
    show ?thesis by auto
  qed
qed

subsection \<open>Properties\<close>

text \<open>
  C22. Timestamps are the chain's own. A timestamp an adapter returns is the one of the chain's
  reply for the requested height; Cosmos and Solana report it as a signed number, and only a
  non-negative one is returned.
\<close>

theorem timestamp_from_chain:
  assumes "retries_ok C"
    and "exec (get_block_timestamp (enum_attestation_adapter C self) height) t (Inr ts)"
  shows "case self of
      EvmAdapter _ \<Rightarrow> \<exists>x b. ERpc (EvmGetBlock (Number height)) (Inr x) \<in> set t \<and>
        re_block x = Some b \<and> ts = block_timestamp b
    | SolanaAdapter _ \<Rightarrow> \<exists>x. ERpc (SolanaGetBlockTime height) (Inr x) \<in> set t \<and>
        ts = re_block_time x \<and> 0 \<le> sint ts
    | CosmosAdapter _ \<Rightarrow> \<exists>h x. tm_height C height = Some h \<and>
        ERpc (CosmosCommit h) (Inr x) \<in> set t \<and> ts = re_unix_timestamp x \<and> 0 \<le> sint ts"
proof (cases self)
  case (EvmAdapter a)
  with assms(2) have "exec (evm_get_block_timestamp C height) t (Inr ts)"
    by (simp add: evm_attestation_adapter_def)
  from exec_call_ret [OF assms(1) this [unfolded evm_timestamp_eq]] EvmAdapter show ?thesis
    by (auto split: option.splits)
next
  case (SolanaAdapter a)
  with assms(2) have "exec (solana_get_block_timestamp C height) t (Inr ts)"
    by (simp add: solana_attestation_adapter_def)
  from exec_call_ret [OF assms(1) this [unfolded solana_timestamp_eq]] SolanaAdapter show ?thesis
    by (auto split: if_splits)
next
  case (CosmosAdapter a)
  with assms(2) have *: "exec (cosmos_get_block_timestamp C height) t (Inr ts)"
    by (simp add: cosmos_attestation_adapter_def)
  then obtain h where h: "tm_height C height = Some h"
    by (auto simp: cosmos_timestamp_eq split: option.splits)
  from exec_call_ret [OF assms(1) * [unfolded cosmos_timestamp_eq h option.simps(5)]] CosmosAdapter h
  show ?thesis by (auto split: if_splits)
qed

theorem timestamp_from_chain_witness:
  "\<exists>x b. ERpc (EvmGetBlock (Number 60)) (Inr x) \<in>
     set (sample_events (get_block_timestamp (enum_attestation_adapter sample_chain (EvmAdapter
       (sample_evm_adapter None))) 60)) \<and>
     re_block x = Some b \<and> block_timestamp b = 50"
proof -
  let ?m = "get_block_timestamp (enum_attestation_adapter sample_chain (EvmAdapter
       (sample_evm_adapter None))) 60"
  have "sample_result ?m = Inr 50" by code_simp
  with sample_exec [of ?m] have "exec ?m (sample_events ?m) (Inr 50)" by simp
  from timestamp_from_chain [OF retries_ok_sample this] show ?thesis by auto
qed

end
