(* ===== verification/Service.thy ===== *)
theory Service
  imports Attestor Adapter_Enum
begin

section \<open>The service over any adapter and any signer\<close>

text \<open>
  What the attestation service guarantees from the contracts of its two parts alone: the signing
  service is contacted only after every check of the request has succeeded, with the tagged input
  of the data checked, and an attested commitment is 32 bytes long. The interpretation at the end
  is the service the process runs: the configured chain's adapter and the configured signer.
\<close>

definition quiet :: "event list \<Rightarrow> bool" where
  "quiet t \<longleftrightarrow> (\<forall>e \<in> set t. \<not> signer_event e)"

lemma quiet_simps [simp]:
  "quiet []"
  "quiet (e # t) \<longleftrightarrow> \<not> signer_event e \<and> quiet t"
  "quiet (t1 @ t2) \<longleftrightarrow> quiet t1 \<and> quiet t2"
  by (auto simp: quiet_def)

lemma adapter_event_not_signer: "adapter_event e \<Longrightarrow> \<not> signer_event e"
proof (cases e)
  case (EMetric x)
  then show "adapter_event e \<Longrightarrow> \<not> signer_event e" by (cases x) auto
qed auto

text \<open>What a handler causes before it signs: the queries of the adapter and its own metrics.\<close>

fun check_event :: "event \<Rightarrow> bool" where
  "check_event (EMetric (HeightLag _)) = True"
| "check_event (EMetric HeightRejection) = True"
| "check_event (EMetric (CommitmentFailure _)) = True"
| "check_event e = adapter_event e"

definition checks_only :: "event list \<Rightarrow> bool" where
  "checks_only t \<longleftrightarrow> (\<forall>e \<in> set t. check_event e)"

lemma checks_only_simps [simp]:
  "checks_only []"
  "checks_only (e # t) \<longleftrightarrow> check_event e \<and> checks_only t"
  "checks_only (t1 @ t2) \<longleftrightarrow> checks_only t1 \<and> checks_only t2"
  by (auto simp: checks_only_def)

lemma adapter_event_check: "adapter_event e \<Longrightarrow> check_event e"
  by (cases e rule: check_event.cases) auto

lemma check_event_not_signer: "check_event e \<Longrightarrow> \<not> signer_event e"
  using adapter_event_not_signer by (cases e rule: check_event.cases) auto

lemma checks_only_quiet: "checks_only t \<Longrightarrow> quiet t"
  by (auto simp: checks_only_def quiet_def dest: check_event_not_signer)

lemma only_adapter_events_checks_only: "only_adapter_events m \<Longrightarrow> exec m t r \<Longrightarrow> checks_only t"
  unfolding only_events_def checks_only_def by (metis adapter_event_check)

lemma checks_only_counts:
  "checks_only t \<Longrightarrow> count_list t (EMetric (SignerSign k)) = 0 \<and> rpc_count method code t = 0"
  by (fastforce simp: checks_only_def count_list_0_iff rpc_count_def filter_empty_conv)

lemmas only_adapter_events_quiet = only_adapter_events_checks_only [THEN checks_only_quiet]

definition handler_event :: "event \<Rightarrow> bool" where
  "handler_event e \<longleftrightarrow> check_event e \<or> signer_event e"

lemma handler_event_no_request: "only_events handler_event m \<Longrightarrow> exec m t r \<Longrightarrow> rpc_count name code t = 0"
  by (fastforce simp: only_events_def handler_event_def rpc_count_def filter_empty_conv)

text \<open>The data a handler signs.\<close>

definition packet_input :: "hash_lib \<Rightarrow> ibc_lib \<Rightarrow> packets_attestation \<Rightarrow> bytes" where
  "packet_input H X pa =
     tagged_signing_input H (new_payload (abi_encode_packets X pa) PacketAttestation)"

definition state_input :: "hash_lib \<Rightarrow> ibc_lib \<Rightarrow> u64 \<Rightarrow> u64 \<Rightarrow> bytes" where
  "state_input H X height timestamp =
     tagged_signing_input H (new_payload (abi_encode_state X height timestamp) StateAttestation)"

text \<open>A signature of the local signer gives its key's address.\<close>

lemma local_signature_recovers:
  assumes "honest_signatures K"
    and "exec (enum_sign H K T (LocalSigner ls) message) t (Inr sig)"
  shows "recover_address H K message (sig_as_bytes K sig) = Inr (key_address K (inner ls))"
  using assms by (auto simp: exec_enum_sign exec_local_sign intro: recover_keys_sign)

locale attestation_service = attestation_adapter adapter_of valid + signer sign_of
  for adapter_of :: "'c \<Rightarrow> adapter" and valid :: "'c \<Rightarrow> bool"
    and sign_of :: "'d \<Rightarrow> bytes \<Rightarrow> (signer_error + 'sig) io"
begin

lemma validate_height_checks_only:
  assumes "valid c" and "exec (validate_height (adapter_of c) height) t r"
  shows "checks_only t"
  using assms(2) only_adapter_events_checks_only [OF height_events [OF assms(1)]]
  by (cases r) (auto simp: exec_validate_height_Inr exec_validate_height_Inl)

lemma create_single_checks_only:
  assumes "valid c"
    and "exec (create_single_packet_attestation H X (adapter_of c) height p ct) t r"
  shows "checks_only t"
  using assms(2) only_adapter_events_checks_only [OF commitment_events [OF assms(1)]]
  by (auto simp: exec_create_single chain_query_def)

lemma create_packets_checks_only:
  assumes "valid c"
    and "exec (create_packets_attestation schedule H X (adapter_of c) ps height ct) t r"
  shows "checks_only t"
proof -
  from assms(2) obtain rs where rs: "exec (join schedule
      (map (\<lambda>p. create_single_packet_attestation H X (adapter_of c) height p ct) ps)) t rs"
    by (auto simp: exec_create_packets)
  have "check_event e" if "e \<in> set t" for e
    using exec_join_event [OF rs that] create_single_checks_only [OF assms(1)]
    by (fastforce simp: checks_only_def)
  then show ?thesis by (simp add: checks_only_def)
qed

lemmas validate_height_quiet = validate_height_checks_only [THEN checks_only_quiet]
  and create_packets_quiet = create_packets_checks_only [THEN checks_only_quiet]

text \<open>
  An event of the signing service in a packet request: the request was decoded, its height is
  final, all its packets were accepted, and only the signature over them was asked for.
\<close>

lemma packet_signing_last:
  assumes "valid c" and "svc_adapter self = adapter_of c" and "svc_sign self = sign_of d"
    and "exec (packet_attestation schedule H K X self request) t r"
    and "e \<in> set t" and "signer_event e"
  shows "\<exists>ps ct t1 t2 t3 pa r'.
    decoded X request = Some (ps, ct) \<and> t = t1 @ t2 @ t3 \<and>
    exec (validate_height (adapter_of c) (pq_height request)) t1 (Inr ()) \<and>
    exec (create_packets_attestation schedule H X (adapter_of c) ps (pq_height request) ct)
      t2 (Inr pa) \<and>
    quiet (t1 @ t2) \<and> exec (sign_of d (packet_input H X pa)) t3 r'"
proof (cases r)
  case (Inr resp)
  from assms(4) [unfolded Inr exec_packet_attestation_Inr assms(2,3)] show ?thesis
    using validate_height_quiet [OF assms(1)] create_packets_quiet [OF assms(1)]
    by (fastforce simp: packet_input_def)
next
  case (Inl s)
  from exec_packet_attestation_Inl [OF assms(4) [unfolded Inl]] obtain x
    where "packet_failure schedule H X self request t x" by blast
  moreover have "\<not> quiet t" using assms(5,6) by (auto simp: quiet_def)
  ultimately show ?thesis
  proof cases
    case (unsigned ps ct t1 t2 pa t3 x)
    with assms(2,3) validate_height_quiet [OF assms(1)] create_packets_quiet [OF assms(1)]
    show ?thesis by (fastforce simp: packet_input_def)
  qed (use assms(2) in \<open>auto dest: validate_height_quiet [OF assms(1)]
    create_packets_quiet [OF assms(1)]\<close>)
qed

lemma state_signing_last:
  assumes "valid c" and "svc_adapter self = adapter_of c" and "svc_sign self = sign_of d"
    and "exec (state_attestation H K X self request) t r"
    and "e \<in> set t" and "signer_event e"
  shows "\<exists>t1 t2 t3 ts r'.
    t = t1 @ t2 @ t3 \<and>
    exec (validate_height (adapter_of c) (sq_height request)) t1 (Inr ()) \<and>
    exec (get_block_timestamp (adapter_of c) (sq_height request)) t2 (Inr ts) \<and>
    quiet (t1 @ t2) \<and> exec (sign_of d (state_input H X (sq_height request) ts)) t3 r'"
proof (cases r)
  case (Inr resp)
  from assms(4) [unfolded Inr exec_state_attestation_Inr assms(2,3)] show ?thesis
    using validate_height_quiet [OF assms(1)]
      only_adapter_events_quiet [OF timestamp_events [OF assms(1)]]
    by (fastforce simp: state_input_def)
next
  case (Inl s)
  from exec_state_attestation_Inl [OF assms(4) [unfolded Inl]] obtain x
    where "state_failure H X self request t x" by blast
  moreover have "\<not> quiet t" using assms(5,6) by (auto simp: quiet_def)
  moreover note quiet = validate_height_quiet [OF assms(1)]
    only_adapter_events_quiet [OF timestamp_events [OF assms(1)]]
  ultimately show ?thesis
  proof cases
    case (state_unsigned t1 t2 ts t3 x)
    with assms(2,3) quiet show ?thesis by (fastforce simp: state_input_def)
  qed (use assms(2) in \<open>auto dest: quiet\<close>)
qed

text \<open>All that a handler causes are checks and what the signer causes.\<close>

lemma validate_height_events:
  "valid c \<Longrightarrow> only_events handler_event (validate_height (adapter_of c) height)"
  by (auto simp: only_events_def handler_event_def checks_only_def dest: validate_height_checks_only)

lemma create_packets_events:
  "valid c \<Longrightarrow> only_events handler_event
     (create_packets_attestation schedule H X (adapter_of c) ps height ct)"
  by (auto simp: only_events_def handler_event_def checks_only_def dest: create_packets_checks_only)

lemma sign_events:
  "only_events handler_event (sign_attestation H K height timestamp payload (sign_of d))"
  by (rule only_events_mono [OF sign_attestation_events [OF signer_events]])
    (simp add: handler_event_def)

lemma adapter_handler_events: "only_adapter_events m \<Longrightarrow> only_events handler_event m"
  by (erule only_events_mono) (simp add: handler_event_def adapter_event_check)

lemma handlers_events:
  assumes "valid c" and "svc_adapter self = adapter_of c" and "svc_sign self = sign_of d"
  shows "only_events handler_event (latest_height self)"
    and "only_events handler_event (state_attestation H K X self request)"
    and "only_events handler_event (packet_attestation schedule H K X self request')"
  unfolding latest_height_def state_attestation_def packet_attestation_def Let_def assms(2,3)
  by (intro event_rules adapter_handler_events height_events timestamp_events
      validate_height_events create_packets_events sign_events assms(1))+

text \<open>Every commitment of an attestation is 32 bytes long.\<close>

lemma attested_length:
  assumes "valid c"
    and "exec (create_packets_attestation schedule H X (adapter_of c) ps height ct) t (Inr pa)"
    and "pc \<in> set (pa_packets pa)"
  shows "length (pc_commitment pc) = 32"
proof -
  note created = exec_create_packets_Inr [OF assms(2)]
  from assms(3) created(2) obtain i where i: "i < length ps" "pc = pa_packets pa ! i"
    by (auto simp: in_set_conv_nth)
  from created(3) [OF i(1)] obtain ti c' cm where *:
    "exec (chain_query X (adapter_of c) height ct (ps ! i)) ti (Inr c')"
    "accepted X ct (ps ! i) c' = Some cm" "pc = compact_entry H X ct (ps ! i) cm"
    unfolding i(2) by blast
  have "c' = Some cm \<or> cm = replicate 32 0"
    using *(2) by (cases ct; cases c') (auto split: if_splits)
  then show ?thesis
    using commitment_length [OF assms(1)] *(1,3) by (auto simp: chain_query_def compact_entry_def)
qed

end

subsection \<open>The service of the process\<close>

text \<open>\<open>AttestorService::new\<close> as \<open>main\<close> calls it: any adapter with any signer.\<close>

definition running_service ::
  "hash_lib \<Rightarrow> ('key, 'sig) key_lib \<Rightarrow> tonic_lib \<Rightarrow> chain_lib \<Rightarrow> adapter_enum \<Rightarrow> 'key signer_enum \<Rightarrow>
    'sig attestor_service" where
  "running_service H K T C a s =
     new_attestor_service (enum_attestation_adapter C a) (adapter_name a)
       (enum_sign H K T s) (signer_name s)"

lemma running_service_simps [simp]:
  "svc_adapter (running_service H K T C a s) = enum_attestation_adapter C a"
  "svc_sign (running_service H K T C a s) = enum_sign H K T s"
  by (simp_all add: running_service_def new_attestor_service_def)

interpretation service: attestation_service "\<lambda>(C, self). enum_attestation_adapter C self"
  "\<lambda>(C, self). retries_ok C" "\<lambda>(H, K, T, self). enum_sign H K T self"
  by unfold_locales

text \<open>What an answered request shows about the chain and the signer.\<close>

lemma answered_packet_request:
  assumes "retries_ok C"
    and "exec (packet_attestation schedule H K X (running_service H K T C a s) request) t (Inr resp)"
  shows "\<exists>ps ct finalized pa sig th ts.
    decoded X request = Some (ps, ct) \<and>
    exec (enum_get_last_height C a) th (Inr finalized) \<and> set th \<subseteq> set t \<and>
    pq_height request \<le> finalized \<and>
    pa_height pa = pq_height request \<and> length (pa_packets pa) = length ps \<and>
    (\<forall>i < length ps. \<exists>ti c cm.
       exec (chain_query X (enum_attestation_adapter C a) (pq_height request) ct (ps ! i)) ti (Inr c) \<and>
       set ti \<subseteq> set t \<and> (\<exists>q x. ERpc q (Inr x) \<in> set ti \<and> commitment_query a (pq_height request) q) \<and>
       accepted X ct (ps ! i) c = Some cm \<and> length cm = 32 \<and>
       pa_packets pa ! i = compact_entry H X ct (ps ! i) cm) \<and>
    exec (enum_sign H K T s (packet_input H X pa)) ts (Inr sig) \<and> set ts \<subseteq> set t \<and>
    resp = \<lparr>pp_attestation = Some (attestation_for K (pq_height request) None
      (abi_encode_packets X pa) sig)\<rparr>"
proof -
  from assms(2) [unfolded exec_packet_attestation_Inr running_service_simps]
  obtain ps ct t1 t2 t3 pa sig where *: "t = t1 @ t2 @ t3" "decoded X request = Some (ps, ct)"
    "exec (validate_height (enum_attestation_adapter C a) (pq_height request)) t1 (Inr ())"
    "exec (create_packets_attestation schedule H X (enum_attestation_adapter C a) ps
       (pq_height request) ct) t2 (Inr pa)"
    "exec (enum_sign H K T s (tagged_signing_input H
       (new_payload (abi_encode_packets X pa) PacketAttestation))) t3 (Inr sig)"
    "resp = \<lparr>pp_attestation = Some (attestation_for K (pq_height request) None
       (abi_encode_packets X pa) sig)\<rparr>"
    by blast
  from validate_height_finalized [OF *(3)] obtain th finalized
    where final: "exec (enum_get_last_height C a) th (Inr finalized)"
      "pq_height request \<le> finalized" "set th \<subseteq> set t1"
    by auto
  note created = exec_create_packets_Inr [OF *(4)]
  have "\<exists>ti c cm.
      exec (chain_query X (enum_attestation_adapter C a) (pq_height request) ct (ps ! i)) ti (Inr c) \<and>
      set ti \<subseteq> set t \<and> (\<exists>q x. ERpc q (Inr x) \<in> set ti \<and> commitment_query a (pq_height request) q) \<and>
       accepted X ct (ps ! i) c = Some cm \<and> length cm = 32 \<and>
      pa_packets pa ! i = compact_entry H X ct (ps ! i) cm" if "i < length ps" for i
  proof -
    from created(3) [OF that] obtain ti c cm where i:
      "exec (chain_query X (enum_attestation_adapter C a) (pq_height request) ct (ps ! i)) ti (Inr c)"
      "set ti \<subseteq> set t2" "accepted X ct (ps ! i) c = Some cm"
      "pa_packets pa ! i = compact_entry H X ct (ps ! i) cm" by blast
    have "\<exists>q x. ERpc q (Inr x) \<in> set ti \<and> commitment_query a (pq_height request) q"
      using commitment_queried [OF assms(1)] i(1) by (simp add: chain_query_def)
    moreover have "length (pc_commitment (pa_packets pa ! i)) = 32"
      using service.attested_length [of "(C, a)", simplified, OF assms(1) *(4)] created(2) that
      by simp
    moreover have "set ti \<subseteq> set t" "length cm = 32" if "length (pc_commitment (pa_packets pa ! i)) = 32"
      using that i *(1) by (auto simp: compact_entry_def)
    ultimately show ?thesis using i(1,3,4) by blast
  qed
  with * final created(1,2) show ?thesis
    unfolding packet_input_def by (intro exI [of _ ps] exI [of _ ct] exI [of _ finalized]
      exI [of _ pa] exI [of _ sig] exI [of _ th] exI [of _ t3]) auto
qed

lemma answered_state_request:
  assumes "exec (state_attestation H K X (running_service H K T C a s) request) t (Inr resp)"
  shows "\<exists>finalized timestamp sig th tb ts.
    exec (enum_get_last_height C a) th (Inr finalized) \<and> set th \<subseteq> set t \<and>
    sq_height request \<le> finalized \<and>
    exec (get_block_timestamp (inner_adapter C a) (sq_height request)) tb (Inr timestamp) \<and>
    set tb \<subseteq> set t \<and>
    exec (enum_sign H K T s (state_input H X (sq_height request) timestamp)) ts (Inr sig) \<and>
    set ts \<subseteq> set t \<and>
    resp = \<lparr>sp_attestation = Some (attestation_for K (sq_height request) (Some timestamp)
      (abi_encode_state X (sq_height request) timestamp) sig)\<rparr>"
proof -
  from assms [unfolded exec_state_attestation_Inr running_service_simps]
  obtain t1 t2 t3 timestamp sig where *: "t = t1 @ t2 @ t3"
    "exec (validate_height (enum_attestation_adapter C a) (sq_height request)) t1 (Inr ())"
    "exec (get_block_timestamp (enum_attestation_adapter C a) (sq_height request)) t2 (Inr timestamp)"
    "exec (enum_sign H K T s (state_input H X (sq_height request) timestamp)) t3 (Inr sig)"
    "resp = \<lparr>sp_attestation = Some (attestation_for K (sq_height request) (Some timestamp)
       (abi_encode_state X (sq_height request) timestamp) sig)\<rparr>"
    unfolding state_input_def by blast
  from validate_height_finalized [OF *(2)] obtain th finalized
    where "exec (enum_get_last_height C a) th (Inr finalized)"
      "sq_height request \<le> finalized" "set th \<subseteq> set t1"
    by auto
  with * show ?thesis
    by (intro exI [of _ finalized] exI [of _ timestamp] exI [of _ sig] exI [of _ th] exI [of _ t2]
        exI [of _ t3]) auto
qed

text \<open>The same as predicates of the events of a call, for calls among others.\<close>

definition packet_attested ::
  "hash_lib \<Rightarrow> ('key, 'sig) key_lib \<Rightarrow> tonic_lib \<Rightarrow> ibc_lib \<Rightarrow> chain_lib \<Rightarrow> adapter_enum \<Rightarrow>
    'key signer_enum \<Rightarrow> packet_attestation_request \<Rightarrow> event list \<Rightarrow> packet_attestation_response \<Rightarrow> bool"
where
  "packet_attested H K T X C a s request t resp \<longleftrightarrow>
     (\<exists>ps ct finalized pa sig th ts.
        decoded X request = Some (ps, ct) \<and>
        exec (enum_get_last_height C a) th (Inr finalized) \<and> set th \<subseteq> set t \<and>
        pq_height request \<le> finalized \<and>
        pa_height pa = pq_height request \<and> length (pa_packets pa) = length ps \<and>
        (\<forall>i < length ps. \<exists>ti c cm.
           exec (chain_query X (enum_attestation_adapter C a) (pq_height request) ct (ps ! i)) ti (Inr c) \<and>
           set ti \<subseteq> set t \<and> (\<exists>q x. ERpc q (Inr x) \<in> set ti \<and> commitment_query a (pq_height request) q) \<and>
       accepted X ct (ps ! i) c = Some cm \<and> length cm = 32 \<and>
           pa_packets pa ! i = compact_entry H X ct (ps ! i) cm) \<and>
        exec (enum_sign H K T s (packet_input H X pa)) ts (Inr sig) \<and> set ts \<subseteq> set t \<and>
        resp = \<lparr>pp_attestation = Some (attestation_for K (pq_height request) None
          (abi_encode_packets X pa) sig)\<rparr>)"

lemma packet_attested_mono:
  assumes "packet_attested H K T X C a s request t resp" and "set t \<subseteq> set t'"
  shows "packet_attested H K T X C a s request t' resp"
  using assms(1) unfolding packet_attested_def
  by - (assumption | erule subset_trans [OF _ assms(2)] | erule ex_forward conj_forward all_forward imp_forward)+

lemma answered_packet_attested:
  "retries_ok C \<Longrightarrow>
     exec (packet_attestation schedule H K X (running_service H K T C a s) request) t (Inr resp) \<Longrightarrow>
     packet_attested H K T X C a s request t resp"
  unfolding packet_attested_def by (rule answered_packet_request)

definition state_attested ::
  "hash_lib \<Rightarrow> ('key, 'sig) key_lib \<Rightarrow> tonic_lib \<Rightarrow> ibc_lib \<Rightarrow> chain_lib \<Rightarrow> adapter_enum \<Rightarrow>
    'key signer_enum \<Rightarrow> state_attestation_request \<Rightarrow> event list \<Rightarrow> state_attestation_response \<Rightarrow> bool"
where
  "state_attested H K T X C a s request t resp \<longleftrightarrow>
     (\<exists>finalized timestamp sig th tb ts.
        exec (enum_get_last_height C a) th (Inr finalized) \<and> set th \<subseteq> set t \<and>
        sq_height request \<le> finalized \<and>
        exec (get_block_timestamp (inner_adapter C a) (sq_height request)) tb (Inr timestamp) \<and>
        set tb \<subseteq> set t \<and>
        exec (enum_sign H K T s (state_input H X (sq_height request) timestamp)) ts (Inr sig) \<and>
        set ts \<subseteq> set t \<and>
        resp = \<lparr>sp_attestation = Some (attestation_for K (sq_height request) (Some timestamp)
          (abi_encode_state X (sq_height request) timestamp) sig)\<rparr>)"

lemma state_attested_mono:
  assumes "state_attested H K T X C a s request t resp" and "set t \<subseteq> set t'"
  shows "state_attested H K T X C a s request t' resp"
  using assms(1) unfolding state_attested_def
  by - (assumption | erule subset_trans [OF _ assms(2)] | erule ex_forward conj_forward)+

lemma answered_state_attested:
  "exec (state_attestation H K X (running_service H K T C a s) request) t (Inr resp) \<Longrightarrow>
     state_attested H K T X C a s request t resp"
  unfolding state_attested_def by (rule answered_state_request)

end
