(* ===== verification/Test_Adapter.thy ===== *)
theory Test_Adapter
  imports Attestor
begin

section \<open>The adapter of the unit tests (\<open>TestAdapter\<close> in \<open>rpc/attestor.rs\<close>)\<close>

text \<open>
  An adapter with a fixed finalized height and a table of commitments. The unit tests of the
  service run on it; it meets the adapter contract when its commitments are 32 bytes long, which
  the type \<open>[u8; 32]\<close> guarantees in the code.
\<close>

record commitment_key =
  ck_client_id :: string
  ck_height :: u64
  ck_sequence :: u64
  ck_commitment_path :: bytes
  ck_commitment_type :: commitment_type

record test_adapter =
  finalized_height :: u64
  commitments :: "commitment_key \<Rightarrow> bytes option option"

definition with_finalized_height :: "u64 \<Rightarrow> test_adapter" where
  "with_finalized_height height = \<lparr>finalized_height = height, commitments = Map.empty\<rparr>"

definition insert_commitment ::
  "string \<Rightarrow> u64 \<Rightarrow> u64 \<Rightarrow> bytes \<Rightarrow> commitment_type \<Rightarrow> bytes option \<Rightarrow> test_adapter \<Rightarrow>
    test_adapter" where
  "insert_commitment client_id height seq path commitment_type commitment self =
     self\<lparr>commitments := (commitments self)
       (\<lparr>ck_client_id = client_id, ck_height = height, ck_sequence = seq,
         ck_commitment_path = path, ck_commitment_type = commitment_type\<rparr>
        \<mapsto> commitment)\<rparr>"

definition test_get_commitment ::
  "test_adapter \<Rightarrow> string \<Rightarrow> u64 \<Rightarrow> u64 \<Rightarrow> bytes \<Rightarrow> commitment_type \<Rightarrow>
    (adapter_error + bytes option) io" where
  "test_get_commitment self client_id height seq path commitment_type =
     (let key = \<lparr>ck_client_id = client_id, ck_height = height, ck_sequence = seq,
                 ck_commitment_path = path, ck_commitment_type = commitment_type\<rparr>
      in Ret (Inr (case commitments self key of None \<Rightarrow> None | Some c \<Rightarrow> c)))"

definition test_attestation_adapter :: "test_adapter \<Rightarrow> adapter" where
  "test_attestation_adapter self =
     \<lparr>get_last_height_at_configured_finality = Ret (Inr (finalized_height self)),
      get_block_timestamp = (\<lambda>_. Ret (Inr 1700000000)),
      get_commitment = test_get_commitment self\<rparr>"

definition test_packet :: "u64 \<Rightarrow> packet" where
  "test_packet n =
     \<lparr>sequence = n,
      sourceClient = ''src-client'',
      destClient = ''dst-client'',
      timeoutTimestamp = 123456789,
      payloads = [\<lparr>sourcePort = ''transfer'', destPort = ''transfer'', version = ''ics20-1'',
        encoding = ''proto3'', payload_value = [1, 2, 3]\<rparr>]\<rparr>"

definition commitments_32_bytes :: "test_adapter \<Rightarrow> bool" where
  "commitments_32_bytes self \<longleftrightarrow> (\<forall>k c. commitments self k = Some (Some c) \<longrightarrow> length c = 32)"

lemma commitments_32_bytes_new [simp]: "commitments_32_bytes (with_finalized_height h)"
  by (simp add: commitments_32_bytes_def with_finalized_height_def)

lemma commitments_32_bytes_insert:
  "commitments_32_bytes self \<Longrightarrow> (\<And>bs. c = Some bs \<Longrightarrow> length bs = 32) \<Longrightarrow>
    commitments_32_bytes (insert_commitment client h n path ct c self)"
  by (simp add: commitments_32_bytes_def insert_commitment_def)

interpretation test: attestation_adapter test_attestation_adapter commitments_32_bytes
  by unfold_locales
    (auto simp: test_attestation_adapter_def test_get_commitment_def commitments_32_bytes_def Let_def
      intro: event_rules split: option.splits)

text \<open>The answers of a test adapter do not change between queries.\<close>

definition table_answer ::
  "ibc_lib \<Rightarrow> test_adapter \<Rightarrow> u64 \<Rightarrow> commitment_type \<Rightarrow> packet \<Rightarrow> adapter_error + bytes option" where
  "table_answer X self height ct p =
     Inr (case commitments self
            \<lparr>ck_client_id = checked_client ct p, ck_height = height, ck_sequence = sequence p,
             ck_commitment_path = checked_path X ct p, ck_commitment_type = ct\<rparr> of
          None \<Rightarrow> None | Some c \<Rightarrow> c)"

lemma answers_table:
  "answers X (test_attestation_adapter self) height ct (table_answer X self height ct) ps"
  by (simp add: answers_def chain_query_def test_attestation_adapter_def test_get_commitment_def
      table_answer_def Let_def)

lemma test_adapter_simps [simp]:
  "get_last_height_at_configured_finality (test_attestation_adapter self) =
     Ret (Inr (finalized_height self))"
  "get_block_timestamp (test_attestation_adapter self) = (\<lambda>_. Ret (Inr 1700000000))"
  "get_commitment (test_attestation_adapter self) = test_get_commitment self"
  by (simp_all add: test_attestation_adapter_def)

end
