(* ===== verification/Samples.thy ===== *)
theory Samples
  imports Service Test_Adapter
begin

section \<open>Concrete services and requests\<close>

text \<open>
  A service on concrete parameters, and a request to it. The theorems about the service are applied
  to them to show that their hypotheses can hold.
\<close>

text \<open>A packet is encoded as its sequence number.\<close>

definition sample_ibc :: ibc_lib where
  "sample_ibc =
     \<lparr>abi_decode_packet = (\<lambda>bs. case bs of [n] \<Rightarrow> Inr (test_packet (ucast n)) | _ \<Rightarrow> Inl ''length''),
      abi_encode_state = (\<lambda>height timestamp. [ucast height, ucast timestamp]),
      abi_encode_packets = (\<lambda>pa. ucast (pa_height pa) # concat (map pc_commitment (pa_packets pa))),
      commitment_path = (\<lambda>p. [1, ucast (sequence p)]),
      ack_commitment_path = (\<lambda>p. [2, ucast (sequence p)]),
      receipt_commitment_path = (\<lambda>p. [3, ucast (sequence p)]),
      packet_commitment = (\<lambda>p. replicate 32 7),
      unknown_enum_text = (\<lambda>n. ''unknown'')\<rparr>"

definition sample_evm :: adapter_enum where
  "sample_evm = EvmAdapter (sample_evm_adapter None)"

definition sample_local :: "u8 signer_enum" where
  "sample_local = LocalSigner (new_local_signer 5)"

definition sample_remote :: "u8 signer_enum" where
  "sample_remote = RemoteSigner (new_remote_signer ''http://signer'' ''w1'' (Some ''/token''))"

abbreviation sample_service :: "u8 signer_enum \<Rightarrow> (u8 \<times> u8) attestor_service" where
  "sample_service \<equiv> running_service sample_hash sample_keys sample_tonic sample_chain sample_evm"

definition sample_request :: packet_attestation_request where
  "sample_request = \<lparr>pq_packets = [[20], [21]], pq_height = 60, pq_commitment_type = 0\<rparr>"

end
