(* ===== verification/Health.thy ===== *)
theory Health
  imports Metrics
begin

section \<open>The HTTP health server (\<open>rpc/health.rs\<close>)\<close>

text \<open>
  Two routes: \<open>/healthz\<close> tries a TCP connection to the gRPC address, \<open>/metrics\<close> returns the
  encoded registry. The filters of the \<open>warp\<close> crate are parameters (\<open>warp_lib\<close>); \<open>documented_warp\<close>
  states what its documentation says of them. A reply is what the code hands to \<open>warp\<close>.
\<close>

definition OK :: nat where
  "OK = 200"

definition SERVICE_UNAVAILABLE :: nat where
  "SERVICE_UNAVAILABLE = 503"

definition CONTENT_TYPE :: string where
  "CONTENT_TYPE = ''text/plain; version=0.0.4''"

datatype http_reply =
    StatusReply nat
  | WithHeader bytes string string \<comment> \<open>body, header name, header value\<close>

record 'q warp_lib =
  warp_get :: "'q \<Rightarrow> bool"
  warp_path :: "string \<Rightarrow> 'q \<Rightarrow> 'q option" \<comment> \<open>the request after the segment\<close>
  warp_end :: "'q \<Rightarrow> bool"

definition check_grpc :: "string \<Rightarrow> nat io" where
  "check_grpc grpc_addr =
     TcpConnect grpc_addr (\<lambda>r. case r of
         Inr _ \<Rightarrow> Ret OK
       | Inl e \<Rightarrow> Ret SERVICE_UNAVAILABLE)"

text \<open>A filter rejects a request (\<open>None\<close>) or handles it.\<close>

definition route_matches :: "'q warp_lib \<Rightarrow> string \<Rightarrow> 'q \<Rightarrow> bool" where
  "route_matches W segment q =
     (warp_get W q \<and>
      (case warp_path W segment q of None \<Rightarrow> False | Some q' \<Rightarrow> warp_end W q'))"

definition make_healthz_filter :: "'q warp_lib \<Rightarrow> string \<Rightarrow> 'q \<Rightarrow> nat io option" where
  "make_healthz_filter W grpc_addr q =
     (if route_matches W ''healthz'' q then Some (check_grpc grpc_addr) else None)"

definition make_metrics_filter ::
  "'q warp_lib \<Rightarrow> (registry \<Rightarrow> string + bytes) \<Rightarrow> registry option \<Rightarrow> 'q \<Rightarrow> http_reply option" where
  "make_metrics_filter W encoder m q =
     (if route_matches W ''metrics'' q
      then Some (WithHeader (encode_text encoder m) ''content-type'' CONTENT_TYPE)
      else None)"

definition routes ::
  "'q warp_lib \<Rightarrow> (registry \<Rightarrow> string + bytes) \<Rightarrow> registry option \<Rightarrow> string \<Rightarrow> 'q \<Rightarrow>
    http_reply io option" where
  "routes W encoder m grpc_addr q =
     (case make_healthz_filter W grpc_addr q of
        Some reply \<Rightarrow> Some (fmap StatusReply reply)
      | None \<Rightarrow> map_option Ret (make_metrics_filter W encoder m q))"

text \<open>\<open>start\<close>: the routes are served at the health address; the registry is the one at the request.\<close>

record 'q http_server =
  hs_addr :: string
  hs_routes :: "(registry \<Rightarrow> string + bytes) \<Rightarrow> registry option \<Rightarrow> 'q \<Rightarrow> http_reply io option"

definition health_start :: "'q warp_lib \<Rightarrow> string \<Rightarrow> string \<Rightarrow> 'q http_server" where
  "health_start W health_addr grpc_addr =
     \<lparr>hs_addr = health_addr, hs_routes = (\<lambda>encoder m. routes W encoder m grpc_addr)\<rparr>"

text \<open>
  \<open>warp::get\<close> accepts GET requests, \<open>warp::path\<close> consumes one segment equal to its argument, and
  \<open>warp::path::end\<close> accepts when no segment is left.
\<close>

definition documented_warp ::
  "'q warp_lib \<Rightarrow> ('q \<Rightarrow> string) \<Rightarrow> ('q \<Rightarrow> string list) \<Rightarrow> bool" where
  "documented_warp W method segments \<longleftrightarrow>
     (\<forall>q. warp_get W q \<longleftrightarrow> method q = ''GET'') \<and>
     (\<forall>s q. warp_path W s q = None \<longrightarrow> segments q = [] \<or> hd (segments q) \<noteq> s) \<and>
     (\<forall>s q q'. warp_path W s q = Some q' \<longrightarrow> segments q = s # segments q') \<and>
     (\<forall>q. warp_end W q \<longleftrightarrow> segments q = [])"

lemma route_matches_iff:
  assumes "documented_warp W method segments"
  shows "route_matches W s q \<longleftrightarrow> method q = ''GET'' \<and> segments q = [s]"
proof (cases "warp_path W s q")
  case None
  then have "segments q = [] \<or> hd (segments q) \<noteq> s"
    using assms unfolding documented_warp_def by blast
  with None show ?thesis by (auto simp: route_matches_def)
next
  case (Some q')
  then have "segments q = s # segments q'"
    using assms unfolding documented_warp_def by blast
  with Some assms show ?thesis by (simp add: route_matches_def documented_warp_def)
qed

lemma exec_check_grpc:
  "exec (check_grpc addr) t code \<longleftrightarrow>
     (\<exists>r. t = [ETcp addr r] \<and> code = (if is_ok r then OK else SERVICE_UNAVAILABLE))"
  by (auto simp: check_grpc_def split_sum_ex)

subsection \<open>Properties\<close>

text \<open>Requests as a method and the segments of a path, on which the filters are functions.\<close>

definition sample_warp :: "(string \<times> string list) warp_lib" where
  "sample_warp =
     \<lparr>warp_get = (\<lambda>q. fst q = ''GET''),
      warp_path = (\<lambda>s q. case snd q of x # xs \<Rightarrow> if x = s then Some (fst q, xs) else None | [] \<Rightarrow> None),
      warp_end = (\<lambda>q. snd q = [])\<rparr>"

lemma documented_warp_sample: "documented_warp sample_warp fst snd"
  by (auto simp: documented_warp_def sample_warp_def split: list.splits if_splits)

text \<open>
  C30. What the health server serves. Only GET requests for exactly \<open>/healthz\<close> and \<open>/metrics\<close> are
  handled. \<open>/healthz\<close> is answered 200 exactly when a TCP connection to the gRPC address succeeds and
  503 when it fails, and opening that connection is all the request causes; \<open>/metrics\<close> returns the
  encoding of the registry as it is, with its content type, and contacts nothing.
\<close>

theorem health_server:
  assumes "documented_warp W method segments"
  shows "(hs_routes (health_start W address addr) encoder registry q \<noteq> None \<longleftrightarrow>
      method q = ''GET'' \<and> (segments q = [''healthz''] \<or> segments q = [''metrics''])) \<and>
    (method q = ''GET'' \<and> segments q = [''healthz''] \<longrightarrow>
      (\<exists>m. hs_routes (health_start W address addr) encoder registry q = Some m \<and>
        (\<forall>t reply. exec m t reply \<longleftrightarrow>
          (\<exists>r. t = [ETcp addr r] \<and> reply = StatusReply (if is_ok r then 200 else 503))))) \<and>
    (method q = ''GET'' \<and> segments q = [''metrics''] \<longrightarrow>
      hs_routes (health_start W address addr) encoder registry q =
        Some (Ret (WithHeader (encode_text encoder registry) ''content-type''
          ''text/plain; version=0.0.4'')))"
  by (auto simp: health_start_def routes_def make_healthz_filter_def make_metrics_filter_def
      route_matches_iff [OF assms] CONTENT_TYPE_def exec_fmap exec_check_grpc OK_def
      SERVICE_UNAVAILABLE_def)

theorem health_server_witness:
  "(\<exists>m. hs_routes (health_start sample_warp ''h'' ''127.0.0.1:1'') (\<lambda>r. Inr []) None
     (''GET'', [''healthz'']) = Some m \<and>
     exec m [ETcp ''127.0.0.1:1'' (Inl ''refused'')] (StatusReply 503)) \<and>
   hs_routes (health_start sample_warp ''h'' ''a'') (\<lambda>r. Inr [1])
     (Some (fresh_registry ''evm'' ''local'' attestor_metrics)) (''GET'', [''metrics'']) = Some (Ret (WithHeader [1] ''content-type'' ''text/plain; version=0.0.4'')) \<and>
   hs_routes (health_start sample_warp ''h'' ''a'') (\<lambda>r. Inr [1]) None (''POST'', [''metrics'']) = None"
  using health_server [OF documented_warp_sample, of "''h''" "''127.0.0.1:1''" "\<lambda>r. Inr []" None
      "(''GET'', [''healthz''])"]
    health_server [OF documented_warp_sample, of "''h''" "''a''" "\<lambda>r. Inr [1]"
      "Some (fresh_registry ''evm'' ''local'' attestor_metrics)" "(''GET'', [''metrics''])"]
    health_server [OF documented_warp_sample, of "''h''" "''a''" "\<lambda>r. Inr [1]" None "(''POST'', [''metrics''])"]
  by (simp add: encode_text_def) force

end
