(* ===== verification/Middleware.thy ===== *)
theory Middleware
  imports Samples
begin

section \<open>Logging middleware and trace propagation (\<open>rpc/middleware.rs\<close>, \<open>rpc/interceptor.rs\<close>)\<close>

text \<open>
  The middleware wraps each handler of the service in \<open>track_rpc\<close> and logs one line about the
  result. A logged call returns the handler's result together with the fields of that line; the
  fields of the span it opens are a function of the request.
\<close>

datatype log_value =
    LogNat nat
  | LogHeight u64
  | LogTimestamp "u64 option"
  | LogText string
  | LogError status
  | LogType commitment_type

type_synonym log_line = "(string \<times> log_value) list"

record 'sig logging_middleware =
  mw_inner :: "'sig attestor_service"

definition new_logging_middleware :: "'sig attestor_service \<Rightarrow> 'sig logging_middleware" where
  "new_logging_middleware service = \<lparr>mw_inner = service\<rparr>"

definition as_millis :: "nat \<Rightarrow> nat" where \<comment> \<open>of nanoseconds\<close>
  "as_millis d = d div 10 ^ 6"

definition error_line :: "nat \<Rightarrow> status \<Rightarrow> log_line" where
  "error_line duration_ms e =
     [(''durationMs'', LogNat duration_ms), (''status'', LogText ''error''), (''error'', LogError e)]"

definition logged_latest_height ::
  "(code \<Rightarrow> string) \<Rightarrow> 'sig logging_middleware \<Rightarrow> ((status + latest_height_response) \<times> log_line) io" where
  "logged_latest_height cd self =
     bind (track_rpc cd ''latest_height'' (latest_height (mw_inner self))) (\<lambda>(result, elapsed).
       let duration_ms = as_millis elapsed
       in case result of
            Inr response \<Rightarrow>
              Ret (result, [(''height'', LogHeight (lh_height response)),
                (''durationMs'', LogNat duration_ms), (''status'', LogText ''ok'')])
          | Inl e \<Rightarrow> Ret (result, error_line duration_ms e))"

definition logged_state_attestation ::
  "(code \<Rightarrow> string) \<Rightarrow> hash_lib \<Rightarrow> ('key, 'sig) key_lib \<Rightarrow> ibc_lib \<Rightarrow> 'sig logging_middleware \<Rightarrow>
    state_attestation_request \<Rightarrow> ((status + state_attestation_response) \<times> log_line) io" where
  "logged_state_attestation cd H K X self request =
     bind (track_rpc cd ''state_attestation'' (state_attestation H K X (mw_inner self) request))
       (\<lambda>(result, elapsed).
          let duration_ms = as_millis elapsed
          in case result of
               Inr response \<Rightarrow>
                 (let timestamp = Option.bind (sp_attestation response) att_timestamp
                  in Ret (result, [(''timestamp'', LogTimestamp timestamp),
                       (''durationMs'', LogNat duration_ms), (''status'', LogText ''ok'')]))
             | Inl e \<Rightarrow> Ret (result, error_line duration_ms e))"

definition logged_packet_attestation ::
  "(code \<Rightarrow> string) \<Rightarrow> nat list \<Rightarrow> hash_lib \<Rightarrow> ('key, 'sig) key_lib \<Rightarrow> ibc_lib \<Rightarrow>
    'sig logging_middleware \<Rightarrow> packet_attestation_request \<Rightarrow>
    ((status + packet_attestation_response) \<times> log_line) io" where
  "logged_packet_attestation cd schedule H K X self request =
     bind (track_rpc cd ''packet_attestation''
            (packet_attestation schedule H K X (mw_inner self) request))
       (\<lambda>(result, elapsed).
          let duration_ms = as_millis elapsed
          in case result of
               Inr _ \<Rightarrow>
                 Ret (result, [(''durationMs'', LogNat duration_ms), (''status'', LogText ''ok'')])
             | Inl e \<Rightarrow> Ret (result, error_line duration_ms e))"

text \<open>
  The spans' fields. \<open>request.commitment_type()\<close> is \<open>prost\<close>'s getter: an unknown value reads as the
  enum's first variant.
\<close>

definition commitment_type_getter :: "i32 \<Rightarrow> commitment_type" where
  "commitment_type_getter n = (case commitment_type_try_from n of Inr ct \<Rightarrow> ct | Inl _ \<Rightarrow> Packet)"

definition latest_height_span :: "'sig logging_middleware \<Rightarrow> log_line" where
  "latest_height_span self =
     [(''adapter'', LogText (svc_adapter_name (mw_inner self))),
      (''signer'', LogText (svc_signer_name (mw_inner self)))]"

definition state_attestation_span ::
  "'sig logging_middleware \<Rightarrow> state_attestation_request \<Rightarrow> log_line" where
  "state_attestation_span self request =
     [(''adapter'', LogText (svc_adapter_name (mw_inner self))),
      (''signer'', LogText (svc_signer_name (mw_inner self))),
      (''height'', LogHeight (sq_height request))]"

definition packet_attestation_span ::
  "'sig logging_middleware \<Rightarrow> packet_attestation_request \<Rightarrow> log_line" where
  "packet_attestation_span self request =
     [(''adapter'', LogText (svc_adapter_name (mw_inner self))),
      (''signer'', LogText (svc_signer_name (mw_inner self))),
      (''height'', LogHeight (pq_height request)),
      (''numPackets'', LogNat (length (pq_packets request))),
      (''commitmentType'', LogType (commitment_type_getter (pq_commitment_type request)))]"

subsection \<open>The middleware is transparent\<close>

definition status_field :: "status + 'a \<Rightarrow> string" where
  "status_field r = (if is_ok r then ''ok'' else ''error'')"

text \<open>
  An execution of a wrapped handler is an execution of the handler between two clock readings,
  counted once under the handler's name and the code of its result.
\<close>

definition wraps ::
  "(code \<Rightarrow> string) \<Rightarrow> string \<Rightarrow> (status + 'a) io \<Rightarrow> ((status + 'a) \<times> log_line) io \<Rightarrow> bool" where
  "wraps cd method handler prog \<longleftrightarrow>
     (\<forall>t r l. exec prog t (r, l) \<longrightarrow>
        (\<exists>a b t0. exec handler t0 r \<and>
           t = ENow a # t0 @
             [ENow b, EMetric (RpcRequest method (code_label cd (result_code r)) (b - a))] \<and>
           map_of l ''status'' = Some (LogText (status_field r)) \<and>
           map_of l ''durationMs'' = Some (LogNat ((b - a) div 10 ^ 6)))) \<and>
     (\<forall>t0 r a b. exec handler t0 r \<longrightarrow> (\<exists>l. exec prog (ENow a # t0 @
        [ENow b, EMetric (RpcRequest method (code_label cd (result_code r)) (b - a))]) (r, l)))"

lemma wraps_track_rpc:
  assumes "\<And>r d. logged_of (r, d) = Ret (r, line r d)"
    and "\<And>r d. map_of (line r d) ''status'' = Some (LogText (status_field r))"
    and "\<And>r d. map_of (line r d) ''durationMs'' = Some (LogNat (d div 10 ^ 6))"
  shows "wraps cd method handler (bind (track_rpc cd method handler) logged_of)"
  unfolding wraps_def
proof (intro conjI allI impI)
  fix t r l
  assume "exec (bind (track_rpc cd method handler) logged_of) t (r, l)"
  then obtain d where "exec (track_rpc cd method handler) t (r, d)" "l = line r d"
    by (auto simp: exec_bind assms(1))
  with exec_track_rpcD [OF this(1)] assms(2,3)
  show "\<exists>a b t0. exec handler t0 r \<and>
      t = ENow a # t0 @
        [ENow b, EMetric (RpcRequest method (code_label cd (result_code r)) (b - a))] \<and>
      map_of l ''status'' = Some (LogText (status_field r)) \<and>
      map_of l ''durationMs'' = Some (LogNat ((b - a) div 10 ^ 6))"
    by blast
next
  fix t0 r a b
  assume "exec handler t0 r"
  let ?t = "ENow a # t0 @ [ENow b, EMetric (RpcRequest method (code_label cd (result_code r)) (b - a))]"
  have "exec (track_rpc cd method handler) ?t (r, b - a)"
    using exec_track_rpcI [OF \<open>exec handler t0 r\<close>] .
  then have "exec (bind (track_rpc cd method handler) logged_of) (?t @ []) (r, line r (b - a))"
    by (rule exec_bindI) (simp add: assms(1))
  then show "\<exists>l. exec (bind (track_rpc cd method handler) logged_of) ?t (r, l)" by auto
qed

lemmas line_defs = as_millis_def error_line_def status_field_def Let_def

lemma wraps_latest_height:
  "wraps cd ''latest_height'' (latest_height (mw_inner self)) (logged_latest_height cd self)"
  unfolding logged_latest_height_def
  by (rule wraps_track_rpc [where line = "\<lambda>r d. case r of
      Inr response \<Rightarrow> [(''height'', LogHeight (lh_height response)),
        (''durationMs'', LogNat (as_millis d)), (''status'', LogText ''ok'')]
    | Inl e \<Rightarrow> error_line (as_millis d) e"])
    (auto simp: line_defs split: sum.split)

lemma wraps_state_attestation:
  "wraps cd ''state_attestation'' (state_attestation H K X (mw_inner self) request)
     (logged_state_attestation cd H K X self request)"
  unfolding logged_state_attestation_def
  by (rule wraps_track_rpc [where line = "\<lambda>r d. case r of
      Inr response \<Rightarrow>
        [(''timestamp'', LogTimestamp (Option.bind (sp_attestation response) att_timestamp)),
         (''durationMs'', LogNat (as_millis d)), (''status'', LogText ''ok'')]
    | Inl e \<Rightarrow> error_line (as_millis d) e"])
    (auto simp: line_defs split: sum.split)

lemma wraps_packet_attestation:
  "wraps cd ''packet_attestation'' (packet_attestation schedule H K X (mw_inner self) request)
     (logged_packet_attestation cd schedule H K X self request)"
  unfolding logged_packet_attestation_def
  by (rule wraps_track_rpc [where line = "\<lambda>r d. case r of
      Inr _ \<Rightarrow> [(''durationMs'', LogNat (as_millis d)), (''status'', LogText ''ok'')]
    | Inl e \<Rightarrow> error_line (as_millis d) e"])
    (auto simp: line_defs split: sum.split)

subsection \<open>Trace context of a request\<close>

text \<open>
  What the interceptor reads of \<open>tonic\<close>'s \<open>MetadataMap\<close>: the raw value under a key, and the keys.
  \<open>to_str\<close> is \<open>MetadataValue::to_str\<close>, and \<open>extract\<close> the configured propagator of
  \<open>opentelemetry\<close>, applied to the two operations of its \<open>Extractor\<close> trait.
\<close>

datatype key_ref = Ascii string | Binary string

record metadata_map =
  mm_get :: "string \<Rightarrow> bytes option"
  mm_keys :: "key_ref list"

definition extractor_get ::
  "(bytes \<Rightarrow> string option) \<Rightarrow> metadata_map \<Rightarrow> string \<Rightarrow> string option" where
  "extractor_get to_str md key = Option.bind (mm_get md key) to_str"

definition extractor_keys :: "metadata_map \<Rightarrow> string list" where
  "extractor_keys md = map (\<lambda>k. case k of Ascii key \<Rightarrow> key | Binary key \<Rightarrow> key) (mm_keys md)"

record 'm request =
  rq_metadata :: metadata_map
  rq_message :: 'm

text \<open>The interceptor's result, and the parent it gives the current span.\<close>

definition tracing_interceptor ::
  "(bytes \<Rightarrow> string option) \<Rightarrow> ((string \<Rightarrow> string option) \<Rightarrow> string list \<Rightarrow> 'ctx) \<Rightarrow> 'm request \<Rightarrow>
    (status + 'm request) \<times> 'ctx" where
  "tracing_interceptor to_str extract request =
     (let parent_context =
            extract (extractor_get to_str (rq_metadata request)) (extractor_keys (rq_metadata request))
      in (Inr request, parent_context))"

text \<open>A whole request: the interceptor, then the wrapped handler on its message.\<close>

definition intercepted ::
  "(bytes \<Rightarrow> string option) \<Rightarrow> ((string \<Rightarrow> string option) \<Rightarrow> string list \<Rightarrow> 'ctx) \<Rightarrow>
    ('m \<Rightarrow> ((status + 'a) \<times> log_line) io) \<Rightarrow> 'm request \<Rightarrow> (status + 'a) io" where
  "intercepted to_str extract handler request =
     (case fst (tracing_interceptor to_str extract request) of
        Inl s \<Rightarrow> Ret (Inl s)
      | Inr request \<Rightarrow> fmap fst (handler (rq_message request)))"

lemma intercepted_eq:
  "intercepted to_str extract handler request = fmap fst (handler (rq_message request))"
  by (simp add: intercepted_def tracing_interceptor_def Let_def)

text \<open>
  What the middleware may add to a handler: two readings of the clock around it and one count under
  the handler's name and the label of the answer's code. Nothing else is added or lost.
\<close>

definition transparent ::
  "(code \<Rightarrow> string) \<Rightarrow> string \<Rightarrow> (status + 'a) io \<Rightarrow> (status + 'a) io \<Rightarrow> bool" where
  "transparent cd name handler served \<longleftrightarrow>
     (\<forall>t r. exec served t r \<longleftrightarrow>
        (\<exists>a b t0. exec handler t0 r \<and> t = ENow a # t0 @
           [ENow b, EMetric (RpcRequest name (code_label cd (result_code r)) (b - a))]))"

lemma exec_intercepted:
  "exec (intercepted to_str extract wrapped request) t r \<longleftrightarrow>
    (\<exists>l. exec (wrapped (rq_message request)) t (r, l))"
  by (auto simp: intercepted_eq exec_fmap)

lemma intercepted_transparent:
  assumes "wraps cd name handler (wrapped (rq_message request))"
  shows "transparent cd name handler (intercepted to_str extract wrapped request)"
  using assms unfolding transparent_def wraps_def exec_intercepted by blast

lemma transparentD:
  assumes "transparent cd name handler served" and "exec served t r"
  shows "\<exists>a b t0. exec handler t0 r \<and> t = ENow a # t0 @
    [ENow b, EMetric (RpcRequest name (code_label cd (result_code r)) (b - a))]"
  using assms by (simp add: transparent_def)

lemma transparentI:
  "transparent cd name handler served \<Longrightarrow> exec handler t0 r \<Longrightarrow>
    \<exists>t. exec served t r \<and> set t0 \<subseteq> set t"
  unfolding transparent_def by fastforce

subsection \<open>Properties\<close>

text \<open>
  C29. The middleware is transparent. The executions of a request of any of the three kinds that passes
  the interceptor and the middleware are exactly the executions of the handler itself, with the same
  answers, between two readings of the clock and followed by one count, under the handler's name and
  the label of the answer's code, with the time between the readings.
\<close>

theorem middleware_transparent:
  "transparent cd ''latest_height'' (latest_height (mw_inner self))
     (intercepted to_str extract (\<lambda>_. logged_latest_height cd self) request) \<and>
   transparent cd ''state_attestation'' (state_attestation H K X (mw_inner self) (rq_message request'))
     (intercepted to_str extract (logged_state_attestation cd H K X self) request') \<and>
   transparent cd ''packet_attestation''
     (packet_attestation schedule H K X (mw_inner self) (rq_message request''))
     (intercepted to_str extract (logged_packet_attestation cd schedule H K X self) request'')"
  by (intro conjI intercepted_transparent wraps_latest_height wraps_state_attestation
      wraps_packet_attestation)

end
