(* ===== verification/Calls.thy ===== *)
theory Calls
  imports Metrics
begin

section \<open>A server of concurrent calls\<close>

text \<open>
  The interleavings of asynchronous calls: every call is a program of its own, any call may take the
  next step, a new one may arrive at any time, and one that is being served may be dropped where it is.
  Nothing is said of when the server accepts, drops or finishes calls. The handler is a parameter; the
  calls share the metrics registry and nothing else. The locale \<open>counted_handler\<close> is the contract of a
  handler that counts every request it answers once, as its last action.
\<close>

subsection \<open>Parts of executions\<close>

inductive io_steps :: "'r io \<Rightarrow> event list \<Rightarrow> 'r io \<Rightarrow> bool" where
  steps_none: "io_steps m [] m"
| steps_more: "io_steps m t m' \<Longrightarrow> io_step m' e m'' \<Longrightarrow> io_steps m (t @ [e]) m''"

lemma io_steps_exec: "io_steps m t m' \<Longrightarrow> exec m' t' r \<Longrightarrow> exec m (t @ t') r"
  by (induction arbitrary: t' rule: io_steps.induct) (auto intro: exec_step)

lemma io_steps_Ret: "io_steps m t (Ret r) \<Longrightarrow> exec m t r"
  using io_steps_exec [of m t "Ret r" "[]" r] by simp

lemma io_steps_Cons: "io_steps m' t m'' \<Longrightarrow> io_step m e m' \<Longrightarrow> io_steps m (e # t) m''"
proof (induction rule: io_steps.induct)
  case (steps_none m')
  then show ?case using steps_more [OF io_steps.steps_none] by fastforce
next
  case (steps_more m' t m1 e' m2)
  then show ?case using io_steps.steps_more by fastforce
qed

lemma exec_io_steps: "exec m t r \<Longrightarrow> io_steps m t (Ret r)"
  by (induction rule: exec.induct) (auto intro: steps_none io_steps_Cons)

lemma io_steps_extend: "io_steps m t m' \<Longrightarrow> \<exists>t' r. exec m (t @ t') r"
proof -
  assume run: "io_steps m t m'"
  obtain t' r where "exec m' t' r" using exec_total [of m'] by blast
  then show ?thesis using io_steps_exec [OF run] by blast
qed

subsection \<open>State and steps\<close>

datatype 'r call =
    Serving "'r io"
  | Answered 'r
  | Dropped

record ('q, 'r) server =
  sv_calls :: "('q \<times> 'r call) list"
  sv_metrics :: "registry option"

definition fresh_server :: "registry option \<Rightarrow> ('q, 'r) server" where
  "fresh_server m = \<lparr>sv_calls = [], sv_metrics = m\<rparr>"

text \<open>A call arrives with the order in which its futures will advance.\<close>

datatype 'q server_event =
    Arrives 'q "nat list"
  | Progresses nat event
  | Answers nat
  | Drops nat

inductive server_step ::
  "(nat list \<Rightarrow> 'q \<Rightarrow> 'r io) \<Rightarrow> ('q, 'r) server \<Rightarrow> 'q server_event \<Rightarrow> ('q, 'r) server \<Rightarrow> bool"
  for handle :: "nat list \<Rightarrow> 'q \<Rightarrow> 'r io" where
  arrives:
    "server_step handle s (Arrives q schedule)
         (s\<lparr>sv_calls := sv_calls s @ [(q, Serving (handle schedule q))]\<rparr>)"
| progresses:
    "i < length (sv_calls s) \<Longrightarrow> sv_calls s ! i = (q, Serving m) \<Longrightarrow> io_step m e m' \<Longrightarrow>
       server_step handle s (Progresses i e)
         (s\<lparr>sv_calls := (sv_calls s)[i := (q, Serving m')],
            sv_metrics := metrics_after [e] (sv_metrics s)\<rparr>)"
| answers:
    "i < length (sv_calls s) \<Longrightarrow> sv_calls s ! i = (q, Serving (Ret r)) \<Longrightarrow>
       server_step handle s (Answers i) (s\<lparr>sv_calls := (sv_calls s)[i := (q, Answered r)]\<rparr>)"
| drops:
    "i < length (sv_calls s) \<Longrightarrow> sv_calls s ! i = (q, Serving m) \<Longrightarrow>
       server_step handle s (Drops i) (s\<lparr>sv_calls := (sv_calls s)[i := (q, Dropped)]\<rparr>)"

inductive_cases server_stepE: "server_step handle s e s'"

inductive server_run ::
  "(nat list \<Rightarrow> 'q \<Rightarrow> 'r io) \<Rightarrow> ('q, 'r) server \<Rightarrow> 'q server_event list \<Rightarrow> ('q, 'r) server \<Rightarrow> bool"
  for handle :: "nat list \<Rightarrow> 'q \<Rightarrow> 'r io" where
  server_start: "server_run handle s [] s"
| server_more:
    "server_run handle s es s' \<Longrightarrow> server_step handle s' e s'' \<Longrightarrow> server_run handle s (es @ [e]) s''"

text \<open>The events of all calls, in the order in which they happened, and those of one call.\<close>

fun step_events :: "(nat \<Rightarrow> bool) \<Rightarrow> 'q server_event \<Rightarrow> event list" where
  "step_events P (Progresses i e) = (if P i then [e] else [])"
| "step_events P _ = []"

definition events_of :: "(nat \<Rightarrow> bool) \<Rightarrow> 'q server_event list \<Rightarrow> event list" where
  "events_of P es = concat (map (step_events P) es)"

abbreviation all_events :: "'q server_event list \<Rightarrow> event list" where
  "all_events \<equiv> events_of (\<lambda>_. True)"

abbreviation own_events :: "nat \<Rightarrow> 'q server_event list \<Rightarrow> event list" where
  "own_events i \<equiv> events_of (\<lambda>j. j = i)"

lemma events_of_simps [simp]:
  "events_of P [] = []"
  "events_of P (es @ es') = events_of P es @ events_of P es'"
  "events_of P (e # es) = step_events P e @ events_of P es"
  by (simp_all add: events_of_def)

subsection \<open>Calls do not disturb each other\<close>

text \<open>
  What is left of a call is what its own events, among those of all calls, have left of its handler;
  an answered call is an execution of its handler alone.
\<close>

fun isolated :: "'r io \<Rightarrow> event list \<Rightarrow> 'r call \<Rightarrow> bool" where
  "isolated m t (Serving m') = io_steps m t m'"
| "isolated m t (Answered r) = exec m t r"
| "isolated m t Dropped = (\<exists>m'. io_steps m t m')"

lemma isolated_io_steps: "isolated m t c \<Longrightarrow> \<exists>m'. io_steps m t m'"
  by (cases c) (auto intro: exec_io_steps)

definition calls_isolated ::
  "(nat list \<Rightarrow> 'q \<Rightarrow> 'r io) \<Rightarrow> 'q server_event list \<Rightarrow> ('q, 'r) server \<Rightarrow> bool" where
  "calls_isolated handle es s \<longleftrightarrow>
     (\<forall>i < length (sv_calls s). case sv_calls s ! i of (q, c) \<Rightarrow>
        \<exists>schedule. isolated (handle schedule q) (own_events i es) c) \<and>
     (\<forall>i \<ge> length (sv_calls s). own_events i es = [])"

lemma calls_isolated_update:
  assumes "calls_isolated handle es s" and "i < length (sv_calls s)" and "sv_calls s ! i = (q, c)"
    and "\<And>m. isolated m (own_events i es) c \<Longrightarrow> isolated m (own_events i es @ step_events (\<lambda>j. j = i) e) c'"
    and "\<And>j. j \<noteq> i \<Longrightarrow> step_events (\<lambda>k. k = j) e = []"
    and "sv_calls s' = (sv_calls s)[i := (q, c')]"
  shows "calls_isolated handle (es @ [e]) s'"
proof -
  have "case sv_calls s' ! j of (q, c) \<Rightarrow> \<exists>schedule. isolated (handle schedule q) (own_events j (es @ [e])) c"
    if j: "j < length (sv_calls s)" for j
  proof (cases "j = i")
    case True
    with assms(1-3) obtain schedule where "isolated (handle schedule q) (own_events i es) c"
      by (auto simp: calls_isolated_def)
    from assms(4) [OF this] True j assms(6) show ?thesis by auto
  next
    case False
    with assms(1,5,6) j show ?thesis by (simp add: calls_isolated_def)
  qed
  moreover have "own_events j (es @ [e]) = []" if "length (sv_calls s) \<le> j" for j
    using that assms(1,2) assms(5) [of j] by (simp add: calls_isolated_def)
  ultimately show ?thesis using assms(6) by (simp add: calls_isolated_def)
qed

lemma calls_isolated_step:
  assumes "server_step handle s e s'" and "calls_isolated handle es s"
  shows "calls_isolated handle (es @ [e]) s'"
  using assms(1)
proof cases
  case (arrives q schedule)
  have "own_events (length (sv_calls s)) es = []"
    using assms(2) by (simp add: calls_isolated_def)
  then have new: "isolated (handle schedule q) (own_events (length (sv_calls s)) es) (Serving (handle schedule q))"
    by (simp add: steps_none)
  have "case (sv_calls s @ [(q, Serving (handle schedule q))]) ! j of (q, c) \<Rightarrow>
      \<exists>schedule. isolated (handle schedule q) (own_events j es) c"
    if "j < Suc (length (sv_calls s))" for j
  proof (cases "j < length (sv_calls s)")
    case True
    with assms(2) show ?thesis by (simp add: calls_isolated_def nth_append)
  next
    case False
    with that have "j = length (sv_calls s)" by simp
    with new show ?thesis by (auto simp: nth_append)
  qed
  with assms(2) arrives show ?thesis by (simp add: calls_isolated_def)
next
  case (progresses i q m x m')
  show ?thesis
    by (rule calls_isolated_update [OF assms(2) progresses(3,4)]) 
      (use progresses in \<open>auto intro: steps_more\<close>)
next
  case (answers i q r)
  show ?thesis
    by (rule calls_isolated_update [OF assms(2) answers(3,4)])
      (use answers in \<open>auto intro: io_steps_Ret\<close>)
next
  case (drops i q m)
  show ?thesis
    by (rule calls_isolated_update [OF assms(2) drops(3,4)]) (use drops in auto)
qed

lemma server_run_isolated:
  "server_run handle s0 es s \<Longrightarrow> sv_calls s0 = [] \<Longrightarrow> calls_isolated handle es s"
proof (induction rule: server_run.induct)
  case (server_start s)
  then show ?case by (simp add: calls_isolated_def)
next
  case (server_more s es s' e s'')
  then show ?case by (blast intro: calls_isolated_step)
qed

text \<open>The registry is that of all the events.\<close>

lemma server_run_metrics:
  "server_run handle s0 es s \<Longrightarrow> sv_metrics s = metrics_after (all_events es) (sv_metrics s0)"
proof (induction rule: server_run.induct)
  case (server_more s es s' e s'')
  then show ?case by (auto simp: metrics_after_append elim!: server_stepE)
qed simp

subsection \<open>Finished calls\<close>

text \<open>A call that was answered or dropped stays so.\<close>

definition arrivals :: "'q server_event list \<Rightarrow> nat" where
  "arrivals es = length (filter (\<lambda>e. case e of Arrives _ _ \<Rightarrow> True | _ \<Rightarrow> False) es)"

lemma arrivals_simps [simp]:
  "arrivals [] = 0" "arrivals (es @ es') = arrivals es + arrivals es'"
  "arrivals (e # es) = (case e of Arrives _ _ \<Rightarrow> 1 | _ \<Rightarrow> 0) + arrivals es"
  by (simp_all add: arrivals_def split: server_event.split)

lemma server_run_arrivals:
  "server_run handle s0 es s \<Longrightarrow> length (sv_calls s) = length (sv_calls s0) + arrivals es"
  by (induction rule: server_run.induct) (auto elim!: server_stepE)

fun finished_call :: "'r call \<Rightarrow> 'q server_event list \<Rightarrow> nat \<Rightarrow> bool" where
  "finished_call (Answered r) es i \<longleftrightarrow> Answers i \<in> set es"
| "finished_call Dropped es i \<longleftrightarrow> Drops i \<in> set es"
| "finished_call (Serving m) es i \<longleftrightarrow> Answers i \<notin> set es \<and> Drops i \<notin> set es"

lemma server_run_finished:
  "server_run handle s0 es s \<Longrightarrow> sv_calls s0 = [] \<Longrightarrow>
     (\<forall>i < length (sv_calls s). finished_call (snd (sv_calls s ! i)) es i) \<and>
     (\<forall>i \<ge> length (sv_calls s). Answers i \<notin> set es \<and> Drops i \<notin> set es)"
proof (induction rule: server_run.induct)
  case (server_more s es s' e s'')
  note IH = server_more.IH [OF server_more.prems]
  have other: "finished_call c (es @ [e]) i = finished_call c es i"
    if "e \<noteq> Answers i" "e \<noteq> Drops i" for c i
    using that by (cases c) auto
  from server_more.hyps(2) show ?case
  proof cases
    case (arrives q schedule)
    with IH other show ?thesis by (auto simp: nth_append less_Suc_eq)
  next
    case (progresses i q m x m')
    with IH other show ?thesis by (auto simp: nth_list_update)
  next
    case (answers i q r)
    with IH other show ?thesis by (auto simp: nth_list_update)
  next
    case (drops i q m)
    with IH other show ?thesis by (auto simp: nth_list_update)
  qed
qed simp

subsection \<open>Every execution of a handler can be a call\<close>

lemma server_run_Cons:
  "server_run handle s' es s'' \<Longrightarrow> server_step handle s e s' \<Longrightarrow> server_run handle s (e # es) s''"
proof (induction rule: server_run.induct)
  case (server_start s')
  then show ?case using server_more [OF server_run.server_start] by fastforce
next
  case (server_more s' es s1 e' s2)
  then show ?case using server_run.server_more by fastforce
qed

lemma exec_answered:
  "exec m t r \<Longrightarrow> i < length (sv_calls s) \<Longrightarrow> sv_calls s ! i = (q, Serving m) \<Longrightarrow>
     \<exists>s'. server_run handle s (map (Progresses i) t @ [Answers i]) s' \<and>
       sv_calls s' = (sv_calls s)[i := (q, Answered r)]"
proof (induction arbitrary: s rule: exec.induct)
  case (exec_done r)
  from server_run_Cons [OF server_start answers [OF exec_done]] show ?case by fastforce
next
  case (exec_step m e m' t r)
  let ?s = "s\<lparr>sv_calls := (sv_calls s)[i := (q, Serving m')], sv_metrics := metrics_after [e] (sv_metrics s)\<rparr>"
  from exec_step.IH [of ?s] exec_step.prems obtain s'
    where "server_run handle ?s (map (Progresses i) t @ [Answers i]) s'"
      "sv_calls s' = (sv_calls s)[i := (q, Answered r)]"
    by auto
  with server_run_Cons [OF _ progresses [OF exec_step.prems exec_step.hyps(1)]] show ?case
    by fastforce
qed

subsection \<open>Every request is counted once\<close>

fun call_result :: "'r call \<Rightarrow> 'r option" where
  "call_result (Answered r) = Some r"
| "call_result (Serving (Ret r)) = Some r"
| "call_result _ = None"

lemma call_result_Serving: "call_result (Serving m) = Some r \<longleftrightarrow> m = Ret r"
  by (cases m) auto

lemma length_filter_update:
  "i < length xs \<Longrightarrow>
    length (filter P (xs[i := x])) + (if P (xs ! i) then 1 else 0) =
    length (filter P xs) + (if P x then 1 else 0)"
proof (induction xs arbitrary: i)
  case (Cons y ys)
  then show ?case by (cases i) (use Cons.IH [of "i - 1"] in \<open>auto split: if_splits\<close>)
qed simp

lemma rpc_count_simps [simp]:
  "rpc_count m c [] = 0"
  "rpc_count m c (t1 @ t2) = rpc_count m c t1 + rpc_count m c t2"
  "rpc_count m c (e # t) = (if \<exists>d. e = EMetric (RpcRequest m c d) then 1 else 0) + rpc_count m c t"
  by (auto simp: rpc_count_def)

definition answered_as ::
  "('q \<Rightarrow> 'r \<Rightarrow> string \<times> string) \<Rightarrow> string \<times> string \<Rightarrow> ('q \<times> 'r call) list \<Rightarrow> nat" where
  "answered_as label l calls =
     length (filter (\<lambda>(q, c). \<exists>r. call_result c = Some r \<and> label q r = l) calls)"

locale counted_handler =
  fixes handle :: "'e \<Rightarrow> nat list \<Rightarrow> 'q \<Rightarrow> 'r io" and valid :: "'e \<Rightarrow> bool"
    and label :: "'e \<Rightarrow> 'q \<Rightarrow> 'r \<Rightarrow> string \<times> string"
  assumes counted_last:
    "valid e \<Longrightarrow> exec (handle e schedule q) t r \<Longrightarrow>
       \<exists>t0 d. t = t0 @ [EMetric (RpcRequest (fst (label e q r)) (snd (label e q r)) d)] \<and>
         (\<forall>m c. rpc_count m c t0 = 0)"
begin

text \<open>The count is the step that finishes the handler.\<close>

lemma step_counted:
  assumes "valid e" and "io_steps (handle e schedule q) t m" and "io_step m x m'"
  shows "rpc_count a b [x] = (if \<exists>r. m' = Ret r \<and> label e q r = (a, b) then 1 else 0)"
proof -
  obtain t' r where rest: "exec m' t' r" using exec_total [of m'] by blast
  with assms(2,3) have "exec (handle e schedule q) (t @ x # t') r"
    by (auto intro: io_steps_exec exec_step)
  from counted_last [OF assms(1) this] obtain t0 d where last:
    "t @ x # t' = t0 @ [EMetric (RpcRequest (fst (label e q r)) (snd (label e q r)) d)]"
    "\<forall>m c. rpc_count m c t0 = 0"
    by blast
  show ?thesis
  proof (cases t' rule: rev_cases)
    case Nil
    with rest have "m' = Ret r" by (auto simp: exec_iff [of m'])
    moreover have "x = EMetric (RpcRequest (fst (label e q r)) (snd (label e q r)) d)"
      using last(1) Nil by simp
    ultimately show ?thesis by (auto simp: prod_eq_iff)
  next
    case (snoc ys y)
    with rest have "m' \<noteq> Ret r'" for r' by auto
    moreover have "t0 = t @ x # ys" using last(1) snoc by simp
    with last(2) have "rpc_count a b [x] = 0" by auto
    ultimately show ?thesis by simp
  qed
qed

lemma handler_not_done:
  assumes "valid e"
  shows "call_result (Serving (handle e schedule q)) = None"
proof (cases "handle e schedule q")
  case (Ret r)
  with counted_last [OF assms, of schedule q "[]" r] show ?thesis by simp
qed simp_all

lemma answered_as_step:
  assumes "valid e" and "server_step (handle e) s ev s'" and "calls_isolated (handle e) es s"
    and "Dropped \<notin> snd ` set (sv_calls s')"
  shows "answered_as (label e) (a, b) (sv_calls s') =
    answered_as (label e) (a, b) (sv_calls s) + rpc_count a b (step_events (\<lambda>_. True) ev)"
  using assms(2)
proof cases
  case (arrives q schedule)
  with handler_not_done [OF assms(1)] show ?thesis by (simp add: answered_as_def)
next
  case (progresses i q m x m')
  from assms(3) progresses(3,4) obtain schedule
    where "io_steps (handle e schedule q) (own_events i es) m"
    unfolding calls_isolated_def by (auto dest!: spec [of _ i])
  note counted = step_counted [OF assms(1) this progresses(5), of a b]
  have "call_result (Serving m) = None" using progresses(5) by (cases m) auto
  with counted length_filter_update [OF progresses(3), where x = "(q, Serving m')" and
      P = "\<lambda>(q, c). \<exists>r. call_result c = Some r \<and> label e q r = (a, b)"] progresses
  show ?thesis by (simp add: answered_as_def call_result_Serving)
next
  case (answers i q r)
  with length_filter_update [OF answers(3), where x = "(q, Answered r)" and
      P = "\<lambda>(q, c). \<exists>r. call_result c = Some r \<and> label e q r = (a, b)"]
  show ?thesis by (simp add: answered_as_def)
next
  case (drops i q m)
  then have "(q, Dropped) \<in> set (sv_calls s')" by (simp add: set_update_memI)
  with assms(4) show ?thesis by force
qed

lemma not_dropped_before:
  assumes "server_step h s ev s'" and "Dropped \<notin> snd ` set (sv_calls s')"
  shows "Dropped \<notin> snd ` set (sv_calls s)"
proof
  assume "Dropped \<in> snd ` set (sv_calls s)"
  then obtain j q where j: "j < length (sv_calls s)" "sv_calls s ! j = (q, Dropped)"
    by (auto simp: in_set_conv_nth)
  with assms(1) have "j < length (sv_calls s')" "sv_calls s' ! j = (q, Dropped)"
    by (auto elim!: server_stepE simp: nth_append nth_list_update)
  with assms(2) show False by (metis nth_mem image_eqI snd_conv)
qed

lemma requests_counted:
  assumes "valid e"
  shows "server_run (handle e) s0 es s \<Longrightarrow> sv_calls s0 = [] \<Longrightarrow> Dropped \<notin> snd ` set (sv_calls s) \<Longrightarrow>
    rpc_count a b (all_events es) = answered_as (label e) (a, b) (sv_calls s)"
proof (induction rule: server_run.induct)
  case (server_start s)
  then show ?case by (simp add: answered_as_def)
next
  case (server_more s es s' ev s'')
  note kept = not_dropped_before [OF server_more.hyps(2) server_more.prems(2)]
  show ?case
    using server_more.IH [OF server_more.prems(1) kept]
      answered_as_step [OF assms server_more.hyps(2)
        server_run_isolated [OF server_more.hyps(1) server_more.prems(1)] server_more.prems(2)]
    by simp
qed

end

end
