(* ===== verification/Server.thy ===== *)
theory Server
  imports Middleware Calls
begin

section \<open>The gRPC server (\<open>rpc/server.rs\<close>)\<close>

text \<open>
  \<open>server::start\<close> builds the reflection service, the attestation service and the middleware around
  it, and serves them; every request of the attestation service passes the interceptor first. The
  reflection service is the parameter \<open>reflection_lib\<close>. \<open>handle_rpc\<close> is what one request runs, and
  the calls of a served request are those of \<open>Calls\<close>; it is interpreted here as a counted handler.
\<close>

subsection \<open>Start\<close>

record 'refl reflection_lib =
  build_v1 :: "bytes \<Rightarrow> string + 'refl" \<comment> \<open>configured with the encoded descriptor set\<close>
  file_descriptor_set :: bytes \<comment> \<open>embedded by the build\<close>

record ('sig, 'refl) grpc_server =
  gs_listen_addr :: string
  gs_attestation :: "'sig logging_middleware"
  gs_reflection :: 'refl

definition server_start ::
  "'refl reflection_lib \<Rightarrow> string \<Rightarrow> adapter \<Rightarrow> string \<Rightarrow> (bytes \<Rightarrow> (signer_error + 'sig) io) \<Rightarrow> string \<Rightarrow>
    string + ('sig, 'refl) grpc_server" where
  "server_start R listen_addr adapter a_name sign s_name =
     and_then (expect ''building reflection service should never fail with valid embedded descriptor set''
         (build_v1 R (file_descriptor_set R))) (\<lambda>reflection_service.
       let attestation_service = new_attestor_service adapter a_name sign s_name;
           logging_service = new_logging_middleware attestation_service
       in Inr \<lparr>gs_listen_addr = listen_addr, gs_attestation = logging_service,
            gs_reflection = reflection_service\<rparr>)"

datatype rpc_error = TonicError string

fun rpc_error_text :: "rpc_error \<Rightarrow> string" where
  "rpc_error_text (TonicError e) = ''TonicError: '' @ e"

text \<open>What \<open>start\<close> returns after \<open>serve_with_shutdown\<close>.\<close>

definition server_result :: "string + unit \<Rightarrow> rpc_error + unit" where
  "server_result serve_result =
     (case serve_result of
        Inr _ \<Rightarrow> Inr ()
      | Inl e \<Rightarrow> Inl (TonicError e))"

lemma server_result_simps [simp]:
  "server_result (Inl e) = Inl (TonicError e)"
  "server_result (Inr u) = Inr ()"
  by (simp_all add: server_result_def)

lemma server_start_Inr_iff:
  "server_start R listen_addr adapter a_name sign s_name = Inr server \<longleftrightarrow>
    (\<exists>refl. build_v1 R (file_descriptor_set R) = Inr refl \<and>
       server = \<lparr>gs_listen_addr = listen_addr,
         gs_attestation = new_logging_middleware (new_attestor_service adapter a_name sign s_name),
         gs_reflection = refl\<rparr>)"
  by (cases "build_v1 R (file_descriptor_set R)") (auto simp: server_start_def Let_def)

subsection \<open>Requests\<close>

text \<open>The three methods of the service, with the request as \<open>tonic\<close> hands it over.\<close>

datatype rpc_request =
    LatestHeightCall "unit request"
  | StateAttestationCall "state_attestation_request request"
  | PacketAttestationCall "packet_attestation_request request"

datatype rpc_response =
    LatestHeightReply latest_height_response
  | StateAttestationReply state_attestation_response
  | PacketAttestationReply packet_attestation_response

record ('key, 'sig, 'ctx) rpc_lib =
  to_str :: "bytes \<Rightarrow> string option"
  extract_context :: "(string \<Rightarrow> string option) \<Rightarrow> string list \<Rightarrow> 'ctx"
  code_debug :: "code \<Rightarrow> string"
  rl_hash :: hash_lib
  rl_keys :: "('key, 'sig) key_lib"
  rl_ibc :: ibc_lib

definition handle_rpc ::
  "('key, 'sig, 'ctx) rpc_lib \<Rightarrow> 'sig logging_middleware \<Rightarrow> nat list \<Rightarrow> rpc_request \<Rightarrow>
    (status + rpc_response) io" where
  "handle_rpc L service schedule rpc =
     (case rpc of
           LatestHeightCall request \<Rightarrow>
             fmap (map_ok LatestHeightReply)
               (intercepted (to_str L) (extract_context L)
                  (\<lambda>_. logged_latest_height (code_debug L) service) request)
         | StateAttestationCall request \<Rightarrow>
             fmap (map_ok StateAttestationReply)
               (intercepted (to_str L) (extract_context L)
                  (logged_state_attestation (code_debug L) (rl_hash L) (rl_keys L) (rl_ibc L) service)
                  request)
         | PacketAttestationCall request \<Rightarrow>
             fmap (map_ok PacketAttestationReply)
               (intercepted (to_str L) (extract_context L)
                  (logged_packet_attestation (code_debug L) schedule (rl_hash L) (rl_keys L) (rl_ibc L)
                     service) request))"

fun rpc_name :: "rpc_request \<Rightarrow> string" where
  "rpc_name (LatestHeightCall _) = ''latest_height''"
| "rpc_name (StateAttestationCall _) = ''state_attestation''"
| "rpc_name (PacketAttestationCall _) = ''packet_attestation''"

definition rpc_label ::
  "('key, 'sig, 'ctx) rpc_lib \<Rightarrow> rpc_request \<Rightarrow> status + rpc_response \<Rightarrow> string \<times> string" where
  "rpc_label L rpc r = (rpc_name rpc, code_label (code_debug L) (result_code r))"

lemma result_code_map_ok [simp]: "result_code (map_ok f r) = result_code r"
  by (cases r) (simp_all add: result_code_def)

text \<open>A request is an execution of its handler, between two readings of the clock and one count.\<close>

lemma transparent_counted:
  assumes "transparent cd name handler served" and "only_events handler_event handler"
    and "exec served t r"
  shows "\<exists>t0 d. t = t0 @ [EMetric (RpcRequest name (code_label cd (result_code r)) d)] \<and>
    (\<forall>m c. rpc_count m c t0 = 0)"
proof -
  from transparentD [OF assms(1,3)] obtain a b t0 where *: "exec handler t0 r"
    "t = ENow a # t0 @ [ENow b, EMetric (RpcRequest name (code_label cd (result_code r)) (b - a))]"
    by blast
  have "rpc_count m c (ENow a # t0 @ [ENow b]) = 0" for m c
    using handler_event_no_request [OF assms(2) *(1)] by simp
  with *(2) show ?thesis
    by (intro exI [of _ "ENow a # t0 @ [ENow b]"] exI [of _ "b - a"]) simp
qed

lemma mw_inner_new [simp]: "mw_inner (new_logging_middleware service) = service"
  by (simp add: new_logging_middleware_def)

lemma served_transparent:
  "transparent cd ''latest_height'' (latest_height svc)
     (intercepted ts ex (\<lambda>_. logged_latest_height cd (new_logging_middleware svc)) rq)"
  "transparent cd ''state_attestation'' (state_attestation H K X svc (rq_message rq'))
     (intercepted ts ex (logged_state_attestation cd H K X (new_logging_middleware svc)) rq')"
  "transparent cd ''packet_attestation'' (packet_attestation schedule H K X svc (rq_message rq''))
     (intercepted ts ex (logged_packet_attestation cd schedule H K X (new_logging_middleware svc)) rq'')"
  using wraps_latest_height [of cd "new_logging_middleware svc"]
    wraps_state_attestation [of cd H K X "new_logging_middleware svc"]
    wraps_packet_attestation [of cd schedule H K X "new_logging_middleware svc"]
  by (simp_all add: intercepted_transparent)

abbreviation process_service ::
  "hash_lib \<Rightarrow> ('key, 'sig) key_lib \<Rightarrow> tonic_lib \<Rightarrow> chain_lib \<Rightarrow> adapter_enum \<Rightarrow> 'key signer_enum \<Rightarrow>
    'sig logging_middleware" where
  "process_service H K T C a s \<equiv> new_logging_middleware (running_service H K T C a s)"

lemma handle_rpc_counted:
  assumes "retries_ok C"
    and "exec (handle_rpc L (process_service H K T C a s) schedule rpc) t r"
  shows "\<exists>t0 d. t = t0 @ [EMetric (RpcRequest (fst (rpc_label L rpc r)) (snd (rpc_label L rpc r)) d)] \<and>
    (\<forall>m c. rpc_count m c t0 = 0)"
proof -
  note events = service.handlers_events [of "(C, a)" "running_service H K T C a s" "(H, K, T, s)",
    simplified, OF assms(1)]
  note counted = transparent_counted [OF served_transparent(1) events(1)]
    transparent_counted [OF served_transparent(2) events(2)]
    transparent_counted [OF served_transparent(3) events(3)]
  show ?thesis
    using assms(2)
    by (cases rpc) (auto simp: handle_rpc_def exec_fmap rpc_label_def dest!: counted)
qed

interpretation rpc: counted_handler
  "\<lambda>(L, H, K, T, C, a, s). handle_rpc L (process_service H K T C a s)"
  "\<lambda>(L, H, K, T, C, a, s). retries_ok C" "\<lambda>(L, H, K, T, C, a, s). rpc_label L"
  by unfold_locales (auto dest: handle_rpc_counted split: prod.splits)

subsection \<open>What an answer rests on\<close>

text \<open>A handler runs between the readings of the clock; nothing else of a request matters to it.\<close>

definition handles ::
  "('key, 'sig, 'ctx) rpc_lib \<Rightarrow> 'sig attestor_service \<Rightarrow> nat list \<Rightarrow> rpc_request \<Rightarrow> event list \<Rightarrow>
    status + rpc_response \<Rightarrow> bool" where
  "handles L svc schedule rpc t r \<longleftrightarrow>
     (case rpc of
        LatestHeightCall request \<Rightarrow> \<exists>r'. exec (latest_height svc) t r' \<and> r = map_ok LatestHeightReply r'
      | StateAttestationCall request \<Rightarrow>
          \<exists>r'. exec (state_attestation (rl_hash L) (rl_keys L) (rl_ibc L) svc (rq_message request)) t r' \<and>
            r = map_ok StateAttestationReply r'
      | PacketAttestationCall request \<Rightarrow>
          \<exists>r'. exec (packet_attestation schedule (rl_hash L) (rl_keys L) (rl_ibc L) svc
              (rq_message request)) t r' \<and> r = map_ok PacketAttestationReply r')"

lemma handle_rpc_handles:
  assumes "exec (handle_rpc L (new_logging_middleware svc) schedule rpc) t r"
  shows "\<exists>a b t0 x. handles L svc schedule rpc t0 r \<and> t = ENow a # t0 @ [ENow b, EMetric (RpcRequest (rpc_name rpc) x (b - a))]"
  using assms
  by (cases rpc) (auto simp: handle_rpc_def exec_fmap handles_def dest!: served_transparent [THEN transparentD])

fun sound_reply ::
  "('key, 'sig, 'ctx) rpc_lib \<Rightarrow> tonic_lib \<Rightarrow> chain_lib \<Rightarrow> adapter_enum \<Rightarrow> 'key signer_enum \<Rightarrow>
    event list \<Rightarrow> rpc_request \<Rightarrow> rpc_response \<Rightarrow> bool" where
  "sound_reply L T C a s t (LatestHeightCall _) (LatestHeightReply resp) \<longleftrightarrow>
     (\<exists>th. exec (enum_get_last_height C a) th (Inr (lh_height resp)) \<and> set th \<subseteq> set t)"
| "sound_reply L T C a s t (StateAttestationCall request) (StateAttestationReply resp) \<longleftrightarrow>
     state_attested (rl_hash L) (rl_keys L) T (rl_ibc L) C a s (rq_message request) t resp"
| "sound_reply L T C a s t (PacketAttestationCall request) (PacketAttestationReply resp) \<longleftrightarrow>
     packet_attested (rl_hash L) (rl_keys L) T (rl_ibc L) C a s (rq_message request) t resp"
| "sound_reply L T C a s t _ _ \<longleftrightarrow> False"

lemma sound_reply_mono:
  "sound_reply L T C a s t rpc resp \<Longrightarrow> set t \<subseteq> set t' \<Longrightarrow> sound_reply L T C a s t' rpc resp"
  by (cases "(L, T, C, a, s, t, rpc, resp)" rule: sound_reply.cases)
    (auto intro: state_attested_mono packet_attested_mono)

abbreviation lib_service ::
  "('key, 'sig, 'ctx) rpc_lib \<Rightarrow> tonic_lib \<Rightarrow> chain_lib \<Rightarrow> adapter_enum \<Rightarrow> 'key signer_enum \<Rightarrow>
    'sig attestor_service" where
  "lib_service L T C a s \<equiv> running_service (rl_hash L) (rl_keys L) T C a s"

lemma handles_sound:
  assumes "retries_ok C" and "handles L (lib_service L T C a s) schedule rpc t (Inr resp)"
  shows "sound_reply L T C a s t rpc resp"
  using assms(2) answered_packet_attested [OF assms(1)] answered_state_attested
  by (cases rpc) (auto simp: handles_def map_ok_Inr_iff exec_latest_height eq_commute [of "Inr _"])

lemma handle_rpc_sound:
  assumes "retries_ok C"
    and "exec (handle_rpc L (new_logging_middleware (lib_service L T C a s)) schedule rpc) t (Inr resp)"
  shows "sound_reply L T C a s t rpc resp"
proof -
  from handle_rpc_handles [OF assms(2)] obtain t0 where
    "handles L (lib_service L T C a s) schedule rpc t0 (Inr resp)" "set t0 \<subseteq> set t"
    by fastforce
  with handles_sound [OF assms(1)] sound_reply_mono show ?thesis by blast
qed

subsection \<open>What comes before a signature\<close>

text \<open>All checks of a request, successful, in the events \<open>t\<close>; they determine what is to be signed.\<close>

fun checks_passed ::
  "('key, 'sig, 'ctx) rpc_lib \<Rightarrow> adapter \<Rightarrow> event list \<Rightarrow> rpc_request \<Rightarrow> bytes \<Rightarrow> bool" where
  "checks_passed L A t (LatestHeightCall _) input \<longleftrightarrow> False"
| "checks_passed L A t (StateAttestationCall request) input \<longleftrightarrow>
     (\<exists>t1 t2 timestamp. t = t1 @ t2 \<and>
        exec (validate_height A (sq_height (rq_message request))) t1 (Inr ()) \<and>
        exec (get_block_timestamp A (sq_height (rq_message request))) t2 (Inr timestamp) \<and>
        input = state_input (rl_hash L) (rl_ibc L) (sq_height (rq_message request)) timestamp)"
| "checks_passed L A t (PacketAttestationCall request) input \<longleftrightarrow>
     (\<exists>schedule ps ct t1 t2 pa. t = t1 @ t2 \<and>
        decoded (rl_ibc L) (rq_message request) = Some (ps, ct) \<and>
        exec (validate_height A (pq_height (rq_message request))) t1 (Inr ()) \<and>
        exec (create_packets_attestation schedule (rl_hash L) (rl_ibc L) A ps
          (pq_height (rq_message request)) ct) t2 (Inr pa) \<and>
        input = packet_input (rl_hash L) (rl_ibc L) pa)"

lemma handles_signing:
  assumes "retries_ok C" and "handles L (lib_service L T C a s) schedule rpc t r"
    and "e \<in> set t" and "signer_event e"
  shows "\<exists>t1 t2 input r'. t = t1 @ t2 \<and> quiet t1 \<and>
    checks_passed L (enum_attestation_adapter C a) t1 rpc input \<and>
    exec (enum_sign (rl_hash L) (rl_keys L) T s input) t2 r'"
proof (cases rpc)
  case (LatestHeightCall request)
  with assms(2) obtain r' where "exec (enum_get_last_height C a) t r'"
    by (auto simp: handles_def exec_latest_height)
  then have "quiet t"
    using only_adapter_events_quiet [OF enum.height_events [of "(C, a)"]] assms(1) by simp
  with assms(3,4) show ?thesis by (auto simp: quiet_def)
next
  case (StateAttestationCall request)
  with assms(2) obtain r' where "exec (state_attestation (rl_hash L) (rl_keys L) (rl_ibc L)
      (lib_service L T C a s) (rq_message request)) t r'"
    by (auto simp: handles_def)
  from service.state_signing_last [of "(C, a)" _ "(rl_hash L, rl_keys L, T, s)", OF _ _ _ this assms(3,4)] assms(1)
  obtain t1 t2 t3 ts r' where *: "t = t1 @ t2 @ t3" "quiet (t1 @ t2)"
    "exec (validate_height (enum_attestation_adapter C a) (sq_height (rq_message request))) t1 (Inr ())"
    "exec (get_block_timestamp (enum_attestation_adapter C a) (sq_height (rq_message request))) t2 (Inr ts)"
    "exec (enum_sign (rl_hash L) (rl_keys L) T s
       (state_input (rl_hash L) (rl_ibc L) (sq_height (rq_message request)) ts)) t3 r'"
    by (auto simp del: enum_attestation_adapter_simps)
  with StateAttestationCall show ?thesis
    by (intro exI [of _ "t1 @ t2"] exI [of _ t3] exI conjI) auto
next
  case (PacketAttestationCall request)
  with assms(2) obtain r' where "exec (packet_attestation schedule (rl_hash L) (rl_keys L) (rl_ibc L)
      (lib_service L T C a s) (rq_message request)) t r'"
    by (auto simp: handles_def)
  from service.packet_signing_last [of "(C, a)" _ "(rl_hash L, rl_keys L, T, s)", OF _ _ _ this assms(3,4)] assms(1)
  obtain ps ct t1 t2 t3 pa r' where *: "t = t1 @ t2 @ t3" "quiet (t1 @ t2)"
    "decoded (rl_ibc L) (rq_message request) = Some (ps, ct)"
    "exec (validate_height (enum_attestation_adapter C a) (pq_height (rq_message request))) t1 (Inr ())"
    "exec (create_packets_attestation schedule (rl_hash L) (rl_ibc L) (enum_attestation_adapter C a) ps
       (pq_height (rq_message request)) ct) t2 (Inr pa)"
    "exec (enum_sign (rl_hash L) (rl_keys L) T s (packet_input (rl_hash L) (rl_ibc L) pa)) t3 r'"
    by auto
  with PacketAttestationCall show ?thesis
    by (intro exI [of _ "t1 @ t2"] exI [of _ t3] exI conjI) auto
qed

text \<open>
  A call that is only partly executed: what follows the checks is a part of an execution of the signer
  on the checked data, and possibly the end of the request.
\<close>

definition signing_follows_checks ::
  "('key, 'sig, 'ctx) rpc_lib \<Rightarrow> tonic_lib \<Rightarrow> chain_lib \<Rightarrow> adapter_enum \<Rightarrow> 'key signer_enum \<Rightarrow>
    event list \<Rightarrow> rpc_request \<Rightarrow> bool" where
  "signing_follows_checks L T C a s t rpc \<longleftrightarrow>
     (\<exists>start checks rest input signing r later finish.
        t = ENow start # checks @ rest \<and> quiet checks \<and>
        checks_passed L (enum_attestation_adapter C a) checks rpc input \<and>
        exec (enum_sign (rl_hash L) (rl_keys L) T s input) signing r \<and>
        rest @ later = signing @ finish \<and> quiet finish)"

lemma quiet_prefix_append:
  assumes "xs @ ys = q @ zs" and "quiet q" and "\<not> quiet xs"
  shows "\<exists>us. xs = q @ us \<and> us @ ys = zs"
  using assms by (auto simp: append_eq_append_conv2)

lemma call_signing:
  assumes "retries_ok C"
    and "io_steps (handle_rpc L (new_logging_middleware (lib_service L T C a s)) schedule rpc) t m"
    and "e \<in> set t" and "signer_event e"
  shows "signing_follows_checks L T C a s t rpc"
proof -
  from io_steps_extend [OF assms(2)] obtain t' r
    where "exec (handle_rpc L (new_logging_middleware (lib_service L T C a s)) schedule rpc) (t @ t') r"
    by blast
  from handle_rpc_handles [OF this] obtain x b t0 y where handled:
    "handles L (lib_service L T C a s) schedule rpc t0 r"
    "t @ t' = ENow x # t0 @ [ENow b, EMetric (RpcRequest (rpc_name rpc) y (b - x))]"
    by blast
  let ?finish = "[ENow b, EMetric (RpcRequest (rpc_name rpc) y (b - x))]"
  have "e \<in> set (t @ t')" using assms(3) by simp
  with handled(2) assms(4) have "e \<in> set t0" by auto
  from handles_signing [OF assms(1) handled(1) this assms(4)] obtain t1 t2 input r' where parts:
    "t0 = t1 @ t2" "quiet t1" "checks_passed L (enum_attestation_adapter C a) t1 rpc input"
    "exec (enum_sign (rl_hash L) (rl_keys L) T s input) t2 r'"
    by blast
  have "t @ t' = (ENow x # t1) @ (t2 @ ?finish)" using handled(2) parts(1) by simp
  moreover have "\<not> quiet t" using assms(3,4) by (auto simp: quiet_def)
  ultimately obtain us where "t = (ENow x # t1) @ us" "us @ t' = t2 @ ?finish"
    using quiet_prefix_append [of t t' "ENow x # t1"] parts(2) by auto
  with parts show ?thesis
    unfolding signing_follows_checks_def
    by (intro exI [of _ x] exI [of _ t1] exI [of _ us] exI [of _ input] exI [of _ t2] exI [of _ r']
        exI [of _ t'] exI [of _ ?finish]) simp
qed

end
