(* ===== verification/Host.thy ===== *)
theory Host
  imports Prelude
begin

section \<open>Paths, environment and files\<close>

text \<open>
  The operations of \<open>std::path\<close>, \<open>std::env\<close> and \<open>std::fs\<close> that configuration and the key commands
  use. A path is its text; \<open>components\<close> is \<open>Path::components\<close> on Unix. The file system and the
  encrypted keystores of \<open>alloy_signer_local\<close> are a state \<open>'fs\<close> with the operations of \<open>host\<close>;
  \<open>keystores_read_back\<close> and \<open>documented_files\<close> are what the crate and \<open>std::fs\<close> document of them.
\<close>

subsection \<open>Paths\<close>

fun split_slash :: "string \<Rightarrow> string list" where
  "split_slash [] = [[]]"
| "split_slash (c # cs) =
     (if c = CHR ''/'' then [] # split_slash cs
      else (case split_slash cs of [] \<Rightarrow> [[c]] | s # ss \<Rightarrow> (c # s) # ss))"

definition is_absolute :: "string \<Rightarrow> bool" where
  "is_absolute p = (p \<noteq> [] \<and> hd p = CHR ''/'')"

text \<open>A root, or a leading \<open>.\<close>, is a component; empty parts and other \<open>.\<close> are not.\<close>

definition components :: "string \<Rightarrow> string list" where
  "components p =
     (let parts = split_slash p
      in (if is_absolute p then [''/''] else if hd parts = ''.'' then [''.''] else []) @
         filter (\<lambda>s. s \<noteq> [] \<and> s \<noteq> ''.'') parts)"

definition path_starts_with :: "string \<Rightarrow> string \<Rightarrow> bool" where
  "path_starts_with p base = prefix (components base) (components p)"

definition path_join :: "string \<Rightarrow> string \<Rightarrow> string" where
  "path_join p q =
     (if is_absolute q then q
      else if p = [] \<or> last p = CHR ''/'' then p @ q
      else p @ ''/'' @ q)"

definition replace_char :: "char \<Rightarrow> string \<Rightarrow> string \<Rightarrow> string" where
  "replace_char c r s = concat (map (\<lambda>d. if d = c then r else [d]) s)"

lemma split_slash_not_Nil [simp]: "split_slash s \<noteq> []"
  by (cases s) (auto split: list.splits)

lemma split_slash_no_slash: "CHR ''/'' \<notin> set s \<Longrightarrow> split_slash s = [s]"
  by (induction s) auto

lemma split_slash_append:
  "split_slash (s @ CHR ''/'' # t) = split_slash s @ split_slash t"
  by (induction s) (auto split: list.splits)

lemma replace_char_append: "replace_char c r (s @ t) = replace_char c r s @ replace_char c r t"
  by (simp add: replace_char_def)

lemma components_tilde: "components ''~/'' = [''~'']"
  by (simp add: components_def is_absolute_def Let_def)

text \<open>\<open>starts_with("~/")\<close> compares components: it also holds of the path \<open>~\<close> alone.\<close>

lemma starts_with_tilde:
  "path_starts_with p ''~/'' \<longleftrightarrow> p = ''~'' \<or> prefix ''~/'' p"
proof -
  have filter_hd: "(\<exists>zs. filter P xs = x # zs) \<and> P (hd xs) \<longleftrightarrow> hd xs = x \<and> P x"
    if "xs \<noteq> []" for P :: "string \<Rightarrow> bool" and xs x
    using that by (cases xs) auto
  have head: "hd (split_slash p) = takeWhile (\<lambda>c. c \<noteq> CHR ''/'') p" for p
    by (induction p) (auto split: list.splits)
  have tilde: "takeWhile (\<lambda>c. c \<noteq> CHR ''/'') p = ''~'' \<longleftrightarrow> p = ''~'' \<or> prefix ''~/'' p"
    by (cases p; cases "tl p") auto
  show ?thesis
  proof (cases "is_absolute p \<or> hd (split_slash p) = ''.''")
    case True
    then have "\<not> path_starts_with p ''~/''"
      by (auto simp: path_starts_with_def components_tilde components_def [of p] Let_def)
    moreover have "\<not> (p = ''~'' \<or> prefix ''~/'' p)"
      using True unfolding tilde [symmetric] head by (cases p) (auto simp: is_absolute_def)
    ultimately show ?thesis by simp
  next
    case False
    then have comps: "components p = filter (\<lambda>s. s \<noteq> [] \<and> s \<noteq> ''.'') (split_slash p)"
      by (simp add: components_def Let_def)
    show ?thesis
    proof (cases "p = []")
      case True
      then show ?thesis
        by (simp add: path_starts_with_def components_tilde) (simp add: components_def is_absolute_def)
    next
      case nonempty: False
      have keep: "hd (split_slash p) \<noteq> [] \<and> hd (split_slash p) \<noteq> ''.''"
        using False nonempty unfolding head by (cases p) (auto simp: is_absolute_def)
      have "path_starts_with p ''~/'' \<longleftrightarrow>
          (\<exists>zs. filter (\<lambda>s. s \<noteq> [] \<and> s \<noteq> ''.'') (split_slash p) = ''~'' # zs)"
        by (auto simp: path_starts_with_def components_tilde comps prefix_def)
      also have "\<dots> \<longleftrightarrow> hd (split_slash p) = ''~''"
        using filter_hd [of "split_slash p" "\<lambda>s. s \<noteq> [] \<and> s \<noteq> ''.''" "''~''"] keep by simp
      finally show ?thesis by (simp add: head tilde)
    qed
  qed
qed

subsection \<open>Environment and files\<close>

record ('fs, 'key) host =
  env_var :: "string \<Rightarrow> string option"
  fs_exists :: "'fs \<Rightarrow> string \<Rightarrow> bool"
  fs_is_dir :: "'fs \<Rightarrow> string \<Rightarrow> bool"
  fs_read_to_string :: "'fs \<Rightarrow> string \<Rightarrow> string + string"
  fs_location :: "'fs \<Rightarrow> string \<Rightarrow> string" \<comment> \<open>what a path resolves to\<close>
  fs_create_dir_all :: "string \<Rightarrow> 'fs \<Rightarrow> (string + unit) \<times> 'fs"
  decrypt_keystore :: "'fs \<Rightarrow> string \<Rightarrow> string \<Rightarrow> string + 'key"
    \<comment> \<open>path, password\<close>
  encrypt_keystore :: "string \<Rightarrow> 'key \<Rightarrow> string \<Rightarrow> string \<Rightarrow> 'fs \<Rightarrow> (string + string) \<times> 'fs"
    \<comment> \<open>directory, key, password, file name; the result is an id\<close>
  debug_path :: "string \<Rightarrow> string" \<comment> \<open>\<open>Debug\<close> of a path\<close>

text \<open>
  A key that was stored is read back from where it was stored, with the same password
  (\<open>encrypt_keystore\<close> and \<open>decrypt_keystore\<close> of \<open>alloy\<close>).
\<close>

definition keystores_read_back :: "('fs, 'key) host \<Rightarrow> bool" where
  "keystores_read_back E \<longleftrightarrow>
     (\<forall>dir key pw name fs ident fs'. encrypt_keystore E dir key pw name fs = (Inr ident, fs') \<longrightarrow>
        decrypt_keystore E fs' (path_join dir name) pw = Inr key)"

text \<open>
  Files and paths: several paths may lead to one location (\<open>dir//name\<close>, \<open>./name\<close>, links). Whether a
  path exists depends on its location only; a keystore that can be read exists; creating directories
  keeps the keystores there are; storing a key writes to the location of its path only.
\<close>

definition documented_files :: "('fs, 'key) host \<Rightarrow> bool" where
  "documented_files E \<longleftrightarrow>
     (\<forall>fs p q. fs_location E fs p = fs_location E fs q \<longrightarrow> fs_exists E fs p = fs_exists E fs q) \<and>
     (\<forall>fs p k pw. decrypt_keystore E fs p pw = Inr k \<longrightarrow> fs_exists E fs p) \<and>
     (\<forall>dir fs p k pw. decrypt_keystore E fs p pw = Inr k \<longrightarrow>
        decrypt_keystore E (snd (fs_create_dir_all E dir fs)) p pw = Inr k) \<and>
     (\<forall>dir key pw name fs p k pw'. fs_location E fs p \<noteq> fs_location E fs (path_join dir name) \<longrightarrow>
        decrypt_keystore E fs p pw' = Inr k \<longrightarrow>
        decrypt_keystore E (snd (encrypt_keystore E dir key pw name fs)) p pw' = Inr k)"

text \<open>\<open>env::var("HOME").or_else(|_| env::var("USERPROFILE"))\<close>\<close>

definition home_dir :: "('fs, 'key) host \<Rightarrow> string option" where
  "home_dir E =
     (case env_var E ''HOME'' of Some h \<Rightarrow> Some h | None \<Rightarrow> env_var E ''USERPROFILE'')"

definition no_home_text :: string where
  "no_home_text = ''unable to determine home directory from environment''"

subsection \<open>Keystores (\<open>libs/ethereum/keys/src/signer_local.rs\<close>)\<close>

definition read_from_keystore :: "('fs, 'key) host \<Rightarrow> 'fs \<Rightarrow> string \<Rightarrow> string + 'key" where
  "read_from_keystore E fs path = decrypt_keystore E fs path ''''"

definition write_to_keystore ::
  "('fs, 'key) host \<Rightarrow> string \<Rightarrow> string \<Rightarrow> 'key \<Rightarrow> 'fs \<Rightarrow> (string + string list) \<times> 'fs" where
  "write_to_keystore E folder_path name signer fs =
     (let key = signer
      in case encrypt_keystore E folder_path key '''' name fs of
           (Inl e, fs') \<Rightarrow> (Inl e, fs')
         | (Inr ident, fs') \<Rightarrow> (Inr [''id: '' @ ident], fs'))"

text \<open>The result is what is printed.\<close>

lemma read_written_keystore:
  assumes "keystores_read_back E" and "write_to_keystore E dir name key fs = (Inr out, fs')"
  shows "read_from_keystore E fs' (path_join dir name) = Inr key"
  using assms
  by (fastforce simp: write_to_keystore_def read_from_keystore_def keystores_read_back_def Let_def
      split: prod.splits sum.splits)

subsection \<open>A host in memory\<close>

text \<open>
  A file system that is a map from locations to keys, with a fixed list of directories. A path
  resolves to the path without doubled slashes. Concrete inputs are evaluated on it.
\<close>

fun squeeze :: "string \<Rightarrow> string" where
  "squeeze (c # d # s) =
     (if c = CHR ''/'' \<and> d = CHR ''/'' then squeeze (d # s) else c # squeeze (d # s))"
| "squeeze s = s"

definition memory_host ::
  "(string \<Rightarrow> string option) \<Rightarrow> string list \<Rightarrow> (string \<Rightarrow> 'key option, 'key) host" where
  "memory_host env dirs =
     \<lparr>env_var = env,
      fs_exists = (\<lambda>fs p. fs (squeeze p) \<noteq> None \<or> squeeze p \<in> set dirs),
      fs_is_dir = (\<lambda>fs p. squeeze p \<in> set dirs),
      fs_read_to_string = (\<lambda>fs p. Inl ''no such file''),
      fs_location = (\<lambda>fs p. squeeze p),
      fs_create_dir_all = (\<lambda>p fs. (Inr (), fs)),
      decrypt_keystore = (\<lambda>fs p pw. ok_or (fs (squeeze p)) ''no such keystore''),
      encrypt_keystore = (\<lambda>dir key pw name fs. (Inr name, fs(squeeze (path_join dir name) \<mapsto> key))),
      debug_path = (\<lambda>p. p)\<rparr>"

lemma memory_host_simps [simp]:
  "env_var (memory_host env dirs) = env"
  "fs_exists (memory_host env dirs) fs p \<longleftrightarrow> fs (squeeze p) \<noteq> None \<or> squeeze p \<in> set dirs"
  "fs_is_dir (memory_host env dirs) fs p \<longleftrightarrow> squeeze p \<in> set dirs"
  "fs_location (memory_host env dirs) fs p = squeeze p"
  "fs_create_dir_all (memory_host env dirs) p fs = (Inr (), fs)"
  "decrypt_keystore (memory_host env dirs) fs p pw = ok_or (fs (squeeze p)) ''no such keystore''"
  "encrypt_keystore (memory_host env dirs) dir key pw name fs =
     (Inr name, fs(squeeze (path_join dir name) \<mapsto> key))"
  "debug_path (memory_host env dirs) p = p"
  by (simp_all add: memory_host_def)

lemma memory_host_documented:
  "keystores_read_back (memory_host env dirs)" "documented_files (memory_host env dirs)"
  by (auto simp: keystores_read_back_def documented_files_def)

end
