(* ===== verification/Local_Build.thy ===== *)
theory Local_Build
  imports Host Signer
begin

section \<open>Loading the local signer's key (\<open>signer/local.rs\<close>)\<close>

text \<open>
  \<open>LocalSigner::build\<close>: the configured path, completed by the default file name when it is a
  directory and by the home directory when it begins with \<open>~/\<close>, is read as a keystore.
\<close>

definition DEFAULT_KEYSTORE_NAME :: string where
  "DEFAULT_KEYSTORE_NAME = ''ibc-attestor-keystore''"

record local_config =
  keystore_path :: string

definition keystore_path_with_file :: "('fs, 'key) host \<Rightarrow> 'fs \<Rightarrow> local_config \<Rightarrow> string" where
  "keystore_path_with_file E fs config =
     (if fs_is_dir E fs (keystore_path config)
      then path_join (keystore_path config) DEFAULT_KEYSTORE_NAME
      else keystore_path config)"

definition with_expanded_home :: "('fs, 'key) host \<Rightarrow> string \<Rightarrow> signer_error + string" where
  "with_expanded_home E p =
     (if path_starts_with p ''~/''
      then (case home_dir E of
              None \<Rightarrow> Inl (SignerConfigError no_home_text)
            | Some home \<Rightarrow> Inr (replace_char (CHR ''~'') home p))
      else Inr p)"

definition local_build ::
  "('fs, 'key) host \<Rightarrow> 'fs \<Rightarrow> local_config \<Rightarrow> signer_error + 'key local_signer" where
  "local_build E fs config =
     and_then (with_expanded_home E (keystore_path_with_file E fs config)) (\<lambda>path.
     and_then (map_err SignerConfigError (read_from_keystore E fs path)) (\<lambda>private_key_signer.
     Inr (new_local_signer private_key_signer)))"

text \<open>A path that does not begin with \<open>~/\<close> is read as it is, a directory under the default name.\<close>

lemma local_build_plain:
  assumes "\<not> fs_is_dir E fs p" and "hd p \<noteq> CHR ''~''"
  shows "local_build E fs \<lparr>keystore_path = p\<rparr> =
    map_ok new_local_signer (map_err SignerConfigError (read_from_keystore E fs p))"
proof -
  have "\<not> path_starts_with p ''~/''"
    using assms(2) by (cases p) (auto simp: starts_with_tilde)
  with assms(1) show ?thesis
    by (cases "read_from_keystore E fs p")
      (auto simp: local_build_def keystore_path_with_file_def with_expanded_home_def)
qed

lemma hd_path_join: "p \<noteq> [] \<Longrightarrow> hd p \<noteq> c \<Longrightarrow> q \<noteq> [] \<Longrightarrow> \<not> is_absolute q \<Longrightarrow> hd (path_join p q) \<noteq> c"
  by (auto simp: path_join_def)

lemma default_name_relative [simp]:
  "\<not> is_absolute DEFAULT_KEYSTORE_NAME" "DEFAULT_KEYSTORE_NAME \<noteq> []"
  by (simp_all add: DEFAULT_KEYSTORE_NAME_def is_absolute_def)

lemma local_build_directory:
  assumes "fs_is_dir E fs p" and "p \<noteq> []" and "hd p \<noteq> CHR ''~''"
  shows "local_build E fs \<lparr>keystore_path = p\<rparr> =
    map_ok new_local_signer
      (map_err SignerConfigError (read_from_keystore E fs (path_join p DEFAULT_KEYSTORE_NAME)))"
proof -
  let ?q = "path_join p DEFAULT_KEYSTORE_NAME"
  have "hd ?q \<noteq> CHR ''~''" by (rule hd_path_join) (use assms in auto)
  then have "\<not> path_starts_with ?q ''~/''"
    by (cases ?q) (auto simp: starts_with_tilde)
  with assms(1) show ?thesis
    by (cases "read_from_keystore E fs ?q")
      (auto simp: local_build_def keystore_path_with_file_def with_expanded_home_def)
qed

text \<open>
  Under \<open>~/\<close> every \<open>~\<close> of the path is replaced by the home directory, the first and any other one.
\<close>

lemma with_expanded_home_tilde:
  "home_dir E = Some home \<Longrightarrow>
     with_expanded_home E (''~/'' @ rest) = Inr (home @ ''/'' @ replace_char (CHR ''~'') home rest)"
  by (simp add: with_expanded_home_def starts_with_tilde replace_char_append)
    (simp add: replace_char_def)

lemma with_expanded_home_missing:
  "home_dir E = None \<Longrightarrow> with_expanded_home E (''~/'' @ rest) = Inl (SignerConfigError no_home_text)"
  by (simp add: with_expanded_home_def starts_with_tilde)

subsection \<open>Property\<close>

text \<open>
  C34. Where the local signer's key is read. A path without a leading \<open>~\<close> names the keystore itself,
  or a directory with a keystore of the default name; a path under \<open>~/\<close> (which, as a path relative to
  the working directory, is not a directory) is read with every \<open>~\<close> in it, the first and any later one,
  replaced by the home directory, and never completed by the default name.
\<close>

theorem local_key_location:
  "(p \<noteq> [] \<and> hd p \<noteq> CHR ''~'' \<longrightarrow>
      local_build E fs \<lparr>keystore_path = p\<rparr> =
        map_ok new_local_signer (map_err SignerConfigError (read_from_keystore E fs
          (if fs_is_dir E fs p then path_join p ''ibc-attestor-keystore'' else p)))) \<and>
   (\<not> fs_is_dir E fs (''~/'' @ rest) \<and> home_dir E = Some home \<longrightarrow>
      local_build E fs \<lparr>keystore_path = ''~/'' @ rest\<rparr> =
        map_ok new_local_signer (map_err SignerConfigError (read_from_keystore E fs
          (home @ ''/'' @ replace_char (CHR ''~'') home rest))))"
proof (intro conjI impI; elim conjE)
  assume "p \<noteq> []" "hd p \<noteq> CHR ''~''"
  then show "local_build E fs \<lparr>keystore_path = p\<rparr> =
      map_ok new_local_signer (map_err SignerConfigError (read_from_keystore E fs
        (if fs_is_dir E fs p then path_join p ''ibc-attestor-keystore'' else p)))"
    using local_build_plain local_build_directory
    by (cases "fs_is_dir E fs p") (simp_all add: DEFAULT_KEYSTORE_NAME_def)
next
  assume "\<not> fs_is_dir E fs (''~/'' @ rest)" "home_dir E = Some home"
  then show "local_build E fs \<lparr>keystore_path = ''~/'' @ rest\<rparr> =
      map_ok new_local_signer (map_err SignerConfigError (read_from_keystore E fs
        (home @ ''/'' @ replace_char (CHR ''~'') home rest)))"
    using with_expanded_home_tilde [of E home rest]
    by (cases "read_from_keystore E fs (home @ ''/'' @ replace_char (CHR ''~'') home rest)")
      (simp_all add: local_build_def keystore_path_with_file_def)
qed

definition sample_home :: "(string \<Rightarrow> nat option, nat) host" where
  "sample_home = memory_host [''HOME'' \<mapsto> ''/h''] [''/keys'']"

theorem local_key_location_witness:
  "local_build sample_home [''/h/a/hb'' \<mapsto> 7] \<lparr>keystore_path = ''~/a~b''\<rparr> =
     Inr (new_local_signer 7)"
proof -
  have "\<not> fs_is_dir sample_home [''/h/a/hb'' \<mapsto> 7] (''~/'' @ ''a~b'')"
    "home_dir sample_home = Some ''/h''"
    by (simp_all add: home_dir_def sample_home_def)
  with local_key_location [of "[]" sample_home "[''/h/a/hb'' \<mapsto> 7]" "''a~b''" "''/h''"]
  show ?thesis
    by (simp add: replace_char_def read_from_keystore_def sample_home_def)
qed

end
