(* ===== verification/Config.thy ===== *)
theory Config
  imports Complex_Main Local_Build Adapter_Enum
begin

section \<open>Configuration and tracing setup (\<open>config.rs\<close>, \<open>logging.rs\<close>)\<close>

text \<open>
  \<open>RuntimeConfig::from_file\<close> reads a TOML file and builds the adapter and the signer that the
  command line names. The TOML and URL parsers are parameters (\<open>toml_lib\<close>). A socket address is
  its text. An \<open>f64\<close> is not a number, an infinity or a finite value.
\<close>

datatype chain_type = Evm | Solana | Cosmos

datatype signer_type = LocalType | RemoteType

record server_config =
  listen_addr :: string
  health_addr :: string

datatype f64 = NaN | Inf bool | Fin rat

record tracing_config =
  otlp_endpoint :: string
  service_name :: string
  sample_rate :: f64

datatype config_error =
    Io string string \<comment> \<open>path, error\<close>
  | Toml string
  | InvalidTracingConfig string
  | ConfigAdapter adapter_error
  | ConfigSigner signer_error

fun config_error_text :: "config_error \<Rightarrow> string" where
  "config_error_text (Io p e) = ''I/O error reading `'' @ p @ ''`: '' @ e"
| "config_error_text (Toml e) = ''invalid TOML in config: '' @ e"
| "config_error_text (InvalidTracingConfig e) = ''invalid tracing config: '' @ e"
| "config_error_text (ConfigAdapter e) = adapter_error_text e"
| "config_error_text (ConfigSigner e) = signer_error_text e"

record 'key runtime_config =
  rt_server :: server_config
  rt_adapter :: adapter_enum
  rt_signer :: "'key signer_enum"
  rt_tracing :: "tracing_config option"

subsection \<open>The file's structure\<close>

text \<open>The \<open>adapter\<close> and \<open>signer\<close> sections are values of the \<open>toml\<close> crate until the types are known.\<close>

record 'toml raw_config =
  raw_server :: server_config
  raw_adapter :: 'toml
  raw_signer :: 'toml
  raw_tracing :: "tracing_config option"

record 'toml toml_lib =
  toml_from_str :: "string \<Rightarrow> string + 'toml raw_config"
  evm_config_of :: "'toml \<Rightarrow> string + evm_config"
  solana_config_of :: "'toml \<Rightarrow> string + solana_config"
  cosmos_config_of :: "'toml \<Rightarrow> string + cosmos_config"
  local_config_of :: "'toml \<Rightarrow> string + local_config"
  remote_config_of :: "'toml \<Rightarrow> string + remote_config"
  tm_http_client_new :: "string \<Rightarrow> string + unit" \<comment> \<open>\<open>tendermint_rpc\<close>\<close>
  sol_pubkey_from_str :: "string \<Rightarrow> string + bytes" \<comment> \<open>\<open>solana_sdk\<close>\<close>
  display_f64 :: "f64 \<Rightarrow> string" \<comment> \<open>\<open>Display\<close> of an \<open>f64\<close>\<close>

subsection \<open>Tracing\<close>

fun is_finite :: "f64 \<Rightarrow> bool" where
  "is_finite (Fin q) = True"
| "is_finite _ = False"

fun in_unit_range :: "f64 \<Rightarrow> bool" where \<comment> \<open>\<open>(0.0..=1.0).contains\<close>\<close>
  "in_unit_range (Fin q) = (0 \<le> q \<and> q \<le> 1)"
| "in_unit_range _ = False"

definition validate :: "'toml toml_lib \<Rightarrow> tracing_config \<Rightarrow> config_error + tracing_config" where
  "validate L self =
     (if \<not> is_finite (sample_rate self) \<or> \<not> in_unit_range (sample_rate self)
      then Inl (InvalidTracingConfig
             (''`tracing.sample_rate` must be a finite value in [0.0, 1.0], got '' @
              display_f64 L (sample_rate self)))
      else Inr self)"

lemma validate_Inr_iff:
  "validate L c = Inr c' \<longleftrightarrow> c' = c \<and> (\<exists>q. sample_rate c = Fin q \<and> 0 \<le> q \<and> q \<le> 1)"
  by (cases "sample_rate c") (auto simp: validate_def)

subsection \<open>Loading\<close>

text \<open>The adapter and the signer for the sections of the file.\<close>

definition build_adapter ::
  "'toml toml_lib \<Rightarrow> chain_type \<Rightarrow> 'toml \<Rightarrow> config_error + adapter_enum" where
  "build_adapter L ty section =
     (case ty of
        Evm \<Rightarrow>
          and_then (map_err Toml (evm_config_of L section)) (\<lambda>config.
            map_err ConfigAdapter (map_ok EvmAdapter (evm_build config)))
      | Solana \<Rightarrow>
          and_then (map_err Toml (solana_config_of L section)) (\<lambda>config.
            map_err ConfigAdapter (map_ok SolanaAdapter
              (solana_build (sol_pubkey_from_str L) config)))
      | Cosmos \<Rightarrow>
          and_then (map_err Toml (cosmos_config_of L section)) (\<lambda>config.
            map_err ConfigAdapter (map_ok CosmosAdapter
              (cosmos_build (tm_http_client_new L) config))))"

definition build_signer ::
  "'toml toml_lib \<Rightarrow> ('fs, 'key) host \<Rightarrow> 'fs \<Rightarrow> signer_type \<Rightarrow> 'toml \<Rightarrow>
    config_error + 'key signer_enum" where
  "build_signer L E fs ty section =
     (case ty of
        LocalType \<Rightarrow>
          and_then (map_err Toml (local_config_of L section)) (\<lambda>config.
            map_err ConfigSigner (map_ok LocalSigner (local_build E fs config)))
      | RemoteType \<Rightarrow>
          and_then (map_err Toml (remote_config_of L section)) (\<lambda>config.
            map_err ConfigSigner (map_ok RemoteSigner (remote_build config))))"

text \<open>\<open>raw.tracing.map(validate).transpose()\<close>\<close>

definition build_tracing ::
  "'toml toml_lib \<Rightarrow> tracing_config option \<Rightarrow> config_error + tracing_config option" where
  "build_tracing L t =
     (case t of None \<Rightarrow> Inr None | Some c \<Rightarrow> map_ok Some (validate L c))"

definition from_file ::
  "'toml toml_lib \<Rightarrow> ('fs, 'key) host \<Rightarrow> 'fs \<Rightarrow> string \<Rightarrow> chain_type \<Rightarrow> signer_type \<Rightarrow>
    config_error + 'key runtime_config" where
  "from_file L E fs path chain_ty signer_ty =
     and_then (map_err (Io path) (fs_read_to_string E fs path)) (\<lambda>contents.
     and_then (map_err Toml (toml_from_str L contents)) (\<lambda>raw.
     and_then (build_adapter L chain_ty (raw_adapter raw)) (\<lambda>adapter.
     and_then (build_signer L E fs signer_ty (raw_signer raw)) (\<lambda>signer.
     and_then (build_tracing L (raw_tracing raw)) (\<lambda>tracing.
     Inr \<lparr>rt_server = raw_server raw, rt_adapter = adapter, rt_signer = signer,
          rt_tracing = tracing\<rparr>)))))"

text \<open>The parts of a loaded configuration have the types the command line asked for.\<close>

lemma build_adapter_name:
  "build_adapter L ty section = Inr a \<Longrightarrow>
     adapter_name a = (case ty of Evm \<Rightarrow> evm_adapter_name | Solana \<Rightarrow> solana_adapter_name
       | Cosmos \<Rightarrow> cosmos_adapter_name)"
  by (cases ty) (auto simp: build_adapter_def result_simps evm_adapter_name_def
      solana_adapter_name_def cosmos_adapter_name_def)

lemma build_signer_name:
  "build_signer L E fs ty section = Inr s \<Longrightarrow>
     signer_name s = (case ty of LocalType \<Rightarrow> ''local'' | RemoteType \<Rightarrow> ''remote'')"
  by (cases ty) (auto simp: build_signer_def result_simps)

lemma build_tracing_Inr_iff:
  "build_tracing L t = Inr t' \<longleftrightarrow>
     t' = t \<and> (\<forall>c. t = Some c \<longrightarrow> (\<exists>q. sample_rate c = Fin q \<and> 0 \<le> q \<and> q \<le> 1))"
  by (cases t) (auto simp: build_tracing_def map_ok_Inr_iff validate_Inr_iff)

lemma from_file_Inr_iff:
  "from_file L E fs path chain_ty signer_ty = Inr c \<longleftrightarrow>
     (\<exists>contents raw.
        fs_read_to_string E fs path = Inr contents \<and> toml_from_str L contents = Inr raw \<and>
        rt_server c = raw_server raw \<and>
        build_adapter L chain_ty (raw_adapter raw) = Inr (rt_adapter c) \<and>
        build_signer L E fs signer_ty (raw_signer raw) = Inr (rt_signer c) \<and>
        build_tracing L (raw_tracing raw) = Inr (rt_tracing c))"
  by (cases c) (auto simp: from_file_def result_simps)

subsection \<open>Properties\<close>

text \<open>
  C32. A configuration that loads is what the command line and the file ask for. The file could be
  read and parsed, the adapter and the signer are of the types named on the command line and built
  from the file's sections, the addresses are the file's, and a tracing section, if there is one,
  has a sampling rate between 0 and 1.
\<close>

theorem config_loaded:
  assumes "from_file L E fs path chain_ty signer_ty = Inr c"
  shows "\<exists>contents raw. fs_read_to_string E fs path = Inr contents \<and>
    toml_from_str L contents = Inr raw \<and>
    rt_server c = raw_server raw \<and>
    build_adapter L chain_ty (raw_adapter raw) = Inr (rt_adapter c) \<and>
    adapter_name (rt_adapter c) =
      (case chain_ty of Evm \<Rightarrow> ''evm'' | Solana \<Rightarrow> ''solana'' | Cosmos \<Rightarrow> ''cosmos'') \<and>
    build_signer L E fs signer_ty (raw_signer raw) = Inr (rt_signer c) \<and>
    signer_name (rt_signer c) = (case signer_ty of LocalType \<Rightarrow> ''local'' | RemoteType \<Rightarrow> ''remote'') \<and>
    rt_tracing c = raw_tracing raw \<and>
    (\<forall>tc. rt_tracing c = Some tc \<longrightarrow> (\<exists>q. sample_rate tc = Fin q \<and> 0 \<le> q \<and> q \<le> 1))"
proof -
  from assms [unfolded from_file_Inr_iff] obtain contents raw where *:
    "fs_read_to_string E fs path = Inr contents" "toml_from_str L contents = Inr raw"
    "rt_server c = raw_server raw" "build_adapter L chain_ty (raw_adapter raw) = Inr (rt_adapter c)"
    "build_signer L E fs signer_ty (raw_signer raw) = Inr (rt_signer c)"
    "build_tracing L (raw_tracing raw) = Inr (rt_tracing c)" by blast
  from *(6) [unfolded build_tracing_Inr_iff] build_adapter_name [OF *(4)] build_signer_name [OF *(5)] *
  show ?thesis
    by (intro exI [of _ contents] exI [of _ raw])
      (auto simp: evm_adapter_name_def solana_adapter_name_def cosmos_adapter_name_def
        split: chain_type.splits signer_type.splits)
qed

text \<open>A TOML library that knows one file.\<close>

definition sample_toml :: "unit toml_lib" where
  "sample_toml =
     \<lparr>toml_from_str = (\<lambda>s. Inr \<lparr>raw_server = \<lparr>listen_addr = ''a:1'', health_addr = ''a:2''\<rparr>,
        raw_adapter = (), raw_signer = (),
        raw_tracing = Some \<lparr>otlp_endpoint = ''http://tempo'', service_name = ''attestor'',
          sample_rate = Fin (1 / 2)\<rparr>\<rparr>),
      evm_config_of = (\<lambda>_. Inr \<lparr>evm_url = ''http://evm'', evm_router_address = ''0xr'',
        evm_finality_offset = None\<rparr>),
      solana_config_of = (\<lambda>_. Inl ''missing field''),
      cosmos_config_of = (\<lambda>_. Inr \<lparr>cosmos_url = ''http://cosmos''\<rparr>),
      local_config_of = (\<lambda>_. Inr \<lparr>keystore_path = ''/keys/k''\<rparr>),
      remote_config_of = (\<lambda>_. Inr \<lparr>rc_endpoint = ''http://signer'', rc_wallet_id = ''w1'',
        rc_service_account_token_path = None\<rparr>),
      tm_http_client_new = (\<lambda>u. Inr ()),
      sol_pubkey_from_str = (\<lambda>s. Inl ''invalid''),
      display_f64 = (\<lambda>x. ''0.5'')\<rparr>"

definition sample_config_host :: "(unit, u8) host" where
  "sample_config_host =
     \<lparr>env_var = Map.empty, fs_exists = (\<lambda>fs p. True), fs_is_dir = (\<lambda>fs p. False),
      fs_read_to_string = (\<lambda>fs p. Inr ''config''), fs_location = (\<lambda>fs p. p),
      fs_create_dir_all = (\<lambda>p fs. (Inr (), fs)),
      decrypt_keystore = (\<lambda>fs p pw. Inr 5), encrypt_keystore = (\<lambda>d k pw n fs. (Inr n, fs)),
      debug_path = (\<lambda>p. p)\<rparr>"

theorem config_loaded_witness:
  "\<exists>c. from_file sample_toml sample_config_host () ''c.toml'' Cosmos RemoteType = Inr c \<and>
     adapter_name (rt_adapter c) = ''cosmos'' \<and> signer_name (rt_signer c) = ''remote''"
proof -
  obtain c where "from_file sample_toml sample_config_host () ''c.toml'' Cosmos RemoteType = Inr c"
    by (auto simp: from_file_def sample_toml_def sample_config_host_def build_adapter_def
        build_signer_def build_tracing_def cosmos_build_def remote_build_def validate_def)
  with config_loaded [OF this] show ?thesis by auto
qed

end
