(* ===== verification/Logging.thy ===== *)
theory Logging
  imports Config
begin

section \<open>Logging and trace export (\<open>logging.rs\<close>)\<close>

text \<open>
  What \<open>init_logging\<close> installs: the tracer provider, which exports spans when tracing is configured,
  the subscriber with its filter and layers, and the propagator. The subscriber is a global of the
  process that can be set once. Building the exporter, installing the subscriber and shutting the
  provider down are the tracing crates' and parameters.
\<close>

subsection \<open>The provider\<close>

datatype sampler = AlwaysOn | TraceIdRatioBased f64

text \<open>\<open>trunc() - 1.0 == 0.0\<close>: rounding towards zero gives 1.\<close>

fun truncates_to_one :: "f64 \<Rightarrow> bool" where
  "truncates_to_one (Fin q) = ((if 0 \<le> q then \<lfloor>q\<rfloor> else \<lceil>q\<rceil>) - 1 = 0)"
| "truncates_to_one _ = False"

definition build_sampler :: "tracing_config \<Rightarrow> sampler" where
  "build_sampler config =
     (if truncates_to_one (sample_rate config) then AlwaysOn
      else TraceIdRatioBased (sample_rate config))"

definition DEFAULT_SERVICE_NAME :: string where
  "DEFAULT_SERVICE_NAME = ''ibc-attestor''"

text \<open>The service name, and the sampler and endpoint of the exporter when there is one.\<close>

record provider =
  pv_service :: string
  pv_export :: "(sampler \<times> string) option"

text \<open>The JSON layer's options, the filter (the default level and \<open>RUST_LOG\<close>), the subscriber.\<close>

record fmt_layer =
  fl_json :: bool
  fl_timer :: string
  fl_current_span :: bool
  fl_thread_ids :: bool
  fl_line_number :: bool
  fl_file :: bool
  fl_target :: bool
  fl_flatten_event :: bool
  fl_ansi :: bool

record subscriber =
  sb_env_filter :: "string \<times> string option"
  sb_otel_layer :: "provider \<times> string" \<comment> \<open>a tracer of the provider, by its name\<close>
  sb_fmt_layer :: fmt_layer

record otel_lib =
  exporter_build :: "string \<Rightarrow> string + unit" \<comment> \<open>on an endpoint\<close>
  set_global_default :: "subscriber \<Rightarrow> subscriber option \<Rightarrow> string + subscriber"
  provider_shutdown :: "provider \<Rightarrow> string + unit"

text \<open>A global subscriber can be set when there is none, and only then.\<close>

definition documented_otel :: "otel_lib \<Rightarrow> bool" where
  "documented_otel O' \<longleftrightarrow>
     (\<forall>s. set_global_default O' s None = Inr s) \<and>
     (\<forall>s s'. \<not> is_ok (set_global_default O' s (Some s')))"

record globals =
  gl_subscriber :: "subscriber option"
  gl_propagator :: bool \<comment> \<open>whether the W3C trace context propagator is set\<close>

definition fresh_globals :: globals where
  "fresh_globals = \<lparr>gl_subscriber = None, gl_propagator = False\<rparr>"

record tracing_guard =
  guard_provider :: provider

subsection \<open>Initialisation\<close>

definition build_exporter_tracer :: "otel_lib \<Rightarrow> tracing_config \<Rightarrow> string \<Rightarrow> string + provider" where
  "build_exporter_tracer O' config service =
     (let sampler = build_sampler config
      in and_then (expect ''failed to create OTLP exporter''
                (exporter_build O' (otlp_endpoint config))) (\<lambda>_.
         Inr \<lparr>pv_service = service, pv_export = Some (sampler, otlp_endpoint config)\<rparr>))"

definition init_logging ::
  "otel_lib \<Rightarrow> (string \<Rightarrow> string option) \<Rightarrow> tracing_config option \<Rightarrow> globals \<Rightarrow>
    string + tracing_guard \<times> globals" where
  "init_logging O' env config g =
     (let service = (case config of None \<Rightarrow> DEFAULT_SERVICE_NAME | Some c \<Rightarrow> service_name c)
      in and_then (case config of
                     None \<Rightarrow> Inr \<lparr>pv_service = service, pv_export = None\<rparr>
                   | Some cfg \<Rightarrow> build_exporter_tracer O' cfg service) (\<lambda>provider.
         let tracer = (provider, service);
             env_filter = (''info'', env ''RUST_LOG'');
             fmt_layer = \<lparr>fl_json = True, fl_timer = ''utc rfc 3339'', fl_current_span = False,
               fl_thread_ids = False, fl_line_number = True, fl_file = True, fl_target = False,
               fl_flatten_event = True, fl_ansi = False\<rparr>
         in and_then (set_global_default O'
                \<lparr>sb_env_filter = env_filter, sb_otel_layer = tracer, sb_fmt_layer = fmt_layer\<rparr>
                (gl_subscriber g)) (\<lambda>installed.
            Inr (\<lparr>guard_provider = provider\<rparr>,
                 g\<lparr>gl_subscriber := Some installed, gl_propagator := True\<rparr>))))"

text \<open>\<open>Drop\<close> of the guard: the lines it prints to the standard error.\<close>

definition drop_guard :: "otel_lib \<Rightarrow> tracing_guard \<Rightarrow> string list" where
  "drop_guard O' guard =
     (case provider_shutdown O' (guard_provider guard) of
        Inl e \<Rightarrow> [''Error shutting down tracer provider: '' @ e]
      | Inr _ \<Rightarrow> [])"

text \<open>On a validated rate, everything is sampled exactly at rate 1.\<close>

lemma build_sampler_validated:
  assumes "validate L c = Inr c'"
  shows "build_sampler c' = AlwaysOn \<longleftrightarrow> sample_rate c' = Fin 1"
proof -
  from assms obtain q where q: "sample_rate c' = Fin q" "0 \<le> q" "q \<le> 1"
    by (auto simp: validate_Inr_iff)
  have "\<lfloor>q\<rfloor> = 1 \<longleftrightarrow> q = 1"
    using q by (auto simp: floor_eq_iff)
  with q show ?thesis by (simp add: build_sampler_def)
qed

subsection \<open>Properties\<close>

definition sample_otel :: otel_lib where
  "sample_otel =
     \<lparr>exporter_build = (\<lambda>url. if url = [] then Inl ''empty'' else Inr ()),
      set_global_default = (\<lambda>s old. case old of None \<Rightarrow> Inr s | Some _ \<Rightarrow> Inl ''already set''),
      provider_shutdown = (\<lambda>p. Inr ())\<rparr>"

lemma documented_otel_sample: "documented_otel sample_otel"
  by (simp add: documented_otel_def sample_otel_def)

text \<open>
  C33. Tracing as configured. On a validated configuration whose exporter can be built, a fresh process
  gets a provider with the configured service name that exports to the configured endpoint, sampling
  every trace exactly when the rate is 1 and otherwise with the configured rate; the subscriber's
  tracer is of that provider, the propagator is set, and the guard that shuts down on exit holds it.
  Without a tracing section nothing is exported, under the default name. An exporter that cannot be
  built, and a second initialisation, are panics.
\<close>

theorem tracing_as_configured:
  assumes "documented_otel O'" and "validate L c = Inr c'"
  shows "(exporter_build O' (otlp_endpoint c) = Inr () \<longrightarrow>
      (let provider = \<lparr>pv_service = service_name c,
         pv_export = Some (if sample_rate c = Fin 1 then AlwaysOn else TraceIdRatioBased (sample_rate c),
           otlp_endpoint c)\<rparr>
       in \<exists>s. init_logging O' env (Some c') fresh_globals =
           Inr (\<lparr>guard_provider = provider\<rparr>, \<lparr>gl_subscriber = Some s, gl_propagator = True\<rparr>) \<and>
         sb_otel_layer s = (provider, service_name c) \<and> sb_env_filter s = (''info'', env ''RUST_LOG''))) \<and>
    (\<exists>s. init_logging O' env None fresh_globals =
       Inr (\<lparr>guard_provider = \<lparr>pv_service = ''ibc-attestor'', pv_export = None\<rparr>\<rparr>,
            \<lparr>gl_subscriber = Some s, gl_propagator = True\<rparr>)) \<and>
    (\<not> is_ok (exporter_build O' (otlp_endpoint c)) \<longrightarrow> \<not> is_ok (init_logging O' env (Some c') g)) \<and>
    (gl_subscriber g \<noteq> None \<longrightarrow> \<not> is_ok (init_logging O' env config g))"
proof -
  from assms(2) have c': "c' = c" by (simp add: validate_Inr_iff)
  have sampler: "build_sampler c =
      (if sample_rate c = Fin 1 then AlwaysOn else TraceIdRatioBased (sample_rate c))"
    using build_sampler_validated [OF assms(2)] c' by (auto simp: build_sampler_def split: if_splits)
  have set: "set_global_default O' s None = Inr s" "\<not> is_ok (set_global_default O' s (Some s'))" for s s'
    using assms(1) by (simp_all add: documented_otel_def)
  have refused: "set_global_default O' s (Some s') \<noteq> Inr x" for s s' x
    using set(2) [of s s'] by auto
  have 1: "\<not> is_ok (init_logging O' env (Some c') g)" if "\<not> is_ok (exporter_build O' (otlp_endpoint c))"
    using that c' by (cases "exporter_build O' (otlp_endpoint c)")
      (simp_all add: init_logging_def build_exporter_tracer_def Let_def)
  have 2: "\<not> is_ok (init_logging O' env config g)" if "gl_subscriber g \<noteq> None"
    using that by (auto simp: init_logging_def Let_def is_ok_and_then_iff refused)
  show ?thesis
    using 1 2 by (simp add: init_logging_def build_exporter_tracer_def c' sampler set Let_def
        DEFAULT_SERVICE_NAME_def fresh_globals_def)
qed

theorem tracing_as_configured_witness:
  "\<exists>s. init_logging sample_otel Map.empty
      (Some \<lparr>otlp_endpoint = ''e'', service_name = ''s'', sample_rate = Fin 1\<rparr>) fresh_globals =
     Inr (\<lparr>guard_provider = \<lparr>pv_service = ''s'', pv_export = Some (AlwaysOn, ''e'')\<rparr>\<rparr>,
       \<lparr>gl_subscriber = Some s, gl_propagator = True\<rparr>)"
proof -
  let ?c = "\<lparr>otlp_endpoint = ''e'', service_name = ''s'', sample_rate = Fin 1\<rparr>"
  have "validate sample_toml ?c = Inr ?c" by (simp add: validate_def)
  moreover have "exporter_build sample_otel (otlp_endpoint ?c) = Inr ()" by (simp add: sample_otel_def)
  ultimately show ?thesis
    using tracing_as_configured [OF documented_otel_sample, of sample_toml ?c ?c Map.empty]
    unfolding Let_def by simp blast
qed

end
