(* ===== verification/Lifecycle.thy ===== *)
theory Lifecycle
  imports Health Server Logging
begin

section \<open>The tasks of the process and their shutdown (\<open>main.rs\<close>)\<close>

text \<open>
  The process runs three tasks: \<open>main\<close>, which registers the signal handlers, waits for a signal,
  broadcasts the shutdown and then awaits the two servers one after the other, the gRPC server and the health server. Their
  interleavings are the step relation \<open>lc_step\<close>. When and how a server task ends is not fixed: it may
  return any result, or panic, at any time. Once \<open>main\<close> has returned the tasks are gone.
\<close>

subsection \<open>State\<close>

datatype 'r task = Running | Returned 'r | Panicked

datatype main_state =
    RegisterHandlers
  | WaitSignal
  | AwaitGrpc
  | AwaitHealth
  | Exited "string + unit"

record process =
  main_task :: main_state
  grpc_task :: "(rpc_error + unit) task"
  health_task :: "unit task"
  shutdown_sent :: bool

definition spawned :: process where
  "spawned = \<lparr>main_task = RegisterHandlers, grpc_task = Running, health_task = Running,
     shutdown_sent = False\<rparr>"

subsection \<open>Steps\<close>

text \<open>
  \<open>wait_for_shutdown_signal\<close>: both handlers have to be registered, first the one for SIGTERM, and a
  failure is a panic of \<open>main\<close>; then it waits for either signal.
\<close>

definition register_handlers :: "string + unit \<Rightarrow> string + unit \<Rightarrow> string + unit" where
  "register_handlers sigterm sigint =
     and_then (expect
       ''failed to register SIGTERM handler - this is a critical system error'' sigterm) (\<lambda>_.
     expect ''failed to register SIGINT handler - this is a critical system error'' sigint)"

definition after_register :: "string + unit \<Rightarrow> main_state" where
  "after_register registered = (case registered of Inr _ \<Rightarrow> WaitSignal | Inl e \<Rightarrow> Exited (Inl e))"

text \<open>\<open>grpc_handle.await??\<close> and \<open>health_handle.await?\<close>: where \<open>main\<close> goes next.\<close>

definition join_error_text :: string where
  "join_error_text = ''task panicked''"

fun after_grpc :: "(rpc_error + unit) task \<Rightarrow> main_state" where
  "after_grpc Running = AwaitGrpc"
| "after_grpc (Returned (Inr _)) = AwaitHealth"
| "after_grpc (Returned (Inl e)) = Exited (Inl (rpc_error_text e))"
| "after_grpc Panicked = Exited (Inl join_error_text)"

fun after_health :: "unit task \<Rightarrow> main_state" where
  "after_health Running = AwaitHealth"
| "after_health (Returned _) = Exited (Inr ())"
| "after_health Panicked = Exited (Inl join_error_text)"

fun exited :: "main_state \<Rightarrow> bool" where
  "exited (Exited _) = True"
| "exited _ = False"

datatype lc_event =
    Registers "string + unit" "string + unit"
  | Signal
  | GrpcEnds "string + unit"
  | GrpcPanics
  | HealthEnds
  | HealthPanics
  | MainResumes

inductive lc_step :: "process \<Rightarrow> lc_event \<Rightarrow> process \<Rightarrow> bool" where
  register:
    "main_task p = RegisterHandlers \<Longrightarrow>
       lc_step p (Registers sigterm sigint)
         (p\<lparr>main_task := after_register (register_handlers sigterm sigint)\<rparr>)"
| signal:
    "main_task p = WaitSignal \<Longrightarrow>
       lc_step p Signal (p\<lparr>main_task := AwaitGrpc, shutdown_sent := True\<rparr>)"
| grpc_ends:
    "\<not> exited (main_task p) \<Longrightarrow> grpc_task p = Running \<Longrightarrow>
       lc_step p (GrpcEnds r) (p\<lparr>grpc_task := Returned (server_result r)\<rparr>)"
| grpc_panics:
    "\<not> exited (main_task p) \<Longrightarrow> grpc_task p = Running \<Longrightarrow>
       lc_step p GrpcPanics (p\<lparr>grpc_task := Panicked\<rparr>)"
| health_ends:
    "\<not> exited (main_task p) \<Longrightarrow> health_task p = Running \<Longrightarrow>
       lc_step p HealthEnds (p\<lparr>health_task := Returned ()\<rparr>)"
| health_panics:
    "\<not> exited (main_task p) \<Longrightarrow> health_task p = Running \<Longrightarrow>
       lc_step p HealthPanics (p\<lparr>health_task := Panicked\<rparr>)"
| resume_grpc:
    "main_task p = AwaitGrpc \<Longrightarrow> grpc_task p \<noteq> Running \<Longrightarrow>
       lc_step p MainResumes (p\<lparr>main_task := after_grpc (grpc_task p)\<rparr>)"
| resume_health:
    "main_task p = AwaitHealth \<Longrightarrow> health_task p \<noteq> Running \<Longrightarrow>
       lc_step p MainResumes (p\<lparr>main_task := after_health (health_task p)\<rparr>)"

inductive_cases lc_stepE: "lc_step p e p'"

inductive lc_run :: "process \<Rightarrow> lc_event list \<Rightarrow> process \<Rightarrow> bool" where
  lc_start: "lc_run p [] p"
| lc_more: "lc_run p es p' \<Longrightarrow> lc_step p' e p'' \<Longrightarrow> lc_run p (es @ [e]) p''"

subsection \<open>Invariant\<close>

definition lc_inv :: "process \<Rightarrow> bool" where
  "lc_inv p \<longleftrightarrow>
     (case main_task p of
        RegisterHandlers \<Rightarrow> \<not> shutdown_sent p
      | WaitSignal \<Rightarrow> \<not> shutdown_sent p
      | AwaitGrpc \<Rightarrow> shutdown_sent p
      | AwaitHealth \<Rightarrow> shutdown_sent p \<and> grpc_task p = Returned (Inr ())
      | Exited (Inr _) \<Rightarrow>
          shutdown_sent p \<and> grpc_task p = Returned (Inr ()) \<and> health_task p = Returned ()
      | Exited (Inl _) \<Rightarrow>
          shutdown_sent p \<longrightarrow>
            grpc_task p = Panicked \<or> (\<exists>e. grpc_task p = Returned (Inl e)) \<or> health_task p = Panicked)"

lemma lc_inv_spawned: "lc_inv spawned"
  by (simp add: lc_inv_def spawned_def)

lemma lc_inv_step: "lc_step p e p' \<Longrightarrow> lc_inv p \<Longrightarrow> lc_inv p'"
proof (induction rule: lc_step.induct)
  case (register p sigterm sigint)
  then show ?case
    by (auto simp: lc_inv_def after_register_def split: sum.splits)
next
  case (grpc_ends p r)
  then show ?case
    by (cases r) (auto simp: lc_inv_def split: main_state.splits sum.splits)
next
  case (resume_grpc p)
  then show ?case
    by (cases "grpc_task p" rule: after_grpc.cases) (auto simp: lc_inv_def)
next
  case (resume_health p)
  then show ?case
    by (cases "health_task p") (auto simp: lc_inv_def)
qed (auto simp: lc_inv_def split: main_state.splits sum.splits)

lemma lc_inv_run: "lc_run p es p' \<Longrightarrow> lc_inv p \<Longrightarrow> lc_inv p'"
  by (induction rule: lc_run.induct) (auto intro: lc_inv_step)

subsection \<open>Shutdown ends\<close>

text \<open>Every step brings the process nearer to its end.\<close>

fun main_rank :: "main_state \<Rightarrow> nat" where
  "main_rank RegisterHandlers = 4"
| "main_rank WaitSignal = 3"
| "main_rank AwaitGrpc = 2"
| "main_rank AwaitHealth = 1"
| "main_rank (Exited _) = 0"

definition task_rank :: "'r task \<Rightarrow> nat" where
  "task_rank t = (case t of Running \<Rightarrow> 1 | _ \<Rightarrow> 0)"

definition lc_rank :: "process \<Rightarrow> nat" where
  "lc_rank p = main_rank (main_task p) + task_rank (grpc_task p) + task_rank (health_task p)"

lemma lc_rank_step: "lc_step p e p' \<Longrightarrow> lc_rank p' < lc_rank p"
proof (induction rule: lc_step.induct)
  case (register p sigterm sigint)
  then show ?case
    by (auto simp: lc_rank_def after_register_def split: sum.splits)
next
  case (resume_grpc p)
  then show ?case
    by (cases "grpc_task p" rule: after_grpc.cases) (auto simp: lc_rank_def task_rank_def)
next
  case (resume_health p)
  then show ?case
    by (cases "health_task p") (auto simp: lc_rank_def task_rank_def)
qed (auto simp: lc_rank_def task_rank_def)

lemma lc_rank_run: "lc_run p es p' \<Longrightarrow> length es + lc_rank p' \<le> lc_rank p"
  by (induction rule: lc_run.induct) (auto dest: lc_rank_step)

text \<open>Without a signal \<open>main\<close> waits, whatever has become of the servers.\<close>

definition handlers_registered :: "lc_event list \<Rightarrow> bool" where
  "handlers_registered es \<longleftrightarrow>
     list_all (\<lambda>e. case e of Registers a b \<Rightarrow> register_handlers a b = Inr () | _ \<Rightarrow> True) es"

lemma handlers_registered_simps [simp]:
  "handlers_registered []"
  "handlers_registered (es @ es') \<longleftrightarrow> handlers_registered es \<and> handlers_registered es'"
  "handlers_registered (e # es) \<longleftrightarrow>
     (case e of Registers a b \<Rightarrow> register_handlers a b = Inr () | _ \<Rightarrow> True) \<and> handlers_registered es"
  by (simp_all add: handlers_registered_def)

lemma lc_no_signal:
  "lc_run p es p' \<Longrightarrow> main_task p \<in> {RegisterHandlers, WaitSignal} \<Longrightarrow> handlers_registered es \<Longrightarrow>
     Signal \<notin> set es \<Longrightarrow> main_task p' \<in> {RegisterHandlers, WaitSignal}"
  by (induction rule: lc_run.induct) (auto simp: after_register_def elim!: lc_stepE)

subsection \<open>The server command\<close>

text \<open>
  \<open>run_servers\<close> initialises the metrics and spawns the two servers; a panic of \<open>server::start\<close> is one
  of its task.
\<close>

record ('sig, 'refl, 'q) running =
  rn_metrics :: "registry option"
  rn_grpc :: "string + ('sig, 'refl) grpc_server"
  rn_health :: "'q http_server"
  rn_process :: process

definition run_servers ::
  "prom_lib \<Rightarrow> 'refl reflection_lib \<Rightarrow> 'q warp_lib \<Rightarrow> hash_lib \<Rightarrow> ('key, 'sig) key_lib \<Rightarrow> tonic_lib \<Rightarrow>
    chain_lib \<Rightarrow> 'key runtime_config \<Rightarrow> registry option \<Rightarrow> string + ('sig, 'refl, 'q) running" where
  "run_servers P R W H K T C config m =
     (let a_name = adapter_name (rt_adapter config);
          s_name = signer_name (rt_signer config)
      in and_then (init P a_name s_name m) (\<lambda>metrics.
         let server_config = rt_server config;
             grpc_addr = listen_addr server_config;
             health_addr = health_addr server_config
         in Inr \<lparr>rn_metrics = metrics,
             rn_grpc = server_start R grpc_addr (enum_attestation_adapter C (rt_adapter config)) a_name
               (enum_sign H K T (rt_signer config)) s_name,
             rn_health = health_start W health_addr grpc_addr,
             rn_process = spawned\<rparr>))"

text \<open>The process starts, and its metrics carry the names of the configured adapter and signer.\<close>

lemma run_servers_starts:
  assumes "documented_prom P"
  shows "\<exists>running. run_servers P R W H K T C config None = Inr running \<and> rn_process running = spawned \<and>
    map_option const_labels (rn_metrics running) =
      Some [(''adapter'', adapter_name (rt_adapter config)), (''signer'', signer_name (rt_signer config))]"
  by (simp add: run_servers_def init_def Let_def new_metrics_documented [OF assms] fresh_registry_def)

subsection \<open>Properties\<close>

text \<open>After a failure of the gRPC server, \<open>main\<close> can only wait or return that failure.\<close>

lemma lc_run_failed:
  "lc_run p es p' \<Longrightarrow> GrpcEnds (Inl e) \<in> set es \<Longrightarrow> lc_inv p \<Longrightarrow> handlers_registered es \<Longrightarrow>
     grpc_task p' = Returned (Inl (TonicError e)) \<and>
     main_task p' \<in> {RegisterHandlers, WaitSignal, AwaitGrpc,
       Exited (Inl (rpc_error_text (TonicError e)))}"
proof (induction rule: lc_run.induct)
  case (lc_more p es p' e' p'')
  have inv: "lc_inv p'" by (rule lc_inv_run [OF lc_more.hyps(1) lc_more.prems(2)])
  show ?case
  proof (cases "GrpcEnds (Inl e) \<in> set es")
    case True
    with lc_more.IH lc_more.prems(2,3) lc_more.hyps(2) show ?thesis
      by (auto simp: after_register_def elim!: lc_stepE)
  next
    case False
    with lc_more.prems(1) have "e' = GrpcEnds (Inl e)" by simp
    with lc_more.hyps(2) inv show ?thesis
      by (auto simp: lc_inv_def elim!: lc_stepE split: main_state.splits)
  qed
qed simp

text \<open>
  What \<open>main\<close> returns after the broadcast, told from how the two servers ended: a failure or a panic of
  the gRPC server is returned whatever the health server does, which is looked at only after it.
\<close>

fun shutdown_result :: "(rpc_error + unit) task \<Rightarrow> unit task \<Rightarrow> (string + unit) option" where
  "shutdown_result (Returned (Inl e)) _ = Some (Inl (rpc_error_text e))"
| "shutdown_result Panicked _ = Some (Inl join_error_text)"
| "shutdown_result (Returned (Inr _)) Panicked = Some (Inl join_error_text)"
| "shutdown_result (Returned (Inr _)) (Returned _) = Some (Inr ())"
| "shutdown_result _ _ = None"

lemma one_step: "lc_step p e p' \<Longrightarrow> lc_run p [e] p'"
  using lc_more [OF lc_start] by fastforce

lemma two_steps: "lc_step p e p' \<Longrightarrow> lc_step p' e' p'' \<Longrightarrow> lc_run p [e, e'] p''"
  using lc_more [OF one_step] by fastforce

lemma resumes_health:
  assumes "main_task p = AwaitHealth" and "health_task p \<noteq> Running"
  shows "lc_step p MainResumes (p\<lparr>main_task := after_health (health_task p)\<rparr>)"
  using assms by (rule resume_health)

lemma after_broadcast_ends:
  assumes "lc_inv p" and "shutdown_sent p" and "\<not> exited (main_task p)"
    and "shutdown_result (grpc_task p) (health_task p) = Some r"
  shows "\<exists>k p'. k \<le> 2 \<and> lc_run p (replicate k MainResumes) p' \<and> main_task p' = Exited r"
proof -
  have one: ?thesis if "lc_step p MainResumes p'" "main_task p' = Exited r" for p'
    using one_step [OF that(1)] that(2) by (intro exI [of _ 1] exI [of _ p']) simp
  have "main_task p = AwaitGrpc \<or> main_task p = AwaitHealth \<and> grpc_task p = Returned (Inr ())"
    using assms(1-3) by (cases "main_task p") (simp_all add: lc_inv_def)
  then show ?thesis
  proof
    assume health: "main_task p = AwaitHealth \<and> grpc_task p = Returned (Inr ())"
    with assms(4) one [OF resume_health] show ?thesis by (cases "health_task p") auto
  next
    assume grpc: "main_task p = AwaitGrpc"
    with assms(4) have "grpc_task p \<noteq> Running" by (cases "grpc_task p") auto
    note step = resume_grpc [OF grpc this]
    show ?thesis
    proof (cases "\<exists>u. grpc_task p = Returned (Inr u)")
      case False
      with assms(4) one [OF step] show ?thesis by (cases "grpc_task p" rule: after_grpc.cases) auto
    next
      case True
      let ?p = "p\<lparr>main_task := AwaitHealth\<rparr>"
      from True assms(4) have "health_task ?p \<noteq> Running" "after_health (health_task p) = Exited r"
        by (cases "health_task p"; auto)+
      with True two_steps [OF step resume_health] show ?thesis
        by (intro exI [of _ 2] exI [of _ "?p\<lparr>main_task := Exited r\<rparr>"]) (auto simp: numeral_2_eq_2)
    qed
  qed
qed

lemma exited_result:
  "lc_run p es p' \<Longrightarrow> lc_inv p \<Longrightarrow> \<not> exited (main_task p) \<Longrightarrow> shutdown_sent p' \<Longrightarrow>
     main_task p' = Exited r \<Longrightarrow> shutdown_result (grpc_task p') (health_task p') = Some r"
proof (induction arbitrary: r rule: lc_run.induct)
  case (lc_more p es p' e p'')
  have inv: "lc_inv p'" by (rule lc_inv_run [OF lc_more.hyps(1) lc_more.prems(1)])
  from lc_more.hyps(2) show ?case
  proof cases
    case register
    with lc_more.prems inv show ?thesis by (auto simp: lc_inv_def)
  next
    case resume_grpc
    with lc_more.prems show ?thesis by (cases "grpc_task p'" rule: after_grpc.cases) auto
  next
    case resume_health
    with lc_more.prems inv show ?thesis by (cases "health_task p'") (auto simp: lc_inv_def)
  qed (use lc_more.prems in auto)
qed simp

text \<open>
  C38. The shutdown sequence of \<open>main\<close> ends, with the result the two servers call for. Every run has at
  most six steps of the tasks. Once the broadcast is out and the servers have ended so far that the
  result is settled, \<open>main\<close> returns that result after resuming at most twice; and \<open>main\<close> returns nothing
  else: after the broadcast its result is always the settled one, an error of the gRPC server first,
  then a panic of either, and success only if both have stopped without one.
\<close>

theorem shutdown_terminates:
  assumes "lc_run spawned es p"
  shows "length es \<le> 6 \<and>
    (shutdown_sent p \<and> \<not> exited (main_task p) \<longrightarrow>
       (\<forall>r. shutdown_result (grpc_task p) (health_task p) = Some r \<longrightarrow>
          (\<exists>k p'. k \<le> 2 \<and> lc_run p (replicate k MainResumes) p' \<and> main_task p' = Exited r))) \<and>
    (shutdown_sent p \<longrightarrow>
       (\<forall>r. main_task p = Exited r \<longrightarrow> shutdown_result (grpc_task p) (health_task p) = Some r))"
proof (intro conjI impI allI)
  have "lc_rank spawned = 6" by (simp add: lc_rank_def task_rank_def spawned_def)
  then show "length es \<le> 6" using lc_rank_run [OF assms] by simp
next
  fix r
  assume "shutdown_sent p \<and> \<not> exited (main_task p)"
    and "shutdown_result (grpc_task p) (health_task p) = Some r"
  with after_broadcast_ends [OF lc_inv_run [OF assms lc_inv_spawned]]
  show "\<exists>k p'. k \<le> 2 \<and> lc_run p (replicate k MainResumes) p' \<and> main_task p' = Exited r" by blast
next
  fix r
  assume "shutdown_sent p" and "main_task p = Exited r"
  with exited_result [OF assms lc_inv_spawned] show "shutdown_result (grpc_task p) (health_task p) = Some r"
    by (simp add: spawned_def)
qed

text \<open>A clean shutdown, up to the point where both servers have stopped.\<close>

definition stopped_servers :: process where
  "stopped_servers = \<lparr>main_task = AwaitGrpc, grpc_task = Returned (Inr ()),
     health_task = Returned (), shutdown_sent = True\<rparr>"

lemma stopped_servers_run:
  "lc_run spawned [Registers (Inr ()) (Inr ()), Signal, GrpcEnds (Inr ()), HealthEnds] stopped_servers"
proof -
  have "lc_run spawned [Registers (Inr ()) (Inr ())] (spawned\<lparr>main_task := WaitSignal\<rparr>)"
    using one_step [OF register [of spawned "Inr ()" "Inr ()"]]
    by (simp add: spawned_def after_register_def register_handlers_def)
  from lc_more [OF this signal] have "lc_run spawned [Registers (Inr ()) (Inr ()), Signal]
      (spawned\<lparr>main_task := AwaitGrpc, shutdown_sent := True\<rparr>)"
    by simp
  from lc_more [OF this grpc_ends [of _ "Inr ()"]]
  have "lc_run spawned [Registers (Inr ()) (Inr ()), Signal, GrpcEnds (Inr ())]
      (spawned\<lparr>main_task := AwaitGrpc, shutdown_sent := True, grpc_task := Returned (Inr ())\<rparr>)"
    by (simp add: spawned_def)
  from lc_more [OF this health_ends] show ?thesis by (simp add: spawned_def stopped_servers_def)
qed

theorem shutdown_terminates_witness:
  "\<exists>k p'. k \<le> 2 \<and> lc_run stopped_servers (replicate k MainResumes) p' \<and> main_task p' = Exited (Inr ())"
  using shutdown_terminates [OF stopped_servers_run] by (simp add: stopped_servers_def)

text \<open>
  C39. A failed gRPC server is not noticed before the signal. If the gRPC server has failed (it could
  not bind its address, say) and the signal handlers could be registered, the process keeps running
  until a signal comes, and only then, and in any case, returns that failure.
\<close>

theorem grpc_failure_waits_for_signal:
  assumes "lc_run spawned es p" and "GrpcEnds (Inl e) \<in> set es" and "handlers_registered es"
  shows "(Signal \<notin> set es \<longrightarrow> main_task p \<in> {RegisterHandlers, WaitSignal}) \<and>
    (exited (main_task p) \<longrightarrow> main_task p = Exited (Inl (''TonicError: '' @ e)))"
  using lc_run_failed [OF assms(1,2) lc_inv_spawned assms(3)] lc_no_signal [OF assms(1) _ assms(3)]
  by (auto simp: spawned_def)

theorem grpc_failure_waits_for_signal_witness:
  "lc_run spawned [GrpcEnds (Inl ''bind'')] (spawned\<lparr>grpc_task := Returned (Inl (TonicError ''bind''))\<rparr>) \<and>
   main_task (spawned\<lparr>grpc_task := Returned (Inl (TonicError ''bind''))\<rparr>) \<in>
     {RegisterHandlers, WaitSignal}"
proof -
  have "lc_step spawned (GrpcEnds (Inl ''bind''))
      (spawned\<lparr>grpc_task := Returned (Inl (TonicError ''bind''))\<rparr>)"
    using grpc_ends [of spawned "Inl ''bind''"] by (simp add: spawned_def)
  with lc_more [OF lc_start] have run: "lc_run spawned [GrpcEnds (Inl ''bind'')]
      (spawned\<lparr>grpc_task := Returned (Inl (TonicError ''bind''))\<rparr>)" by fastforce
  from grpc_failure_waits_for_signal [OF this] run show ?thesis by simp
qed

end
