(* ===== verification/Cli.thy ===== *)
theory Cli
  imports Lifecycle
begin

section \<open>The command line (\<open>bin/ibc_attestor/cli.rs\<close>, \<open>main.rs\<close>)\<close>

text \<open>
  The parsed arguments and the commands. Parsing is \<open>clap\<close>'s and starts from its result. The random
  key of \<open>key generate\<close> is an argument.
\<close>

subsection \<open>Arguments\<close>

datatype cli_chain_type = CliEvm | CliSolana | CliCosmos

datatype cli_signer_type = CliLocal | CliRemote

fun chain_type_from :: "cli_chain_type \<Rightarrow> chain_type" where
  "chain_type_from CliEvm = Evm"
| "chain_type_from CliSolana = Solana"
| "chain_type_from CliCosmos = Cosmos"

fun signer_type_from :: "cli_signer_type \<Rightarrow> signer_type" where
  "signer_type_from CliLocal = LocalType"
| "signer_type_from CliRemote = RemoteType"

record server_args =
  sa_config :: string
  sa_chain_type :: cli_chain_type
  sa_signer_type :: cli_signer_type

record generate_args =
  ga_keystore :: "string option"

record show_args =
  sh_show_private :: bool
  sh_show_public :: bool
  sh_keystore :: "string option"

datatype key_commands = Generate generate_args | Show show_args

datatype commands = Server server_args | Key key_commands

subsection \<open>The key commands\<close>

definition default_attestor_dir :: "('fs, 'key) host \<Rightarrow> string + string" where
  "default_attestor_dir E =
     (case home_dir E of
        None \<Rightarrow> Inl no_home_text
      | Some home \<Rightarrow> Inr (path_join home ''.ibc-attestor''))"

definition attestor_dir :: "('fs, 'key) host \<Rightarrow> string option \<Rightarrow> string + string" where
  "attestor_dir E keystore =
     (case keystore of Some path \<Rightarrow> Inr path | None \<Rightarrow> default_attestor_dir E)"

text \<open>The result of a command is what it prints, or its error.\<close>

definition key_generate ::
  "('fs, 'key) host \<Rightarrow> generate_args \<Rightarrow> 'key \<Rightarrow> 'fs \<Rightarrow> (string + string list) \<times> 'fs" where
  "key_generate E args random fs =
     (case attestor_dir E (ga_keystore args) of
        Inl e \<Rightarrow> (Inl e, fs)
      | Inr dir \<Rightarrow>
          (let keystore_path = path_join dir DEFAULT_KEYSTORE_NAME;
               created = (if \<not> fs_exists E fs dir then fs_create_dir_all E dir fs else (Inr (), fs))
           in case created of
                (Inl e, fs) \<Rightarrow> (Inl e, fs)
              | (Inr _, fs) \<Rightarrow>
                  if fs_exists E fs keystore_path
                  then (Inl (''key pair already found at '' @ debug_path E keystore_path @
                          ''; aborting''), fs)
                  else (case write_to_keystore E dir DEFAULT_KEYSTORE_NAME random fs of
                          (Inl e, fs) \<Rightarrow> (Inl (''unable to generate key '' @ e), fs)
                        | (Inr out, fs) \<Rightarrow>
                            (Inr (out @ [''key successfully saved to '' @
                               debug_path E keystore_path]), fs))))"

text \<open>\<open>credential\<close> gives the bytes of a private key. Printed text is kept when an error follows.\<close>

definition key_show ::
  "hash_lib \<Rightarrow> ('key, 'sig) key_lib \<Rightarrow> ('key \<Rightarrow> bytes) \<Rightarrow> ('fs, 'key) host \<Rightarrow> show_args \<Rightarrow> 'fs \<Rightarrow>
    (string + unit) \<times> string" where
  "key_show H K credential E args fs =
     (case attestor_dir E (sh_keystore args) of
        Inl e \<Rightarrow> (Inl e, [])
      | Inr dir \<Rightarrow>
          (let keystore_path = path_join dir DEFAULT_KEYSTORE_NAME;
               private = (if sh_show_private args
                          then map_ok (\<lambda>s. hex_encode H (credential s))
                                 (read_from_keystore E fs keystore_path)
                          else Inr [])
           in case private of
                Inl e \<Rightarrow> (Inl e, [])
              | Inr out \<Rightarrow>
                  (let printed_any = sh_show_private args;
                       out = out @ (if printed_any then [CHR 0x0A, CHR 0x0A] else [])
                   in if sh_show_public args
                      then (case read_from_keystore E fs keystore_path of
                              Inl e \<Rightarrow> (Inl e, out)
                            | Inr s \<Rightarrow> (Inr (), out @ hex_encode H (key_address K s)))
                      else (Inr (), out))))"

lemma default_attestor_dir_Inr_iff:
  "default_attestor_dir E = Inr dir \<longleftrightarrow>
     (\<exists>home. home_dir E = Some home \<and> dir = path_join home ''.ibc-attestor'')"
  by (auto simp: default_attestor_dir_def split: option.splits)

text \<open>A key that \<open>generate\<close> reports as saved is the one that is read afterwards.\<close>

lemma key_generate_saved:
  assumes "keystores_read_back E" and "key_generate E args key fs = (Inr out, fs')"
  shows "\<exists>dir. attestor_dir E (ga_keystore args) = Inr dir \<and>
    read_from_keystore E fs' (path_join dir DEFAULT_KEYSTORE_NAME) = Inr key"
  using assms read_written_keystore [OF assms(1)]
  by (auto simp: key_generate_def Let_def split: sum.splits prod.splits if_splits)

text \<open>A keystore that can be read before \<open>generate\<close> still holds the same key after it.\<close>

lemma create_dir_keeps:
  "documented_files E \<Longrightarrow> fs_create_dir_all E dir fs = (r, fs') \<Longrightarrow>
     read_from_keystore E fs p = Inr k \<Longrightarrow> read_from_keystore E fs' p = Inr k"
  unfolding documented_files_def read_from_keystore_def by (metis snd_conv)

lemma keystore_exists: "documented_files E \<Longrightarrow> read_from_keystore E fs p = Inr k \<Longrightarrow> fs_exists E fs p"
  unfolding documented_files_def read_from_keystore_def by blast

lemma write_keeps:
  assumes "documented_files E" and "write_to_keystore E dir name key fs = (r, fs')"
    and "fs_location E fs p \<noteq> fs_location E fs (path_join dir name)" and "read_from_keystore E fs p = Inr k"
  shows "read_from_keystore E fs' p = Inr k"
proof -
  have "fs' = snd (encrypt_keystore E dir key '''' name fs)"
    using assms(2) by (auto simp: write_to_keystore_def Let_def split: prod.splits sum.splits)
  moreover have "\<forall>dir key pw name fs p k pw'. fs_location E fs p \<noteq> fs_location E fs (path_join dir name) \<longrightarrow>
      decrypt_keystore E fs p pw' = Inr k \<longrightarrow>
      decrypt_keystore E (snd (encrypt_keystore E dir key pw name fs)) p pw' = Inr k"
    using assms(1) unfolding documented_files_def by blast
  ultimately show ?thesis
    using assms(3,4) unfolding read_from_keystore_def by blast
qed

lemma key_generate_keeps:
  assumes "documented_files E" and "key_generate E args key fs = (r, fs')"
    and "read_from_keystore E fs p = Inr k"
  shows "read_from_keystore E fs' p = Inr k"
proof (cases "attestor_dir E (ga_keystore args)")
  case (Inl e)
  with assms(2,3) show ?thesis by (simp add: key_generate_def)
next
  case (Inr dir)
  let ?path = "path_join dir DEFAULT_KEYSTORE_NAME"
  obtain c fs1 where created:
    "(if \<not> fs_exists E fs dir then fs_create_dir_all E dir fs else (Inr (), fs)) = (c, fs1)"
    by (meson surj_pair)
  have keep: "read_from_keystore E fs1 p = Inr k"
    using created assms(3) create_dir_keeps [OF assms(1)] by (auto split: if_splits)
  show ?thesis
  proof (cases "fs' = fs1")
    case True
    with keep show ?thesis by simp
  next
    case False
    with assms(2) Inr created obtain r' where written: "\<not> fs_exists E fs1 ?path"
        "write_to_keystore E dir DEFAULT_KEYSTORE_NAME key fs1 = (r', fs')"
      by (auto simp: key_generate_def Let_def split: sum.splits prod.splits if_splits)
    have "fs_location E fs1 p \<noteq> fs_location E fs1 ?path"
      using keystore_exists [OF assms(1) keep] written(1) assms(1)
      unfolding documented_files_def by metis
    with write_keeps [OF assms(1) written(2)] keep show ?thesis by blast
  qed
qed

text \<open>Where \<open>generate\<close> reports success no key could be read before.\<close>

lemma key_generate_new:
  assumes "documented_files E" and "key_generate E args key fs = (Inr out, fs')"
    and "attestor_dir E (ga_keystore args) = Inr dir"
  shows "read_from_keystore E fs (path_join dir DEFAULT_KEYSTORE_NAME) \<noteq> Inr k"
proof
  let ?path = "path_join dir DEFAULT_KEYSTORE_NAME"
  assume read: "read_from_keystore E fs ?path = Inr k"
  obtain c fs1 where created:
    "(if \<not> fs_exists E fs dir then fs_create_dir_all E dir fs else (Inr (), fs)) = (c, fs1)"
    by (meson surj_pair)
  then have "read_from_keystore E fs1 ?path = Inr k"
    using read create_dir_keeps [OF assms(1)] by (auto split: if_splits)
  from keystore_exists [OF assms(1) this] assms(2,3) created show False
    by (auto simp: key_generate_def Let_def split: sum.splits prod.splits if_splits)
qed

text \<open>\<open>generate\<close> refuses to write where something is already.\<close>

lemma key_generate_twice:
  assumes "attestor_dir E (ga_keystore args) = Inr dir" and "fs_exists E fs dir"
    and "fs_exists E fs (path_join dir DEFAULT_KEYSTORE_NAME)"
  shows "\<exists>e. key_generate E args key fs = (Inl e, fs)"
  using assms by (simp add: key_generate_def Let_def)

subsection \<open>Dispatch\<close>

text \<open>The server command up to the point where it waits for a signal.\<close>

definition start_server ::
  "'toml toml_lib \<Rightarrow> ('fs, 'key) host \<Rightarrow> otel_lib \<Rightarrow> prom_lib \<Rightarrow> 'refl reflection_lib \<Rightarrow> 'q warp_lib \<Rightarrow>
    hash_lib \<Rightarrow> ('key, 'sig) key_lib \<Rightarrow> tonic_lib \<Rightarrow> chain_lib \<Rightarrow> server_args \<Rightarrow> 'fs \<Rightarrow> globals \<Rightarrow>
    registry option \<Rightarrow> string + tracing_guard \<times> globals \<times> ('sig, 'refl, 'q) running" where
  "start_server L E O' P R W H K T C args fs g m =
     and_then (map_err config_error_text
       (from_file L E fs (sa_config args) (chain_type_from (sa_chain_type args))
          (signer_type_from (sa_signer_type args)))) (\<lambda>config.
     and_then (init_logging O' (env_var E) (rt_tracing config) g) (\<lambda>(tracing_guard, g').
     and_then (run_servers P R W H K T C config m) (\<lambda>running.
     Inr (tracing_guard, g', running))))"

text \<open>A process that has started serves with what its configuration describes.\<close>

lemma start_server_Inr:
  assumes "start_server L E O' P R W H K T C args fs g m = Inr (guard, g', running)"
  shows "\<exists>config. from_file L E fs (sa_config args) (chain_type_from (sa_chain_type args))
      (signer_type_from (sa_signer_type args)) = Inr config \<and>
    init_logging O' (env_var E) (rt_tracing config) g = Inr (guard, g') \<and>
    (\<forall>server. rn_grpc running = Inr server \<longrightarrow> gs_attestation server =
       process_service H K T C (rt_adapter config) (rt_signer config)) \<and>
    rn_process running = spawned \<and>
    init P (adapter_name (rt_adapter config)) (signer_name (rt_signer config)) m =
      Inr (rn_metrics running)"
  using assms
  by (auto simp: start_server_def run_servers_def and_then_Inr_iff Let_def server_start_Inr_iff
      running_service_def)

subsection \<open>Properties\<close>


definition sample_keys_home :: "(string \<Rightarrow> u8 option, u8) host" where
  "sample_keys_home = memory_host Map.empty [''/keys'']"


end
