(* ===== verification/Node.thy ===== *)
theory Node
  imports Lifecycle
begin

section \<open>The process and the calls it serves\<close>

text \<open>
  \<open>Lifecycle\<close> and \<open>Calls\<close> composed: the steps of the tasks and of the calls interleave in any order until
  \<open>main\<close> has returned. What \<open>serve_with_shutdown\<close> of \<open>tonic\<close> promises about the calls that are being
  served is no part of the steps; it is the hypothesis \<open>documented_serve\<close> on a run.
\<close>

subsection \<open>State and steps\<close>

record ('q, 'r) node =
  nd_process :: process
  nd_server :: "('q, 'r) server"

datatype 'q node_event = Process lc_event | Call "'q server_event"

definition started_node :: "registry option \<Rightarrow> ('q, 'r) node" where
  "started_node m = \<lparr>nd_process = spawned, nd_server = fresh_server m\<rparr>"

inductive node_step ::
  "(nat list \<Rightarrow> 'q \<Rightarrow> 'r io) \<Rightarrow> ('q, 'r) node \<Rightarrow> 'q node_event \<Rightarrow> ('q, 'r) node \<Rightarrow> bool"
  for handle :: "nat list \<Rightarrow> 'q \<Rightarrow> 'r io" where
  process_steps:
    "lc_step (nd_process n) e p \<Longrightarrow>
       node_step handle n (Process e) (n\<lparr>nd_process := p\<rparr>)"
| call_steps:
    "\<not> exited (main_task (nd_process n)) \<Longrightarrow> server_step handle (nd_server n) e s \<Longrightarrow>
       node_step handle n (Call e) (n\<lparr>nd_server := s\<rparr>)"

inductive node_run ::
  "(nat list \<Rightarrow> 'q \<Rightarrow> 'r io) \<Rightarrow> ('q, 'r) node \<Rightarrow> 'q node_event list \<Rightarrow> ('q, 'r) node \<Rightarrow> bool"
  for handle :: "nat list \<Rightarrow> 'q \<Rightarrow> 'r io" where
  node_start: "node_run handle n [] n"
| node_more: "node_run handle n es n' \<Longrightarrow> node_step handle n' e n'' \<Longrightarrow> node_run handle n (es @ [e]) n''"

subsection \<open>A run of the node is a run of each part\<close>

fun process_event :: "'q node_event \<Rightarrow> lc_event list" where
  "process_event (Process e) = [e]"
| "process_event (Call e) = []"

fun call_event :: "'q node_event \<Rightarrow> 'q server_event list" where
  "call_event (Process e) = []"
| "call_event (Call e) = [e]"

definition process_events :: "'q node_event list \<Rightarrow> lc_event list" where
  "process_events es = concat (map process_event es)"

definition call_events :: "'q node_event list \<Rightarrow> 'q server_event list" where
  "call_events es = concat (map call_event es)"

lemma part_events_simps [simp]:
  "process_events [] = []" "process_events (es @ es') = process_events es @ process_events es'"
  "process_events (e # es) = process_event e @ process_events es"
  "call_events [] = []" "call_events (es @ es') = call_events es @ call_events es'"
  "call_events (e # es) = call_event e @ call_events es"
  by (simp_all add: process_events_def call_events_def)

lemma in_call_events: "e \<in> set (call_events es) \<longleftrightarrow> Call e \<in> set es"
proof -
  have "e \<in> set (call_event x) \<longleftrightarrow> x = Call e" for x by (cases x) auto
  then show ?thesis by (auto simp: call_events_def)
qed

lemma in_process_events: "e \<in> set (process_events es) \<longleftrightarrow> Process e \<in> set es"
proof (induction es)
  case (Cons x es)
  then show ?case by (cases x) simp_all
qed simp

lemma node_run_parts:
  "node_run handle n es n' \<Longrightarrow>
     lc_run (nd_process n) (process_events es) (nd_process n') \<and>
     server_run handle (nd_server n) (call_events es) (nd_server n')"
proof (induction rule: node_run.induct)
  case (node_start n)
  show ?case by (simp add: lc_start server_start)
next
  case (node_more n es n' e n'')
  from node_more.hyps(2) node_more.IH show ?case
    by cases (auto intro: lc_more server_more)
qed

lemmas node_process_run = node_run_parts [THEN conjunct1]
  and node_server_run = node_run_parts [THEN conjunct2]

lemma started_node_simps [simp]:
  "nd_process (started_node m) = spawned"
  "nd_server (started_node m) = fresh_server m"
  by (simp_all add: started_node_def)

lemma fresh_server_simps [simp]:
  "sv_calls (fresh_server m) = []" "sv_metrics (fresh_server m) = m"
  by (simp_all add: fresh_server_def)

lemma node_calls_isolated:
  "node_run handle (started_node m) es n \<Longrightarrow> calls_isolated handle (call_events es) (nd_server n)"
  by (drule node_server_run) (simp add: server_run_isolated)

lemma node_metrics:
  "node_run handle (started_node m) es n \<Longrightarrow>
     sv_metrics (nd_server n) = metrics_after (all_events (call_events es)) m"
  by (drule node_server_run) (simp add: server_run_metrics)

text \<open>Every execution of the handler of a request can be the call that answers it.\<close>

lemma node_calls_run:
  "server_run handle s es s' \<Longrightarrow> \<not> exited (main_task p) \<Longrightarrow>
     node_run handle \<lparr>nd_process = p, nd_server = s\<rparr> (map Call es) \<lparr>nd_process = p, nd_server = s'\<rparr>"
proof (induction rule: server_run.induct)
  case (server_start s)
  show ?case by (simp add: node_start)
next
  case (server_more s es s' e s'')
  then have "node_step handle \<lparr>nd_process = p, nd_server = s'\<rparr> (Call e) \<lparr>nd_process = p, nd_server = s''\<rparr>"
    using call_steps [of "\<lparr>nd_process = p, nd_server = s'\<rparr>" handle e s''] by simp
  with server_more show ?case by (auto intro: node_more)
qed

lemma own_events_call:
  "own_events i (call_events (map Call (map (Progresses i) t))) = t"
  by (induction t) auto

lemma answered_run:
  assumes "exec (handle schedule q) t r"
  shows "\<exists>es n. node_run handle (started_node m) es n \<and> sv_calls (nd_server n) = [(q, Answered r)] \<and>
    own_events 0 (call_events es) = t"
proof -
  let ?s = "(fresh_server m)\<lparr>sv_calls := [(q, Serving (handle schedule q))]\<rparr>"
  obtain s' where answered: "server_run handle ?s (map (Progresses 0) t @ [Answers 0]) s'"
      "sv_calls s' = [(q, Answered r)]"
    using exec_answered [OF assms, of 0 ?s q] by auto
  have "server_step handle (fresh_server m) (Arrives q schedule) ?s"
    using arrives [of handle "fresh_server m"] by simp
  from node_calls_run [OF server_run_Cons [OF answered(1) this], of spawned]
  have "node_run handle (started_node m)
      (map Call (Arrives q schedule # map (Progresses 0) t @ [Answers 0]))
      \<lparr>nd_process = spawned, nd_server = s'\<rparr>"
    by (simp add: started_node_def spawned_def)
  moreover have "own_events 0 (call_events
      (map Call (Arrives q schedule # map (Progresses 0) t @ [Answers 0]))) = t"
    using own_events_call [of 0 t] by simp
  ultimately show ?thesis using answered(2) by fastforce
qed

subsection \<open>The end of the process\<close>

text \<open>
  \<open>serve_with_shutdown\<close> ends gracefully, as \<open>tonic\<close> documents it: when it returns without an error, no
  call is in the middle (each one accepted has been answered, or its client has gone away), and no
  call is accepted afterwards.
\<close>

definition documented_serve :: "'q node_event list \<Rightarrow> bool" where
  "documented_serve es \<longleftrightarrow>
     (\<forall>es1 es2. es = es1 @ Process (GrpcEnds (Inr ())) # es2 \<longrightarrow>
        (\<forall>i < arrivals (call_events es1). Call (Answers i) \<in> set es1 \<or> Call (Drops i) \<in> set es1) \<and>
        arrivals (call_events es2) = 0)"

text \<open>A task has returned what its end, an event of the run, has given it.\<close>

lemma lc_run_returned:
  "lc_run p es p' \<Longrightarrow> p = spawned \<Longrightarrow>
     (shutdown_sent p' \<longrightarrow> Signal \<in> set es) \<and>
     (\<forall>r. grpc_task p' = Returned r \<longrightarrow> (\<exists>s. GrpcEnds s \<in> set es \<and> r = server_result s)) \<and>
     (\<forall>u. health_task p' = Returned u \<longrightarrow> HealthEnds \<in> set es)"
proof (induction rule: lc_run.induct)
  case (lc_start p)
  then show ?case by (simp add: spawned_def)
next
  case (lc_more p es p' e p'')
  then show ?case by (auto elim!: lc_stepE)
qed

lemma process_clean_exit:
  assumes "lc_run spawned es p" and "main_task p = Exited (Inr u)"
  shows "Signal \<in> set es \<and> GrpcEnds (Inr ()) \<in> set es \<and> HealthEnds \<in> set es"
proof -
  from lc_inv_run [OF assms(1) lc_inv_spawned] assms(2)
  have ended: "shutdown_sent p" "grpc_task p = Returned (Inr ())" "health_task p = Returned ()"
    by (simp_all add: lc_inv_def)
  have "s = Inr ()" if "Inr () = server_result s" for s
    using that by (cases s) (simp_all add: server_result_def)
  with lc_run_returned [OF assms(1) refl] ended show ?thesis by blast
qed

lemma finished_calls:
  assumes "node_run handle (started_node m) es n" and "Process (GrpcEnds (Inr ())) \<in> set es"
    and "documented_serve es" and "i < length (sv_calls (nd_server n))"
  shows "Call (Answers i) \<in> set es \<or> Call (Drops i) \<in> set es"
proof -
  from assms(2) obtain es1 es2 where es: "es = es1 @ Process (GrpcEnds (Inr ())) # es2"
    by (meson split_list)
  with assms(3) have served: "arrivals (call_events es2) = 0"
      "\<And>i. i < arrivals (call_events es1) \<Longrightarrow> Call (Answers i) \<in> set es1 \<or> Call (Drops i) \<in> set es1"
    unfolding documented_serve_def by blast+
  have "i < arrivals (call_events es1)"
    using server_run_arrivals [OF node_server_run [OF assms(1)]] assms(4) served(1) es by simp
  from served(2) [OF this] es show ?thesis by auto
qed

lemma finished_call_answered:
  assumes "node_run handle (started_node m) es n" and "i < length (sv_calls (nd_server n))"
    and "Call (Answers i) \<in> set es \<or> Call (Drops i) \<in> set es" and "sv_calls (nd_server n) ! i = (q, c)"
  shows "(c = Dropped \<and> Call (Drops i) \<in> set es) \<or>
    (\<exists>r schedule. c = Answered r \<and> exec (handle schedule q) (own_events i (call_events es)) r)"
proof -
  obtain schedule where own: "isolated (handle schedule q) (own_events i (call_events es)) c"
    using node_calls_isolated [OF assms(1)] assms(2,4) unfolding calls_isolated_def by fastforce
  have "finished_call c (call_events es) i"
    using server_run_finished [OF node_server_run [OF assms(1)]] assms(2,4) by fastforce
  with own assms(3) show ?thesis by (cases c) (auto simp: in_call_events)
qed

subsection \<open>Properties\<close>

text \<open>
  C37. A clean exit loses no request. When the process has returned without an error, a signal was
  received, the gRPC server returned without an error and the health server returned; and, as \<open>main\<close>
  waits for the gRPC server before it returns and \<open>serve_with_shutdown\<close> is graceful, every call ever
  accepted has been answered, with a result of an execution of its own handler made of its own events,
  unless its client had gone away: none is left in the middle.
\<close>

theorem clean_exit_answers_all:
  assumes "node_run handle (started_node m) es n" and "main_task (nd_process n) = Exited (Inr u)"
    and "documented_serve es"
  shows "Signal \<in> set (process_events es) \<and> GrpcEnds (Inr ()) \<in> set (process_events es) \<and>
    HealthEnds \<in> set (process_events es) \<and>
    (\<forall>i < length (sv_calls (nd_server n)). case sv_calls (nd_server n) ! i of (q, c) \<Rightarrow>
       (c = Dropped \<and> Call (Drops i) \<in> set es) \<or>
       (\<exists>r schedule. c = Answered r \<and> exec (handle schedule q) (own_events i (call_events es)) r))"
proof -
  have "lc_run spawned (process_events es) (nd_process n)"
    using node_process_run [OF assms(1)] by simp
  from process_clean_exit [OF this assms(2)]
  have ended: "Signal \<in> set (process_events es)" "GrpcEnds (Inr ()) \<in> set (process_events es)"
      "HealthEnds \<in> set (process_events es)"
    by simp_all
  then have "Process (GrpcEnds (Inr ())) \<in> set es" by (simp add: in_process_events)
  note finished = finished_calls [OF assms(1) this assms(3)]
  show ?thesis
    using ended finished_call_answered [OF assms(1) _ finished] by (auto split: prod.splits)
qed

text \<open>A process that answers one request and shuts down.\<close>

lemma node_run_Cons:
  "node_run handle n' es n'' \<Longrightarrow> node_step handle n e n' \<Longrightarrow> node_run handle n (e # es) n''"
proof (induction rule: node_run.induct)
  case (node_start n')
  then show ?case using node_more [OF node_run.node_start] by fastforce
next
  case (node_more n' es n1 e' n2)
  then show ?case using node_run.node_more by fastforce
qed

lemma process_stepsI:
  "lc_step (nd_process n) e p \<Longrightarrow> n' = n\<lparr>nd_process := p\<rparr> \<Longrightarrow> node_step handle n (Process e) n'"
  by (simp add: process_steps)

lemma call_stepsI:
  "server_step handle (nd_server n) e s \<Longrightarrow> \<not> exited (main_task (nd_process n)) \<Longrightarrow>
     n' = n\<lparr>nd_server := s\<rparr> \<Longrightarrow> node_step handle n (Call e) n'"
  by (simp add: call_steps)

definition sample_node_events :: "'q \<Rightarrow> 'q node_event list" where
  "sample_node_events q =
     [Process (Registers (Inr ()) (Inr ())), Call (Arrives q []), Process Signal, Call (Answers 0),
      Process HealthEnds, Process (GrpcEnds (Inr ())), Process MainResumes, Process MainResumes]"

definition sample_node_end :: "'q \<Rightarrow> 'r \<Rightarrow> ('q, 'r) node" where
  "sample_node_end q r =
     \<lparr>nd_process = \<lparr>main_task = Exited (Inr ()), grpc_task = Returned (Inr ()),
        health_task = Returned (), shutdown_sent = True\<rparr>,
      nd_server = \<lparr>sv_calls = [(q, Answered r)], sv_metrics = None\<rparr>\<rparr>"

lemma sample_node_run:
  "node_run (\<lambda>_ _. Ret r) (started_node None) (sample_node_events q) (sample_node_end q r)"
proof -
  let ?p = "\<lambda>t g h s. \<lparr>main_task = t, grpc_task = g, health_task = h, shutdown_sent = s\<rparr>"
  let ?n = "\<lambda>p c. \<lparr>nd_process = p, nd_server = \<lparr>sv_calls = c, sv_metrics = None\<rparr>\<rparr>"
  let ?step = "node_step (\<lambda>_ _. Ret r)"
  have 1: "?step (started_node None) (Process (Registers (Inr ()) (Inr ())))
      (?n (?p WaitSignal Running Running False) [])"
    by (rule process_stepsI [OF register])
      (simp_all add: started_node_def spawned_def fresh_server_def after_register_def register_handlers_def)
  have 2: "?step (?n (?p WaitSignal Running Running False) []) (Call (Arrives q []))
      (?n (?p WaitSignal Running Running False) [(q, Serving (Ret r))])"
    by (rule call_stepsI [OF arrives]) simp_all
  have 3: "?step (?n (?p WaitSignal Running Running False) [(q, Serving (Ret r))]) (Process Signal)
      (?n (?p AwaitGrpc Running Running True) [(q, Serving (Ret r))])"
    by (rule process_stepsI [OF signal]) simp_all
  have 4: "?step (?n (?p AwaitGrpc Running Running True) [(q, Serving (Ret r))]) (Call (Answers 0))
      (?n (?p AwaitGrpc Running Running True) [(q, Answered r)])"
    by (rule call_stepsI [OF answers [of _ _ q r]]) simp_all
  have 5: "?step (?n (?p AwaitGrpc Running Running True) [(q, Answered r)]) (Process HealthEnds)
      (?n (?p AwaitGrpc Running (Returned ()) True) [(q, Answered r)])"
    by (rule process_stepsI [OF health_ends]) simp_all
  have 6: "?step (?n (?p AwaitGrpc Running (Returned ()) True) [(q, Answered r)])
      (Process (GrpcEnds (Inr ())))
      (?n (?p AwaitGrpc (Returned (Inr ())) (Returned ()) True) [(q, Answered r)])"
    by (rule process_stepsI [OF grpc_ends]) simp_all
  have 7: "?step (?n (?p AwaitGrpc (Returned (Inr ())) (Returned ()) True) [(q, Answered r)])
      (Process MainResumes)
      (?n (?p AwaitHealth (Returned (Inr ())) (Returned ()) True) [(q, Answered r)])"
    by (rule process_stepsI [OF resume_grpc]) simp_all
  have 8: "?step (?n (?p AwaitHealth (Returned (Inr ())) (Returned ()) True) [(q, Answered r)])
      (Process MainResumes) (sample_node_end q r)"
    by (rule process_stepsI [OF resume_health]) (simp_all add: sample_node_end_def)
  show ?thesis
    unfolding sample_node_events_def
    by (rule node_run_Cons [OF _ 1] node_run_Cons [OF _ 2] node_run_Cons [OF _ 3]
        node_run_Cons [OF _ 4] node_run_Cons [OF _ 5] node_run_Cons [OF _ 6] node_run_Cons [OF _ 7]
        node_run_Cons [OF _ 8] node_start)+
qed

lemma sample_node_served: "documented_serve (sample_node_events q)"
  by (auto simp: documented_serve_def sample_node_events_def append_eq_Cons_conv Cons_eq_append_conv)

theorem clean_exit_answers_all_witness:
  "sv_calls (nd_server (sample_node_end ''q'' (7 :: nat))) ! 0 = (''q'', Answered 7) \<and>
   (\<exists>r. Answered 7 = Answered r \<and> exec (Ret (7 :: nat)) [] r)"
  using clean_exit_answers_all [OF sample_node_run _ sample_node_served, of "''q''" "7 :: nat" "()"]
  by (auto simp: sample_node_end_def sample_node_events_def)

end
