(* ===== verification/Program.thy ===== *)
theory Program
  imports Samples Cli Node
begin

section \<open>The whole program (\<open>main\<close> of \<open>main.rs\<close>)\<close>

text \<open>
  \<open>main\<close> from the parsed command line to its result: the server command loads the configuration,
  sets up logging, spawns the servers and returns when the process of \<open>Node\<close> has ended; the key
  commands return at once. The libraries are gathered in one record.
\<close>

record ('toml, 'fs, 'key, 'sig, 'ctx, 'refl, 'q) program_lib =
  pg_toml :: "'toml toml_lib"
  pg_host :: "('fs, 'key) host"
  pg_otel :: otel_lib
  pg_prom :: prom_lib
  pg_reflection :: "'refl reflection_lib"
  pg_warp :: "'q warp_lib"
  pg_rpc :: "('key, 'sig, 'ctx) rpc_lib"
  pg_tonic :: tonic_lib
  pg_chain :: chain_lib
  pg_credential :: "'key \<Rightarrow> bytes"

subsection \<open>What a run of the program leaves behind\<close>

text \<open>
  Per command: the result of \<open>main\<close>, and of the server the calls it had accepted and the lines that
  dropping the tracing guard prints, of \<open>key generate\<close> what it printed and the files it left, of \<open>key
  show\<close> what it printed. What the server logs is not modelled.
\<close>

datatype 'fs finished =
    ServerFinished "string + unit" "(rpc_request \<times> (status + rpc_response) call) list" "string list"
  | GenerateFinished "string + unit" string 'fs
  | ShowFinished "string + unit" string

subsection \<open>The key commands\<close>

text \<open>\<open>println!\<close> ends every line.\<close>

definition printed_lines :: "string list \<Rightarrow> string" where
  "printed_lines ls = concat (map (\<lambda>l. l @ [CHR 0x0A]) ls)"

definition run_key_command ::
  "('toml, 'fs, 'key, 'sig, 'ctx, 'refl, 'q) program_lib \<Rightarrow> key_commands \<Rightarrow> 'key \<Rightarrow> 'fs \<Rightarrow> 'fs finished" where
  "run_key_command Z cmd random fs =
     (case cmd of
        Generate args \<Rightarrow>
          (case key_generate (pg_host Z) args random fs of
             (Inl e, fs') \<Rightarrow> GenerateFinished (Inl e) [] fs'
           | (Inr out, fs') \<Rightarrow> GenerateFinished (Inr ()) (printed_lines out) fs')
      | Show args \<Rightarrow>
          (case key_show (rl_hash (pg_rpc Z)) (rl_keys (pg_rpc Z)) (pg_credential Z) (pg_host Z) args fs of
             (r, out) \<Rightarrow> ShowFinished r out))"

subsection \<open>\<open>main\<close>\<close>

definition load_config ::
  "('toml, 'fs, 'key, 'sig, 'ctx, 'refl, 'q) program_lib \<Rightarrow> server_args \<Rightarrow> 'fs \<Rightarrow>
    config_error + 'key runtime_config" where
  "load_config Z args fs =
     from_file (pg_toml Z) (pg_host Z) fs (sa_config args) (chain_type_from (sa_chain_type args))
       (signer_type_from (sa_signer_type args))"

definition spawn_servers ::
  "('toml, 'fs, 'key, 'sig, 'ctx, 'refl, 'q) program_lib \<Rightarrow> 'key runtime_config \<Rightarrow>
    string + ('sig, 'refl, 'q) running" where
  "spawn_servers Z config =
     run_servers (pg_prom Z) (pg_reflection Z) (pg_warp Z) (rl_hash (pg_rpc Z)) (rl_keys (pg_rpc Z))
       (pg_tonic Z) (pg_chain Z) config None"

definition set_up_logging ::
  "('toml, 'fs, 'key, 'sig, 'ctx, 'refl, 'q) program_lib \<Rightarrow> 'key runtime_config \<Rightarrow>
    string + tracing_guard \<times> globals" where
  "set_up_logging Z config =
     init_logging (pg_otel Z) (env_var (pg_host Z)) (rt_tracing config) fresh_globals"

text \<open>
  The gRPC task of a server that could not be assembled panics: it takes no call and returns nothing.
\<close>

fun no_service :: "'q node_event \<Rightarrow> bool" where
  "no_service (Process (GrpcEnds _)) = False"
| "no_service (Process _) = True"
| "no_service (Call _) = False"

definition process_of ::
  "('toml, 'fs, 'key, 'sig, 'ctx, 'refl, 'q) program_lib \<Rightarrow> ('sig, 'refl, 'q) running \<Rightarrow>
    rpc_request node_event list \<Rightarrow> (rpc_request, status + rpc_response) node \<Rightarrow> bool" where
  "process_of Z running es n \<longleftrightarrow>
     (case rn_grpc running of
        Inr server \<Rightarrow>
          node_run (handle_rpc (pg_rpc Z) (gs_attestation server)) (started_node (rn_metrics running)) es n
      | Inl e \<Rightarrow>
          lc_run spawned (process_events es) (nd_process n) \<and> list_all no_service es \<and>
          nd_server n = fresh_server (rn_metrics running))"

text \<open>
  The guard is dropped when the server command ends, whatever its result, once it exists. The
  arguments are the command, the random key, the files, what happened in the process and the result.
\<close>

inductive main_returns ::
  "('toml, 'fs, 'key, 'sig, 'ctx, 'refl, 'q) program_lib \<Rightarrow> commands \<Rightarrow> 'key \<Rightarrow> 'fs \<Rightarrow>
    rpc_request node_event list \<Rightarrow> 'fs finished \<Rightarrow> bool"
  for Z :: "('toml, 'fs, 'key, 'sig, 'ctx, 'refl, 'q) program_lib" where
  config_fails:
    "load_config Z args fs = Inl e \<Longrightarrow>
       main_returns Z (Server args) random fs [] (ServerFinished (Inl (config_error_text e)) [] [])"
| logging_panics:
    "load_config Z args fs = Inr config \<Longrightarrow> set_up_logging Z config = Inl e \<Longrightarrow>
       main_returns Z (Server args) random fs [] (ServerFinished (Inl e) [] [])"
| spawning_panics:
    "load_config Z args fs = Inr config \<Longrightarrow> set_up_logging Z config = Inr (guard, g) \<Longrightarrow>
       spawn_servers Z config = Inl e \<Longrightarrow>
       main_returns Z (Server args) random fs []
         (ServerFinished (Inl e) [] (drop_guard (pg_otel Z) guard))"
| process_ends:
    "load_config Z args fs = Inr config \<Longrightarrow> set_up_logging Z config = Inr (guard, g) \<Longrightarrow>
       spawn_servers Z config = Inr running \<Longrightarrow> process_of Z running es n \<Longrightarrow>
       main_task (nd_process n) = Exited r \<Longrightarrow>
       main_returns Z (Server args) random fs es
         (ServerFinished r (sv_calls (nd_server n)) (drop_guard (pg_otel Z) guard))"
| key_command:
    "main_returns Z (Key cmd) random fs [] (run_key_command Z cmd random fs)"

inductive_cases main_serverE: "main_returns Z (Server args) random fs es f"
lemmas main_server_cases = main_serverE [consumes 1,
  case_names config_fails logging_panics spawning_panics process_ends]

inductive_simps main_key_iff: "main_returns Z (Key cmd) random fs es f"

subsection \<open>Stages\<close>

lemma start_server_stages:
  "start_server (pg_toml Z) (pg_host Z) (pg_otel Z) (pg_prom Z) (pg_reflection Z) (pg_warp Z)
     (rl_hash (pg_rpc Z)) (rl_keys (pg_rpc Z)) (pg_tonic Z) (pg_chain Z) args fs fresh_globals None =
   and_then (map_err config_error_text (load_config Z args fs)) (\<lambda>config.
   and_then (set_up_logging Z config) (\<lambda>(guard, g).
   and_then (spawn_servers Z config) (\<lambda>running. Inr (guard, g, running))))"
  by (simp add: start_server_def load_config_def set_up_logging_def spawn_servers_def)

text \<open>The servers are spawned unless the registry of the metrics cannot be built.\<close>

lemma spawn_servers_Inr:
  "spawn_servers Z config = Inr running \<Longrightarrow> rn_grpc running = Inr server \<Longrightarrow>
     gs_attestation server = new_logging_middleware
       (lib_service (pg_rpc Z) (pg_tonic Z) (pg_chain Z) (rt_adapter config) (rt_signer config))"
  by (auto simp: spawn_servers_def run_servers_def and_then_Inr_iff Let_def server_start_Inr_iff
      running_service_def)

lemma process_of_lc_run: "process_of Z running es n \<Longrightarrow> lc_run spawned (process_events es) (nd_process n)"
  by (auto simp: process_of_def dest: node_process_run split: sum.splits)

subsection \<open>How the process ends\<close>

text \<open>The failures that \<open>main\<close> can return, with what has to have happened for each.\<close>

definition ended_with :: "lc_event list \<Rightarrow> string \<Rightarrow> bool" where
  "ended_with es x \<longleftrightarrow>
     (\<exists>sigterm sigint. Registers sigterm sigint \<in> set es \<and> register_handlers sigterm sigint = Inl x) \<or>
     Signal \<in> set es \<and>
       ((\<exists>e. GrpcEnds (Inl e) \<in> set es \<and> x = rpc_error_text (TonicError e)) \<or>
        (GrpcPanics \<in> set es \<or> HealthPanics \<in> set es) \<and> x = join_error_text)"

lemma lc_run_ends:
  "lc_run p es p' \<Longrightarrow> p = spawned \<Longrightarrow>
     (main_task p' \<in> {AwaitGrpc, AwaitHealth} \<longrightarrow> Signal \<in> set es) \<and>
     (\<forall>r. grpc_task p' = Returned r \<longrightarrow> (\<exists>s. GrpcEnds s \<in> set es \<and> r = server_result s)) \<and>
     (grpc_task p' = Panicked \<longrightarrow> GrpcPanics \<in> set es) \<and>
     (health_task p' = Panicked \<longrightarrow> HealthPanics \<in> set es) \<and>
     (\<forall>x. main_task p' = Exited (Inl x) \<longrightarrow> ended_with es x)"
proof (induction rule: lc_run.induct)
  case (lc_start p)
  then show ?case by (simp add: spawned_def)
next
  case (lc_more p es p' e p'')
  note IH = lc_more.IH [OF lc_more.prems]
  have more: "ended_with es x \<Longrightarrow> ended_with (es @ [e]) x" for x
    by (auto simp: ended_with_def)
  from lc_more.hyps(2) show ?case
  proof cases
    case (register sigterm sigint)
    with IH show ?thesis by (auto simp: after_register_def ended_with_def split: sum.splits)
  next
    case resume_grpc
    with IH show ?thesis
      by (cases "grpc_task p'" rule: after_grpc.cases) (fastforce simp: ended_with_def server_result_def split: sum.splits)+
  next
    case resume_health
    with IH show ?thesis
      by (cases "health_task p'") (auto simp: ended_with_def)
  qed (use IH more in \<open>auto simp: server_result_def\<close>)
qed

text \<open>An answer of success rests on the chain and the signer of the configuration, by the call's own events.\<close>

definition answered_soundly ::
  "('key, 'sig, 'ctx) rpc_lib \<Rightarrow> tonic_lib \<Rightarrow> chain_lib \<Rightarrow> 'key runtime_config \<Rightarrow>
    rpc_request node_event list \<Rightarrow> nat \<Rightarrow> rpc_request \<times> (status + rpc_response) call \<Rightarrow> bool" where
  "answered_soundly V T C config es i entry \<longleftrightarrow>
     (\<forall>resp. snd entry = Answered (Inr resp) \<longrightarrow>
        sound_reply V T C (rt_adapter config) (rt_signer config) (own_events i (call_events es))
          (fst entry) resp)"

lemma process_answers_soundly:
  assumes "retries_ok (pg_chain Z)" and "spawn_servers Z config = Inr running"
    and "process_of Z running es n" and "i < length (sv_calls (nd_server n))"
  shows "answered_soundly (pg_rpc Z) (pg_tonic Z) (pg_chain Z) config es i (sv_calls (nd_server n) ! i)"
proof (cases "rn_grpc running")
  case (Inl e)
  with assms(3,4) show ?thesis by (simp add: process_of_def)
next
  case (Inr server)
  let ?svc = "lib_service (pg_rpc Z) (pg_tonic Z) (pg_chain Z) (rt_adapter config) (rt_signer config)"
  obtain rpc c where call: "sv_calls (nd_server n) ! i = (rpc, c)" by fastforce
  from assms(3) Inr spawn_servers_Inr [OF assms(2) Inr]
  have "node_run (handle_rpc (pg_rpc Z) (new_logging_middleware ?svc))
      (started_node (rn_metrics running)) es n"
    by (simp add: process_of_def)
  from node_calls_isolated [OF this] assms(4) call obtain schedule where
    "isolated (handle_rpc (pg_rpc Z) (new_logging_middleware ?svc) schedule rpc)
       (own_events i (call_events es)) c"
    unfolding calls_isolated_def by fastforce
  with handle_rpc_sound [OF assms(1)] call show ?thesis by (auto simp: answered_soundly_def)
qed

subsection \<open>A sample\<close>

definition sample_rpc_lib :: "(u8, u8 \<times> u8, unit) rpc_lib" where
  "sample_rpc_lib = \<lparr>to_str = (\<lambda>_. None), extract_context = (\<lambda>_ _. ()), code_debug = variant_name,
     rl_hash = sample_hash, rl_keys = sample_keys, rl_ibc = sample_ibc\<rparr>"

lemma sample_rpc_lib_simps [simp]:
  "rl_hash sample_rpc_lib = sample_hash" "rl_keys sample_rpc_lib = sample_keys"
  "rl_ibc sample_rpc_lib = sample_ibc" "code_debug sample_rpc_lib = variant_name"
  by (simp_all add: sample_rpc_lib_def)

definition sample_reflection :: "unit reflection_lib" where
  "sample_reflection = \<lparr>build_v1 = (\<lambda>_. Inr ()), file_descriptor_set = []\<rparr>"

abbreviation sample_args :: server_args where
  "sample_args \<equiv> \<lparr>sa_config = ''c.toml'', sa_chain_type = CliEvm, sa_signer_type = CliLocal\<rparr>"

lemma sample_server:
  "\<exists>guard g running server. start_server sample_toml sample_config_host sample_otel sample_prom
     sample_reflection sample_warp (rl_hash sample_rpc_lib) (rl_keys sample_rpc_lib) sample_tonic
     sample_chain sample_args () fresh_globals None = Inr (guard, g, running) \<and>
     rn_grpc running = Inr server \<and>
     gs_attestation server = new_logging_middleware (sample_service sample_local)"
  by (simp add: start_server_def run_servers_def init_def Let_def new_metrics_documented
      documented_prom_sample from_file_def sample_toml_def sample_config_host_def build_adapter_def
      build_signer_def build_tracing_def evm_build_def validate_def local_build_def
      keystore_path_with_file_def with_expanded_home_def read_from_keystore_def
      new_logging_middleware_def sample_evm_def sample_evm_adapter_def sample_local_def
      path_starts_with_def components_def is_absolute_def init_logging_def build_exporter_tracer_def
      sample_otel_def fresh_globals_def server_start_def
      sample_reflection_def sample_rpc_lib_def running_service_def)

definition sample_program ::
  "('fs, u8) host \<Rightarrow> (unit, 'fs, u8, u8 \<times> u8, unit, unit, string \<times> string list) program_lib" where
  "sample_program E = \<lparr>pg_toml = sample_toml, pg_host = E, pg_otel = sample_otel, pg_prom = sample_prom,
     pg_reflection = sample_reflection, pg_warp = sample_warp, pg_rpc = sample_rpc_lib,
     pg_tonic = sample_tonic, pg_chain = sample_chain, pg_credential = (\<lambda>k. [k])\<rparr>"

text \<open>A run without calls that ends well.\<close>

definition sample_shutdown :: "lc_event list" where
  "sample_shutdown = [Registers (Inr ()) (Inr ()), Signal, GrpcEnds (Inr ()), HealthEnds,
     MainResumes, MainResumes]"

lemma sample_shutdown_run:
  "lc_run spawned sample_shutdown (stopped_servers\<lparr>main_task := Exited (Inr ())\<rparr>)"
  using lc_more [OF lc_more [OF stopped_servers_run resume_grpc] resume_health]
  by (simp add: sample_shutdown_def stopped_servers_def)

lemma process_only_run:
  "lc_run p es p' \<Longrightarrow> node_run handle \<lparr>nd_process = p, nd_server = s\<rparr> (map Process es)
     \<lparr>nd_process = p', nd_server = s\<rparr>"
proof (induction rule: lc_run.induct)
  case (lc_start p)
  show ?case by (simp add: node_start)
next
  case (lc_more p es p' e p'')
  have "node_step handle \<lparr>nd_process = p', nd_server = s\<rparr> (Process e) \<lparr>nd_process = p'', nd_server = s\<rparr>"
    by (rule process_stepsI) (simp_all add: lc_more.hyps(2))
  with lc_more.IH show ?case by (simp add: node_more)
qed

lemma process_events_Process [simp]: "process_events (map Process es) = es"
  by (induction es) simp_all

lemma sample_program_ends:
  "\<exists>printed. main_returns (sample_program sample_config_host) (Server sample_args) random ()
     (map Process sample_shutdown) (ServerFinished (Inr ()) [] printed)"
proof -
  let ?Z = "sample_program sample_config_host"
  from sample_server obtain guard g running server where start:
    "start_server (pg_toml ?Z) (pg_host ?Z) (pg_otel ?Z) (pg_prom ?Z) (pg_reflection ?Z) (pg_warp ?Z)
       (rl_hash (pg_rpc ?Z)) (rl_keys (pg_rpc ?Z)) (pg_tonic ?Z) (pg_chain ?Z) sample_args ()
       fresh_globals None = Inr (guard, g, running)"
    "rn_grpc running = Inr server"
    by (auto simp: sample_program_def)
  then obtain config where stages: "load_config ?Z sample_args () = Inr config"
    "set_up_logging ?Z config = Inr (guard, g)" "spawn_servers ?Z config = Inr running"
    unfolding start_server_stages by (auto simp: and_then_Inr_iff map_err_Inr_iff)
  let ?n = "\<lparr>nd_process = stopped_servers\<lparr>main_task := Exited (Inr ())\<rparr>,
    nd_server = fresh_server (rn_metrics running)\<rparr>"
  have "process_of ?Z running (map Process sample_shutdown) ?n"
    using process_only_run [OF sample_shutdown_run] start(2) by (simp add: process_of_def started_node_def)
  from process_ends [OF stages this, of "Inr ()" random] show ?thesis by auto
qed

subsection \<open>Properties\<close>

text \<open>
  C35. Generating a key destroys no key. Whatever \<open>key generate\<close> returns, every keystore that could be
  read before is read after it with the same key. When it reports success, the new key is in the
  keystore of its directory, where no key could be read before. Where something is already at the
  path of the keystore, it fails and leaves the files as they are.
\<close>

theorem generate_preserves_keys:
  assumes "keystores_read_back (pg_host Z)" and "documented_files (pg_host Z)"
    and "main_returns Z (Key (Generate args)) random fs es (GenerateFinished r out fs')"
  shows "(\<forall>p k. read_from_keystore (pg_host Z) fs p = Inr k \<longrightarrow> read_from_keystore (pg_host Z) fs' p = Inr k) \<and>
    (r = Inr () \<longrightarrow>
       (\<exists>dir. attestor_dir (pg_host Z) (ga_keystore args) = Inr dir \<and>
          read_from_keystore (pg_host Z) fs' (path_join dir DEFAULT_KEYSTORE_NAME) = Inr random \<and>
          (\<forall>k. read_from_keystore (pg_host Z) fs (path_join dir DEFAULT_KEYSTORE_NAME) \<noteq> Inr k))) \<and>
    (\<forall>dir. attestor_dir (pg_host Z) (ga_keystore args) = Inr dir \<and> fs_exists (pg_host Z) fs dir \<and>
       fs_exists (pg_host Z) fs (path_join dir DEFAULT_KEYSTORE_NAME) \<longrightarrow> r \<noteq> Inr () \<and> fs' = fs)"
proof -
  obtain g where gen: "key_generate (pg_host Z) args random fs = (g, fs')" "r = map_ok (\<lambda>_. ()) g"
    using assms(3) by (auto simp: main_key_iff run_key_command_def split: prod.splits sum.splits)
  have "r \<noteq> Inr () \<and> fs' = fs" if "attestor_dir (pg_host Z) (ga_keystore args) = Inr dir"
    "fs_exists (pg_host Z) fs dir" "fs_exists (pg_host Z) fs (path_join dir DEFAULT_KEYSTORE_NAME)" for dir
    using key_generate_twice [OF that, of random] gen by auto
  moreover have "\<exists>dir. attestor_dir (pg_host Z) (ga_keystore args) = Inr dir \<and>
      read_from_keystore (pg_host Z) fs' (path_join dir DEFAULT_KEYSTORE_NAME) = Inr random \<and>
      (\<forall>k. read_from_keystore (pg_host Z) fs (path_join dir DEFAULT_KEYSTORE_NAME) \<noteq> Inr k)"
    if ok: "r = Inr ()"
  proof -
    from ok gen obtain o' where saved: "key_generate (pg_host Z) args random fs = (Inr o', fs')"
      by (cases g) auto
    from key_generate_saved [OF assms(1) this] key_generate_new [OF assms(2) this] show ?thesis by blast
  qed
  ultimately show ?thesis using key_generate_keeps [OF assms(2) gen(1)] by blast
qed

text \<open>A directory with a key in it, named by another path.\<close>

theorem generate_preserves_keys_witness:
  "\<exists>out fs'. main_returns (sample_program sample_keys_home)
       (Key (Generate \<lparr>ga_keystore = Some ''/keys''\<rparr>)) 9 [''/other'' \<mapsto> 5] []
       (GenerateFinished (Inr ()) out fs') \<and>
     read_from_keystore sample_keys_home fs' ''//other'' = Inr 5 \<and>
     read_from_keystore sample_keys_home fs' (path_join ''/keys'' DEFAULT_KEYSTORE_NAME) = Inr 9"
proof -
  let ?Z = "sample_program sample_keys_home"
  have host: "pg_host (sample_program E) = E" for E :: "('fs, u8) host"
    by (simp add: sample_program_def)
  have ok: "keystores_read_back (pg_host ?Z)" "documented_files (pg_host ?Z)"
    unfolding host by (simp_all add: sample_keys_home_def memory_host_documented)
  obtain out fs' where run: "main_returns ?Z (Key (Generate \<lparr>ga_keystore = Some ''/keys''\<rparr>)) 9
      [''/other'' \<mapsto> 5] [] (GenerateFinished (Inr ()) out fs')"
    by (simp add: main_key_iff run_key_command_def host key_generate_def attestor_dir_def
        sample_keys_home_def write_to_keystore_def path_join_def is_absolute_def
        DEFAULT_KEYSTORE_NAME_def Let_def)
  have "read_from_keystore sample_keys_home [''/other'' \<mapsto> 5] ''//other'' = Inr 5"
    by (simp add: read_from_keystore_def sample_keys_home_def)
  with generate_preserves_keys [OF ok run, unfolded host] run show ?thesis by (auto simp: attestor_dir_def)
qed

end
