(* ===== verification/Build_Script.thy ===== *)
theory Build_Script
  imports Host
begin

section \<open>The build script (\<open>build.rs\<close>)\<close>

text \<open>
  The build script has \<open>tonic_build\<close> generate the code of the two protocols and write their encoded
  descriptor sets; \<open>rpc/mod.rs\<close> embeds the one of the attestor, from which the reflection service is
  built. The code generator is the parameter \<open>build_lib\<close>.
\<close>

subsection \<open>The code generator\<close>

record builder =
  bd_descriptor_path :: "string option"
  bd_build_client :: bool
  bd_build_server :: bool

text \<open>\<open>tonic_build::configure\<close>: by default both sides are generated.\<close>

definition configure :: builder where
  "configure = \<lparr>bd_descriptor_path = None, bd_build_client = True, bd_build_server = True\<rparr>"

record 'fs build_lib =
  compile_protos :: "builder \<Rightarrow> string list \<Rightarrow> string list \<Rightarrow> 'fs \<Rightarrow> (string + unit) \<times> 'fs"
    \<comment> \<open>the files and where their imports are searched\<close>
  read_bytes :: "'fs \<Rightarrow> string \<Rightarrow> bytes option"
  descriptor_set :: "string list \<Rightarrow> bytes" \<comment> \<open>encoded, of the files\<close>

text \<open>
  A successful run writes the descriptor set of its files to the path it was given, and to no other
  file with the extension \<open>bin\<close>.
\<close>

definition documented_build :: "'fs build_lib \<Rightarrow> bool" where
  "documented_build B \<longleftrightarrow>
     (\<forall>b protos includes fs fs' path.
        compile_protos B b protos includes fs = (Inr (), fs') \<and> bd_descriptor_path b = Some path \<longrightarrow>
        read_bytes B fs' path = Some (descriptor_set B protos) \<and>
        (\<forall>p. p \<noteq> path \<and> suffix ''.bin'' p \<longrightarrow> read_bytes B fs' p = read_bytes B fs p))"

subsection \<open>The script\<close>

definition attestor_protos :: "string list" where
  "attestor_protos = [''../../proto/ibc_attestor/ibc_attestor.proto'']"

definition signer_protos :: "string list" where
  "signer_protos = [''../../proto/signer/signerservice.proto'']"

definition build_script :: "('fs, 'key) host \<Rightarrow> 'fs build_lib \<Rightarrow> 'fs \<Rightarrow> (string + unit) \<times> 'fs" where
  "build_script E B fs =
     (case expect ''OUT_DIR environment variable must be set by cargo during build''
             (ok_or (env_var E ''OUT_DIR'') ''NotPresent'') of
        Inl e \<Rightarrow> (Inl e, fs)
      | Inr out_dir \<Rightarrow>
          (let attestor_descriptor_path = path_join out_dir ''ibc_attestor_descriptor.bin''
           in case compile_protos B
                     (configure\<lparr>bd_descriptor_path := Some attestor_descriptor_path, bd_build_server := True\<rparr>)
                     attestor_protos [''../../proto''] fs of
                (Inl e, fs) \<Rightarrow> (Inl e, fs)
              | (Inr _, fs) \<Rightarrow>
                  (let signer_descriptor_path = path_join out_dir ''signer_descriptor.bin''
                   in compile_protos B
                        (configure\<lparr>bd_descriptor_path := Some signer_descriptor_path,
                           bd_build_client := True, bd_build_server := False\<rparr>)
                        signer_protos [''../../proto''] fs)))"

text \<open>
  \<open>include_file_descriptor_set!\<close> embeds the file of that name in the output directory.
\<close>

definition include_file_descriptor_set :: "'fs build_lib \<Rightarrow> string \<Rightarrow> 'fs \<Rightarrow> string \<Rightarrow> bytes option" where
  "include_file_descriptor_set B out_dir fs name = read_bytes B fs (path_join out_dir (name @ ''.bin''))"

definition FILE_DESCRIPTOR_SET :: "'fs build_lib \<Rightarrow> string \<Rightarrow> 'fs \<Rightarrow> bytes option" where
  "FILE_DESCRIPTOR_SET B out_dir fs =
     include_file_descriptor_set B out_dir fs ''ibc_attestor_descriptor''"

subsection \<open>What is embedded\<close>

lemma path_join_relative:
  "hd q \<noteq> CHR ''/'' \<Longrightarrow> \<exists>base. \<forall>q. hd q \<noteq> CHR ''/'' \<longrightarrow> path_join p q = base @ q"
  by (auto simp: path_join_def is_absolute_def intro: exI [of _ p] exI [of _ "p @ ''/''"])

text \<open>
  When the build has succeeded, the server embeds the descriptor set of its own protocol: the names
  agree, and the second run of the generator does not overwrite the first.
\<close>

lemma build_embeds_descriptors:
  assumes "documented_build B" and "env_var E ''OUT_DIR'' = Some out_dir"
    and "build_script E B fs = (Inr (), fs')"
  shows "FILE_DESCRIPTOR_SET B out_dir fs' = Some (descriptor_set B attestor_protos) \<and>
    include_file_descriptor_set B out_dir fs' ''signer_descriptor'' = Some (descriptor_set B signer_protos)"
proof -
  obtain base where base: "\<And>q. hd q \<noteq> CHR ''/'' \<Longrightarrow> path_join out_dir q = base @ q"
    using path_join_relative [of "''x''" out_dir] by auto
  let ?path = "base @ ''ibc_attestor_descriptor.bin''" and ?other = "base @ ''signer_descriptor.bin''"
  from assms(2,3) obtain fs1 where runs:
    "compile_protos B (configure\<lparr>bd_descriptor_path := Some ?path, bd_build_server := True\<rparr>)
       attestor_protos [''../../proto''] fs = (Inr (), fs1)"
    "compile_protos B (configure\<lparr>bd_descriptor_path := Some ?other, bd_build_client := True,
       bd_build_server := False\<rparr>) signer_protos [''../../proto''] fs1 = (Inr (), fs')"
    by (auto simp: build_script_def base Let_def split: prod.splits sum.splits)
  note generated = assms(1) [unfolded documented_build_def, rule_format]
  have "read_bytes B fs1 ?path = Some (descriptor_set B attestor_protos)"
    using generated [OF conjI [OF runs(1)], THEN conjunct1] by simp
  moreover have "read_bytes B fs' ?path = read_bytes B fs1 ?path"
    using generated [OF conjI [OF runs(2)], THEN conjunct2, rule_format] by (simp add: suffix_def)
  moreover have "read_bytes B fs' ?other = Some (descriptor_set B signer_protos)"
    using generated [OF conjI [OF runs(2)], THEN conjunct1] by simp
  ultimately have "read_bytes B fs' ?path = Some (descriptor_set B attestor_protos)"
    "read_bytes B fs' ?other = Some (descriptor_set B signer_protos)"
    by simp_all
  then show ?thesis
    by (simp add: FILE_DESCRIPTOR_SET_def include_file_descriptor_set_def base)
qed

definition sample_build :: "(string \<Rightarrow> bytes option) build_lib" where
  "sample_build = \<lparr>compile_protos = (\<lambda>b protos includes fs.
       (Inr (), case bd_descriptor_path b of None \<Rightarrow> fs | Some p \<Rightarrow> fs(p \<mapsto> [of_nat (length protos)]))),
     read_bytes = (\<lambda>fs p. fs p), descriptor_set = (\<lambda>protos. [of_nat (length protos)])\<rparr>"

lemma documented_build_sample: "documented_build sample_build"
  by (auto simp: documented_build_def sample_build_def)

end
