(* ===== verification/Unit_Tests.thy ===== *)
theory Unit_Tests
  imports Samples Host
begin

unbundle bit_operations_syntax

section \<open>The unit tests of the repository\<close>

text \<open>
  The test functions of \<open>rpc/attestor.rs\<close>, \<open>attestation.rs\<close>, \<open>attestation_payload.rs\<close>, \<open>error.rs\<close>,
  \<open>metrics.rs\<close>, \<open>signer/local.rs\<close> and of the \<open>ethereum-keys\<close> library, as programs whose result is
  whether every assertion held (a failing \<open>unwrap\<close> or \<open>expect\<close> is a failed assertion). A random key
  is a parameter, as are the foreign functions. What a test shows of the attestor holds for all of them
  that behave as documented. Some tests also try the foreign cryptography: that a signature does not
  recover to its signer from another message, that two hashes differ. Their outcome is a matter of
  chance in the values, not of documented behaviour: they are modelled, and nothing is claimed of them,
  or that they pass exactly when the two values differ.
\<close>

definition passes :: "bool io \<Rightarrow> bool" where
  "passes test \<longleftrightarrow> (\<forall>t ok. exec test t ok \<longrightarrow> ok)"

lemma passes_Ret [simp]: "passes (Ret b) \<longleftrightarrow> b"
  by (simp add: passes_def)

lemma passes_fmap [simp]: "passes (fmap f m) \<longleftrightarrow> (\<forall>t r. exec m t r \<longrightarrow> f r)"
  by (auto simp: passes_def exec_fmap)

lemma passes_Emit [simp]: "passes (Emit x m) \<longleftrightarrow> passes m"
  by (auto simp: passes_def exec_simps)

text \<open>The bytes of a literal \<open>b"..."\<close>.\<close>

definition ascii :: "string \<Rightarrow> bytes" where
  "ascii s = map of_char s"

subsection \<open>\<open>rpc/attestor.rs\<close>\<close>

fun is_block_not_finalized :: "attestor_error + 'a \<Rightarrow> bool" where
  "is_block_not_finalized (Inl BlockNotFinalized) = True"
| "is_block_not_finalized _ = False"

fun is_commitment_not_found :: "attestor_error + 'a \<Rightarrow> bool" where
  "is_commitment_not_found (Inl (CommitmentNotFound _ _ _)) = True"
| "is_commitment_not_found _ = False"

fun is_invalid_commitment :: "attestor_error + 'a \<Rightarrow> bool" where
  "is_invalid_commitment (Inl (InvalidCommitment _)) = True"
| "is_invalid_commitment _ = False"

definition validate_height_accepts_finalized_height :: "bool io" where
  "validate_height_accepts_finalized_height =
     (let adapter = with_finalized_height 10
      in fmap is_ok (validate_height (test_attestation_adapter adapter) 10))"

definition validate_height_rejects_future_height :: "bool io" where
  "validate_height_rejects_future_height =
     (let adapter = with_finalized_height 10
      in fmap is_block_not_finalized (validate_height (test_attestation_adapter adapter) 11))"

definition handle_packet_commitment_succeeds_when_commitment_matches ::
  "hash_lib \<Rightarrow> ibc_lib \<Rightarrow> bool io" where
  "handle_packet_commitment_succeeds_when_commitment_matches H X =
     (let packet = test_packet 7;
          path = commitment_path X packet
      in case array32 (packet_commitment X packet) of
           None \<Rightarrow> Ret False
         | Some expected_commitment \<Rightarrow>
             let adapter = insert_commitment (sourceClient packet) 50 (sequence packet) path Packet
                   (Some expected_commitment) (with_finalized_height 100)
             in fmap is_ok
                  (handle_packet_commitment H X (test_attestation_adapter adapter) 50 packet Packet))"

definition handle_packet_commitment_errors_when_missing :: "hash_lib \<Rightarrow> ibc_lib \<Rightarrow> bool io" where
  "handle_packet_commitment_errors_when_missing H X =
     (let packet = test_packet 8;
          adapter = with_finalized_height 100
      in fmap is_commitment_not_found
           (handle_packet_commitment H X (test_attestation_adapter adapter) 50 packet Packet))"

definition handle_packet_commitment_errors_when_mismatched :: "hash_lib \<Rightarrow> ibc_lib \<Rightarrow> bool io" where
  "handle_packet_commitment_errors_when_mismatched H X =
     (let packet = test_packet 9;
          path = commitment_path X packet;
          different_commitment = replicate 32 9;
          adapter = insert_commitment (sourceClient packet) 50 (sequence packet) path Packet
            (Some different_commitment) (with_finalized_height 100)
      in fmap is_invalid_commitment
           (handle_packet_commitment H X (test_attestation_adapter adapter) 50 packet Packet))"

definition handle_ack_commitment_succeeds_when_present :: "hash_lib \<Rightarrow> ibc_lib \<Rightarrow> bool io" where
  "handle_ack_commitment_succeeds_when_present H X =
     (let packet = test_packet 10;
          path = ack_commitment_path X packet;
          adapter = insert_commitment (destClient packet) 50 (sequence packet) path Ack
            (Some (replicate 32 7)) (with_finalized_height 100)
      in fmap is_ok (handle_ack_commitment H X (test_attestation_adapter adapter) 50 packet Ack))"

definition handle_ack_commitment_errors_when_missing :: "hash_lib \<Rightarrow> ibc_lib \<Rightarrow> bool io" where
  "handle_ack_commitment_errors_when_missing H X =
     (let packet = test_packet 11;
          adapter = with_finalized_height 100
      in fmap is_commitment_not_found
           (handle_ack_commitment H X (test_attestation_adapter adapter) 50 packet Ack))"

definition handle_receipt_commitment_accepts_none_as_zero :: "hash_lib \<Rightarrow> ibc_lib \<Rightarrow> bool io" where
  "handle_receipt_commitment_accepts_none_as_zero H X =
     (let packet = test_packet 12;
          adapter = with_finalized_height 100
      in fmap is_ok
           (handle_receipt_commitment H X (test_attestation_adapter adapter) 50 packet Receipt))"

definition handle_receipt_commitment_rejects_non_zero_commitment ::
  "hash_lib \<Rightarrow> ibc_lib \<Rightarrow> bool io" where
  "handle_receipt_commitment_rejects_non_zero_commitment H X =
     (let packet = test_packet 13;
          path = receipt_commitment_path X packet;
          adapter = insert_commitment (destClient packet) 50 (sequence packet) path Receipt
            (Some (replicate 32 1)) (with_finalized_height 100)
      in fmap is_invalid_commitment
           (handle_receipt_commitment H X (test_attestation_adapter adapter) 50 packet Receipt))"

text \<open>\<open>abi_encode\<close> of a packet is the parameter \<open>encode\<close> here; only the tests encode packets.\<close>

definition create_packets_attestation_succeeds_when_all_packets_valid ::
  "nat list \<Rightarrow> hash_lib \<Rightarrow> ibc_lib \<Rightarrow> (packet \<Rightarrow> bytes) \<Rightarrow> bool io" where
  "create_packets_attestation_succeeds_when_all_packets_valid schedule H X encode =
     (let packet_a = test_packet 20;
          packet_b = test_packet 21
      in case (array32 (packet_commitment X packet_a), array32 (packet_commitment X packet_b),
               packets_try_from_abi_encoded X [encode packet_a, encode packet_b]) of
           (Some commitment_a, Some commitment_b, Inr packets) \<Rightarrow>
             let adapter = insert_commitment (sourceClient packet_b) 60 (sequence packet_b)
                   (commitment_path X packet_b) Packet (Some commitment_b)
                   (insert_commitment (sourceClient packet_a) 60 (sequence packet_a)
                     (commitment_path X packet_a) Packet (Some commitment_a)
                     (with_finalized_height 100))
             in fmap (\<lambda>result. case result of
                      Inr pa \<Rightarrow> length (pa_packets pa) = 2 | Inl _ \<Rightarrow> False)
                  (create_packets_attestation schedule H X (test_attestation_adapter adapter)
                    packets 60 Packet)
         | _ \<Rightarrow> Ret False)"

definition create_packets_attestation_errors_if_any_packet_is_invalid ::
  "nat list \<Rightarrow> hash_lib \<Rightarrow> ibc_lib \<Rightarrow> (packet \<Rightarrow> bytes) \<Rightarrow> bool io" where
  "create_packets_attestation_errors_if_any_packet_is_invalid schedule H X encode =
     (let packet_a = test_packet 30;
          packet_b = test_packet 31;
          bad_commitment_b = replicate 32 0xFF
      in case (array32 (packet_commitment X packet_a),
               packets_try_from_abi_encoded X [encode packet_a, encode packet_b]) of
           (Some commitment_a, Inr packets) \<Rightarrow>
             let adapter = insert_commitment (sourceClient packet_b) 70 (sequence packet_b)
                   (commitment_path X packet_b) Packet (Some bad_commitment_b)
                   (insert_commitment (sourceClient packet_a) 70 (sequence packet_a)
                     (commitment_path X packet_a) Packet (Some commitment_a)
                     (with_finalized_height 100))
             in fmap is_invalid_commitment
                  (create_packets_attestation schedule H X (test_attestation_adapter adapter)
                    packets 70 Packet)
         | _ \<Rightarrow> Ret False)"

text \<open>
  What the tests rely on: a packet decodes to what was encoded, and commitments are 32 bytes long.
\<close>

definition test_abi :: "ibc_lib \<Rightarrow> (packet \<Rightarrow> bytes) \<Rightarrow> bool" where
  "test_abi X encode \<longleftrightarrow>
     (\<forall>n \<in> {7, 20, 21, 30, 31}. abi_decode_packet X (encode (test_packet n)) = Inr (test_packet n) \<and>
        length (packet_commitment X (test_packet n)) = 32)"

text \<open>The tests whose outcome does not depend on the value of a commitment.\<close>

definition service_tests ::
  "nat list \<Rightarrow> hash_lib \<Rightarrow> ibc_lib \<Rightarrow> (packet \<Rightarrow> bytes) \<Rightarrow> bool io list" where
  "service_tests schedule H X encode =
     [validate_height_accepts_finalized_height,
      validate_height_rejects_future_height,
      handle_packet_commitment_succeeds_when_commitment_matches H X,
      handle_packet_commitment_errors_when_missing H X,
      handle_ack_commitment_succeeds_when_present H X,
      handle_ack_commitment_errors_when_missing H X,
      handle_receipt_commitment_accepts_none_as_zero H X,
      handle_receipt_commitment_rejects_non_zero_commitment H X,
      create_packets_attestation_succeeds_when_all_packets_valid schedule H X encode]"

lemma height_tests:
  "passes validate_height_accepts_finalized_height" "passes validate_height_rejects_future_height"
  by (simp_all add: validate_height_accepts_finalized_height_def
      validate_height_rejects_future_height_def validate_height_def with_finalized_height_def
      fmap_def bind_ok_def)

lemmas test_table = test_get_commitment_def insert_commitment_def with_finalized_height_def

lemma handler_tests:
  assumes "test_abi X encode"
  shows "passes (handle_packet_commitment_succeeds_when_commitment_matches H X)"
    and "passes (handle_packet_commitment_errors_when_missing H X)"
    and "passes (handle_packet_commitment_errors_when_mismatched H X) \<longleftrightarrow>
      packet_commitment X (test_packet 9) \<noteq> replicate 32 9"
    and "passes (handle_ack_commitment_succeeds_when_present H X)"
    and "passes (handle_ack_commitment_errors_when_missing H X)"
    and "passes (handle_receipt_commitment_accepts_none_as_zero H X)"
    and "passes (handle_receipt_commitment_rejects_non_zero_commitment H X)"
  using assms
  by (simp_all add: test_abi_def array32_def test_table handler_defs Let_def fmap_def bind_ok_def
      handle_packet_commitment_succeeds_when_commitment_matches_def
      handle_packet_commitment_errors_when_missing_def
      handle_packet_commitment_errors_when_mismatched_def
      handle_ack_commitment_succeeds_when_present_def
      handle_ack_commitment_errors_when_missing_def
      handle_receipt_commitment_accepts_none_as_zero_def
      handle_receipt_commitment_rejects_non_zero_commitment_def)

text \<open>The packets of a request are all looked up in the table of the adapter.\<close>

lemma packets_test:
  "(\<forall>t r. exec (create_packets_attestation schedule H X (test_attestation_adapter self) ps height ct) t r
      \<longrightarrow> f r) \<longleftrightarrow>
    f (map_ok (\<lambda>pcs. \<lparr>pa_height = height, pa_packets = pcs\<rparr>)
       (collect_result (map (judged H X height ct (table_answer X self height ct)) ps)))"
  using exec_create_packets_answers [OF answers_table] create_packets_answers_ex [OF answers_table]
  by metis

lemma packets_tests:
  assumes "test_abi X encode"
  shows "passes (create_packets_attestation_succeeds_when_all_packets_valid schedule H X encode)"
    and "passes (create_packets_attestation_errors_if_any_packet_is_invalid schedule H X encode) \<longleftrightarrow>
      packet_commitment X (test_packet 31) \<noteq> replicate 32 0xFF"
  using assms
  by (simp_all add: test_abi_def array32_def packets_try_from_abi_encoded_def packets_test Let_def
      create_packets_attestation_succeeds_when_all_packets_valid_def
      create_packets_attestation_errors_if_any_packet_is_invalid_def
      judged_def table_answer_def verdict_def insert_commitment_def with_finalized_height_def
      test_packet_def)

lemma service_tests_pass: "test_abi X encode \<Longrightarrow> list_all passes (service_tests schedule H X encode)"
  by (simp add: service_tests_def height_tests handler_tests packets_tests)

subsection \<open>\<open>attestation_payload.rs\<close>\<close>

definition as_byte_returns_expected_values :: bool where
  "as_byte_returns_expected_values \<longleftrightarrow>
     as_byte StateAttestation = 0x01 \<and> as_byte PacketAttestation = 0x02"

definition tagged_signing_input_is_33_bytes :: "hash_lib \<Rightarrow> bool" where
  "tagged_signing_input_is_33_bytes H \<longleftrightarrow>
     (let tagged = new_payload (ascii ''some attestation data'') StateAttestation;
          msg = tagged_signing_input H tagged
      in length msg = 33 \<and> msg ! 0 = as_byte StateAttestation)"

definition tagged_signing_input_starts_with_domain_byte :: "hash_lib \<Rightarrow> bool" where
  "tagged_signing_input_starts_with_domain_byte H \<longleftrightarrow>
     tagged_signing_input H (new_payload (ascii ''data'') StateAttestation) ! 0 = 0x01 \<and>
     tagged_signing_input H (new_payload (ascii ''data'') PacketAttestation) ! 0 = 0x02"

definition tagged_signing_input_suffix_is_sha256_of_data :: "hash_lib \<Rightarrow> bool" where
  "tagged_signing_input_suffix_is_sha256_of_data H \<longleftrightarrow>
     (let data = ascii ''test data'';
          expected_hash = sha256 H data;
          msg = tagged_signing_input H (new_payload data StateAttestation)
      in drop 1 msg = expected_hash)"

definition different_domains_produce_different_tagged_signing_inputs :: "hash_lib \<Rightarrow> bool" where
  "different_domains_produce_different_tagged_signing_inputs H \<longleftrightarrow>
     (let data = ascii ''identical data'';
          state_msg = tagged_signing_input H (new_payload data StateAttestation);
          packet_msg = tagged_signing_input H (new_payload data PacketAttestation)
      in state_msg \<noteq> packet_msg)"

definition same_domain_same_data_is_deterministic :: "hash_lib \<Rightarrow> bool" where
  "same_domain_same_data_is_deterministic H \<longleftrightarrow>
     (let a = tagged_signing_input H (new_payload (ascii ''deterministic check'') StateAttestation);
          b = tagged_signing_input H (new_payload (ascii ''deterministic check'') StateAttestation)
      in a = b)"

definition different_data_produces_different_tagged_signing_inputs :: "hash_lib \<Rightarrow> bool" where
  "different_data_produces_different_tagged_signing_inputs H \<longleftrightarrow>
     (let a = tagged_signing_input H (new_payload (ascii ''data-a'') StateAttestation);
          b = tagged_signing_input H (new_payload (ascii ''data-b'') StateAttestation)
      in a \<noteq> b)"

definition domain_accessor_returns_correct_variant :: bool where
  "domain_accessor_returns_correct_variant \<longleftrightarrow>
     attestation_type (new_payload [] StateAttestation) = StateAttestation \<and>
     attestation_type (new_payload [] PacketAttestation) = PacketAttestation"

definition data_accessor_returns_original_bytes :: bool where
  "data_accessor_returns_original_bytes \<longleftrightarrow>
     (let raw = ascii ''original bytes'';
          tagged = new_payload raw StateAttestation
      in data tagged = raw \<and> into_data tagged = raw)"

definition domain_tagged_digest_matches_manual_computation :: "hash_lib \<Rightarrow> bool" where
  "domain_tagged_digest_matches_manual_computation H \<longleftrightarrow>
     (let data = ascii ''verify digest'';
          tagged = new_payload data StateAttestation;
          msg = tagged_signing_input H tagged;
          inner = sha256 H data;
          expected_input = [as_byte StateAttestation] @ inner;
          expected_digest = sha256 H expected_input;
          actual_digest = sha256 H msg
      in actual_digest = expected_digest)"

definition payload_tests :: "hash_lib \<Rightarrow> bool list" where
  "payload_tests H =
     [as_byte_returns_expected_values,
      tagged_signing_input_is_33_bytes H,
      tagged_signing_input_starts_with_domain_byte H,
      tagged_signing_input_suffix_is_sha256_of_data H,
      different_domains_produce_different_tagged_signing_inputs H,
      same_domain_same_data_is_deterministic H,
      domain_accessor_returns_correct_variant,
      data_accessor_returns_original_bytes,
      domain_tagged_digest_matches_manual_computation H]"

lemmas payload_test_defs = as_byte_returns_expected_values_def tagged_signing_input_is_33_bytes_def
  tagged_signing_input_starts_with_domain_byte_def tagged_signing_input_suffix_is_sha256_of_data_def
  different_domains_produce_different_tagged_signing_inputs_def
  same_domain_same_data_is_deterministic_def
  domain_accessor_returns_correct_variant_def data_accessor_returns_original_bytes_def
  domain_tagged_digest_matches_manual_computation_def

lemma payload_tests_pass:
  assumes "sha256_32_bytes H"
  shows "list_all id (payload_tests H)"
  using assms
  by (simp add: payload_tests_def payload_test_defs tagged_signing_input_def new_payload_def
      into_data_def sha256_32_bytes_def Let_def)

lemma different_data_iff:
  "different_data_produces_different_tagged_signing_inputs H \<longleftrightarrow>
     sha256 H (ascii ''data-a'') \<noteq> sha256 H (ascii ''data-b'')"
  by (simp add: different_data_produces_different_tagged_signing_inputs_def
      tagged_signing_input_eq_iff new_payload_def)

subsection \<open>\<open>error.rs\<close> and \<open>metrics.rs\<close>\<close>

definition block_not_finalized_maps_to_failed_precondition :: bool where
  "block_not_finalized_maps_to_failed_precondition \<longleftrightarrow>
     status_code (status_of_attestor_error BlockNotFinalized) = FailedPrecondition"

definition commitment_not_found_maps_to_not_found :: bool where
  "commitment_not_found_maps_to_not_found \<longleftrightarrow>
     status_code (status_of_attestor_error (CommitmentNotFound ''client-a'' 1 10)) = NotFound"

definition invalid_commitment_maps_to_invalid_argument :: bool where
  "invalid_commitment_maps_to_invalid_argument \<longleftrightarrow>
     status_code (status_of_attestor_error (InvalidCommitment ''mismatch'')) = InvalidArgument"

definition signer_errors_map_to_internal :: bool where
  "signer_errors_map_to_internal \<longleftrightarrow>
     status_code (status_of_attestor_error (SignerError ''boom'')) = Internal \<and>
     status_code (status_of_attestor_error (SignerInitError (SignerConfigError ''bad cfg''))) = Internal"

definition code_label_covers_common_codes :: "(code \<Rightarrow> string) \<Rightarrow> bool" where
  "code_label_covers_common_codes code_debug \<longleftrightarrow>
     code_label code_debug Ok = ''ok'' \<and>
     code_label code_debug Internal = ''internal'' \<and>
     code_label code_debug FailedPrecondition = ''failed_precondition'' \<and>
     code_label code_debug NotFound = ''not_found''"

definition pascal_to_snake_handles_typical_inputs :: bool where
  "pascal_to_snake_handles_typical_inputs \<longleftrightarrow>
     pascal_to_snake ''LatestHeight'' = ''latest_height'' \<and>
     pascal_to_snake ''ServerReflectionInfo'' = ''server_reflection_info'' \<and>
     pascal_to_snake ''Ok'' = ''ok''"

definition error_and_label_tests :: "bool list" where
  "error_and_label_tests =
     [block_not_finalized_maps_to_failed_precondition,
      commitment_not_found_maps_to_not_found,
      invalid_commitment_maps_to_invalid_argument,
      signer_errors_map_to_internal,
      code_label_covers_common_codes variant_name,
      pascal_to_snake_handles_typical_inputs]"

lemmas error_and_label_test_defs = block_not_finalized_maps_to_failed_precondition_def
  commitment_not_found_maps_to_not_found_def invalid_commitment_maps_to_invalid_argument_def
  signer_errors_map_to_internal_def code_label_covers_common_codes_def
  pascal_to_snake_handles_typical_inputs_def

lemma error_and_label_tests_pass: "list_all id error_and_label_tests"
  by (simp add: error_and_label_tests_def error_and_label_test_defs code_label_def
      pascal_to_snake_def is_upper_def to_lower_def char_of_eq_iff take_bit_eq_mod Let_def
      status_of_attestor_error.simps)

subsection \<open>\<open>attestation.rs\<close> and \<open>signer/local.rs\<close>\<close>

text \<open>\<open>unwrap\<close> of a result, on which the rest of the test depends.\<close>

definition unwrap :: "'e + 'a \<Rightarrow> ('a \<Rightarrow> bool) \<Rightarrow> bool" where
  "unwrap r test = (case r of Inl _ \<Rightarrow> False | Inr x \<Rightarrow> test x)"

lemma unwrap_simps [simp]: "unwrap (Inl e) test = False" "unwrap (Inr x) test = test x"
  by (simp_all add: unwrap_def)

text \<open>A local signer with a random key signing a payload.\<close>

abbreviation test_sign ::
  "hash_lib \<Rightarrow> ('key, 'sig) key_lib \<Rightarrow> 'key \<Rightarrow> u64 \<Rightarrow> u64 option \<Rightarrow> attestation_payload \<Rightarrow>
    (attestor_error + signed_attestation) io" where
  "test_sign H K key height timestamp payload \<equiv>
     sign_attestation H K height timestamp payload (local_sign H K (new_local_signer key))"

definition sign_attestation_produces_65_byte_signature ::
  "hash_lib \<Rightarrow> ('key, 'sig) key_lib \<Rightarrow> 'key \<Rightarrow> bool io" where
  "sign_attestation_produces_65_byte_signature H K key =
     (let tagged = new_payload (ascii ''data'') StateAttestation
      in fmap (\<lambda>result. unwrap result (\<lambda>result. length (sa_signature result) = 65))
           (test_sign H K key 100 (Some 1700000000) tagged))"

definition sign_attestation_preserves_original_attested_data ::
  "hash_lib \<Rightarrow> ('key, 'sig) key_lib \<Rightarrow> 'key \<Rightarrow> bool io" where
  "sign_attestation_preserves_original_attested_data H K key =
     (let original_data = ascii ''original abi-encoded data'';
          tagged = new_payload original_data PacketAttestation
      in fmap (\<lambda>result. unwrap result (\<lambda>result. sa_attested_data result = original_data))
           (test_sign H K key 42 None tagged))"

definition signature_recovers_to_signer_address_with_correct_domain ::
  "hash_lib \<Rightarrow> ('key, 'sig) key_lib \<Rightarrow> 'key \<Rightarrow> bool io" where
  "signature_recovers_to_signer_address_with_correct_domain H K key =
     (let expected_address = key_address K key;
          data = ascii ''test attestation'';
          tagged = new_payload data StateAttestation
      in fmap (\<lambda>result. unwrap result (\<lambda>result.
           let verify_msg = tagged_signing_input H (new_payload data StateAttestation)
           in unwrap (recover_address H K verify_msg (sa_signature result))
                (\<lambda>recovered. recovered = expected_address)))
           (test_sign H K key 100 (Some 123) tagged))"

definition signature_does_not_recover_with_wrong_domain ::
  "hash_lib \<Rightarrow> ('key, 'sig) key_lib \<Rightarrow> 'key \<Rightarrow> bool io" where
  "signature_does_not_recover_with_wrong_domain H K key =
     (let expected_address = key_address K key;
          data = ascii ''cross-domain replay test'';
          tagged = new_payload data StateAttestation
      in fmap (\<lambda>result. unwrap result (\<lambda>result.
           let wrong_msg = tagged_signing_input H (new_payload data PacketAttestation)
           in unwrap (recover_address H K wrong_msg (sa_signature result))
                (\<lambda>recovered. recovered \<noteq> expected_address)))
           (test_sign H K key 100 (Some 123) tagged))"

definition signature_does_not_recover_from_raw_data ::
  "hash_lib \<Rightarrow> ('key, 'sig) key_lib \<Rightarrow> 'key \<Rightarrow> bool io" where
  "signature_does_not_recover_from_raw_data H K key =
     (let expected_address = key_address K key;
          data = ascii ''raw data replay test'';
          tagged = new_payload data PacketAttestation
      in fmap (\<lambda>result. unwrap result (\<lambda>result.
           unwrap (recover_address H K data (sa_signature result))
             (\<lambda>recovered. recovered \<noteq> expected_address)))
           (test_sign H K key 100 None tagged))"

definition state_and_packet_signatures_differ_for_same_data ::
  "hash_lib \<Rightarrow> ('key, 'sig) key_lib \<Rightarrow> 'key \<Rightarrow> bool io" where
  "state_and_packet_signatures_differ_for_same_data H K key =
     (let data = ascii ''same data for both domains''
      in bind (test_sign H K key 100 (Some 123) (new_payload data StateAttestation))
           (\<lambda>state_result.
         fmap (\<lambda>packet_result. unwrap state_result (\<lambda>s. unwrap packet_result (\<lambda>p.
             sa_signature s \<noteq> sa_signature p)))
           (test_sign H K key 100 None (new_payload data PacketAttestation))))"

definition sign_attestation_is_deterministic ::
  "hash_lib \<Rightarrow> ('key, 'sig) key_lib \<Rightarrow> 'key \<Rightarrow> bool io" where
  "sign_attestation_is_deterministic H K key =
     bind (test_sign H K key 1 None (new_payload (ascii ''deterministic'') StateAttestation)) (\<lambda>r1.
     fmap (\<lambda>r2. unwrap r1 (\<lambda>r1. unwrap r2 (\<lambda>r2. sa_signature r1 = sa_signature r2)))
       (test_sign H K key 1 None (new_payload (ascii ''deterministic'') StateAttestation)))"

definition cross_domain_replay_attack_fails ::
  "hash_lib \<Rightarrow> ('key, 'sig) key_lib \<Rightarrow> 'key \<Rightarrow> bool io" where
  "cross_domain_replay_attack_fails H K key =
     (let expected_address = key_address K key;
          packet_data = ascii ''packet attestation abi bytes''
      in fmap (\<lambda>packet_signed. unwrap packet_signed (\<lambda>packet_signed.
           let state_msg = tagged_signing_input H (new_payload packet_data StateAttestation)
           in unwrap (recover_address H K state_msg (sa_signature packet_signed))
                (\<lambda>recovered. recovered \<noteq> expected_address)))
           (test_sign H K key 100 None (new_payload packet_data PacketAttestation)))"

definition test_local_signer_sign :: "hash_lib \<Rightarrow> ('key, 'sig) key_lib \<Rightarrow> 'key \<Rightarrow> bool io" where
  "test_local_signer_sign H K key =
     (let signer = new_local_signer key;
          message = ascii ''test message''
      in fmap (\<lambda>signature. unwrap signature (\<lambda>sig. length (sig_as_bytes K sig) = 65))
           (local_sign H K signer message))"

definition test_local_signer_deterministic ::
  "hash_lib \<Rightarrow> ('key, 'sig) key_lib \<Rightarrow> 'key \<Rightarrow> bool io" where
  "test_local_signer_deterministic H K key =
     (let signer = new_local_signer key;
          message = ascii ''test message''
      in bind (local_sign H K signer message) (\<lambda>sig1.
         fmap (\<lambda>sig2. unwrap sig1 (\<lambda>s1. unwrap sig2 (\<lambda>s2. s1 = s2)))
           (local_sign H K signer message)))"

text \<open>The tests of what the attestor does; the others try that ECDSA cannot be forged.\<close>

definition signing_tests :: "hash_lib \<Rightarrow> ('key, 'sig) key_lib \<Rightarrow> 'key \<Rightarrow> bool io list" where
  "signing_tests H K key =
     [sign_attestation_produces_65_byte_signature H K key,
      sign_attestation_preserves_original_attested_data H K key,
      signature_recovers_to_signer_address_with_correct_domain H K key,
      sign_attestation_is_deterministic H K key,
      test_local_signer_sign H K key,
      test_local_signer_deterministic H K key]"

text \<open>What the tests rely on: signing with a key succeeds.\<close>

definition signs_with :: "('key, 'sig) key_lib \<Rightarrow> 'key \<Rightarrow> bool" where
  "signs_with K key \<longleftrightarrow> (\<forall>digest. \<exists>sig. sign_hash_sync K key digest = Inr sig)"

lemma data_new_payload: "data (new_payload d ty) = d"
  by (simp add: new_payload_def)

lemma test_sign_eq:
  assumes "keys_sign H K key (tagged_signing_input H payload) = Inr sig"
  shows "test_sign H K key height timestamp payload =
    Ret (Inr \<lparr>sa_height = height, sa_timestamp = timestamp, sa_attested_data = data payload,
              sa_signature = sig_as_bytes K sig\<rparr>)"
  using assms
  by (simp add: sign_attestation_def local_sign_def new_local_signer_def into_data_def bind_ok_def
      fmap_def Let_def)

lemma signs_with_ex: "signs_with K key \<Longrightarrow> \<exists>sig. keys_sign H K key m = Inr sig"
  by (simp add: signs_with_def keys_sign_def Let_def)

lemma plain_signing_tests:
  assumes "honest_signatures K" and "signs_with K key"
  shows "passes (sign_attestation_produces_65_byte_signature H K key)"
    and "passes (sign_attestation_preserves_original_attested_data H K key)"
    and "passes (signature_recovers_to_signer_address_with_correct_domain H K key)"
    and "passes (sign_attestation_is_deterministic H K key)"
    and "passes (test_local_signer_sign H K key)"
    and "passes (test_local_signer_deterministic H K key)"
proof -
  note sign = signs_with_ex [OF assms(2), of H]
  have len: "length (sig_as_bytes K sig) = 65" for sig
    using assms(1) by (simp add: honest_signatures_def)
  obtain s1 where s1: "keys_sign H K key (tagged_signing_input H
      (new_payload (ascii ''data'') StateAttestation)) = Inr s1" using sign by blast
  show "passes (sign_attestation_produces_65_byte_signature H K key)"
    by (simp add: sign_attestation_produces_65_byte_signature_def test_sign_eq [OF s1] len Let_def)
  obtain s2 where s2: "keys_sign H K key (tagged_signing_input H
      (new_payload (ascii ''original abi-encoded data'') PacketAttestation)) = Inr s2" using sign by blast
  show "passes (sign_attestation_preserves_original_attested_data H K key)"
    by (simp add: sign_attestation_preserves_original_attested_data_def test_sign_eq [OF s2]
        data_new_payload Let_def)
  obtain s3 where s3: "keys_sign H K key (tagged_signing_input H
      (new_payload (ascii ''test attestation'') StateAttestation)) = Inr s3" using sign by blast
  show "passes (signature_recovers_to_signer_address_with_correct_domain H K key)"
    by (simp add: signature_recovers_to_signer_address_with_correct_domain_def test_sign_eq [OF s3]
        recover_keys_sign [OF assms(1) s3] Let_def)
  obtain s4 where s4: "keys_sign H K key (tagged_signing_input H
      (new_payload (ascii ''deterministic'') StateAttestation)) = Inr s4" using sign by blast
  show "passes (sign_attestation_is_deterministic H K key)"
    by (simp add: sign_attestation_is_deterministic_def test_sign_eq [OF s4])
  obtain s5 where s5: "keys_sign H K key (ascii ''test message'') = Inr s5" using sign by blast
  then show "passes (test_local_signer_sign H K key)"
    "passes (test_local_signer_deterministic H K key)"
    by (simp_all add: test_local_signer_sign_def test_local_signer_deterministic_def local_sign_def
        new_local_signer_def len Let_def)
qed

lemma signing_tests_pass:
  assumes "honest_signatures K" and "signs_with K key"
  shows "list_all passes (signing_tests H K key)"
  by (simp add: signing_tests_def plain_signing_tests [OF assms])

subsection \<open>The metrics as text\<close>

text \<open>
  \<open>String::from_utf8\<close>: the length of the sequence that a byte begins, with the range its second byte
  must be in, and the check of all sequences. A string is represented by its bytes.
\<close>

definition utf8_lead :: "u8 \<Rightarrow> (nat \<times> u8 \<times> u8) option" where
  "utf8_lead b =
     (if b < 0x80 then Some (0, 0x80, 0xBF)
      else if 0xC2 \<le> b \<and> b \<le> 0xDF then Some (1, 0x80, 0xBF)
      else if b = 0xE0 then Some (2, 0xA0, 0xBF)
      else if b = 0xED then Some (2, 0x80, 0x9F)
      else if 0xE1 \<le> b \<and> b \<le> 0xEF then Some (2, 0x80, 0xBF)
      else if b = 0xF0 then Some (3, 0x90, 0xBF)
      else if b = 0xF4 then Some (3, 0x80, 0x8F)
      else if 0xF1 \<le> b \<and> b \<le> 0xF3 then Some (3, 0x80, 0xBF)
      else None)"

fun utf8_valid :: "bytes \<Rightarrow> bool" where
  "utf8_valid [] = True"
| "utf8_valid (b # bs) =
     (case utf8_lead b of
        None \<Rightarrow> False
      | Some (n, lo, hi) \<Rightarrow>
          n \<le> length bs \<and> (n = 0 \<or> lo \<le> bs ! 0 \<and> bs ! 0 \<le> hi) \<and>
          list_all (\<lambda>c. 0x80 \<le> c \<and> c \<le> 0xBF) (take n bs) \<and> utf8_valid (drop n bs))"

definition from_utf8 :: "bytes \<Rightarrow> string option" where
  "from_utf8 bs = (if utf8_valid bs then Some (map (\<lambda>b. char_of (unat b)) bs) else None)"

text \<open>\<open>str::contains\<close>.\<close>

fun contains :: "string \<Rightarrow> string \<Rightarrow> bool" where
  "contains [] pattern \<longleftrightarrow> pattern = []"
| "contains (c # cs) pattern \<longleftrightarrow> take (length pattern) (c # cs) = pattern \<or> contains cs pattern"

definition exported_names :: "string list" where
  "exported_names =
     [''attestor_rpc_requests_total'', ''attestor_rpc_request_duration_seconds'',
      ''attestor_attestation_height_lag_blocks'', ''attestor_height_validation_rejections_total'',
      ''attestor_commitment_validation_failures_total'', ''attestor_adapter_retry_failures_total'',
      ''attestor_adapter_finalized_height'', ''attestor_signer_signs_total'']"

text \<open>The events of the test, with 0.05 s as 50 ms in nanoseconds; \<open>m\<close> is what the other tests left.\<close>

definition recorded_in_test :: "registry option \<Rightarrow> registry option" where
  "recorded_in_test m =
     inc_signer_sign ''ok''
       (set_adapter_finalized_height 123
       (inc_retry_failure ''evm.latest_height''
       (inc_commitment_failure ''mismatch''
       (inc_commitment_failure ''not_found''
       (inc_height_rejections
       (observe_height_lag 5
       (observe_height_lag (- 1)
       (record_rpc_request ''latest_height'' ''ok'' 50000000 m))))))))"

definition metrics_register_and_export_with_constant_labels ::
  "prom_lib \<Rightarrow> (registry \<Rightarrow> string + bytes) \<Rightarrow> registry option \<Rightarrow> bool" where
  "metrics_register_and_export_with_constant_labels P encoder m =
     unwrap (init P ''test_adapter'' ''test_signer'' m) (\<lambda>m'.
       let body = encode_text encoder (recorded_in_test m')
       in case from_utf8 body of
            None \<Rightarrow> False
          | Some exposed \<Rightarrow>
              list_all (contains exposed) exported_names \<and>
              contains exposed ''adapter=\"'' \<and> contains exposed ''signer=\"'' \<and>
              contains exposed ''attestor_attestation_height_lag_blocks_bucket'' \<and>
              contains exposed ''le=\"-1\"'')"

text \<open>
  What \<open>prometheus\<close> documents of its text format, for the registry of the attestor: a metric is
  written when it has a sample, under its name and with the labels of the registry, and a
  histogram with one line for each bucket, whose label \<open>le\<close> is the bound.
\<close>

fun bound_text :: "int \<Rightarrow> string" where
  "bound_text b = (if b < 0 then ''-'' else []) @ dec (nat \<bar>b\<bar>)"

definition has_sample :: "registry \<Rightarrow> metric_desc \<Rightarrow> bool" where
  "has_sample r d \<longleftrightarrow>
     (d = rpc_requests_total_desc \<longrightarrow> (\<exists>k. rpc_requests_total r k \<noteq> None)) \<and>
     (d = rpc_request_duration_seconds_desc \<longrightarrow> (\<exists>k. rpc_request_duration_seconds r k \<noteq> None)) \<and>
     (d = commitment_validation_failures_total_desc \<longrightarrow>
        (\<exists>k. commitment_validation_failures_total r k \<noteq> None)) \<and>
     (d = adapter_retry_failures_total_desc \<longrightarrow> (\<exists>k. adapter_retry_failures_total r k \<noteq> None)) \<and>
     (d = signer_signs_total_desc \<longrightarrow> (\<exists>k. signer_signs_total r k \<noteq> None))"

definition documented_text :: "(registry \<Rightarrow> string + bytes) \<Rightarrow> bool" where
  "documented_text encoder \<longleftrightarrow>
     (\<forall>r. descriptors r = attestor_metrics \<longrightarrow> (\<exists>body exposed. encoder r = Inr body \<and>
        from_utf8 body = Some exposed \<and>
        (\<forall>d \<in> set (descriptors r). has_sample r d \<longrightarrow>
           contains exposed (md_name d) \<and>
           (map fst (const_labels r) = [''adapter'', ''signer''] \<longrightarrow>
              contains exposed ''adapter=\"'' \<and> contains exposed ''signer=\"'') \<and>
           (\<forall>bounds. md_kind d = Histogram bounds \<longrightarrow>
              contains exposed (md_name d @ ''_bucket'') \<and>
              (\<forall>b \<in> set bounds. contains exposed (''le=\"'' @ bound_text b @ ''\"''))))))"

text \<open>Other tests may have initialised the registry before, and have recorded events.\<close>

definition shared_registry :: "prom_lib \<Rightarrow> registry option \<Rightarrow> bool" where
  "shared_registry P m \<longleftrightarrow>
     m = None \<or> (\<exists>a s m0 t. init P a s None = Inr m0 \<and> m = metrics_after t m0)"

lemma recorded_in_test_eq:
  "recorded_in_test m = metrics_after
     [EMetric (RpcRequest ''latest_height'' ''ok'' 50000000), EMetric (HeightLag (- 1)),
      EMetric (HeightLag 5), EMetric HeightRejection, EMetric (CommitmentFailure ''not_found''),
      EMetric (CommitmentFailure ''mismatch''), EMetric (RetryFailure ''evm.latest_height''),
      EMetric (FinalizedHeight 123), EMetric (SignerSign ''ok'')] m"
  by (simp add: recorded_in_test_def)

lemma label_count_Suc: "label_count m k = Suc n \<Longrightarrow> \<exists>k. m k \<noteq> None"
  by (auto simp: label_count_def split: option.splits)

lemma observations_Cons: "observations m k = v # vs \<Longrightarrow> \<exists>k. m k \<noteq> None"
  by (auto simp: observations_def split: option.splits)

lemma recorded_in_test_samples:
  "\<exists>r'. recorded_in_test (Some r) = Some r' \<and> descriptors r' = descriptors r \<and>
     const_labels r' = const_labels r \<and> (\<forall>d. has_sample r' d)"
proof -
  let ?t = "[EMetric (RpcRequest ''latest_height'' ''ok'' 50000000), EMetric (HeightLag (- 1)),
      EMetric (HeightLag 5), EMetric HeightRejection, EMetric (CommitmentFailure ''not_found''),
      EMetric (CommitmentFailure ''mismatch''), EMetric (RetryFailure ''evm.latest_height''),
      EMetric (FinalizedHeight 123), EMetric (SignerSign ''ok'')]"
  obtain r' where r': "metrics_after ?t (Some r) = Some r'" "counts_trace r ?t r'"
    using counts_metrics_after by blast
  note counted = r'(2) [unfolded counts_trace_def]
  have "label_count (rpc_requests_total r') (''latest_height'', ''ok'') =
      Suc (label_count (rpc_requests_total r) (''latest_height'', ''ok''))"
    "label_count (commitment_validation_failures_total r') ''not_found'' =
      Suc (label_count (commitment_validation_failures_total r) ''not_found'')"
    "label_count (adapter_retry_failures_total r') ''evm.latest_height'' =
      Suc (label_count (adapter_retry_failures_total r) ''evm.latest_height'')"
    "label_count (signer_signs_total r') ''ok'' = Suc (label_count (signer_signs_total r) ''ok'')"
    "observations (rpc_request_duration_seconds r') ''latest_height'' =
      50000000 # observations (rpc_request_duration_seconds r) ''latest_height''"
    using counted by (simp_all add: rpc_count_def)
  note samples = this(1-4) [THEN label_count_Suc] this(5) [THEN observations_Cons]
  then have "\<forall>d. has_sample r' d" by (simp add: has_sample_def)
  with r'(1) counted show ?thesis unfolding recorded_in_test_eq by blast
qed

lemma shared_registry_init:
  assumes "documented_prom P" and "shared_registry P m"
  shows "\<exists>r. init P a s m = Inr (Some r) \<and> descriptors r = attestor_metrics \<and>
    map fst (const_labels r) = [''adapter'', ''signer'']"
proof -
  have fresh: "\<exists>r. init P a s None = Inr (Some r) \<and> descriptors r = attestor_metrics \<and>
      map fst (const_labels r) = [''adapter'', ''signer'']" for a s
    using new_metrics_documented [OF assms(1), of a s] by (simp add: init_def fresh_registry_def)
  from assms(2) consider "m = None" | (inited) a' s' m0 t where "init P a' s' None = Inr m0"
      "m = metrics_after t m0"
    unfolding shared_registry_def by blast
  then show ?thesis
  proof cases
    case 1
    with fresh show ?thesis by simp
  next
    case inited
    with fresh [of a' s'] obtain r0 where r0: "m0 = Some r0" "descriptors r0 = attestor_metrics"
      "map fst (const_labels r0) = [''adapter'', ''signer'']" by auto
    from counts_metrics_after [of t r0] inited r0 obtain r where "m = Some r"
      "descriptors r = attestor_metrics" "map fst (const_labels r) = [''adapter'', ''signer'']"
      by (auto simp: counts_trace_def)
    with new_metrics_documented [OF assms(1), of a s] show ?thesis by (simp add: init_def)
  qed
qed

lemma metrics_test_passes:
  assumes "documented_prom P" and "documented_text encoder" and "shared_registry P m"
  shows "metrics_register_and_export_with_constant_labels P encoder m"
proof -
  from shared_registry_init [OF assms(1,3), of "''test_adapter''" "''test_signer''"]
  obtain r where r: "init P ''test_adapter'' ''test_signer'' m = Inr (Some r)"
      "descriptors r = attestor_metrics" "map fst (const_labels r) = [''adapter'', ''signer'']"
    by (elim exE conjE) (rule that; assumption)
  obtain r' where r': "recorded_in_test (Some r) = Some r'" "descriptors r' = attestor_metrics"
      "map fst (const_labels r') = [''adapter'', ''signer'']" "\<And>d. has_sample r' d"
    using recorded_in_test_samples [of r] r(2,3) by auto
  obtain body exposed where written: "encoder r' = Inr body" "from_utf8 body = Some exposed"
    "\<forall>d \<in> set attestor_metrics. contains exposed (md_name d) \<and>
       contains exposed ''adapter=\"'' \<and> contains exposed ''signer=\"'' \<and>
       (\<forall>bounds. md_kind d = Histogram bounds \<longrightarrow>
          contains exposed (md_name d @ ''_bucket'') \<and>
          (\<forall>b \<in> set bounds. contains exposed (''le=\"'' @ bound_text b @ ''\"'')))"
    using assms(2) [unfolded documented_text_def, rule_format, OF r'(2)] r'(2-4) by auto
  have "\<forall>name \<in> set exported_names. \<exists>d \<in> set attestor_metrics. md_name d = name"
    by (simp add: exported_names_def attestor_metrics_def desc_defs)
  with written(3) have names: "list_all (contains exposed) exported_names"
    by (auto simp: list_all_iff)
  have "contains exposed ''attestor_attestation_height_lag_blocks_bucket'' \<and> contains exposed ''le=\"-1\"''"
  proof -
    have "attestation_height_lag_blocks_desc \<in> set attestor_metrics"
      by (simp add: attestor_metrics_def)
    from bspec [OF written(3) this] have
      "contains exposed (md_name attestation_height_lag_blocks_desc @ ''_bucket'')"
      "contains exposed (''le=\"'' @ bound_text (- 1) @ ''\"'')"
      by (auto simp: attestation_height_lag_blocks_desc_def)
    moreover have "bound_text (- 1) = ''-1''" by code_simp
    ultimately show ?thesis by (simp add: attestation_height_lag_blocks_desc_def)
  qed
  moreover have "contains exposed ''adapter=\"'' \<and> contains exposed ''signer=\"''"
    using written(3) by (simp add: attestor_metrics_def)
  ultimately show ?thesis
    using r(1) r'(1) written(1,2) names
    by (simp add: metrics_register_and_export_with_constant_labels_def unwrap_def encode_text_def)
qed

text \<open>An encoder for which this holds: it writes everything.\<close>

definition sample_text :: string where
  "sample_text = concat (map (\<lambda>name. name @ ''_bucket{adapter=\"a\",signer=\"s\"}'') exported_names) @
     concat (map (\<lambda>b. ''{le=\"'' @ bound_text b @ ''\"}'') [-100, -10, -3, -1, 0, 1, 3, 10, 50, 100, 500])"

lemma contains_iff: "contains s p \<longleftrightarrow> (\<exists>a b. s = a @ p @ b)"
proof (induction s)
  case (Cons c cs)
  have "take (length p) (c # cs) = p \<longleftrightarrow> (\<exists>b. c # cs = p @ b)"
    by (metis append_eq_conv_conj append_take_drop_id)
  with Cons.IH show ?case by (auto simp: Cons_eq_append_conv)
qed simp

lemma contains_append: "contains s p \<or> contains s' p \<Longrightarrow> contains (s @ s') p"
  unfolding contains_iff by (metis append.assoc)

lemma contains_middle: "contains (a @ p @ b) p"
  unfolding contains_iff by blast

lemma contains_concat: "s \<in> set ss \<Longrightarrow> contains s p \<Longrightarrow> contains (concat ss) p"
  by (induction ss) (auto intro: contains_append)

lemma unat_of_char: "unat (of_char c :: u8) = of_char c"
proof -
  have "(of_char c :: u8) = of_nat (of_char c)" by (simp only: of_nat_of_char)
  then show ?thesis by (simp only: unat_of_nat) simp
qed

lemma utf8_ascii: "list_all (\<lambda>c. of_char c < (128 :: nat)) s \<Longrightarrow> utf8_valid (ascii s)"
proof (induction s)
  case (Cons c s)
  then have "(of_char c :: u8) < 0x80"
    by (simp add: word_less_nat_alt unat_of_char)
  with Cons show ?case by (simp add: ascii_def utf8_lead_def)
qed (simp add: ascii_def)

lemma from_utf8_ascii:
  "list_all (\<lambda>c. of_char c < (128 :: nat)) s \<Longrightarrow> from_utf8 (ascii s) = Some s"
  by (simp add: from_utf8_def utf8_ascii) (simp add: ascii_def o_def unat_of_char)

lemma sample_text_contains:
  "name \<in> set exported_names \<Longrightarrow> contains sample_text (name @ ''_bucket'')"
  "contains sample_text ''adapter=\"'' \<and> contains sample_text ''signer=\"''"
  "b \<in> {-100, -10, -3, -1, 0, 1, 3, 10, 50, 100, 500} \<Longrightarrow> contains sample_text (''le=\"'' @ bound_text b @ ''\"'')"
proof -
  have line: "contains sample_text p"
    if "name \<in> set exported_names" "contains (name @ ''_bucket{adapter=\"a\",signer=\"s\"}'') p" for p name
    unfolding sample_text_def
    by (rule contains_append [OF disjI1], rule contains_concat [OF _ that(2)]) (use that(1) in simp)
  show "contains sample_text (name @ ''_bucket'')" if "name \<in> set exported_names"
    using line [OF that, of "name @ ''_bucket''"]
      contains_middle [of "[]" "name @ ''_bucket''" "''{adapter=\"a\",signer=\"s\"}''"] by simp
  have first: "hd exported_names \<in> set exported_names" by (simp add: exported_names_def)
  show "contains sample_text ''adapter=\"'' \<and> contains sample_text ''signer=\"''"
    using line [OF first, of "''adapter=\"''"] line [OF first, of "''signer=\"''"]
      contains_middle [of "hd exported_names @ ''_bucket{''" "''adapter=\"''" "''a\",signer=\"s\"}''"]
      contains_middle [of "hd exported_names @ ''_bucket{adapter=\"a\",''" "''signer=\"''" "''s\"}''"] by simp
  show "contains sample_text (''le=\"'' @ bound_text b @ ''\"'')"
    if "b \<in> {-100, -10, -3, -1, 0, 1, 3, 10, 50, 100, 500}"
  proof -
    have "contains (''{le=\"'' @ bound_text b @ ''\"}'') (''le=\"'' @ bound_text b @ ''\"'')"
      using contains_middle [of "''{''" "''le=\"'' @ bound_text b @ ''\"''" "''}''"] by simp
    from contains_concat [OF _ this] show ?thesis
      unfolding sample_text_def by (rule contains_append [OF disjI2]) (use that in auto)
  qed
qed

lemma documented_text_sample: "documented_text (\<lambda>r. Inr (ascii sample_text))"
proof -
  have ascii: "list_all (\<lambda>c. of_char c < (128 :: nat)) sample_text" by code_simp
  have "md_name d \<in> set exported_names" if "d \<in> set attestor_metrics" for d
    using that by (auto simp: attestor_metrics_def exported_names_def desc_defs)
  moreover have "set bounds \<subseteq> {-100, -10, -3, -1, 0, 1, 3, 10, 50, 100, 500}"
    if "d \<in> set attestor_metrics" "md_kind d = Histogram bounds" for d bounds
    using that by (auto simp: attestor_metrics_def desc_defs)
  moreover have "contains sample_text (md_name d)" if "contains sample_text (md_name d @ ''_bucket'')" for d
    using that unfolding contains_iff by (metis append.assoc)
  ultimately have entry: "contains sample_text (md_name d) \<and>
      (\<forall>bounds. md_kind d = Histogram bounds \<longrightarrow> contains sample_text (md_name d @ ''_bucket'') \<and>
         (\<forall>b \<in> set bounds. contains sample_text (''le=\"'' @ bound_text b @ ''\"'')))"
    if "d \<in> set attestor_metrics" for d
    using that sample_text_contains(1,3) by (meson subset_iff)
  have "from_utf8 (ascii sample_text) = Some sample_text" by (rule from_utf8_ascii [OF ascii])
  with entry sample_text_contains(2) show ?thesis
    unfolding documented_text_def by simp
qed

subsection \<open>The \<open>ethereum-keys\<close> library\<close>

definition recover_matches_signer_address ::
  "hash_lib \<Rightarrow> ('key, 'sig) key_lib \<Rightarrow> 'key \<Rightarrow> bool" where
  "recover_matches_signer_address H K key =
     (let msg = ascii ''abc'';
          prehash = sha256 H msg
      in unwrap (sign_hash_sync K key prehash) (\<lambda>sig.
         let sig_vec = sig_as_bytes K sig
         in unwrap (recover_address_from_prehash K prehash sig_vec) (\<lambda>addr.
            addr = key_address K key \<and>
            unwrap (recover_address H K msg sig_vec) (\<lambda>addr2. addr2 = key_address K key))))"

definition invalid_signature_fails :: "hash_lib \<Rightarrow> ('key, 'sig) key_lib \<Rightarrow> bool" where
  "invalid_signature_fails H K =
     (let msg = ascii ''abc'';
          result = recover_address H K msg (replicate 64 0)
      in \<not> is_ok result)"

definition sign_sha256_produces_65_bytes_and_recoverable ::
  "hash_lib \<Rightarrow> ('key, 'sig) key_lib \<Rightarrow> 'key \<Rightarrow> bool" where
  "sign_sha256_produces_65_bytes_and_recoverable H K key =
     (let message = ascii ''hello''
      in unwrap (keys_sign H K key message) (\<lambda>sig.
         let bytes = sig_as_bytes K sig;
             v = bytes ! 64;
             digest = sha256 H message
         in length bytes = 65 \<and> (v = 27 \<or> v = 28 \<or> v = 0 \<or> v = 1) \<and>
            unwrap (recover_from_prehash K sig digest) (\<lambda>addr. addr = key_address K key)))"

definition verify_true_and_false_cases ::
  "hash_lib \<Rightarrow> ('key, 'sig) key_lib \<Rightarrow> 'key \<Rightarrow> bool" where
  "verify_true_and_false_cases H K key =
     (let addr = key_address K key;
          msg = ascii ''abc''
      in unwrap (keys_sign H K key msg) (\<lambda>sig.
         let sig_vec = sig_as_bytes K sig;
             wrong = replicate 20 0x11;
             bad = sig_vec[10 := (sig_vec ! 10) XOR 0xFF]
         in verify_signature H K addr msg sig_vec \<and>
            \<not> verify_signature H K wrong msg sig_vec \<and>
            \<not> verify_signature H K addr (ascii ''abcd'') sig_vec \<and>
            \<not> verify_signature H K addr msg bad))"

text \<open>The listing of the directory, which only prints, is left out.\<close>

definition write_then_read_roundtrip ::
  "('fs, 'key) host \<Rightarrow> ('key, 'sig) key_lib \<Rightarrow> 'fs \<Rightarrow> string \<Rightarrow> 'key \<Rightarrow> bool" where
  "write_then_read_roundtrip E K fs tmp_dir key =
     (let name = ''sec1_roundtrip_key'';
          (written, fs') = write_to_keystore E tmp_dir name key fs
      in unwrap written (\<lambda>_.
         let keystore_path = path_join tmp_dir name
         in unwrap (read_from_keystore E fs' keystore_path) (\<lambda>loaded.
            key_address K key = key_address K loaded)))"

definition key_tests :: "hash_lib \<Rightarrow> ('key, 'sig) key_lib \<Rightarrow> 'key \<Rightarrow> bool list" where
  "key_tests H K key =
     [recover_matches_signer_address H K key,
      invalid_signature_fails H K,
      sign_sha256_produces_65_bytes_and_recoverable H K key]"

text \<open>
  The library's own tests rely on the format of \<open>alloy\<close>: only 65 bytes parse as a signature, and the
  last byte is a recovery id.
\<close>

definition strict_format :: "('key, 'sig) key_lib \<Rightarrow> bool" where
  "strict_format K \<longleftrightarrow>
     (\<forall>bs. length bs \<noteq> 65 \<longrightarrow> \<not> is_ok (sig_try_from K bs)) \<and>
     (\<forall>sig. sig_as_bytes K sig ! 64 \<in> {0, 1, 27, 28})"

lemma key_tests_pass:
  assumes "honest_signatures K" and "signs_with K key" and "strict_format K"
  shows "list_all id (key_tests H K key)"
proof -
  obtain sig where sig: "sign_hash_sync K key (sha256 H (ascii ''abc'')) = Inr sig"
    using assms(2) by (auto simp: signs_with_def)
  obtain sig2 where sig2: "sign_hash_sync K key (sha256 H (ascii ''hello'')) = Inr sig2"
    using assms(2) by (auto simp: signs_with_def)
  note honest = assms(1) [unfolded honest_signatures_def]
  have 1: "recover_matches_signer_address H K key"
    using honest sig
    by (simp add: recover_matches_signer_address_def recover_address_def
        recover_address_from_prehash_def Let_def)
  have "\<not> is_ok (sig_try_from K (replicate 64 0))" using assms(3) by (simp add: strict_format_def)
  then have 2: "invalid_signature_fails H K"
    by (cases "sig_try_from K (replicate 64 0)")
      (simp_all add: invalid_signature_fails_def recover_address_def recover_address_from_prehash_def)
  have 3: "sign_sha256_produces_65_bytes_and_recoverable H K key"
    using honest sig2 assms(3)
    by (simp add: sign_sha256_produces_65_bytes_and_recoverable_def keys_sign_def strict_format_def
        Let_def) blast
  from 1 2 3 show ?thesis by (simp add: key_tests_def)
qed

lemma keystore_test_iff:
  assumes "keystores_read_back E"
  shows "write_then_read_roundtrip E K fs tmp_dir key \<longleftrightarrow>
    is_ok (fst (write_to_keystore E tmp_dir ''sec1_roundtrip_key'' key fs))"
proof -
  obtain w fs' where w: "write_to_keystore E tmp_dir ''sec1_roundtrip_key'' key fs = (w, fs')"
    by fastforce
  show ?thesis
  proof (cases w)
    case (Inl e)
    with w show ?thesis by (simp add: write_then_read_roundtrip_def Let_def)
  next
    case (Inr out)
    with w read_written_keystore [OF assms w [unfolded Inr]] show ?thesis
      by (simp add: write_then_read_roundtrip_def Let_def)
  qed
qed

subsection \<open>Foreign functions for the tests\<close>

text \<open>A signature is the key and three bytes of the digest; other digests recover to another key.\<close>

definition test_keys :: "(u8, u8 \<times> u8 \<times> u8 \<times> u8) key_lib" where
  "test_keys =
     \<lparr>sign_hash_sync = (\<lambda>key digest. Inr (key, digest ! 0, digest ! 1, digest ! 3)),
      sig_as_bytes = (\<lambda>(key, a, b, c). key # a # b # c # replicate 61 0),
      sig_try_from = (\<lambda>bs. if length bs = 65 \<and> drop 4 bs = replicate 61 0
        then Inr (bs ! 0, bs ! 1, bs ! 2, bs ! 3) else Inl ''format''),
      recover_from_prehash = (\<lambda>(key, a, b, c) digest.
        Inr (replicate 20 (if digest ! 0 = a \<and> digest ! 1 = b \<and> digest ! 3 = c then key else key + 1))),
      key_address = replicate 20\<rparr>"

definition test_encode :: "packet \<Rightarrow> bytes" where
  "test_encode p = [ucast (sequence p)]"

lemma honest_signatures_test: "honest_signatures test_keys"
  by (auto simp: honest_signatures_def test_keys_def)

lemma signs_with_test: "signs_with test_keys key"
  by (simp add: signs_with_def test_keys_def)

lemma test_abi_sample: "test_abi sample_ibc test_encode"
  by (simp add: test_abi_def sample_ibc_def test_encode_def test_packet_def replicate_eq_replicate)

lemma strict_format_test: "strict_format test_keys"
  by (auto simp: strict_format_def test_keys_def)

subsection \<open>Properties\<close>

text \<open>
  C24. The unit tests of the attestor's own behaviour pass. For all ABI, hash, signature, metrics and
  keystore functions that behave as documented (a packet decodes to what was encoded, commitments and
  SHA-256 have 32 bytes, a key signs and its signature recovers to its address, only 65 bytes parse as a
  signature, the text of the metrics has a line for every sample, a written key can be read), the tests
  of the service pass in every interleaving of the concurrent packet checks, as do those of the payloads,
  the errors, the signers, the key library, and the one of the metrics whatever the tests before it have
  recorded. The tests of a wrong commitment pass exactly when the commitment of the packet is not the
  wrong one, the one of two payloads when their hashes differ, and the one of the keystore when the
  directory can be written. Of the tests that try to forge signatures nothing is claimed.
\<close>

theorem unit_tests_pass:
  assumes "test_abi X encode" and "sha256_32_bytes H"
    and "honest_signatures K" and "signs_with K key" and "strict_format K"
    and "documented_prom P" and "documented_text encoder" and "shared_registry P m"
    and "keystores_read_back E"
  shows "list_all passes (service_tests schedule H X encode) \<and>
    (passes (handle_packet_commitment_errors_when_mismatched H X) \<longleftrightarrow>
       packet_commitment X (test_packet 9) \<noteq> replicate 32 9) \<and>
    (passes (create_packets_attestation_errors_if_any_packet_is_invalid schedule H X encode) \<longleftrightarrow>
       packet_commitment X (test_packet 31) \<noteq> replicate 32 0xFF) \<and>
    list_all id (payload_tests H) \<and>
    (different_data_produces_different_tagged_signing_inputs H \<longleftrightarrow>
       sha256 H (ascii ''data-a'') \<noteq> sha256 H (ascii ''data-b'')) \<and>
    list_all id error_and_label_tests \<and>
    list_all passes (signing_tests H K key) \<and>
    list_all id (key_tests H K key) \<and>
    (write_then_read_roundtrip E K fs tmp_dir key \<longleftrightarrow>
       is_ok (fst (write_to_keystore E tmp_dir ''sec1_roundtrip_key'' key fs))) \<and>
    metrics_register_and_export_with_constant_labels P encoder m"
  by (intro conjI service_tests_pass [OF assms(1)] handler_tests(3) [OF assms(1)]
      packets_tests(2) [OF assms(1)] payload_tests_pass [OF assms(2)] different_data_iff
      error_and_label_tests_pass signing_tests_pass [OF assms(3,4)] key_tests_pass [OF assms(3-5)]
      keystore_test_iff [OF assms(9)] metrics_test_passes [OF assms(6-8)])

theorem unit_tests_pass_witness:
  "passes (create_packets_attestation_succeeds_when_all_packets_valid [1, 0] sample_hash sample_ibc
     test_encode) \<and>
   passes (signature_recovers_to_signer_address_with_correct_domain sample_hash test_keys 7) \<and>
   metrics_register_and_export_with_constant_labels sample_prom (\<lambda>r. Inr (ascii sample_text)) None"
proof -
  have shared: "shared_registry sample_prom None" by (simp add: shared_registry_def)
  from unit_tests_pass [OF test_abi_sample sha256_32_bytes_sample honest_signatures_test signs_with_test
      strict_format_test documented_prom_sample documented_text_sample shared
      memory_host_documented(1), of "[1, 0]"]
  show ?thesis by (simp add: service_tests_def signing_tests_def)
qed

end
