(* ===== verification/Spec2Isabelle.thy ===== *)
theory Spec2Isabelle
  imports Program Build_Script Unit_Tests
begin

text \<open>
  A verification development of the IBC attestor (\<open>src/apps/ibc-attestor\<close>) and of the key library
  it uses (\<open>src/libs/ethereum/keys\<close>).

  \<^bold>\<open>The program.\<close> The attestor is a gRPC server that signs statements about one blockchain. A client
  asks for the latest finalized height, for an attestation of the state at a height (its timestamp),
  or for an attestation of packet, acknowledgement or receipt commitments at a height. A request goes
  through the trace interceptor and the logging middleware to the attestation service; the service
  checks it against the chain through an adapter (EVM, Cosmos or Solana, each call under a retry
  policy), encodes what it found, and has it signed by a signer (a local key or a remote wallet
  service) under a tag for the kind of attestation. Metrics are recorded on the way. A second, HTTP,
  server answers health checks and exposes the metrics. The program loads a TOML configuration, starts
  both servers and shuts them down on a signal; its other commands generate and show keys.

  \<^bold>\<open>How code with effects is modelled.\<close> An asynchronous function is a program of type \<open>'r io\<close>
  (\<open>Effects\<close>): a tree whose nodes are what the code does to the world (an RPC call of a chain's node, a
  connection, a request to the wallet service, a file read, a sleep, a reading of the clock, a metric)
  and whose branches are the world's answers. \<open>exec m t r\<close> says that \<open>m\<close> can return \<open>r\<close> after the
  events \<open>t\<close>; the world's answers are free except that a 32-byte word of an Ethereum node has its
  length, so a statement about all executions is a statement about all behaviours of the chain, the
  network and the wallet service. Every program of the model returns (\<open>exec_total\<close>), since no loop of
  the code that the service runs is unbounded: the retries are at most two. The one exception of the
  sources, the borrowing iterator of \<open>Packets\<close>, is modelled with a bound on the number of calls. The
  running process is a step relation: the calls it serves make their steps in any order, next to the
  steps of its tasks. For concrete inputs \<open>run\<close> executes a program
  in a world that is a function; the witnesses compute with it. \<open>?\<close> is \<open>bind_ok\<close>, an error a value of
  a sum type, and a panic (\<open>expect\<close>, \<open>unwrap\<close>) an error value as well.

  \<^bold>\<open>Theories and sources\<close> (below \<open>src/apps/ibc-attestor/src\<close> unless noted):
  \<^item> \<open>Prelude\<close>: machine integers with the saturating and checked conversions of Rust, results, decimal
    printing; \<open>Effects\<close>: programs, events, executions; \<open>Futures\<close>: futures polled together, as a pool of
    programs of which any one makes the next step, and \<open>join\<close> for \<open>FuturesOrdered\<close>.
  \<^item> \<open>Errors\<close> (\<open>error.rs\<close>, \<open>adapter/mod.rs\<close>, \<open>signer/mod.rs\<close>): the error types, their texts, the
    status codes. \<open>Metrics\<close> (\<open>metrics.rs\<close>): the registry and what every recording does to it.
  \<^item> \<open>Retry\<close> (\<open>adapter/retry.rs\<close>), \<open>Adapter\<close> (the trait in \<open>adapter/mod.rs\<close> and the locale
    \<open>attestation_adapter\<close> of its contract), \<open>Evm\<close>, \<open>Cosmos\<close>, \<open>Solana\<close> (the three adapters, each an
    interpretation of the contract), \<open>Adapter_Enum\<close> (the dispatch in \<open>adapter/mod.rs\<close>).
  \<^item> \<open>Payload\<close> (\<open>attestation_payload.rs\<close>), \<open>Keys\<close> (\<open>signature.rs\<close> and \<open>recover.rs\<close> of the key
    library), \<open>Signer\<close> (\<open>signer/\<close>, with the locale \<open>signer\<close> and its interpretations for the local, the
    remote and the configured signer), \<open>Attestation\<close> (\<open>attestation.rs\<close>).
  \<^item> \<open>Packets\<close> (\<open>Packets\<close> of \<open>lib.rs\<close>: decoding and iterators), \<open>Attestor\<close> (\<open>rpc/attestor.rs\<close>): the
    three handlers, the height check, the concurrent packet checks. \<open>Service\<close>: the locale
    \<open>attestation_service\<close>, which combines the two contracts, and its interpretation by the service of
    the running process.
  \<^item> \<open>Test_Adapter\<close>, \<open>Unit_Tests\<close>: the unit tests and their adapter, as programs. \<open>Samples\<close>: concrete
    parameters for the witnesses.
  \<^item> \<open>Host\<close> (paths, environment, files; \<open>signer_local.rs\<close> of the key library), \<open>Local_Build\<close>
    (\<open>signer/local.rs\<close>: finding the keystore), \<open>Config\<close> (\<open>config.rs\<close>), \<open>Logging\<close> (\<open>logging.rs\<close>),
    \<open>Middleware\<close> (\<open>rpc/middleware.rs\<close>, \<open>rpc/interceptor.rs\<close>), \<open>Health\<close> (\<open>rpc/health.rs\<close>).
  \<^item> \<open>Calls\<close>: the interleavings of concurrent calls of any handler (arrival, steps, answers, calls
    that are dropped), with the locale \<open>counted_handler\<close> for handlers that count each request once; \<open>Server\<close>
    (\<open>rpc/server.rs\<close>): the start of the gRPC server and what one request runs, an interpretation of that
    locale; \<open>Lifecycle\<close> (\<open>rpc/mod.rs\<close>, the server command of \<open>main.rs\<close>): the tasks of the process and
    their shutdown; \<open>Node\<close>: the interleavings of calls and tasks; \<open>Cli\<close> (\<open>cli.rs\<close>, the key
    commands of \<open>main.rs\<close>, and the start of the server); \<open>Program\<close>: \<open>main\<close> from the command line to its result, for every command.
  \<^item> \<open>Build_Script\<close> (\<open>build.rs\<close> and the descriptor set that \<open>rpc/mod.rs\<close> embeds).

  \<^bold>\<open>What is shown.\<close> End to end (this theory): an attestation is only given for a height the chain had
  finalized and for what the chain answered in the call, with one checked entry per packet (C1, C2; C31
  for every answer of the running process, from the configuration file on and among any other calls).
  EVM and Cosmos answer for the requested height; the Solana adapter reads packets without it. Nothing
  is signed before every check has succeeded (C3, C4; C28 in the running process, at any moment); a
  signature recovers to the key of the signer (C5) and the two kinds of attestations never share a
  signed message (C7); heights that are not final, rejected packets and their status codes (C8, C12,
  C25); the concurrent checks have one result whatever the
  interleaving, and it is that of a specification without effects (C9 to C11); the decoding of the
  packets and their iterators (C13). The running process: its request metrics account for its calls
  by method and code (C23), a clean exit leaves no call unanswered (C37), the shutdown sequence of
  \<open>main\<close> ends with the result its servers call for (C38), but a failed gRPC server is noticed only at
  the signal (C39); what the server command returns (C6). The parts:
  the remote signer refines its protocol (C14, C15, C40), the retry policy its attempts and delays
  (C16, C17), the adapters the queries they answer from (C18 to C22), the metrics the trace (C26,
  C27), the middleware is transparent (C29), the health server (C30), configuration and tracing (C32,
  C33), the key files (C34 to C36), and the unit tests of the attestor's own behaviour pass (C24).

  \<^bold>\<open>Parameters.\<close> Code that is not in the repository is a parameter: hash functions (\<open>hash_lib\<close>), ECDSA
  (\<open>key_lib\<close>), the ABI encodings and ICS commitments (\<open>ibc_lib\<close>), the retry driver (\<open>retry_lib\<close>), the
  conversions and derived addresses of the chain clients (\<open>chain_lib\<close>), \<open>tonic\<close> (\<open>tonic_lib\<close>),
  \<open>prometheus\<close> (\<open>prom_lib\<close>), the tracing crates (\<open>otel_lib\<close>), \<open>warp\<close> (\<open>warp_lib\<close>),
  the reflection service (\<open>reflection_lib\<close>), the code generator of the build (\<open>build_lib\<close>), TOML
  (\<open>toml_lib\<close>) and the operating system (\<open>host\<close>).
  What is assumed of them is a named predicate (\<open>retries_ok\<close>, \<open>honest_signatures\<close>, \<open>sha256_32_bytes\<close>,
  \<open>documented_backoff\<close>, \<open>documented_prom\<close>, \<open>documented_otel\<close>, \<open>documented_warp\<close>,
  \<open>documented_text\<close>, \<open>documented_build\<close>, \<open>keystores_read_back\<close>, \<open>documented_files\<close>,
  and for the unit tests \<open>test_abi\<close>, \<open>signs_with\<close>, \<open>strict_format\<close>), each met by a sample. The steps of \<open>Calls\<close> and \<open>Node\<close> only interleave: they
  do not fix when \<open>tonic\<close> accepts, drops or finishes calls. That \<open>serve_with_shutdown\<close> returns
  without an error only when no call is in the middle is the hypothesis \<open>documented_serve\<close> on a run, of
  C37 alone.

  \<^bold>\<open>Not modelled.\<close> What logging and tracing print, and where, beyond the lines and fields of the
  middleware, the generated protobuf code, the parsing of the command line, the text format of the
  metrics beyond what the tests search in it, the outcome of the tests that try to forge signatures,
  when \<open>tonic\<close> accepts or drops calls, the wire encodings, the conversion of observations to
  \<open>f64\<close>, and memory limits.
\<close>

section \<open>Attestations end to end\<close>

text \<open>
  C1. Soundness of packet attestations. When the running service answers a packet request with an
  attestation, the request was decodable, the finalized height its adapter reported in the course
  of the call is at least the requested height, and the attested data is the encoding of exactly
  one entry per requested packet, in order: each entry was accepted against what a commitment query
  of this call was answered for that packet, and its commitment is 32 bytes long. On EVM and Cosmos
  the query names the requested height; on Solana it does not, and the entry says what the account
  held when it was read. The signature is one the signer returned, in this call, for the tagged
  digest of that data.
\<close>

theorem packet_attestation_sound:
  assumes "retries_ok C"
    and "exec (packet_attestation schedule H K X (running_service H K T C a s) request) t (Inr resp)"
  shows "\<exists>ps ct finalized pa sig th ts.
    decoded X request = Some (ps, ct) \<and>
    exec (enum_get_last_height C a) th (Inr finalized) \<and> set th \<subseteq> set t \<and>
    pq_height request \<le> finalized \<and>
    pa_height pa = pq_height request \<and> length (pa_packets pa) = length ps \<and>
    (\<forall>i < length ps. \<exists>ti c cm.
       exec (chain_query X (enum_attestation_adapter C a) (pq_height request) ct (ps ! i)) ti (Inr c) \<and>
       set ti \<subseteq> set t \<and> (\<exists>q x. ERpc q (Inr x) \<in> set ti \<and> commitment_query a (pq_height request) q) \<and>
       accepted X ct (ps ! i) c = Some cm \<and> length cm = 32 \<and>
       pa_packets pa ! i = compact_entry H X ct (ps ! i) cm) \<and>
    exec (enum_sign H K T s (packet_input H X pa)) ts (Inr sig) \<and> set ts \<subseteq> set t \<and>
    resp = \<lparr>pp_attestation = Some (attestation_for K (pq_height request) None
      (abi_encode_packets X pa) sig)\<rparr>"
  by (rule answered_packet_request [OF assms])

theorem packet_attestation_sound_witness:
  "\<exists>finalized th. exec (enum_get_last_height sample_chain sample_evm) th (Inr finalized) \<and>
     60 \<le> finalized"
proof -
  let ?m = "packet_attestation [1, 0] sample_hash sample_keys sample_ibc
    (sample_service sample_local) sample_request"
  have "is_ok (sample_result ?m)" by code_simp
  then obtain resp where "sample_result ?m = Inr resp" by (cases "sample_result ?m") auto
  with sample_exec [of ?m] have "exec ?m (sample_events ?m) (Inr resp)" by simp
  from packet_attestation_sound [OF retries_ok_sample this] show ?thesis
    by (auto simp: sample_request_def)
qed

text \<open>
  C2. Soundness of state attestations. An attestation of a block's timestamp is only given for a
  height at or below the finalized height, carries the timestamp the chain reported for that
  height, and its signature is over the tagged digest of their encoding.
\<close>

theorem state_attestation_sound:
  assumes "exec (state_attestation H K X (running_service H K T C a s) request) t (Inr resp)"
  shows "\<exists>finalized timestamp sig th tb ts.
    exec (enum_get_last_height C a) th (Inr finalized) \<and> set th \<subseteq> set t \<and>
    sq_height request \<le> finalized \<and>
    exec (get_block_timestamp (inner_adapter C a) (sq_height request)) tb (Inr timestamp) \<and>
    set tb \<subseteq> set t \<and>
    exec (enum_sign H K T s (state_input H X (sq_height request) timestamp)) ts (Inr sig) \<and>
    set ts \<subseteq> set t \<and>
    resp = \<lparr>sp_attestation = Some (attestation_for K (sq_height request) (Some timestamp)
      (abi_encode_state X (sq_height request) timestamp) sig)\<rparr>"
  by (rule answered_state_request [OF assms])

theorem state_attestation_sound_witness:
  "\<exists>timestamp tb. exec (get_block_timestamp (inner_adapter sample_chain sample_evm) 60) tb
     (Inr timestamp)"
proof -
  let ?m = "state_attestation sample_hash sample_keys sample_ibc (sample_service sample_remote)
    \<lparr>sq_height = 60\<rparr>"
  have "is_ok (sample_result ?m)" by code_simp
  then obtain resp where "sample_result ?m = Inr resp" by (cases "sample_result ?m") auto
  with sample_exec [of ?m] have "exec ?m (sample_events ?m) (Inr resp)" by simp
  from state_attestation_sound [OF this] show ?thesis by auto
qed

text \<open>
  C3. Nothing is signed before every check has passed. If a packet request causes any contact with
  the signing service (a connection, a token read, a wallet or signing request, or the signer's
  metric), then what preceded it is the successful finality check and the acceptance of every
  packet, with no signing activity among it, and what the signer was asked to sign is the tagged
  digest of exactly the packets accepted. This holds of every execution, failing ones included.
\<close>

theorem packet_signed_after_checks:
  assumes "retries_ok C"
    and "exec (packet_attestation schedule H K X (running_service H K T C a s) request) t r"
    and "e \<in> set t" and "signer_event e"
  shows "\<exists>ps ct t1 t2 t3 pa r'.
    decoded X request = Some (ps, ct) \<and> t = t1 @ t2 @ t3 \<and>
    exec (validate_height (enum_attestation_adapter C a) (pq_height request)) t1 (Inr ()) \<and>
    exec (create_packets_attestation schedule H X (enum_attestation_adapter C a) ps
      (pq_height request) ct) t2 (Inr pa) \<and>
    quiet (t1 @ t2) \<and> exec (enum_sign H K T s (packet_input H X pa)) t3 r'"
  using service.packet_signing_last [of "(C, a)" _ "(H, K, T, s)" schedule H K X request t r e,
      OF _ _ _ assms(2-4)] assms(1)
  by simp

theorem packet_signed_after_checks_witness:
  "\<exists>t1 pa t3 r'. exec (validate_height (enum_attestation_adapter sample_chain sample_evm) 60) t1 (Inr ()) \<and>
     quiet t1 \<and>
     exec (enum_sign sample_hash sample_keys sample_tonic sample_remote
       (packet_input sample_hash sample_ibc pa)) t3 r'"
proof -
  let ?m = "packet_attestation [1, 0] sample_hash sample_keys sample_ibc
    (sample_service sample_remote) sample_request"
  have "last (sample_events ?m) = EMetric (SignerSign ''ok'') \<and> sample_events ?m \<noteq> []"
    by code_simp
  then have "EMetric (SignerSign ''ok'') \<in> set (sample_events ?m)"
    by (metis last_in_set)
  from packet_signed_after_checks [OF retries_ok_sample sample_exec this] show ?thesis
    by (auto simp: sample_request_def)
qed

text \<open>
  C4. The same for state attestations: the signer is contacted only after the height was found
  final and the chain gave the timestamp, and only for the encoding of that timestamp.
\<close>

theorem state_signed_after_checks:
  assumes "retries_ok C"
    and "exec (state_attestation H K X (running_service H K T C a s) request) t r"
    and "e \<in> set t" and "signer_event e"
  shows "\<exists>t1 t2 t3 timestamp r'.
    t = t1 @ t2 @ t3 \<and>
    exec (validate_height (enum_attestation_adapter C a) (sq_height request)) t1 (Inr ()) \<and>
    exec (get_block_timestamp (inner_adapter C a) (sq_height request)) t2 (Inr timestamp) \<and>
    quiet (t1 @ t2) \<and>
    exec (enum_sign H K T s (state_input H X (sq_height request) timestamp)) t3 r'"
  using service.state_signing_last [of "(C, a)" _ "(H, K, T, s)" H K X request t r e,
      OF _ _ _ assms(2-4)] assms(1)
  by simp

theorem state_signed_after_checks_witness:
  "\<exists>t1. exec (validate_height (enum_attestation_adapter sample_chain sample_evm) 60) t1 (Inr ()) \<and>
     quiet t1"
proof -
  let ?m = "state_attestation sample_hash sample_keys sample_ibc (sample_service sample_remote)
    \<lparr>sq_height = 60\<rparr>"
  have "last (sample_events ?m) = EMetric (SignerSign ''ok'') \<and> sample_events ?m \<noteq> []"
    by code_simp
  then have "EMetric (SignerSign ''ok'') \<in> set (sample_events ?m)"
    by (metis last_in_set)
  from state_signed_after_checks [OF retries_ok_sample sample_exec this] show ?thesis
    by auto
qed

subsection \<open>Signatures\<close>

lemma packet_response_recovers:
  assumes "honest_signatures K"
    and "exec (packet_attestation schedule H K X
      (running_service H K T C a (LocalSigner ls)) request) t (Inr resp)"
  shows "\<exists>att. pp_attestation resp = Some att \<and> att_height att = pq_height request \<and>
    att_timestamp att = None \<and> length (att_signature att) = 65 \<and>
    recover_address H K
      (tagged_signing_input H (new_payload (att_attested_data att) PacketAttestation))
      (att_signature att) = Inr (key_address K (inner ls))"
proof -
  from assms(2) [unfolded exec_packet_attestation_Inr running_service_simps]
  obtain t3 pa sig where *:
    "exec (enum_sign H K T (LocalSigner ls) (packet_input H X pa)) t3 (Inr sig)"
    "resp = \<lparr>pp_attestation = Some (attestation_for K (pq_height request) None
       (abi_encode_packets X pa) sig)\<rparr>"
    unfolding packet_input_def by blast
  from local_signature_recovers [OF assms(1) *(1)] assms(1) * show ?thesis
    by (simp add: attestation_for_def packet_input_def honest_signatures_def)
qed

lemma state_response_recovers:
  assumes "honest_signatures K"
    and "exec (state_attestation H K X
      (running_service H K T C a (LocalSigner ls)) request) t (Inr resp)"
  shows "\<exists>att timestamp. sp_attestation resp = Some att \<and> att_height att = sq_height request \<and>
    att_timestamp att = Some timestamp \<and>
    att_attested_data att = abi_encode_state X (sq_height request) timestamp \<and>
    length (att_signature att) = 65 \<and>
    recover_address H K
      (tagged_signing_input H (new_payload (att_attested_data att) StateAttestation))
      (att_signature att) = Inr (key_address K (inner ls))"
proof -
  from assms(2) [unfolded exec_state_attestation_Inr running_service_simps]
  obtain t3 ts sig where *:
    "exec (enum_sign H K T (LocalSigner ls) (state_input H X (sq_height request) ts)) t3 (Inr sig)"
    "resp = \<lparr>sp_attestation = Some (attestation_for K (sq_height request) (Some ts)
       (abi_encode_state X (sq_height request) ts) sig)\<rparr>"
    unfolding state_input_def by blast
  from local_signature_recovers [OF assms(1) *(1)] assms(1) * show ?thesis
    by (simp add: attestation_for_def state_input_def honest_signatures_def)
qed

text \<open>
  C5. What a client can check. With a local signer, the response to a packet request, and the response
  to a state request, carries a 65-byte signature from which anyone who has only the response, and
  computes the tagged digest of its data, recovers the address of the signer's key. The response to a
  state request also carries the attested timestamp.
\<close>

theorem signature_recovers:
  assumes "honest_signatures K"
  shows "(exec (packet_attestation schedule H K X
      (running_service H K T C a (LocalSigner ls)) request) t (Inr resp) \<longrightarrow>
    (\<exists>att. pp_attestation resp = Some att \<and> att_height att = pq_height request \<and>
      att_timestamp att = None \<and> length (att_signature att) = 65 \<and>
      recover_address H K
        (tagged_signing_input H (new_payload (att_attested_data att) PacketAttestation))
        (att_signature att) = Inr (key_address K (inner ls)))) \<and>
    (exec (state_attestation H K X
      (running_service H K T C a (LocalSigner ls)) request') t' (Inr resp') \<longrightarrow>
    (\<exists>att timestamp. sp_attestation resp' = Some att \<and> att_height att = sq_height request' \<and>
      att_timestamp att = Some timestamp \<and>
      att_attested_data att = abi_encode_state X (sq_height request') timestamp \<and>
      length (att_signature att) = 65 \<and>
      recover_address H K
        (tagged_signing_input H (new_payload (att_attested_data att) StateAttestation))
        (att_signature att) = Inr (key_address K (inner ls))))"
  by (intro conjI impI packet_response_recovers [OF assms] state_response_recovers [OF assms])

theorem signature_recovers_witness:
  "(\<exists>bs. recover_address sample_hash sample_keys
     (tagged_signing_input sample_hash (new_payload bs PacketAttestation)) (5 # 60 # replicate 63 0)
     = Inr (replicate 20 5)) \<and>
   (\<exists>bs. recover_address sample_hash sample_keys
     (tagged_signing_input sample_hash (new_payload bs StateAttestation)) (5 # 60 # replicate 63 0)
     = Inr (replicate 20 5))"
proof -
  let ?p = "packet_attestation [1, 0] sample_hash sample_keys sample_ibc
    (sample_service (LocalSigner (new_local_signer 5))) sample_request"
  let ?s = "state_attestation sample_hash sample_keys sample_ibc
    (sample_service (LocalSigner (new_local_signer 5))) \<lparr>sq_height = 60\<rparr>"
  have p: "is_ok (sample_result ?p) \<and>
      map_ok (\<lambda>r. map_option att_signature (pp_attestation r)) (sample_result ?p) =
      Inr (Some (5 # 60 # replicate 63 0))"
    by code_simp
  have s: "is_ok (sample_result ?s) \<and>
      map_ok (\<lambda>r. map_option att_signature (sp_attestation r)) (sample_result ?s) =
      Inr (Some (5 # 60 # replicate 63 0))"
    by code_simp
  obtain resp resp' where resp: "sample_result ?p = Inr resp" "sample_result ?s = Inr resp'"
    using p s by (cases "sample_result ?p"; cases "sample_result ?s") auto
  have "exec ?p (sample_events ?p) (Inr resp)" "exec ?s (sample_events ?s) (Inr resp')"
    using sample_exec [of ?p] sample_exec [of ?s] resp by simp_all
  with signature_recovers [OF honest_signatures_sample, THEN conjunct1, rule_format, OF this(1)]
    signature_recovers [OF honest_signatures_sample, THEN conjunct2, rule_format, OF this(2)] p s resp
  show ?thesis by (auto simp: sample_keys_def new_local_signer_def)
qed

text \<open>
  C7. Domain separation. Two payloads have the same signing input only when they have the same type
  and their data the same digest; so a signed state attestation never is a signed packet
  attestation, whatever their data. A signing input is the type's byte followed by the digest of the
  data.
\<close>

theorem signed_inputs_separate:
  "(tagged_signing_input H p = tagged_signing_input H q \<longleftrightarrow>
      attestation_type p = attestation_type q \<and> sha256 H (data p) = sha256 H (data q)) \<and>
   state_input H X height timestamp \<noteq> packet_input H X pa \<and>
   tagged_signing_input H p =
     (if attestation_type p = StateAttestation then 1 else 2) # sha256 H (data p)"
proof (intro conjI)
  show "tagged_signing_input H p =
      (if attestation_type p = StateAttestation then 1 else 2) # sha256 H (data p)"
    by (cases "attestation_type p") (auto simp: tagged_signing_input_def)
qed (simp_all add: tagged_signing_input_eq_iff state_input_def packet_input_def new_payload_def)

text \<open>
  C18. The latest height is the chain's. A height answered to a client was reported by the configured
  chain in the course of the call: on EVM the number of the block the node tags as finalized, or, when
  an offset is configured, the latest block's number less the offset (0 if the chain is shorter), on
  Solana the finalized slot, on Cosmos the height of the latest commit. It is reported to the metrics
  gauge as the last event of the call. Every failure is answered with \<open>Internal\<close>.
\<close>

theorem latest_height_from_chain:
  assumes "retries_ok C" and "exec (latest_height (running_service H K T C a s)) t r"
  shows "case r of
      Inl status \<Rightarrow> status_code status = Internal
    | Inr resp \<Rightarrow>
        last t = EMetric (FinalizedHeight (lh_height resp)) \<and>
        (case a of
          EvmAdapter self \<Rightarrow> \<exists>x b. ERpc (EvmGetBlock
              (if evm_finality_offset (evm_config self) = None then Finalized else Latest)) (Inr x) \<in> set t \<and>
            re_block x = Some b \<and>
            unat (lh_height resp) = (case evm_finality_offset (evm_config self) of
              None \<Rightarrow> unat (block_number b) | Some offset \<Rightarrow> unat (block_number b) - unat offset)
        | SolanaAdapter _ \<Rightarrow> \<exists>x. ERpc SolanaGetSlot (Inr x) \<in> set t \<and> lh_height resp = re_slot x
        | CosmosAdapter _ \<Rightarrow> \<exists>x. ERpc CosmosLatestCommit (Inr x) \<in> set t \<and>
            lh_height resp = re_header_height x)"
proof (cases r)
  case (Inl status)
  with assms(2) show ?thesis by (auto simp: exec_latest_height status_code_Internal_iff)
next
  case (Inr resp)
  with assms(2) have "exec (enum_get_last_height C a) t (Inr (lh_height resp))"
    by (auto simp: exec_latest_height)
  from finalized_height_from_chain [OF assms(1) this] Inr show ?thesis by simp
qed

theorem latest_height_from_chain_witness:
  "\<exists>x b. ERpc (EvmGetBlock Latest) (Inr x) \<in> set (sample_events (latest_height (running_service
     sample_hash sample_keys sample_tonic sample_chain (EvmAdapter (sample_evm_adapter (Some 7)))
     sample_local))) \<and> re_block x = Some b \<and> unat (block_number b) - 7 = 93"
proof -
  let ?m = "latest_height (running_service sample_hash sample_keys sample_tonic sample_chain
    (EvmAdapter (sample_evm_adapter (Some 7))) sample_local)"
  have "sample_result ?m = Inr \<lparr>lh_height = 93\<rparr>" by code_simp
  with sample_exec [of ?m] have "exec ?m (sample_events ?m) (Inr \<lparr>lh_height = 93\<rparr>)" by simp
  from latest_height_from_chain [OF retries_ok_sample this] show ?thesis
    by (auto simp: sample_evm_adapter_def)
qed

section \<open>Checking a request\<close>

text \<open>
  C8. A height that is not final is refused. A packet request fails with \<open>FailedPrecondition\<close>
  exactly when it is decodable and the requested height exceeds the finalized height the adapter
  reported; then all that happened after that report is the lag and the rejection metric: no
  packet was looked up and nothing was signed. The lag recorded is the exact difference of the two
  heights (those above the greatest \<open>i64\<close> count as that): the subtraction never saturates or wraps.
\<close>

theorem packet_attestation_not_final:
  "(exec (packet_attestation schedule H K X self request) t (Inl s) \<and>
      status_code s = FailedPrecondition \<longleftrightarrow>
    decoded X request \<noteq> None \<and> s = status_of_attestor_error BlockNotFinalized \<and>
    (\<exists>t' finalized.
       exec (get_last_height_at_configured_finality (svc_adapter self)) t' (Inr finalized) \<and>
       finalized < pq_height request \<and>
       t = t' @ [EMetric (HeightLag (height_lag finalized (pq_height request))),
                 EMetric HeightRejection])) \<and>
   sint (height_lag h1 h2) =
     int (min (unat h1) (2 ^ 63 - 1)) - int (min (unat h2) (2 ^ 63 - 1))"
  (is "(?failed \<longleftrightarrow> ?refused) \<and> _")
proof (rule conjI [OF iffI sint_height_lag])
  assume ?failed
  then obtain e where e: "packet_failure schedule H X self request t e"
      "s = status_of_attestor_error e" "status_code (status_of_attestor_error e) = FailedPrecondition"
    using exec_packet_attestation_Inl by blast
  from packet_failure_FailedPrecondition [OF e(1,3)] e(2) show ?refused
    by (auto simp: exec_validate_height_Inl)
next
  assume refused: ?refused
  then obtain ps ct where "decoded X request = Some (ps, ct)"
      "exec (validate_height (svc_adapter self) (pq_height request)) t (Inl BlockNotFinalized)"
    by (auto simp: exec_validate_height_Inl)
  from packet_attestation_not_finalI [OF this] \<open>?refused\<close> show ?failed
    by (simp add: status_code_FailedPrecondition_iff)
qed


definition sample_table :: test_adapter where
  "sample_table = insert_commitment ''src-client'' 60 20 [1, 20] Packet (Some (replicate 32 7))
     (with_finalized_height 100)"


text \<open>
  C10. An error of the packet check is the error of the first refused packet in the order of the
  request: every packet before it was accepted.
\<close>

theorem create_packets_first_error:
  assumes "exec (create_packets_attestation schedule H X A ps height ct) t (Inl e)"
  shows "\<exists>i < length ps.
    (\<exists>ti. exec (create_single_packet_attestation H X A height (ps ! i) ct) ti (Inl e) \<and>
       set ti \<subseteq> set t) \<and>
    (\<forall>j < i. \<exists>tj pc. exec (create_single_packet_attestation H X A height (ps ! j) ct) tj (Inr pc) \<and>
       set tj \<subseteq> set t)"
  by (rule exec_create_packets_Inl [OF assms])

theorem create_packets_first_error_witness:
  "\<exists>i < 2. \<exists>ti. exec (create_single_packet_attestation sample_hash sample_ibc
     (test_attestation_adapter sample_table) 60 ([test_packet 20, test_packet 21] ! i) Packet) ti
     (Inl (CommitmentNotFound ''src-client'' 21 60))"
proof -
  let ?m = "create_packets_attestation [1] sample_hash sample_ibc
    (test_attestation_adapter sample_table) [test_packet 20, test_packet 21] 60 Packet"
  have "sample_result ?m = Inl (CommitmentNotFound ''src-client'' 21 60)" by code_simp
  with sample_exec [of ?m]
  have "exec ?m (sample_events ?m) (Inl (CommitmentNotFound ''src-client'' 21 60))" by simp
  from create_packets_first_error [OF this] show ?thesis by (simp add: numeral_2_eq_2) blast
qed

text \<open>
  C11. The three handlers implement one specification. Whatever its type, checking a packet is one
  query of the chain for the right client and path, and the verdict on the answer: a packet
  commitment must be the expected one, an acknowledgement must exist, a receipt must not.
\<close>

theorem packet_handlers_refine_verdict:
  "create_single_packet_attestation H X A height p ct =
     bind_ok (fmap (map_err AdapterError) (chain_query X A height ct p))
       (\<lambda>c. if accepted X ct p c = None
             then Emit (CommitmentFailure (failure_kind ct c)) (Ret (verdict H X height ct p c))
             else Ret (verdict H X height ct p c))"
  by (rule create_single_packet_attestation_eq)

text \<open>
  C12. How a packet is refused. Either its query failed, which is an internal error, or the chain's
  answer was not acceptable: then the failure is counted once under its kind, and the client is told
  \<open>NotFound\<close> when nothing was found and \<open>InvalidArgument\<close> otherwise.
\<close>

theorem refused_packet_reported:
  assumes "exec (create_single_packet_attestation H X A height p ct) t (Inl e)"
  shows "(\<exists>x. exec (chain_query X A height ct p) t (Inl x) \<and> e = AdapterError x \<and>
      status_code (status_of_attestor_error e) = Internal) \<or>
    (\<exists>t' c. exec (chain_query X A height ct p) t' (Inr c) \<and> accepted X ct p c = None \<and>
       e = rejection H X height ct p c \<and>
       t = t' @ [EMetric (CommitmentFailure (failure_kind ct c))] \<and>
       status_code (status_of_attestor_error e) = (if c = None then NotFound else InvalidArgument))"
proof -
  from exec_create_single_Inl [OF assms] consider
      (query) x where "exec (chain_query X A height ct p) t (Inl x)" "e = AdapterError x"
    | (answer) t' c where "exec (chain_query X A height ct p) t' (Inr c)" "accepted X ct p c = None"
        "e = rejection H X height ct p c" "t = t' @ [EMetric (CommitmentFailure (failure_kind ct c))]"
    by blast
  then show ?thesis
  proof cases
    case query
    then show ?thesis by (simp add: status_code_Internal_iff)
  next
    case answer
    with rejection_code [OF answer(2), of H height] show ?thesis by blast
  qed
qed

theorem refused_packet_reported_witness:
  "\<exists>t' c. exec (chain_query sample_ibc (test_attestation_adapter sample_table) 60 Packet
     (test_packet 21)) t' (Inr c) \<and> c = None"
proof -
  let ?m = "create_single_packet_attestation sample_hash sample_ibc
    (test_attestation_adapter sample_table) 60 (test_packet 21) Packet"
  have "sample_result ?m = Inl (CommitmentNotFound ''src-client'' 21 60)" by code_simp
  with sample_exec [of ?m]
  have "exec ?m (sample_events ?m) (Inl (CommitmentNotFound ''src-client'' 21 60))" by simp
  from refused_packet_reported [OF this]
  obtain t' c where "exec (chain_query sample_ibc (test_attestation_adapter sample_table) 60 Packet
      (test_packet 21)) t' (Inr c)"
    "CommitmentNotFound ''src-client'' 21 60 = rejection sample_hash sample_ibc 60 Packet (test_packet 21) c"
    by auto
  then show ?thesis by (cases c) auto
qed

text \<open>
  C13. The packets of a request. Decoding succeeds exactly when every encoding decodes, and then the
  collection has one packet per encoding, which its owned iterator yields in the order of the
  request; otherwise the error is that of the first encoding that does not decode. Iterating by
  reference never returns: however deep the calls may go, \<open>Packets::iter\<close> and \<open>into_iter\<close> of
  \<open>&Packets\<close> only call each other.
\<close>

theorem packets_collection:
  "(case packets_try_from_abi_encoded X encoded of
      Inr ps \<Rightarrow>
        packets_len ps = length encoded \<and> (packets_is_empty ps \<longleftrightarrow> encoded = []) \<and>
        map Inr (packets_into_iter ps) = map (abi_decode_packet X) encoded
    | Inl e \<Rightarrow>
        (\<exists>i < length encoded. \<exists>s. abi_decode_packet X (encoded ! i) = Inl s \<and> e = AbiError s \<and>
          (\<forall>j < i. is_ok (abi_decode_packet X (encoded ! j))))) \<and>
   (\<forall>calls. packets_iter calls ps = None \<and> packets_ref_into_iter (packets_iter calls) ps = None)"
  using packets_try_from_all [of X encoded] packets_try_from_first [of X encoded]
  by (simp add: packets_iter_never split: sum.split)

theorem packets_collection_witness:
  "packets_try_from_abi_encoded sample_ibc [[20], [], []] = Inl (AbiError ''length'') \<and>
   packets_iter 1000 [] = None \<and>
   (\<exists>i < 3. abi_decode_packet sample_ibc ([[20], [], []] ! i) = Inl ''length'')"
proof -
  have "packets_try_from_abi_encoded sample_ibc [[20], [], []] = Inl (AbiError ''length'')"
    by (simp add: packets_try_from_abi_encoded_def sample_ibc_def)
  with packets_collection [where X = sample_ibc and encoded = "[[20], [], []]" and ps = "[]"] show ?thesis
    by (auto simp: numeral_3_eq_3)
qed

section \<open>The running process\<close>

text \<open>
  C31. From the configuration file to the answer, with any number of requests at once. When the server
  that was started from a configuration file has answered a call with success, among other calls in
  any interleaving, the file described a chain adapter and a signer on which the answer rests by the
  events of this call alone: a reported height is the one this adapter answered; a state or packet
  attestation is for a height not above the finalized one this adapter reported, for what it answered
  when it was asked with that height (on Solana the query for a packet does not use the height), and
  signed by this signer over the tagged digest. No answer rests on what the chain or the signer told
  another call.
\<close>

theorem served_attestation:
  assumes "retries_ok C"
    and "start_server L E O' P R W (rl_hash V) (rl_keys V) T C args fs g None =
      Inr (guard, g', running)"
    and "rn_grpc running = Inr server"
    and "node_run (handle_rpc V (gs_attestation server)) (started_node (rn_metrics running)) es n"
    and "i < length (sv_calls (nd_server n))"
    and "sv_calls (nd_server n) ! i = (rpc, Answered (Inr resp))"
  shows "\<exists>config. from_file L E fs (sa_config args) (chain_type_from (sa_chain_type args))
      (signer_type_from (sa_signer_type args)) = Inr config \<and>
    sound_reply V T C (rt_adapter config) (rt_signer config) (own_events i (call_events es)) rpc resp"
proof -
  from start_server_Inr [OF assms(2)] assms(3) obtain config where config:
    "from_file L E fs (sa_config args) (chain_type_from (sa_chain_type args))
      (signer_type_from (sa_signer_type args)) = Inr config"
    "gs_attestation server = new_logging_middleware (lib_service V T C (rt_adapter config) (rt_signer config))"
    by auto
  from node_calls_isolated [OF assms(4)] assms(5,6) obtain schedule where
    "exec (handle_rpc V (gs_attestation server) schedule rpc) (own_events i (call_events es)) (Inr resp)"
    by (fastforce simp: calls_isolated_def)
  with handle_rpc_sound [OF assms(1)] config show ?thesis by metis
qed

text \<open>A request to it, answered alone.\<close>

definition sample_call :: rpc_request where
  "sample_call = PacketAttestationCall
     \<lparr>rq_metadata = \<lparr>mm_get = Map.empty, mm_keys = []\<rparr>, rq_message = sample_request\<rparr>"

lemma sample_call_answered:
  "\<exists>es n resp. node_run (handle_rpc sample_rpc_lib (new_logging_middleware (sample_service sample_local)))
     (started_node m) es n \<and>
     sv_calls (nd_server n) = [(sample_call, Answered (Inr (PacketAttestationReply resp)))] \<and>
     EMetric (SignerSign ''ok'') \<in> set (own_events 0 (call_events es))"
proof -
  let ?rq = "\<lparr>rq_metadata = \<lparr>mm_get = Map.empty, mm_keys = []\<rparr>, rq_message = sample_request\<rparr>"
  let ?h = "packet_attestation [] sample_hash sample_keys sample_ibc (sample_service sample_local)
    (rq_message ?rq)"
  have "is_ok (sample_result ?h)" by code_simp
  then obtain resp where "sample_result ?h = Inr resp" by (cases "sample_result ?h") auto
  with sample_exec [of ?h] have "exec ?h (sample_events ?h) (Inr resp)" by simp
  moreover have "EMetric (SignerSign ''ok'') \<in> set (sample_events ?h)" by code_simp
  ultimately obtain t where signed: "EMetric (SignerSign ''ok'') \<in> set t" and
    "exec (intercepted (to_str sample_rpc_lib) (extract_context sample_rpc_lib)
       (logged_packet_attestation (code_debug sample_rpc_lib) [] sample_hash sample_keys sample_ibc
          (new_logging_middleware (sample_service sample_local))) ?rq) t (Inr resp)"
    using transparentI [OF served_transparent(3)] by (meson subsetD)
  then have "exec (handle_rpc sample_rpc_lib (new_logging_middleware (sample_service sample_local)) []
      sample_call) t (Inr (PacketAttestationReply resp))"
    by (auto simp: handle_rpc_def sample_call_def sample_rpc_lib_def exec_fmap intro!: exI [of _ "Inr resp"])
  from answered_run [where handle = "handle_rpc sample_rpc_lib
      (new_logging_middleware (sample_service sample_local))", OF this] signed show ?thesis by metis
qed

theorem served_attestation_witness:
  "\<exists>config finalized th. from_file sample_toml sample_config_host () ''c.toml'' Evm LocalType =
       Inr config \<and>
     exec (enum_get_last_height sample_chain (rt_adapter config)) th (Inr finalized) \<and> 60 \<le> finalized"
proof -
  obtain guard g running server where start: "start_server sample_toml sample_config_host sample_otel
      sample_prom sample_reflection sample_warp (rl_hash sample_rpc_lib) (rl_keys sample_rpc_lib)
      sample_tonic sample_chain sample_args () fresh_globals None = Inr (guard, g, running)"
    "rn_grpc running = Inr server"
    "gs_attestation server = new_logging_middleware (sample_service sample_local)"
    using sample_server by blast
  obtain es n resp where "node_run (handle_rpc sample_rpc_lib (gs_attestation server))
      (started_node (rn_metrics running)) es n"
    "sv_calls (nd_server n) = [(sample_call, Answered (Inr (PacketAttestationReply resp)))]"
    using sample_call_answered start(3) by metis
  with served_attestation [OF retries_ok_sample start(1,2), of es n 0] obtain config where
    "from_file sample_toml sample_config_host () ''c.toml'' Evm LocalType = Inr config"
    "packet_attested sample_hash sample_keys sample_tonic sample_ibc sample_chain (rt_adapter config)
       (rt_signer config) sample_request (own_events 0 (call_events es)) resp"
    by (auto simp: sample_call_def)
  then show ?thesis unfolding packet_attested_def sample_request_def by fastforce
qed

text \<open>
  C28. In the running process nothing is signed before every check has passed. In any state that the
  server started from a configuration file reaches, and whatever became of the call (in progress,
  answered, or dropped with its client), if a call has touched the signing service at all, then its
  own events begin with all checks of its request, successful and without signing activity, against
  the configured adapter; what follows is the beginning of an execution of the configured signer on
  the tagged digest of exactly the data checked. A call for the height never reaches the signer.
\<close>

theorem served_signing_checked:
  assumes "retries_ok C"
    and "start_server L E O' P R W (rl_hash V) (rl_keys V) T C args fs g None =
      Inr (guard, g', running)"
    and "rn_grpc running = Inr server"
    and "node_run (handle_rpc V (gs_attestation server)) (started_node (rn_metrics running)) es n"
    and "i < length (sv_calls (nd_server n))"
    and "e \<in> set (own_events i (call_events es))" and "signer_event e"
  shows "\<exists>config. from_file L E fs (sa_config args) (chain_type_from (sa_chain_type args))
      (signer_type_from (sa_signer_type args)) = Inr config \<and>
    signing_follows_checks V T C (rt_adapter config) (rt_signer config)
      (own_events i (call_events es)) (fst (sv_calls (nd_server n) ! i))"
proof -
  from start_server_Inr [OF assms(2)] assms(3) obtain config where config:
    "from_file L E fs (sa_config args) (chain_type_from (sa_chain_type args))
      (signer_type_from (sa_signer_type args)) = Inr config"
    "gs_attestation server = new_logging_middleware (lib_service V T C (rt_adapter config) (rt_signer config))"
    by auto
  obtain rpc c where call: "sv_calls (nd_server n) ! i = (rpc, c)" by fastforce
  from node_calls_isolated [OF assms(4)] assms(5) call obtain schedule m where
    "io_steps (handle_rpc V (gs_attestation server) schedule rpc) (own_events i (call_events es)) m"
    by (fastforce simp: calls_isolated_def dest: isolated_io_steps)
  from call_signing [OF assms(1) this [unfolded config(2)] assms(6,7)] config(1) call
  show ?thesis by auto
qed

theorem served_signing_checked_witness:
  "\<exists>config checks input signing r. from_file sample_toml sample_config_host () ''c.toml'' Evm LocalType =
       Inr config \<and>
     quiet checks \<and>
     checks_passed sample_rpc_lib (enum_attestation_adapter sample_chain (rt_adapter config)) checks
       sample_call input \<and>
     exec (enum_sign sample_hash sample_keys sample_tonic (rt_signer config) input) signing r"
proof -
  obtain guard g running server where start: "start_server sample_toml sample_config_host sample_otel
      sample_prom sample_reflection sample_warp (rl_hash sample_rpc_lib) (rl_keys sample_rpc_lib)
      sample_tonic sample_chain sample_args () fresh_globals None = Inr (guard, g, running)"
    "rn_grpc running = Inr server"
    "gs_attestation server = new_logging_middleware (sample_service sample_local)"
    using sample_server by blast
  obtain es n resp where run: "node_run (handle_rpc sample_rpc_lib (gs_attestation server))
      (started_node (rn_metrics running)) es n"
    "sv_calls (nd_server n) = [(sample_call, Answered (Inr (PacketAttestationReply resp)))]"
    "EMetric (SignerSign ''ok'') \<in> set (own_events 0 (call_events es))"
    using sample_call_answered start(3) by metis
  from served_signing_checked [OF retries_ok_sample start(1,2) run(1) _ run(3)] run(2) show ?thesis
    by (simp add: signing_follows_checks_def) blast
qed

text \<open>
  C23. The metrics account for the requests. In the server that was started from a configuration file,
  as long as no client has gone away, whatever the interleaving of the calls, the request counter of
  every method and code is exactly the number of the calls of that method whose handler has finished
  with that code.
\<close>

theorem requests_accounted:
  assumes "retries_ok C" and "code_debug V = variant_name"
    and "start_server L E O' P R W H K T C args fs g None = Inr (guard, g', running)"
    and "rn_grpc running = Inr server"
    and "node_run (handle_rpc V (gs_attestation server)) (started_node (rn_metrics running)) es n"
    and "Dropped \<notin> snd ` set (sv_calls (nd_server n))"
  shows "\<exists>m. sv_metrics (nd_server n) = Some m \<and>
    (\<forall>name code. label_count (rpc_requests_total m) (name, code_label variant_name code) =
       length (filter (\<lambda>(rpc, c). \<exists>r. call_result c = Some r \<and>
         rpc_name rpc = name \<and> result_code r = code) (sv_calls (nd_server n))))"
proof -
  from start_server_Inr [OF assms(3)] assms(4) obtain config where config:
    "from_file L E fs (sa_config args) (chain_type_from (sa_chain_type args))
      (signer_type_from (sa_signer_type args)) = Inr config"
    "gs_attestation server = process_service H K T C (rt_adapter config) (rt_signer config)"
    "init P (adapter_name (rt_adapter config)) (signer_name (rt_signer config)) None =
      Inr (rn_metrics running)"
    by auto
  have "rpc_count name code (all_events (call_events es)) =
      answered_as (rpc_label V) (name, code) (sv_calls (nd_server n))" for name code
    using rpc.requests_counted [of "(V, H, K, T, C, rt_adapter config, rt_signer config)"
      "fresh_server (rn_metrics running)" "call_events es" "nd_server n" name code]
      node_server_run [OF assms(5)] assms(1,6) config(2)
    by simp
  then show ?thesis
    using metrics_after_init [OF config(3), of "all_events (call_events es)"] node_metrics [OF assms(5)]
    by (auto simp: answered_as_def rpc_label_def case_prod_unfold assms(2) code_labels_differ)
qed

theorem requests_accounted_witness:
  "\<exists>m :: registry. label_count (rpc_requests_total m) (''packet_attestation'', ''ok'') = 1 \<and>
     label_count (rpc_requests_total m) (''packet_attestation'', ''internal'') = 0"
proof -
  obtain guard g running server where start: "start_server sample_toml sample_config_host sample_otel
      sample_prom sample_reflection sample_warp (rl_hash sample_rpc_lib) (rl_keys sample_rpc_lib)
      sample_tonic sample_chain sample_args () fresh_globals None = Inr (guard, g, running)"
    "rn_grpc running = Inr server"
    "gs_attestation server = new_logging_middleware (sample_service sample_local)"
    using sample_server by blast
  obtain es n resp where run: "node_run (handle_rpc sample_rpc_lib (gs_attestation server))
      (started_node (rn_metrics running)) es n"
    "sv_calls (nd_server n) = [(sample_call, Answered (Inr (PacketAttestationReply resp)))]"
    using sample_call_answered start(3) by metis
  have labels: "code_label variant_name Ok = ''ok''" "code_label variant_name Internal = ''internal''"
    by code_simp+
  have "Dropped \<notin> snd ` set (sv_calls (nd_server n))" by (simp add: run(2))
  from requests_accounted [OF retries_ok_sample sample_rpc_lib_simps(4) start(1,2) run(1) this] obtain m :: registry where m:
    "\<forall>name code. label_count (rpc_requests_total m) (name, code_label variant_name code) =
       length (filter (\<lambda>(rpc, c). \<exists>r. call_result c = Some r \<and> rpc_name rpc = name \<and>
         result_code r = code) (sv_calls (nd_server n)))"
    by blast
  from m [rule_format, of "''packet_attestation''" Ok]
    m [rule_format, of "''packet_attestation''" Internal] labels
  show ?thesis by (intro exI [of _ m]) (simp add: run(2) sample_call_def result_code_def)
qed

text \<open>
  C6. What the server command returns. If the configuration cannot be loaded, \<open>main\<close> returns its error
  and nothing was started. Otherwise every answer of success that a call was given, whatever \<open>main\<close>
  returns, rests on the chain and the signer of the configuration by the call's own events. \<open>main\<close>
  returns without an error only if a signal came and both servers returned, the gRPC server without an
  error. When it returns an error, the error is one of these: a panic of the setup of logging or
  metrics, with nothing started; a signal handler that could not be registered; after a signal, the
  error of the gRPC server, or the panic of a task.
\<close>

theorem server_command_returns:
  assumes "retries_ok (pg_chain Z)"
    and "main_returns Z (Server args) random fs es (ServerFinished r calls printed)"
  shows "(\<exists>e. load_config Z args fs = Inl e \<and> r = Inl (config_error_text e) \<and> es = [] \<and> calls = []) \<or>
    (\<exists>config. load_config Z args fs = Inr config \<and>
       (\<forall>i < length calls.
          answered_soundly (pg_rpc Z) (pg_tonic Z) (pg_chain Z) config es i (calls ! i)) \<and>
       (case r of
          Inr _ \<Rightarrow> {Signal, GrpcEnds (Inr ()), HealthEnds} \<subseteq> set (process_events es)
        | Inl x \<Rightarrow>
            (es = [] \<and> calls = [] \<and> (set_up_logging Z config = Inl x \<or> spawn_servers Z config = Inl x)) \<or>
            ended_with (process_events es) x))"
  using assms(2)
proof (cases rule: main_server_cases)
  case (process_ends config guard g running n r')
  note run = process_of_lc_run [OF process_ends(5)]
  have "case r of
      Inr _ \<Rightarrow> {Signal, GrpcEnds (Inr ()), HealthEnds} \<subseteq> set (process_events es)
    | Inl x \<Rightarrow> ended_with (process_events es) x"
    using process_ends lc_run_ends [OF run refl] process_clean_exit [OF run] by (cases r) auto
  with process_answers_soundly [OF assms(1) process_ends(4,5)] process_ends show ?thesis
    by (cases r) auto
qed auto

theorem server_command_returns_witness:
  "\<exists>config. load_config (sample_program sample_config_host) sample_args () = Inr config \<and>
     {Signal, GrpcEnds (Inr ()), HealthEnds} \<subseteq> set sample_shutdown"
proof -
  obtain printed where run: "main_returns (sample_program sample_config_host) (Server sample_args) 9 ()
      (map Process sample_shutdown) (ServerFinished (Inr ()) [] printed)"
    using sample_program_ends by blast
  have "retries_ok (pg_chain (sample_program sample_config_host))"
    by (simp add: sample_program_def retries_ok_sample)
  from server_command_returns [OF this run] show ?thesis by auto
qed

end
